(* ===== verification/Prelude.thy ===== *)
theory Prelude
  imports Main "HOL-Library.Word" "HOL-Library.Signed_Division"
begin

text \<open>
  Shared vocabulary of the development: the Go machine integers, results and panics, and the
  functions of the Go standard library on strings that the collector uses.

  A Go \<open>string\<close> is a sequence of bytes and is modelled as the HOL type \<open>string\<close>, whose
  characters are bytes. Case mapping and white space are those of ASCII; bytes from 128 on
  are left unchanged, which is what Go does on ASCII text.
  Errors returned by Go functions are values of a sum type, \<open>Inl\<close> carrying the message the
  source builds; panics have a type of their own.
\<close>

named_theorems go_str \<open>facts on the string functions of the standard library\<close>
named_theorems go_int \<open>facts on 64-bit arithmetic without overflow\<close>

subsection \<open>Integers, durations and results\<close>

type_synonym int64 = "64 word"
type_synonym int32 = "32 word"
type_synonym byte = "8 word"

text \<open>A \<open>time.Duration\<close> is an \<open>int64\<close> number of nanoseconds; a \<open>time.Time\<close> is modelled as the
  (unbounded) number of nanoseconds since the epoch.\<close>

type_synonym duration = int64
type_synonym time = int

type_synonym 'a result = "string + 'a"

datatype panic = IndexOutOfRange | NilDereference

type_synonym 'a outcome = "panic + 'a"

abbreviation Err :: "string \<Rightarrow> 'a result" where
  "Err \<equiv> Inl"

abbreviation Ok :: "'a \<Rightarrow> 'a result" where
  "Ok \<equiv> Inr"

definition Millisecond :: duration where
  "Millisecond = 1000000"

definition Second :: duration where
  "Second = 1000000000"

text \<open>Go's integer division and remainder truncate towards zero.\<close>

definition go_div :: "int64 \<Rightarrow> int64 \<Rightarrow> int64" where
  "go_div a b = word_of_int (sint a sdiv sint b)"

definition go_mod :: "int64 \<Rightarrow> int64 \<Rightarrow> int64" where
  "go_mod a b = word_of_int (sint a smod sint b)"

definition in_int64 :: "int \<Rightarrow> bool" where
  "in_int64 i \<longleftrightarrow> - (2 ^ 63) \<le> i \<and> i < 2 ^ 63"

lemma sint_in_int64 [simp, intro]: "in_int64 (sint (a :: int64))"
  using sint_greater_eq [of a] sint_less [of a] by (simp add: in_int64_def)

lemma sint_word_of_int64: "in_int64 i \<Longrightarrow> sint (word_of_int i :: int64) = i"
  by (simp add: in_int64_def sint_sbintrunc' signed_take_bit_int_eq_self)

lemma sint_add64 [go_int]:
  "in_int64 (sint a + sint b) \<Longrightarrow> sint (a + b :: int64) = sint a + sint b"
  by (simp add: in_int64_def sint_word_ariths signed_take_bit_int_eq_self)

lemma sint_mult64 [go_int]:
  "in_int64 (sint a * sint b) \<Longrightarrow> sint (a * b :: int64) = sint a * sint b"
  by (simp add: in_int64_def sint_word_ariths signed_take_bit_int_eq_self)

lemma in_int64_mono: "in_int64 b \<Longrightarrow> 0 \<le> a \<Longrightarrow> a \<le> b \<Longrightarrow> in_int64 a"
  by (simp add: in_int64_def)

lemma go_div_nonneg [go_int]:
  assumes "0 \<le> sint a" and "0 < sint b"
  shows "sint (go_div a b) = sint a div sint b"
proof -
  have eq: "sint a sdiv sint b = sint a div sint b"
    using assms by (simp add: signed_divide_int_def sgn_if)
  have "0 \<le> sint a div sint b" and "sint a div sint b \<le> sint a"
    using assms zdiv_mono2 [of "sint a" 1 "sint b"] by (simp_all add: pos_imp_zdiv_nonneg_iff)
  then have "in_int64 (sint a div sint b)"
    using in_int64_mono [OF sint_in_int64 [of a]] by blast
  then show ?thesis
    by (simp add: go_div_def eq sint_word_of_int64)
qed

lemma go_mod_nonneg [go_int]:
  assumes "0 \<le> sint a" and "0 < sint b"
  shows "sint (go_mod a b) = sint a mod sint b"
proof -
  have eq: "sint a smod sint b = sint a mod sint b"
    using assms by (simp add: signed_modulo_int_def signed_divide_int_def sgn_if
        minus_div_mult_eq_mod [symmetric])
  have "0 \<le> sint a mod sint b" and "sint a mod sint b < sint b"
    using assms by simp_all
  then have "in_int64 (sint a mod sint b)"
    using in_int64_mono [OF sint_in_int64 [of b]] by (metis order_less_imp_le)
  then show ?thesis
    by (simp add: go_mod_def eq sint_word_of_int64)
qed

lemma sint_eq_iff64: "sint a = sint b \<longleftrightarrow> (a :: int64) = b"
  by (auto intro: signed_word_eqI)

end
