(* ===== verification/Wheel_Timer.thy ===== *)
theory Wheel_Timer
  imports Prelude
begin

text \<open>
  The hashed wheel timer (\<open>job/dispatcher/hashed_wheel_timer.go\<close>, \<open>types/job/timeout_types.go\<close>).

  The wheel is an array of buckets; a bucket holds pointers to \<open>Timeout\<close> objects. The objects the
  timer has handed out are the list \<open>hwt_timeouts\<close> and a pointer is an index into it, so that
  cancelling through a pointer held elsewhere is seen by the wheel. \<open>NewTimeout\<close> and \<open>tick\<close> are
  atomic here: both hold the lock of the bucket they change.
\<close>

subsection \<open>Timeouts\<close>

record 'a Timeout =
  to_task :: 'a
  to_deadline :: time
  to_cancelled :: bool
  to_wheelIndex :: int64
  to_bucketIndex :: int64

text \<open>The constructor \<open>jobtypes.NewTimeout\<close>.\<close>

definition make_timeout :: "'a \<Rightarrow> duration \<Rightarrow> time \<Rightarrow> 'a Timeout" where
  "make_timeout task delay now = \<lparr>to_task = task, to_deadline = now + sint delay, to_cancelled = False,
     to_wheelIndex = 0, to_bucketIndex = 0\<rparr>"

definition Cancel :: "'a Timeout \<Rightarrow> bool \<times> 'a Timeout" where
  "Cancel t = (if to_cancelled t then (False, t) else (True, t\<lparr>to_cancelled := True\<rparr>))"

subsection \<open>The wheel\<close>

record 'a hashedWheelTimer =
  hwt_tickDuration :: duration
  hwt_wheelSize :: int64
  hwt_wheel :: "nat list list"
  hwt_currentTick :: int64
  hwt_startTime :: time
  hwt_started :: bool
  hwt_stopped :: bool
  hwt_cancel :: bool
  hwt_running :: bool
  hwt_timeouts :: "'a Timeout list"

text \<open>\<open>hwt_cancel\<close> says that the cancel function is set, \<open>hwt_running\<close> that the goroutine \<open>run\<close> is
  alive: it ticks until its context is cancelled.\<close>

definition NewHashedWheelTimer :: "int64 \<Rightarrow> duration \<Rightarrow> 'a hashedWheelTimer" where
  "NewHashedWheelTimer sz dur =
     (let wheelSize = (if sint sz \<le> 0 then 512 else sz);
          tickDuration = (if sint dur \<le> 0 then 100 * Millisecond else dur)
      in \<lparr>hwt_tickDuration = tickDuration, hwt_wheelSize = wheelSize,
          hwt_wheel = replicate (nat (sint wheelSize)) [], hwt_currentTick = 0, hwt_startTime = 0,
          hwt_started = False, hwt_stopped = False, hwt_cancel = False, hwt_running = False,
          hwt_timeouts = []\<rparr>)"

text \<open>Indexing the wheel panics outside its range.\<close>

definition bucket_index :: "int64 \<Rightarrow> 'a hashedWheelTimer \<Rightarrow> nat outcome" where
  "bucket_index t w = (let b = sint (go_mod t (hwt_wheelSize w)) in
     if b < 0 \<or> int (length (hwt_wheel w)) \<le> b then Inl IndexOutOfRange else Inr (nat b))"

text \<open>\<open>place_timeout\<close> is \<open>NewTimeout\<close> after the current tick has been read.\<close>

definition place_timeout :: "int64 \<Rightarrow> 'a \<Rightarrow> duration \<Rightarrow> time \<Rightarrow> 'a hashedWheelTimer \<Rightarrow> (nat \<times> 'a hashedWheelTimer) outcome" where
  "place_timeout currentTick task delay now w =
     (let totalTicks = go_div delay (hwt_tickDuration w);
          targetTick = currentTick + totalTicks;
          timeout = (make_timeout task delay now)
            \<lparr>to_wheelIndex := targetTick, to_bucketIndex := go_mod targetTick (hwt_wheelSize w)\<rparr>;
          a = length (hwt_timeouts w)
      in case bucket_index targetTick w of
           Inl p \<Rightarrow> Inl p
         | Inr b \<Rightarrow> Inr (a, w\<lparr>hwt_wheel := (hwt_wheel w)[b := hwt_wheel w ! b @ [a]],
                              hwt_timeouts := hwt_timeouts w @ [timeout]\<rparr>))"

definition NewTimeout :: "'a \<Rightarrow> duration \<Rightarrow> time \<Rightarrow> 'a hashedWheelTimer \<Rightarrow> (nat option \<times> 'a hashedWheelTimer) outcome" where
  "NewTimeout task delay now w =
     (if hwt_stopped w then Inr (None, w)
      else (case place_timeout (hwt_currentTick w) task delay now w of
              Inl p \<Rightarrow> Inl p
            | Inr (a, w') \<Rightarrow> Inr (Some a, w')))"

definition Start :: "time \<Rightarrow> 'a hashedWheelTimer \<Rightarrow> 'a hashedWheelTimer" where
  "Start now w = (if hwt_started w then w
     else w\<lparr>hwt_started := True, hwt_startTime := now, hwt_cancel := True, hwt_running := True\<rparr>)"

definition Stop :: "'a hashedWheelTimer \<Rightarrow> 'a hashedWheelTimer outcome" where
  "Stop w = (if hwt_stopped w then Inr w
     else if \<not> hwt_cancel w then Inl NilDereference
     else Inr (w\<lparr>hwt_stopped := True, hwt_running := False\<rparr>))"

definition tick :: "'a hashedWheelTimer \<Rightarrow> (nat list \<times> 'a hashedWheelTimer) outcome" where
  "tick w =
     (let currentTick = hwt_currentTick w + 1 in
      case bucket_index currentTick w of
        Inl p \<Rightarrow> Inl p
      | Inr b \<Rightarrow>
          (let live = filter (\<lambda>a. \<not> to_cancelled (hwt_timeouts w ! a)) (hwt_wheel w ! b);
               ready = (\<lambda>a. sint (to_wheelIndex (hwt_timeouts w ! a)) \<le> sint currentTick)
           in Inr (filter ready live,
                w\<lparr>hwt_currentTick := currentTick, hwt_wheel := (hwt_wheel w)[b := filter (\<lambda>a. \<not> ready a) live]\<rparr>)))"

text \<open>Cancelling through a pointer.\<close>

definition cancel_at :: "nat \<Rightarrow> 'a hashedWheelTimer \<Rightarrow> 'a hashedWheelTimer" where
  "cancel_at a w = w\<lparr>hwt_timeouts := (hwt_timeouts w)[a := snd (Cancel (hwt_timeouts w ! a))]\<rparr>"

record TimerStats =
  ts_wheelSize :: int64
  ts_tickDuration :: duration
  ts_currentTick :: int64
  ts_totalTimeouts :: nat
  ts_started :: bool
  ts_stopped :: bool
  ts_wheelPeriod :: duration

definition GetStats :: "'a hashedWheelTimer \<Rightarrow> TimerStats" where
  "GetStats w = \<lparr>ts_wheelSize = hwt_wheelSize w, ts_tickDuration = hwt_tickDuration w,
     ts_currentTick = hwt_currentTick w, ts_totalTimeouts = sum_list (map length (hwt_wheel w)),
     ts_started = hwt_started w, ts_stopped = hwt_stopped w,
     ts_wheelPeriod = hwt_wheelSize w * hwt_tickDuration w\<rparr>"

subsection \<open>Invariant and abstract view\<close>

definition tick_no :: "'a hashedWheelTimer \<Rightarrow> int" where
  "tick_no w = sint (hwt_currentTick w)"

definition wheel_index :: "'a hashedWheelTimer \<Rightarrow> nat \<Rightarrow> int" where
  "wheel_index w a = sint (to_wheelIndex (hwt_timeouts w ! a))"

definition in_bucket_ok :: "'a hashedWheelTimer \<Rightarrow> nat \<Rightarrow> nat \<Rightarrow> bool" where
  "in_bucket_ok w b a \<longleftrightarrow> a < length (hwt_timeouts w) \<and> 0 \<le> wheel_index w a \<and>
     wheel_index w a mod sint (hwt_wheelSize w) = int b"

definition wheel_ok :: "'a hashedWheelTimer \<Rightarrow> bool" where
  "wheel_ok w \<longleftrightarrow> 0 < sint (hwt_wheelSize w) \<and> 0 < sint (hwt_tickDuration w) \<and> 0 \<le> tick_no w \<and>
     length (hwt_wheel w) = nat (sint (hwt_wheelSize w)) \<and>
     (\<forall>b < length (hwt_wheel w). list_all (in_bucket_ok w b) (hwt_wheel w ! b)) \<and>
     distinct (concat (hwt_wheel w))"

text \<open>
  The tick at which a timeout with wheel index \<open>W\<close> fires, seen from tick \<open>c\<close> on a wheel of \<open>n\<close>
  buckets: its own tick if that is still to come, otherwise the next visit of its bucket.
\<close>

definition due_tick :: "int \<Rightarrow> int \<Rightarrow> int \<Rightarrow> int" where
  "due_tick c W n = (if c < W then W else c + n - (c - W) mod n)"

text \<open>The abstract view: the timeouts that wait, each with the tick at which it will fire.\<close>

definition waiting :: "'a hashedWheelTimer \<Rightarrow> nat set" where
  "waiting w = set (concat (hwt_wheel w))"

definition is_cancelled :: "'a hashedWheelTimer \<Rightarrow> nat \<Rightarrow> bool" where
  "is_cancelled w a = to_cancelled (hwt_timeouts w ! a)"

definition due_of :: "'a hashedWheelTimer \<Rightarrow> nat \<Rightarrow> int" where
  "due_of w a = due_tick (tick_no w) (wheel_index w a) (sint (hwt_wheelSize w))"

definition pending :: "'a hashedWheelTimer \<Rightarrow> (nat \<times> int) set" where
  "pending w = {(a, due_of w a) |a. a \<in> waiting w \<and> \<not> is_cancelled w a}"

text \<open>The number of ticks before the tick counter overflows.\<close>

definition room :: "'a hashedWheelTimer \<Rightarrow> nat" where
  "room w = nat (2 ^ 63 - 1 - tick_no w)"

lemma pending_iff: "(a, d) \<in> pending w \<longleftrightarrow> a \<in> waiting w \<and> \<not> is_cancelled w a \<and> d = due_of w a"
  by (auto simp: pending_def)

lemma due_tick_future: "0 < n \<Longrightarrow> c < due_tick c W n"
  using pos_mod_bound [of n "c - W"] by (simp add: due_tick_def)

lemma succ_mod_eq_0:
  assumes n: "0 < (n :: int)"
  shows "(x + 1) mod n = 0 \<longleftrightarrow> x mod n = n - 1"
proof -
  have eq: "(x + 1) mod n = (x mod n + 1) mod n" by (simp add: mod_simps)
  have r: "0 \<le> x mod n" "x mod n < n" using n by simp_all
  show ?thesis
  proof (cases "x mod n = n - 1")
    case False
    with r have "(x mod n + 1) mod n = x mod n + 1" by (intro mod_pos_pos_trivial) auto
    with r eq False show ?thesis by simp
  qed (simp add: eq)
qed

lemma eq_succ_iff: "d = c + n - r \<Longrightarrow> d = c + 1 \<longleftrightarrow> r = n - (1 :: int)"
  by auto

lemma due_tick_next:
  assumes "0 < n"
  shows "due_tick c W n = c + 1 \<longleftrightarrow> W \<le> c + 1 \<and> W mod n = (c + 1) mod n"
proof (cases "c < W")
  case True
  then have "due_tick c W n = W" by (simp add: due_tick_def)
  moreover have "W \<le> c + 1 \<longleftrightarrow> W = c + 1" using True by auto
  ultimately show ?thesis by (simp only:) blast
next
  case False
  then have "due_tick c W n = c + n - (c - W) mod n" by (simp add: due_tick_def)
  then have "due_tick c W n = c + 1 \<longleftrightarrow> (c - W) mod n = n - 1" by (rule eq_succ_iff)
  also have "\<dots> \<longleftrightarrow> (c - W + 1) mod n = 0"
    by (rule succ_mod_eq_0 [OF assms, symmetric])
  also have "\<dots> \<longleftrightarrow> n dvd (c + 1) - W"
    by (simp only: mod_eq_0_iff_dvd diff_add_eq)
  also have "\<dots> \<longleftrightarrow> (c + 1) mod n = W mod n"
    by (rule mod_eq_dvd_iff [symmetric])
  also have "\<dots> \<longleftrightarrow> W mod n = (c + 1) mod n"
    by (rule eq_commute)
  finally have "due_tick c W n = c + 1 \<longleftrightarrow> W mod n = (c + 1) mod n" .
  moreover have "W \<le> c + 1" using False by simp
  ultimately show ?thesis by blast
qed

lemma due_tick_later:
  assumes n: "0 < n" and "due_tick c W n \<noteq> c + 1"
  shows "due_tick (c + 1) W n = due_tick c W n"
proof (cases "c < W")
  case True
  with assms(2) have "c + 1 < W" by (simp add: due_tick_def)
  with True show ?thesis by (simp add: due_tick_def)
next
  case False
  then have "\<not> c + 1 < W" by linarith
  with False have eq: "due_tick c W n = c + n - (c - W) mod n" "due_tick (c + 1) W n = c + 1 + n - (c + 1 - W) mod n"
    unfolding due_tick_def by (simp_all only: if_False)
  define r where "r = (c - W) mod n"
  have r: "0 \<le> r" "r < n" using n by (simp_all add: r_def)
  with assms(2) eq_succ_iff [OF eq(1)] have "r + 1 < n" unfolding r_def by auto
  have "(c + 1 - W) mod n = (r + 1) mod n"
    unfolding r_def by (simp only: mod_add_left_eq diff_add_eq)
  also have "\<dots> = r + 1" using r \<open>r + 1 < n\<close> by (intro mod_pos_pos_trivial) linarith+
  finally have "due_tick (c + 1) W n = c + 1 + n - (r + 1)" using eq(2) by simp
  then show ?thesis using eq(1) by (simp add: r_def)
qed

subsection \<open>The operations and the abstract view\<close>

lemma filter_eq_upt: "filter (\<lambda>i. i = m) [0..<k] = (if m < k then [m] else [])"
  by (induction k) auto

lemma bucket_index_ok:
  assumes "wheel_ok w" and "0 \<le> sint t"
  shows "bucket_index t w = Inr (nat (sint t mod sint (hwt_wheelSize w)))"
    and "nat (sint t mod sint (hwt_wheelSize w)) < length (hwt_wheel w)"
proof -
  have n: "0 < sint (hwt_wheelSize w)" and len: "length (hwt_wheel w) = nat (sint (hwt_wheelSize w))"
    using assms(1) by (simp_all add: wheel_ok_def)
  from n have "0 \<le> sint t mod sint (hwt_wheelSize w)" "sint t mod sint (hwt_wheelSize w) < sint (hwt_wheelSize w)"
    by simp_all
  with n len go_mod_nonneg [OF assms(2) n]
  show "bucket_index t w = Inr (nat (sint t mod sint (hwt_wheelSize w)))"
    and "nat (sint t mod sint (hwt_wheelSize w)) < length (hwt_wheel w)"
    by (simp_all add: bucket_index_def Let_def nat_less_iff not_less not_le)
qed

lemma room_tick_no: "sint (hwt_currentTick w + 1) = tick_no w + 1" if "0 < room w" "0 \<le> tick_no w"
proof -
  have "in_int64 (sint (hwt_currentTick w) + sint (1 :: int64))"
    using that by (simp add: in_int64_def room_def tick_no_def)
  then show ?thesis by (simp add: sint_add64 tick_no_def)
qed

lemma concat_at:
  assumes "b < length xs"
  shows "concat xs = concat (take b xs) @ xs ! b @ concat (drop (Suc b) xs)"
    and "concat (xs[b := ys]) = concat (take b xs) @ ys @ concat (drop (Suc b) xs)"
proof -
  have "concat xs = concat (take b xs @ xs ! b # drop (Suc b) xs)"
    by (rule arg_cong [OF id_take_nth_drop [OF assms]])
  then show "concat xs = concat (take b xs) @ xs ! b @ concat (drop (Suc b) xs)" by simp
  show "concat (xs[b := ys]) = concat (take b xs) @ ys @ concat (drop (Suc b) xs)"
    by (simp add: upd_conv_take_nth_drop assms)
qed

lemma concat_update_filter:
  assumes b: "b < length xs" and d: "distinct (concat xs)"
  shows "set (concat (xs[b := filter P (xs ! b)])) = set (concat xs) - {a \<in> set (xs ! b). \<not> P a}"
    and "distinct (concat (xs[b := filter P (xs ! b)]))"
proof -
  let ?l = "concat (take b xs)" and ?r = "concat (drop (Suc b) xs)"
  have d': "distinct (?l @ xs ! b @ ?r)" using d concat_at(1) [OF b] by metis
  then show "distinct (concat (xs[b := filter P (xs ! b)]))"
    unfolding concat_at(2) [OF b] by auto
  from d' show "set (concat (xs[b := filter P (xs ! b)])) = set (concat xs) - {a \<in> set (xs ! b). \<not> P a}"
    unfolding concat_at(2) [OF b] concat_at(1) [OF b] by auto
qed

lemma in_bucketD:
  "wheel_ok w \<Longrightarrow> b < length (hwt_wheel w) \<Longrightarrow> a \<in> set (hwt_wheel w ! b) \<Longrightarrow> in_bucket_ok w b a"
  by (auto simp: wheel_ok_def list_all_iff)

lemma waitingD:
  assumes "wheel_ok w" and "a \<in> waiting w"
  obtains b where "b < length (hwt_wheel w)" "a \<in> set (hwt_wheel w ! b)" "in_bucket_ok w b a"
proof -
  from assms(2) obtain bk where bk: "bk \<in> set (hwt_wheel w)" "a \<in> set bk" by (auto simp: waiting_def)
  then obtain b where "b < length (hwt_wheel w)" "hwt_wheel w ! b = bk" by (auto simp: in_set_conv_nth)
  with bk that in_bucketD [OF assms(1)] show thesis by blast
qed

lemma bucket_waiting: "b < length (hwt_wheel w) \<Longrightarrow> a \<in> set (hwt_wheel w ! b) \<Longrightarrow> a \<in> waiting w"
  unfolding waiting_def set_concat by (blast intro: nth_mem)

lemma bucket_iff:
  assumes "wheel_ok w" and "b < length (hwt_wheel w)"
  shows "a \<in> set (hwt_wheel w ! b) \<longleftrightarrow> a \<in> waiting w \<and> wheel_index w a mod sint (hwt_wheelSize w) = int b"
proof
  assume "a \<in> set (hwt_wheel w ! b)"
  with in_bucketD [OF assms] bucket_waiting [OF assms(2)]
  show "a \<in> waiting w \<and> wheel_index w a mod sint (hwt_wheelSize w) = int b" by (simp add: in_bucket_ok_def)
next
  assume *: "a \<in> waiting w \<and> wheel_index w a mod sint (hwt_wheelSize w) = int b"
  then obtain b' where "a \<in> set (hwt_wheel w ! b')" "in_bucket_ok w b' a"
    using assms waitingD by blast
  with * show "a \<in> set (hwt_wheel w ! b)" by (simp add: in_bucket_ok_def)
qed

lemma tick_eq:
  assumes ok: "wheel_ok w" and room: "0 < room w"
  defines "b \<equiv> nat ((tick_no w + 1) mod sint (hwt_wheelSize w))"
  shows "tick w = Inr (filter (\<lambda>a. wheel_index w a \<le> tick_no w + 1)
             (filter (\<lambda>a. \<not> is_cancelled w a) (hwt_wheel w ! b)),
           w\<lparr>hwt_currentTick := hwt_currentTick w + 1, hwt_wheel := (hwt_wheel w)
             [b := filter (\<lambda>a. \<not> is_cancelled w a \<and> \<not> wheel_index w a \<le> tick_no w + 1) (hwt_wheel w ! b)]\<rparr>)"
    and "b < length (hwt_wheel w)" and "int b = (tick_no w + 1) mod sint (hwt_wheelSize w)"
proof -
  have c: "sint (hwt_currentTick w + 1) = tick_no w + 1"
    by (rule room_tick_no [OF room]) (use ok in \<open>simp add: wheel_ok_def\<close>)
  then have nn: "0 \<le> sint (hwt_currentTick w + 1)" using ok by (simp add: wheel_ok_def)
  note bi = bucket_index_ok [OF ok nn]
  show "b < length (hwt_wheel w)" using bi(2) by (simp add: b_def c)
  show "int b = (tick_no w + 1) mod sint (hwt_wheelSize w)" using ok by (simp add: b_def wheel_ok_def)
  show "tick w = Inr (filter (\<lambda>a. wheel_index w a \<le> tick_no w + 1)
             (filter (\<lambda>a. \<not> is_cancelled w a) (hwt_wheel w ! b)),
           w\<lparr>hwt_currentTick := hwt_currentTick w + 1, hwt_wheel := (hwt_wheel w)
             [b := filter (\<lambda>a. \<not> is_cancelled w a \<and> \<not> wheel_index w a \<le> tick_no w + 1) (hwt_wheel w ! b)]\<rparr>)"
    using bi(1) by (simp add: tick_def Let_def c b_def wheel_index_def is_cancelled_def conj_commute)
qed

lemma tick_spec:
  assumes ok: "wheel_ok w" and room: "0 < room w" and t: "tick w = Inr (fired, w')"
  shows "wheel_ok w'" and "tick_no w' = tick_no w + 1" and "distinct fired"
    and "set fired = {a. (a, tick_no w + 1) \<in> pending w}"
    and "pending w' = {(a, d) \<in> pending w. d \<noteq> tick_no w + 1}"
    and "hwt_timeouts w' = hwt_timeouts w"
proof -
  let ?n = "sint (hwt_wheelSize w)" and ?c = "tick_no w"
  define b where "b = nat ((?c + 1) mod ?n)"
  let ?P = "\<lambda>a. \<not> is_cancelled w a \<and> \<not> wheel_index w a \<le> ?c + 1"
  note teq = tick_eq [OF ok room, folded b_def]
  have n: "0 < ?n" and d: "distinct (concat (hwt_wheel w))" using ok by (simp_all add: wheel_ok_def)
  from t teq(1) have fired: "fired = filter (\<lambda>a. wheel_index w a \<le> ?c + 1)
        (filter (\<lambda>a. \<not> is_cancelled w a) (hwt_wheel w ! b))"
    and w': "w' = w\<lparr>hwt_currentTick := hwt_currentTick w + 1, hwt_wheel := (hwt_wheel w)[b := filter ?P (hwt_wheel w ! b)]\<rparr>"
    by simp_all
  show c': "tick_no w' = ?c + 1"
    using room_tick_no [OF room] ok by (simp add: w' tick_no_def wheel_ok_def)
  show "hwt_timeouts w' = hwt_timeouts w" by (simp add: w')
  have wi: "wheel_index w' = wheel_index w" "is_cancelled w' = is_cancelled w" "hwt_wheelSize w' = hwt_wheelSize w"
    by (simp_all add: w' wheel_index_def is_cancelled_def fun_eq_iff)
  note cu = concat_update_filter [OF teq(2) d, of ?P]
  have "distinct (hwt_wheel w ! b)" using d concat_at(1) [OF teq(2)] by (metis distinct_append)
  then show "distinct fired" by (simp add: fired)
  have wait': "waiting w' = waiting w - {a \<in> set (hwt_wheel w ! b). \<not> ?P a}"
    using cu(1) by (simp add: w' waiting_def)
  have due: "due_of w a = ?c + 1 \<longleftrightarrow> a \<in> set (hwt_wheel w ! b) \<and> wheel_index w a \<le> ?c + 1" if "a \<in> waiting w" for a
    unfolding due_of_def due_tick_next [OF n] bucket_iff [OF ok teq(2)] teq(3) using that by auto
  have later: "due_of w' a = due_of w a" if "due_of w a \<noteq> ?c + 1" for a
    using that due_tick_later [OF n] by (simp add: due_of_def c' wi)
  have mem: "a \<in> set fired \<longleftrightarrow> a \<in> set (hwt_wheel w ! b) \<and> \<not> is_cancelled w a \<and> wheel_index w a \<le> ?c + 1" for a
    unfolding fired by auto
  show "set fired = {a. (a, ?c + 1) \<in> pending w}"
    unfolding set_eq_iff mem_Collect_eq pending_iff mem using due bucket_waiting [OF teq(2)] by metis
  have "(a, e) \<in> pending w' \<longleftrightarrow> (a, e) \<in> pending w \<and> e \<noteq> ?c + 1" for a e
  proof -
    have "a \<in> waiting w' \<and> \<not> is_cancelled w a \<longleftrightarrow> a \<in> waiting w \<and> \<not> is_cancelled w a \<and> due_of w a \<noteq> ?c + 1"
      unfolding wait' using due by auto
    then show ?thesis unfolding pending_iff wi using later by auto
  qed
  then show "pending w' = {(a, d) \<in> pending w. d \<noteq> ?c + 1}" by auto
  have "in_bucket_ok w' = in_bucket_ok w" by (simp add: in_bucket_ok_def wi fun_eq_iff) (simp add: w')
  moreover have "list_all (in_bucket_ok w b') (hwt_wheel w' ! b')" if "b' < length (hwt_wheel w)" for b'
    using that in_bucketD [OF ok] by (cases "b' = b") (auto simp: w' list_all_iff)
  moreover have "length (hwt_wheel w') = length (hwt_wheel w)" "hwt_tickDuration w' = hwt_tickDuration w"
    by (simp_all add: w')
  moreover have "distinct (concat (hwt_wheel w'))" using cu(2) by (simp add: w')
  ultimately show "wheel_ok w'"
    using ok unfolding wheel_ok_def wi c' by simp
qed

text \<open>Adding a new object to the bucket of its wheel index.\<close>

definition add_timeout :: "nat \<Rightarrow> 'a Timeout \<Rightarrow> 'a hashedWheelTimer \<Rightarrow> 'a hashedWheelTimer" where
  "add_timeout b t w = w\<lparr>hwt_wheel := (hwt_wheel w)[b := hwt_wheel w ! b @ [length (hwt_timeouts w)]],
     hwt_timeouts := hwt_timeouts w @ [t]\<rparr>"

lemma add_timeout_fields [simp]:
  "tick_no (add_timeout b t w) = tick_no w" "hwt_wheelSize (add_timeout b t w) = hwt_wheelSize w"
  "hwt_tickDuration (add_timeout b t w) = hwt_tickDuration w" "hwt_timeouts (add_timeout b t w) = hwt_timeouts w @ [t]"
  "length (hwt_wheel (add_timeout b t w)) = length (hwt_wheel w)" "hwt_stopped (add_timeout b t w) = hwt_stopped w"
  "hwt_running (add_timeout b t w) = hwt_running w" "hwt_started (add_timeout b t w) = hwt_started w"
  "hwt_cancel (add_timeout b t w) = hwt_cancel w"
  by (simp_all add: add_timeout_def tick_no_def)

lemma add_timeout_objects:
  "wheel_index (add_timeout b t w) a = (if a = length (hwt_timeouts w) then sint (to_wheelIndex t) else wheel_index w a)"
  "is_cancelled (add_timeout b t w) a = (if a = length (hwt_timeouts w) then to_cancelled t else is_cancelled w a)"
  if "a \<le> length (hwt_timeouts w)"
  using that by (auto simp: wheel_index_def is_cancelled_def nth_append)

lemma add_timeout_waiting:
  "b < length (hwt_wheel w) \<Longrightarrow> waiting (add_timeout b t w) = insert (length (hwt_timeouts w)) (waiting w)"
  unfolding waiting_def by (simp add: add_timeout_def concat_at(2) concat_at(1) [of b "hwt_wheel w"] del: set_concat)

lemma waiting_allocated: "wheel_ok w \<Longrightarrow> a \<in> waiting w \<Longrightarrow> a < length (hwt_timeouts w)"
  by (erule (1) waitingD) (simp add: in_bucket_ok_def)

lemma add_timeout_ok:
  assumes ok: "wheel_ok w" and b: "b < length (hwt_wheel w)"
    and t: "0 \<le> sint (to_wheelIndex t)" "sint (to_wheelIndex t) mod sint (hwt_wheelSize w) = int b"
  shows "wheel_ok (add_timeout b t w)"
proof -
  let ?w = "add_timeout b t w" and ?a = "length (hwt_timeouts w)"
  have notin: "?a \<notin> waiting w" using waiting_allocated [OF ok] by blast
  have at: "hwt_wheel ?w ! b' = (if b' = b then hwt_wheel w ! b @ [?a] else hwt_wheel w ! b')"
    if "b' < length (hwt_wheel w)" for b'
    using that by (simp add: add_timeout_def)
  have "in_bucket_ok ?w b' x" if b': "b' < length (hwt_wheel w)" and "x \<in> set (hwt_wheel ?w ! b')" for b' x
  proof -
    from that at [OF b'] consider "x = ?a" "b' = b" | "x \<in> set (hwt_wheel w ! b')" by (auto split: if_splits)
    then show ?thesis
    proof cases
      case 1
      with t show ?thesis by (simp add: in_bucket_ok_def add_timeout_objects)
    next
      case 2
      with in_bucketD [OF ok b'] have "in_bucket_ok w b' x" by blast
      then show ?thesis by (simp add: in_bucket_ok_def add_timeout_objects)
    qed
  qed
  moreover have "distinct (concat (hwt_wheel ?w))"
    using ok notin unfolding wheel_ok_def waiting_def concat_at(1) [OF b]
    by (simp add: add_timeout_def concat_at(2) [OF b])
  ultimately show ?thesis using ok unfolding wheel_ok_def by (simp add: list_all_iff)
qed

lemma add_timeout_pending:
  assumes ok: "wheel_ok w" and b: "b < length (hwt_wheel w)" and t: "\<not> to_cancelled t"
  shows "pending (add_timeout b t w) = insert (length (hwt_timeouts w),
    due_tick (tick_no w) (sint (to_wheelIndex t)) (sint (hwt_wheelSize w))) (pending w)"
proof -
  let ?w = "add_timeout b t w" and ?a = "length (hwt_timeouts w)"
  have "(x, e) \<in> pending ?w \<longleftrightarrow>
      (x, e) = (?a, due_tick (tick_no w) (sint (to_wheelIndex t)) (sint (hwt_wheelSize w))) \<or> (x, e) \<in> pending w" for x e
  proof (cases "x = ?a")
    case True
    then show ?thesis
      using t waiting_allocated [OF ok, of x] by (auto simp: pending_iff add_timeout_waiting [OF b] add_timeout_objects due_of_def)
  next
    case False
    then show ?thesis
      using waiting_allocated [OF ok, of x] by (auto simp: pending_iff add_timeout_waiting [OF b] add_timeout_objects due_of_def)
  qed
  then show ?thesis by auto
qed

lemma place_timeout_spec:
  assumes ok: "wheel_ok w" and c0: "0 \<le> sint c0" and delay: "0 \<le> sint delay"
    and bound: "in_int64 (sint c0 + sint delay div sint (hwt_tickDuration w))"
  obtains b t where "place_timeout c0 task delay now w = Inr (length (hwt_timeouts w), add_timeout b t w)"
    "wheel_ok (add_timeout b t w)" "b < length (hwt_wheel w)" "to_task t = task" "\<not> to_cancelled t"
    "sint (to_wheelIndex t) = sint c0 + sint delay div sint (hwt_tickDuration w)"
proof -
  let ?n = "sint (hwt_wheelSize w)" and ?t = "c0 + go_div delay (hwt_tickDuration w)"
  have n: "0 < ?n" and td: "0 < sint (hwt_tickDuration w)" using ok by (simp_all add: wheel_ok_def)
  have W: "sint ?t = sint c0 + sint delay div sint (hwt_tickDuration w)"
    using bound by (simp add: sint_add64 go_div_nonneg [OF delay td])
  have W0: "0 \<le> sint ?t" unfolding W using c0 delay td by (simp add: pos_imp_zdiv_nonneg_iff)
  define b where "b = nat (sint ?t mod ?n)"
  define t where "t = (make_timeout task delay now)\<lparr>to_wheelIndex := ?t, to_bucketIndex := go_mod ?t (hwt_wheelSize w)\<rparr>"
  note bi = bucket_index_ok [OF ok W0, folded b_def]
  have t: "to_wheelIndex t = ?t" "to_task t = task" "\<not> to_cancelled t" by (simp_all add: t_def make_timeout_def)
  have "place_timeout c0 task delay now w = Inr (length (hwt_timeouts w), add_timeout b t w)"
    by (simp add: place_timeout_def Let_def bi(1) t_def add_timeout_def)
  moreover have "wheel_ok (add_timeout b t w)"
    by (rule add_timeout_ok [OF ok bi(2)]) (use n W0 in \<open>simp_all add: t b_def\<close>)
  ultimately show thesis using that bi(2) t W by simp
qed

lemma cancel_spec:
  assumes ok: "wheel_ok w" and a: "a < length (hwt_timeouts w)"
  shows "wheel_ok (cancel_at a w)" and "tick_no (cancel_at a w) = tick_no w" and "waiting (cancel_at a w) = waiting w"
    and "pending (cancel_at a w) = {(x, d) \<in> pending w. x \<noteq> a}"
    and "map to_task (hwt_timeouts (cancel_at a w)) = map to_task (hwt_timeouts w)"
proof -
  let ?w = "cancel_at a w"
  have wi: "wheel_index ?w x = wheel_index w x" for x
    using a by (cases "x = a") (simp_all add: cancel_at_def wheel_index_def Cancel_def)
  have ca: "is_cancelled ?w x \<longleftrightarrow> x = a \<or> is_cancelled w x" for x
    using a by (cases "x = a") (simp_all add: cancel_at_def is_cancelled_def Cancel_def)
  have same: "hwt_wheel ?w = hwt_wheel w" "hwt_wheelSize ?w = hwt_wheelSize w" "hwt_tickDuration ?w = hwt_tickDuration w"
      "tick_no ?w = tick_no w" "waiting ?w = waiting w" "length (hwt_timeouts ?w) = length (hwt_timeouts w)"
    by (simp_all add: cancel_at_def tick_no_def waiting_def)
  show "wheel_ok ?w" using ok unfolding wheel_ok_def in_bucket_ok_def same wi .
  show "tick_no ?w = tick_no w" "waiting ?w = waiting w" by (rule same)+
  have "(x, d) \<in> pending ?w \<longleftrightarrow> (x, d) \<in> pending w \<and> x \<noteq> a" for x d
    unfolding pending_iff by (auto simp: due_of_def same wi ca)
  then show "pending ?w = {(x, d) \<in> pending w. x \<noteq> a}" by auto
  show "map to_task (hwt_timeouts ?w) = map to_task (hwt_timeouts w)"
    using a by (simp add: cancel_at_def Cancel_def map_update list_update_same_conv)
qed

subsection \<open>The contract of a timer\<close>

text \<open>Several ticks in a row, with the timeouts fired by each.\<close>

primrec run_ticks :: "('s \<Rightarrow> (nat list \<times> 's) outcome) \<Rightarrow> nat \<Rightarrow> 's \<Rightarrow> (nat list list \<times> 's) outcome" where
  "run_ticks tk 0 s = Inr ([], s)"
| "run_ticks tk (Suc k) s =
     (case tk s of Inl p \<Rightarrow> Inl p
      | Inr (f, s1) \<Rightarrow> (case run_ticks tk k s1 of Inl p \<Rightarrow> Inl p | Inr (fs, s2) \<Rightarrow> Inr (f # fs, s2)))"

text \<open>
  What the scheduler relies on: a clock, the pending timeouts with the tick at which each is due,
  and a tick that advances the clock by one, fires exactly the timeouts that are due and keeps
  the others. \<open>left\<close> bounds the number of ticks for which the contract is given.
\<close>

locale timer_contract =
  fixes ok :: "'s \<Rightarrow> bool" and clock :: "'s \<Rightarrow> int" and left :: "'s \<Rightarrow> nat"
    and pend :: "'s \<Rightarrow> (nat \<times> int) set" and tk :: "'s \<Rightarrow> (nat list \<times> 's) outcome"
  assumes tick_total: "ok s \<Longrightarrow> 0 < left s \<Longrightarrow> \<exists>f s'. tk s = Inr (f, s')"
    and tick_ok: "ok s \<Longrightarrow> 0 < left s \<Longrightarrow> tk s = Inr (f, s') \<Longrightarrow> ok s' \<and> left s' = left s - 1"
    and tick_clock: "ok s \<Longrightarrow> 0 < left s \<Longrightarrow> tk s = Inr (f, s') \<Longrightarrow> clock s' = clock s + 1"
    and tick_fires: "ok s \<Longrightarrow> 0 < left s \<Longrightarrow> tk s = Inr (f, s') \<Longrightarrow> set f = {a. (a, clock s + 1) \<in> pend s}"
    and tick_keeps: "ok s \<Longrightarrow> 0 < left s \<Longrightarrow> tk s = Inr (f, s') \<Longrightarrow>
      pend s' = {(a, d) \<in> pend s. d \<noteq> clock s + 1}"
    and due_future: "ok s \<Longrightarrow> (a, d) \<in> pend s \<Longrightarrow> clock s < d"
    and due_unique: "(a, d) \<in> pend s \<Longrightarrow> (a, d') \<in> pend s \<Longrightarrow> d = d'"
begin

lemma run_total:
  "ok s \<Longrightarrow> k \<le> left s \<Longrightarrow> \<exists>fs s'. run_ticks tk k s = Inr (fs, s') \<and> ok s' \<and> length fs = k \<and>
     clock s' = clock s + int k \<and> left s' = left s - k"
proof (induction k arbitrary: s)
  case (Suc k)
  then have l: "0 < left s" by simp
  obtain f s1 where t: "tk s = Inr (f, s1)" using tick_total [OF Suc.prems(1) l] by blast
  note t1 = tick_ok [OF Suc.prems(1) l t] tick_clock [OF Suc.prems(1) l t]
  obtain fs s2 where "run_ticks tk k s1 = Inr (fs, s2)" "ok s2" "length fs = k"
      "clock s2 = clock s1 + int k" "left s2 = left s1 - k"
    using Suc.IH [of s1] t1(1) Suc.prems(2) by fastforce
  with t t1 show ?case by simp
qed simp

lemma run_fires:
  "ok s \<Longrightarrow> k \<le> left s \<Longrightarrow> run_ticks tk k s = Inr (fs, s') \<Longrightarrow> i < k \<Longrightarrow>
   a \<in> set (fs ! i) \<longleftrightarrow> (a, clock s + int i + 1) \<in> pend s"
proof (induction k arbitrary: s fs i)
  case (Suc k)
  from Suc.prems have l: "0 < left s" by simp
  obtain f s1 where t: "tk s = Inr (f, s1)" using tick_total [OF Suc.prems(1) l] by blast
  obtain fs1 where r: "run_ticks tk k s1 = Inr (fs1, s')" and fs: "fs = f # fs1"
    using Suc.prems(3) t by (auto split: sum.splits prod.splits)
  note c1 = tick_clock [OF Suc.prems(1) l t]
  show ?case
  proof (cases i)
    case 0
    then show ?thesis using tick_fires [OF Suc.prems(1) l t] by (simp add: fs)
  next
    case (Suc i')
    have "a \<in> set (fs1 ! i') \<longleftrightarrow> (a, clock s1 + int i' + 1) \<in> pend s1"
      using Suc.IH [OF _ _ r, of i'] tick_ok [OF Suc.prems(1) l t] Suc.prems(2,4) Suc by simp
    moreover have "(a, clock s1 + int i' + 1) \<in> pend s1 \<longleftrightarrow> (a, clock s + int i + 1) \<in> pend s"
      unfolding tick_keeps [OF Suc.prems(1) l t] by (simp add: Suc c1)
    ultimately show ?thesis by (simp add: Suc fs)
  qed
qed simp

lemma run_pending:
  "ok s \<Longrightarrow> k \<le> left s \<Longrightarrow> run_ticks tk k s = Inr (fs, s') \<Longrightarrow>
   pend s' = {(a, d) \<in> pend s. clock s + int k < d}"
proof (induction k arbitrary: s fs)
  case 0
  then show ?case using due_future by auto
next
  case (Suc k)
  from Suc.prems have l: "0 < left s" by simp
  obtain f s1 where t: "tk s = Inr (f, s1)" using tick_total [OF Suc.prems(1) l] by blast
  obtain fs1 where r: "run_ticks tk k s1 = Inr (fs1, s')"
    using Suc.prems(3) t by (auto split: sum.splits prod.splits)
  have "pend s' = {(a, d) \<in> pend s1. clock s1 + int k < d}"
    using Suc.IH [OF _ _ r] tick_ok [OF Suc.prems(1) l t] Suc.prems(2) by simp
  then show ?case
    using tick_keeps [OF Suc.prems(1) l t] tick_clock [OF Suc.prems(1) l t] by auto
qed

text \<open>A pending timeout fires at the tick it is due, and at no other.\<close>

lemma fires_exactly_when_due:
  assumes "ok s" and "(a, d) \<in> pend s" and "k \<le> left s"
  shows "\<exists>fs s'. run_ticks tk k s = Inr (fs, s') \<and> length fs = k \<and>
    filter (\<lambda>i. a \<in> set (fs ! i)) [0..<k] = (if d - clock s \<le> int k then [nat (d - clock s - 1)] else [])"
proof -
  obtain fs s' where r: "run_ticks tk k s = Inr (fs, s')" "length fs = k"
    using run_total [OF assms(1,3)] by blast
  have d: "clock s < d" by (rule due_future [OF assms(1,2)])
  have "a \<in> set (fs ! i) \<longleftrightarrow> i = nat (d - clock s - 1)" if "i < k" for i
  proof -
    have "a \<in> set (fs ! i) \<longleftrightarrow> clock s + int i + 1 = d"
      using run_fires [OF assms(1,3) r(1) that, of a] due_unique assms(2) by metis
    then show ?thesis using d by (simp add: nat_eq_iff) linarith
  qed
  then have "filter (\<lambda>i. a \<in> set (fs ! i)) [0..<k] = filter (\<lambda>i. i = nat (d - clock s - 1)) [0..<k]"
    by (intro filter_cong) auto
  also have "\<dots> = (if nat (d - clock s - 1) < k then [nat (d - clock s - 1)] else [])"
    by (rule filter_eq_upt)
  finally show ?thesis using r d by auto
qed

end

lemma room_tick: "tick_no w' = tick_no w + 1 \<Longrightarrow> room w' = room w - 1"
  by (simp add: room_def)

text \<open>The wheel fulfils the contract.\<close>

interpretation hwt: timer_contract wheel_ok tick_no room pending tick
proof unfold_locales
  fix w w' :: "'a hashedWheelTimer" and f a d d'
  show "\<exists>f s'. tick w = Inr (f, s')" if "wheel_ok w" "0 < room w"
    using tick_eq(1) [OF that] by blast
  show "(a, d) \<in> pending w \<Longrightarrow> (a, d') \<in> pending w \<Longrightarrow> d = d'" by (simp add: pending_iff)
  show "tick_no w < d" if "wheel_ok w" "(a, d) \<in> pending w"
    using that by (simp add: pending_iff due_of_def due_tick_future wheel_ok_def)
  assume asm: "wheel_ok w" "0 < room w" "tick w = Inr (f, w')"
  note sp = tick_spec [OF asm]
  show "wheel_ok w' \<and> room w' = room w - 1" using sp(1) room_tick [OF sp(2)] by simp
  show "tick_no w' = tick_no w + 1" "set f = {a. (a, tick_no w + 1) \<in> pending w}"
    "pending w' = {(a, d) \<in> pending w. d \<noteq> tick_no w + 1}" by (rule sp)+
qed

subsection \<open>Properties of the timer\<close>

lemma new_wheel_ok: "wheel_ok (NewHashedWheelTimer sz dur)"
proof -
  have "sint (512 :: int64) = 512" "sint (100 * Millisecond) = 100000000" by (simp_all add: Millisecond_def)
  then show ?thesis
    by (auto simp: NewHashedWheelTimer_def wheel_ok_def tick_no_def Let_def not_le)
qed

text \<open>C6: one tick of the wheel implements the abstract timer. It never panics while the tick counter
  does not overflow; it fires exactly the timeouts that are due at the new tick and are not
  cancelled, each once, and every other pending timeout keeps its due tick.\<close>

theorem tick_fires_due:
  assumes "wheel_ok w" and "0 < room w"
  shows "\<exists>fired w'. tick w = Inr (fired, w') \<and> wheel_ok w' \<and> tick_no w' = tick_no w + 1 \<and>
    distinct fired \<and> set fired = {a. (a, tick_no w + 1) \<in> pending w} \<and>
    pending w' = {(a, d) \<in> pending w. d \<noteq> tick_no w + 1}"
proof -
  obtain fired w' where t: "tick w = Inr (fired, w')" using tick_eq(1) [OF assms] by blast
  with tick_spec [OF assms t] show ?thesis by blast
qed

theorem tick_fires_due_witness:
  "wheel_ok (NewHashedWheelTimer 8 Second :: nat hashedWheelTimer) \<and>
   (\<exists>fired w'. tick (NewHashedWheelTimer 8 Second :: nat hashedWheelTimer) = Inr (fired, w') \<and> tick_no w' = 1)"
proof -
  have ok: "wheel_ok (NewHashedWheelTimer 8 Second :: nat hashedWheelTimer)" by (rule new_wheel_ok)
  have c: "tick_no (NewHashedWheelTimer 8 Second :: nat hashedWheelTimer) = 0"
    by (simp add: NewHashedWheelTimer_def tick_no_def Let_def)
  then have "0 < room (NewHashedWheelTimer 8 Second :: nat hashedWheelTimer)" by (simp add: room_def)
  from tick_fires_due [OF ok this] ok c show ?thesis by auto
qed

text \<open>The number of ticks after which a new timeout fires.\<close>

definition delay_ticks :: "duration \<Rightarrow> 'a hashedWheelTimer \<Rightarrow> int" where
  "delay_ticks delay w = (let q = sint delay div sint (hwt_tickDuration w) in
     if q = 0 then sint (hwt_wheelSize w) else q)"

lemma due_tick_delay:
  "0 \<le> q \<Longrightarrow> due_tick c (c + q) n = c + (if q = 0 then n else q)"
  by (simp add: due_tick_def)

lemma NewTimeout_spec:
  assumes ok: "wheel_ok w" and "\<not> hwt_stopped w" and delay: "0 \<le> sint delay"
    and bound: "in_int64 (tick_no w + sint delay div sint (hwt_tickDuration w))"
  obtains b t where "NewTimeout task delay now w = Inr (Some (length (hwt_timeouts w)), add_timeout b t w)"
    "wheel_ok (add_timeout b t w)" "b < length (hwt_wheel w)" "to_task t = task" "\<not> to_cancelled t"
    "pending (add_timeout b t w) = insert (length (hwt_timeouts w), tick_no w + delay_ticks delay w) (pending w)"
proof -
  have c: "0 \<le> sint (hwt_currentTick w)" and td: "0 < sint (hwt_tickDuration w)"
    using ok by (simp_all add: wheel_ok_def tick_no_def)
  obtain b t where p: "place_timeout (hwt_currentTick w) task delay now w = Inr (length (hwt_timeouts w), add_timeout b t w)"
    and r: "wheel_ok (add_timeout b t w)" "b < length (hwt_wheel w)" "to_task t = task" "\<not> to_cancelled t"
    and W: "sint (to_wheelIndex t) = sint (hwt_currentTick w) + sint delay div sint (hwt_tickDuration w)"
    using place_timeout_spec [OF ok c delay bound [unfolded tick_no_def]] by blast
  have q: "0 \<le> sint delay div sint (hwt_tickDuration w)"
    using delay td by (simp add: pos_imp_zdiv_nonneg_iff)
  have "pending (add_timeout b t w) = insert (length (hwt_timeouts w), tick_no w + delay_ticks delay w) (pending w)"
    unfolding add_timeout_pending [OF ok r(2,4)] W tick_no_def [symmetric] due_tick_delay [OF q]
    by (simp add: delay_ticks_def Let_def)
  moreover have "NewTimeout task delay now w = Inr (Some (length (hwt_timeouts w)), add_timeout b t w)"
    using assms(2) p by (simp add: NewTimeout_def)
  ultimately show thesis using that r by blast
qed

text \<open>C5: a new timeout fires exactly once, after as many ticks as its delay holds whole ticks; a delay
  shorter than one tick waits a full turn of the wheel, because its bucket has just been visited.\<close>

theorem new_timeout_fires_once:
  assumes ok: "wheel_ok w" and st: "\<not> hwt_stopped w" and delay: "0 \<le> sint delay"
    and bound: "in_int64 (tick_no w + sint delay div sint (hwt_tickDuration w))" and k: "k \<le> room w"
  shows "\<exists>a w1 fs w2. NewTimeout task delay now w = Inr (Some a, w1) \<and> to_task (hwt_timeouts w1 ! a) = task \<and>
    run_ticks tick k w1 = Inr (fs, w2) \<and>
    filter (\<lambda>i. a \<in> set (fs ! i)) [0..<k] = (if delay_ticks delay w \<le> int k then [nat (delay_ticks delay w - 1)] else [])"
proof -
  let ?a = "length (hwt_timeouts w)"
  obtain b t where nt: "NewTimeout task delay now w = Inr (Some ?a, add_timeout b t w)" "wheel_ok (add_timeout b t w)"
    and t: "to_task t = task"
    and p: "pending (add_timeout b t w) = insert (?a, tick_no w + delay_ticks delay w) (pending w)"
    using NewTimeout_spec [OF ok st delay bound] by blast
  have "(?a, tick_no w + delay_ticks delay w) \<in> pending (add_timeout b t w)" by (simp add: p)
  moreover have "k \<le> room (add_timeout b t w)" using k by (simp add: room_def)
  ultimately show ?thesis
    using hwt.fires_exactly_when_due [OF nt(2)] nt(1) t by fastforce
qed

theorem new_timeout_fires_once_witness:
  "\<exists>a w1 fs w2. NewTimeout ''job'' (60 * Millisecond) 0 (NewHashedWheelTimer 512 (100 * Millisecond)) = Inr (Some a, w1) \<and>
     run_ticks tick 600 w1 = Inr (fs, w2) \<and> filter (\<lambda>i. a \<in> set (fs ! i)) [0..<600] = [511]"
proof -
  let ?w = "NewHashedWheelTimer 512 (100 * Millisecond) :: string hashedWheelTimer"
  have c: "tick_no ?w = 0" "\<not> hwt_stopped ?w" "hwt_tickDuration ?w = 100 * Millisecond" "hwt_wheelSize ?w = 512"
    by (simp_all add: NewHashedWheelTimer_def tick_no_def Let_def Millisecond_def)
  have d: "delay_ticks (60 * Millisecond) ?w = 512"
    unfolding delay_ticks_def c by (simp add: Millisecond_def)
  have "0 \<le> sint (60 * Millisecond)" "in_int64 (tick_no ?w + sint (60 * Millisecond) div sint (hwt_tickDuration ?w))"
    "600 \<le> room ?w"
    unfolding c room_def by (simp_all add: Millisecond_def in_int64_def)
  from new_timeout_fires_once [OF new_wheel_ok c(2) this, of "''job''" 0] show ?thesis
    unfolding d by auto
qed

text \<open>C13: a cancelled timeout never fires, whatever the wheel was doing with it.\<close>

theorem cancelled_never_fires:
  assumes ok: "wheel_ok w" and a: "a < length (hwt_timeouts w)" and k: "k \<le> room w"
  shows "\<exists>fs w'. run_ticks tick k (cancel_at a w) = Inr (fs, w') \<and> length fs = k \<and> a \<notin> set (concat fs)"
proof -
  note c = cancel_spec [OF ok a]
  have k': "k \<le> room (cancel_at a w)" using k by (simp add: room_def c)
  obtain fs w' where r: "run_ticks tick k (cancel_at a w) = Inr (fs, w')" "length fs = k"
    using hwt.run_total [OF c(1) k'] by blast
  have "a \<notin> set (fs ! i)" if "i < k" for i
    using hwt.run_fires [OF c(1) k' r(1) that, of a] by (simp add: c)
  then have "\<forall>f \<in> set fs. a \<notin> set f" using r(2) by (metis in_set_conv_nth)
  with r show ?thesis by auto
qed

theorem cancelled_never_fires_witness:
  "\<exists>w1. NewTimeout ''job'' Second 0 (NewHashedWheelTimer 512 (100 * Millisecond)) = Inr (Some 0, w1) \<and>
     (\<exists>fs w'. run_ticks tick 600 (cancel_at 0 w1) = Inr (fs, w') \<and> 0 \<notin> set (concat fs))"
proof -
  let ?w = "NewHashedWheelTimer 512 (100 * Millisecond) :: string hashedWheelTimer"
  have c: "tick_no ?w = 0" "\<not> hwt_stopped ?w" "hwt_tickDuration ?w = 100 * Millisecond" "hwt_timeouts ?w = []"
    by (simp_all add: NewHashedWheelTimer_def tick_no_def Let_def Millisecond_def)
  have "0 \<le> sint Second" "in_int64 (tick_no ?w + sint Second div sint (hwt_tickDuration ?w))"
    unfolding c by (simp_all add: Millisecond_def Second_def in_int64_def)
  then obtain b t where nt: "NewTimeout ''job'' Second 0 ?w = Inr (Some 0, add_timeout b t ?w)"
    and ok: "wheel_ok (add_timeout b t ?w)"
    using NewTimeout_spec [OF new_wheel_ok c(2), of Second "''job''" 0] c(4) by (metis list.size(3))
  have "600 \<le> room (add_timeout b t ?w)" "0 < length (hwt_timeouts (add_timeout b t ?w))"
    by (simp_all add: room_def c)
  with cancelled_never_fires [OF ok] nt show ?thesis by blast
qed

text \<open>a stopped timer stays stopped. \<open>Stop\<close> after \<open>Start\<close> succeeds; afterwards \<open>NewTimeout\<close> gives
  \<open>nil\<close> without an error and \<open>Start\<close> does not start the loop again although it reports success.
  \<open>Stop\<close> on a timer that was never started panics.\<close>

theorem timer_not_restartable:
  "Stop (NewHashedWheelTimer sz dur :: 'a hashedWheelTimer) = Inl NilDereference \<and>
   (\<exists>w. Stop (Start now (NewHashedWheelTimer sz dur :: 'a hashedWheelTimer)) = Inr w \<and>
      NewTimeout task delay now' w = Inr (None, w) \<and> Start now'' w = w \<and> \<not> hwt_running w)"
  by (simp add: NewHashedWheelTimer_def Stop_def Start_def NewTimeout_def Let_def)

end
