(* ===== verification/Go_Strings.thy ===== *)
theory Go_Strings
  imports Prelude
begin

text \<open>
  The functions of the Go packages \<open>strings\<close> and \<open>strconv\<close> that the collector calls, as
  executable functions on byte strings, with the facts the components share: search and
  prefix, splitting and joining, replacement, trimming, case mapping, decimal numbers.
\<close>

subsection \<open>Search\<close>

fun HasPrefix :: "string \<Rightarrow> string \<Rightarrow> bool" where
  "HasPrefix s [] = True"
| "HasPrefix [] (p # ps) = False"
| "HasPrefix (c # cs) (p # ps) = (c = p \<and> HasPrefix cs ps)"

definition HasSuffix :: "string \<Rightarrow> string \<Rightarrow> bool" where
  "HasSuffix s suf = HasPrefix (rev s) (rev suf)"

definition TrimPrefix :: "string \<Rightarrow> string \<Rightarrow> string" where
  "TrimPrefix s p = (if HasPrefix s p then drop (length p) s else s)"

text \<open>\<open>strings.Index\<close>, with \<open>None\<close> for its result \<open>-1\<close>.\<close>

fun Index :: "string \<Rightarrow> string \<Rightarrow> nat option" where
  "Index s sub = (if HasPrefix s sub then Some 0
     else (case s of [] \<Rightarrow> None | c # cs \<Rightarrow> map_option Suc (Index cs sub)))"

declare Index.simps [simp del]

definition Contains :: "string \<Rightarrow> string \<Rightarrow> bool" where
  "Contains s sub \<longleftrightarrow> Index s sub \<noteq> None"

lemma HasPrefix_iff: "HasPrefix s p \<longleftrightarrow> (\<exists>t. s = p @ t)"
  by (induction s p rule: HasPrefix.induct) auto

lemma HasPrefix_append [simp, go_str]: "HasPrefix (p @ t) p"
  by (auto simp: HasPrefix_iff)

lemma Index_Nil [go_str]: "Index [] sub = (if sub = [] then Some 0 else None)"
  by (subst Index.simps) (simp add: HasPrefix_iff)

lemma Index_Cons [go_str]:
  "Index (c # cs) sub = (if HasPrefix (c # cs) sub then Some 0 else map_option Suc (Index cs sub))"
  by (subst Index.simps) simp

lemma Index_SomeD:
  "Index s sub = Some i \<Longrightarrow> s = take i s @ sub @ drop (i + length sub) s \<and> i + length sub \<le> length s"
proof (induction s arbitrary: i)
  case Nil
  then show ?case by (simp add: Index_Nil split: if_splits)
next
  case (Cons c cs)
  show ?case
  proof (cases "HasPrefix (c # cs) sub")
    case True
    then obtain t where "c # cs = sub @ t" by (auto simp: HasPrefix_iff)
    moreover from True Cons.prems have "i = 0" by (simp add: Index_Cons)
    moreover from calculation(1) have "length (c # cs) = length sub + length t" by simp
    ultimately show ?thesis by simp
  next
    case False
    with Cons.prems obtain j where "Index cs sub = Some j" and "i = Suc j"
      by (auto simp: Index_Cons)
    with Cons.IH show ?thesis by simp
  qed
qed

lemma Index_shrinks [termination_simp]:
  "sub \<noteq> [] \<Longrightarrow> Index s sub = Some i \<Longrightarrow> length s - (i + length sub) < length s"
  using Index_SomeD [of s sub i] by (cases sub) auto

lemma Index_append_None: "Index (s @ sub @ t) sub \<noteq> None"
  by (induction s) (auto simp: Index_Cons Index.simps [of "sub @ t"])

lemma Contains_iff: "Contains s sub \<longleftrightarrow> (\<exists>a b. s = a @ sub @ b)"
  unfolding Contains_def using Index_SomeD [of s sub] Index_append_None [of _ sub] by fastforce

subsection \<open>Splitting and joining\<close>

text \<open>\<open>strings.Split\<close> for a non-empty separator, the only way the collector calls it.\<close>

function Split :: "string \<Rightarrow> string \<Rightarrow> string list" where
  "Split s sep =
     (if sep = [] then [s]
      else (case Index s sep of None \<Rightarrow> [s]
            | Some i \<Rightarrow> take i s # Split (drop (i + length sep) s) sep))"
  by pat_completeness auto
termination
  by (relation "measure (\<lambda>(s, sep). length s)") (auto simp: Index_shrinks)

declare Split.simps [simp del]

text \<open>\<open>strings.SplitN(s, sep, 2)\<close>.\<close>

definition SplitN2 :: "string \<Rightarrow> string \<Rightarrow> string list" where
  "SplitN2 s sep = (case Index s sep of None \<Rightarrow> [s]
     | Some i \<Rightarrow> [take i s, drop (i + length sep) s])"

fun Join :: "string list \<Rightarrow> string \<Rightarrow> string" where
  "Join [] sep = []"
| "Join [x] sep = x"
| "Join (x # y # ys) sep = x @ sep @ Join (y # ys) sep"

lemma Split_not_Nil [simp, go_str]: "Split s sep \<noteq> []"
  by (subst Split.simps) (auto split: option.splits)

lemma Join_Cons: "ys \<noteq> [] \<Longrightarrow> Join (x # ys) sep = x @ sep @ Join ys sep"
  by (cases ys) auto

text \<open>Joining the parts with the separator gives the string back.\<close>

lemma Join_Split: "Join (Split s sep) sep = s"
proof (induction s sep rule: Split.induct)
  case (1 s sep)
  show ?case
  proof (cases "sep = [] \<or> Index s sep = None")
    case True
    then show ?thesis by (subst Split.simps) auto
  next
    case False
    then obtain i where i: "sep \<noteq> []" "Index s sep = Some i" by auto
    then have "Join (Split s sep) sep = take i s @ sep @ drop (i + length sep) s"
      using "1.IH" by (subst Split.simps) (simp add: Join_Cons)
    with Index_SomeD [OF i(2)] show ?thesis by simp
  qed
qed

text \<open>A string without the separator's first character is one part.\<close>

lemma Index_None_char: "c \<notin> set s \<Longrightarrow> Index s (c # sep) = None"
  by (induction s) (auto simp: Index_Nil Index_Cons)

lemma Split_single: "c \<notin> set s \<Longrightarrow> Split s (c # sep) = [s]"
  by (subst Split.simps) (simp add: Index_None_char)

lemma Index_first_char: "c \<notin> set s \<Longrightarrow> Index (s @ (c # sep) @ t) (c # sep) = Some (length s)"
  by (induction s) (auto simp: Index_Cons HasPrefix_iff)

lemma Split_cons: "c \<notin> set s \<Longrightarrow> Split (s @ (c # sep) @ t) (c # sep) = s # Split t (c # sep)"
  using Index_first_char [of c s sep t] by (subst Split.simps) simp

subsection \<open>Replacement and counting\<close>

function ReplaceAll :: "string \<Rightarrow> string \<Rightarrow> string \<Rightarrow> string" where
  "ReplaceAll s old new =
     (if old = [] then s
      else (case Index s old of None \<Rightarrow> s
            | Some i \<Rightarrow> take i s @ new @ ReplaceAll (drop (i + length old) s) old new))"
  by pat_completeness auto
termination
  by (relation "measure (\<lambda>(s, old, new). length s)") (auto simp: Index_shrinks)

declare ReplaceAll.simps [simp del]

lemma ReplaceAll_absent [go_str]: "\<not> Contains s old \<Longrightarrow> ReplaceAll s old new = s"
  by (subst ReplaceAll.simps) (simp add: Contains_def)

function Count :: "string \<Rightarrow> string \<Rightarrow> nat" where
  "Count s sub =
     (if sub = [] then length s + 1
      else (case Index s sub of None \<Rightarrow> 0 | Some i \<Rightarrow> Suc (Count (drop (i + length sub) s) sub)))"
  by pat_completeness auto
termination
  by (relation "measure (\<lambda>(s, sub). length s)") (auto simp: Index_shrinks)

declare Count.simps [simp del]

subsection \<open>White space and case\<close>

definition is_space :: "char \<Rightarrow> bool" where
  "is_space c \<longleftrightarrow> (let n = of_char c :: nat in (9 \<le> n \<and> n \<le> 13) \<or> n = 32)"

definition TrimSpace :: "string \<Rightarrow> string" where
  "TrimSpace s = rev (dropWhile is_space (rev (dropWhile is_space s)))"

definition to_lower :: "char \<Rightarrow> char" where
  "to_lower c = (let n = of_char c :: nat in if 65 \<le> n \<and> n \<le> 90 then char_of (n + 32) else c)"

definition to_upper :: "char \<Rightarrow> char" where
  "to_upper c = (let n = of_char c :: nat in if 97 \<le> n \<and> n \<le> 122 then char_of (n - 32) else c)"

definition ToLower :: "string \<Rightarrow> string" where
  "ToLower = map to_lower"

definition ToUpper :: "string \<Rightarrow> string" where
  "ToUpper = map to_upper"

definition EqualFold :: "string \<Rightarrow> string \<Rightarrow> bool" where
  "EqualFold a b \<longleftrightarrow> ToLower a = ToLower b"

text \<open>\<open>strings.Fields\<close>: the maximal runs of non-space characters.\<close>

fun fields_acc :: "string \<Rightarrow> string \<Rightarrow> string list" where
  "fields_acc acc [] = (if acc = [] then [] else [rev acc])"
| "fields_acc acc (c # cs) =
     (if is_space c then (if acc = [] then fields_acc [] cs else rev acc # fields_acc [] cs)
      else fields_acc (c # acc) cs)"

definition Fields :: "string \<Rightarrow> string list" where
  "Fields = fields_acc []"

lemma TrimSpace_Nil [simp, go_str]: "TrimSpace [] = []"
  by (simp add: TrimSpace_def)

lemma TrimSpace_id: "(\<forall>c \<in> set s. \<not> is_space c) \<Longrightarrow> TrimSpace s = s"
proof -
  assume *: "\<forall>c \<in> set s. \<not> is_space c"
  then have "dropWhile is_space s = s" by (cases s) auto
  moreover from * have "dropWhile is_space (rev s) = rev s" by (cases s rule: rev_cases) auto
  ultimately show ?thesis by (simp add: TrimSpace_def)
qed

lemma TrimSpace_ends: "s \<noteq> [] \<Longrightarrow> \<not> is_space (hd s) \<Longrightarrow> \<not> is_space (last s) \<Longrightarrow> TrimSpace s = s"
proof -
  assume a: "s \<noteq> []" "\<not> is_space (hd s)" "\<not> is_space (last s)"
  then have "dropWhile is_space s = s" by (cases s) auto
  moreover from a have "dropWhile is_space (rev s) = rev s" by (cases s rule: rev_cases) auto
  ultimately show ?thesis by (simp add: TrimSpace_def)
qed

lemma Split_Join: "ls \<noteq> [] \<Longrightarrow> \<forall>l \<in> set ls. c \<notin> set l \<Longrightarrow> Split (Join ls [c]) [c] = ls"
proof (induction ls "[c]" rule: Join.induct)
  case (2 x)
  then show ?case by (simp add: Split_single)
next
  case (3 x y ys)
  then show ?case using Split_cons [of c x "[]" "Join (y # ys) [c]"] by simp
qed simp

lemma dropWhile_idem_rev:
  "dropWhile P (rev (dropWhile P (rev (dropWhile P s)))) = rev (dropWhile P (rev (dropWhile P s)))"
proof (cases "dropWhile P (rev (dropWhile P s)) = []")
  case True
  then show ?thesis by (simp only: rev.simps dropWhile.simps)
next
  case False
  then obtain a b where ab: "rev (dropWhile P s) = a @ b" "b \<noteq> []"
    "b = dropWhile P (rev (dropWhile P s))"
    by (metis takeWhile_dropWhile_id)
  then have "dropWhile P s = rev b @ rev a" by (metis rev_append rev_rev_ident)
  moreover from ab(2) have "hd (rev b @ rev a) = hd (rev b)" by simp
  ultimately have "\<not> P (hd (rev b))"
    using hd_dropWhile [of P s] ab(2) by (metis append_is_Nil_conv rev_is_Nil_conv)
  with ab(2,3) show ?thesis
    by (metis dropWhile.simps(2) list.collapse rev_is_Nil_conv)
qed

lemma TrimSpace_idem [simp, go_str]: "TrimSpace (TrimSpace s) = TrimSpace s"
  by (simp add: TrimSpace_def dropWhile_idem_rev)

lemma length_ToLower [simp, go_str]: "length (ToLower s) = length s"
  by (simp add: ToLower_def)

lemma ToLower_append [simp, go_str]: "ToLower (a @ b) = ToLower a @ ToLower b"
  by (simp add: ToLower_def)

lemma of_char_to_lower: "(of_char (to_lower c) :: nat) \<notin> {65..90}"
  by (auto simp: to_lower_def Let_def)

lemma to_lower_idem [simp]: "to_lower (to_lower c) = to_lower c"
  using of_char_to_lower [of c] unfolding to_lower_def [of "to_lower c"] by (auto simp: Let_def)

lemma ToLower_idem [simp, go_str]: "ToLower (ToLower s) = ToLower s"
  by (simp add: ToLower_def)

subsection \<open>Decimal numbers\<close>

fun show_nat :: "nat \<Rightarrow> string" where
  "show_nat n = (if n < 10 then [char_of (48 + n)] else show_nat (n div 10) @ [char_of (48 + n mod 10)])"

declare show_nat.simps [simp del]

text \<open>\<open>strconv.FormatInt(i, 10)\<close>, \<open>strconv.Itoa\<close> and the verb \<open>%d\<close>.\<close>

definition FormatInt :: "int \<Rightarrow> string" where
  "FormatInt i = (if i < 0 then CHR ''-'' # show_nat (nat (- i)) else show_nat (nat i))"

fun read_digits :: "nat \<Rightarrow> string \<Rightarrow> nat option" where
  "read_digits acc [] = Some acc"
| "read_digits acc (c # cs) =
     (let n = of_char c :: nat in
      if 48 \<le> n \<and> n \<le> 57 then read_digits (acc * 10 + (n - 48)) cs else None)"

text \<open>\<open>strconv.Atoi\<close> on a 64-bit platform; \<open>None\<close> stands for a syntax or range error.\<close>

definition Atoi :: "string \<Rightarrow> int option" where
  "Atoi s =
     (let (neg, ds) = (case s of [] \<Rightarrow> (False, [])
         | c # cs \<Rightarrow> if c = CHR ''-'' then (True, cs) else if c = CHR ''+'' then (False, cs) else (False, s))
      in if ds = [] then None
         else (case read_digits 0 ds of None \<Rightarrow> None
               | Some n \<Rightarrow> (let i = (if neg then - int n else int n) in if in_int64 i then Some i else None)))"

lemma read_digits_append:
  "read_digits acc (a @ b) = (case read_digits acc a of None \<Rightarrow> None | Some n \<Rightarrow> read_digits n b)"
  by (induction acc a rule: read_digits.induct) (auto simp: Let_def)

lemma read_digits_show_nat: "read_digits 0 (show_nat n) = Some n"
proof (induction n rule: show_nat.induct)
  case (1 n)
  show ?case
  proof (cases "n < 10")
    case True
    then show ?thesis by (subst show_nat.simps) simp
  next
    case False
    with "1.IH" show ?thesis by (subst show_nat.simps) (simp add: read_digits_append)
  qed
qed

lemma show_nat_digits: "c \<in> set (show_nat n) \<Longrightarrow> 48 \<le> (of_char c :: nat) \<and> (of_char c :: nat) \<le> 57"
proof (induction n rule: show_nat.induct)
  case (1 n)
  show ?case
  proof (cases "n < 10")
    case True
    with "1.prems" show ?thesis by (subst (asm) show_nat.simps) simp
  next
    case False
    with "1.prems" have "c \<in> set (show_nat (n div 10)) \<or> c = char_of (48 + n mod 10)"
      by (subst (asm) show_nat.simps) auto
    with "1.IH" [OF False] show ?thesis by auto
  qed
qed

lemma show_nat_not_Nil [simp]: "show_nat n \<noteq> []"
  by (subst show_nat.simps) simp

lemma Atoi_show_nat: "in_int64 (int n) \<Longrightarrow> Atoi (show_nat n) = Some (int n)"
proof -
  assume n: "in_int64 (int n)"
  obtain c cs where c: "show_nat n = c # cs" by (cases "show_nat n") auto
  then have "48 \<le> (of_char c :: nat) \<and> (of_char c :: nat) \<le> 57"
    using show_nat_digits [of c n] by simp
  then have "c \<noteq> CHR ''-''" and "c \<noteq> CHR ''+''" by auto
  with n c read_digits_show_nat [of n] show ?thesis by (simp add: Atoi_def)
qed

text \<open>Printing and parsing a 64-bit integer is the identity.\<close>

lemma Atoi_FormatInt: "in_int64 i \<Longrightarrow> Atoi (FormatInt i) = Some i"
proof (cases "i < 0")
  case True
  moreover assume "in_int64 i"
  ultimately show ?thesis
    using read_digits_show_nat [of "nat (- i)"] by (simp add: Atoi_def FormatInt_def)
next
  case False
  moreover assume "in_int64 i"
  ultimately show ?thesis using Atoi_show_nat [of "nat i"] by (simp add: FormatInt_def)
qed

end
