(* ===== verification/Float64.thy ===== *)
theory Float64
  imports Go_Strings "HOL-Library.Char_ord"
begin

text \<open>
  Go's \<open>float64\<close> as its 64-bit pattern (IEEE 754 binary64), with the operations the collector
  uses: multiplication and division rounded to nearest even, \<open>strconv.ParseFloat\<close>,
  \<open>strconv.FormatFloat\<close> with the formats \<open>'f'\<close> and \<open>'g'\<close> (the latter is what the verb \<open>%v\<close>
  prints). Finite values are handled as exact integer ratios and rounded once.
\<close>

type_synonym float64 = "64 word"

subsection \<open>Decoding and rounding\<close>

definition f_sign :: "float64 \<Rightarrow> bool" where
  "f_sign x \<longleftrightarrow> 2 ^ 63 \<le> uint x"

definition f_biased :: "float64 \<Rightarrow> int" where
  "f_biased x = uint x div 2 ^ 52 mod 2048"

definition f_frac :: "float64 \<Rightarrow> int" where
  "f_frac x = uint x mod 2 ^ 52"

definition is_nan :: "float64 \<Rightarrow> bool" where
  "is_nan x \<longleftrightarrow> f_biased x = 2047 \<and> f_frac x \<noteq> 0"

definition is_inf :: "float64 \<Rightarrow> bool" where
  "is_inf x \<longleftrightarrow> f_biased x = 2047 \<and> f_frac x = 0"

text \<open>A finite value is \<open>\<plusminus> f_mant x * 2 ^ f_exp x\<close>.\<close>

definition f_mant :: "float64 \<Rightarrow> int" where
  "f_mant x = (if f_biased x = 0 then f_frac x else f_frac x + 2 ^ 52)"

definition f_exp :: "float64 \<Rightarrow> int" where
  "f_exp x = (if f_biased x = 0 then - 1074 else f_biased x - 1075)"

definition f_pack :: "bool \<Rightarrow> int \<Rightarrow> int \<Rightarrow> float64" where
  "f_pack s biased frac = word_of_int ((if s then 2 ^ 63 else 0) + biased * 2 ^ 52 + frac)"

definition f_inf :: "bool \<Rightarrow> float64" where
  "f_inf s = f_pack s 2047 0"

definition f_nan :: float64 where
  "f_nan = f_pack False 2047 (2 ^ 51 + 1)"

definition f_zero :: "bool \<Rightarrow> float64" where
  "f_zero s = f_pack s 0 0"

definition pow2 :: "int \<Rightarrow> int" where
  "pow2 e = 2 ^ nat e"

definition pow10 :: "int \<Rightarrow> int" where
  "pow10 e = 10 ^ nat e"

fun bit_len :: "nat \<Rightarrow> int" where
  "bit_len n = (if n = 0 then 0 else bit_len (n div 2) + 1)"

declare bit_len.simps [simp del]

text \<open>Division rounded to the nearest integer, ties to even.\<close>

definition div_even :: "int \<Rightarrow> int \<Rightarrow> int" where
  "div_even a b = (let q = a div b; r = a mod b in
     if b < 2 * r \<or> (2 * r = b \<and> odd q) then q + 1 else q)"

text \<open>The float nearest to \<open>num / den\<close> for \<open>0 \<le> num\<close> and \<open>0 < den\<close>.\<close>

definition f_round :: "bool \<Rightarrow> int \<Rightarrow> int \<Rightarrow> float64" where
  "f_round s num den =
     (if num = 0 then f_zero s
      else (let e0 = bit_len (nat num) - bit_len (nat den) - 53;
                m0 = num * pow2 (- e0) div (den * pow2 e0);
                e1 = (if 2 ^ 53 \<le> m0 then e0 + 1 else e0);
                e = max e1 (- 1074);
                m = div_even (num * pow2 (- e)) (den * pow2 e);
                (m', e') = (if m = 2 ^ 53 then (2 ^ 52, e + 1) else (m, e))
            in if 971 < e' then f_inf s
               else if m' < 2 ^ 52 then f_pack s 0 m'
               else f_pack s (e' + 1075) (m' - 2 ^ 52)))"

subsection \<open>Arithmetic\<close>

definition f_mul :: "float64 \<Rightarrow> float64 \<Rightarrow> float64" where
  "f_mul x y =
     (let s = (f_sign x \<noteq> f_sign y); e = f_exp x + f_exp y in
      if is_nan x \<or> is_nan y then f_nan
      else if is_inf x \<or> is_inf y then (if f_mant x = 0 \<or> f_mant y = 0 then f_nan else f_inf s)
      else f_round s (f_mant x * f_mant y * pow2 e) (pow2 (- e)))"

definition f_div :: "float64 \<Rightarrow> float64 \<Rightarrow> float64" where
  "f_div x y =
     (let s = (f_sign x \<noteq> f_sign y); e = f_exp x - f_exp y in
      if is_nan x \<or> is_nan y then f_nan
      else if is_inf x then (if is_inf y then f_nan else f_inf s)
      else if is_inf y then f_zero s
      else if f_mant y = 0 then (if f_mant x = 0 then f_nan else f_inf s)
      else f_round s (f_mant x * pow2 e) (f_mant y * pow2 (- e)))"

text \<open>The float of an integer constant.\<close>

definition f_of_int :: "int \<Rightarrow> float64" where
  "f_of_int i = f_round (i < 0) \<bar>i\<bar> 1"

subsection \<open>Formatting\<close>

definition f_num :: "float64 \<Rightarrow> int" where
  "f_num x = f_mant x * pow2 (f_exp x)"

definition f_den :: "float64 \<Rightarrow> int" where
  "f_den x = pow2 (- f_exp x)"

definition show_int :: "int \<Rightarrow> string" where
  "show_int i = show_nat (nat i)"

definition pad0 :: "nat \<Rightarrow> string \<Rightarrow> string" where
  "pad0 n s = replicate (n - length s) (CHR ''0'') @ s"

text \<open>\<open>FormatFloat(x, 'f', p, 64)\<close> for a precision \<open>p \<ge> 0\<close>.\<close>

definition FormatFloat_prec :: "nat \<Rightarrow> float64 \<Rightarrow> string" where
  "FormatFloat_prec p x =
     (if is_nan x then ''NaN''
      else if is_inf x then (if f_sign x then ''-Inf'' else ''+Inf'')
      else (let q = div_even (f_num x * 10 ^ p) (f_den x);
                ip = show_int (q div 10 ^ p)
            in (if f_sign x then ''-'' else []) @ ip @
               (if p = 0 then [] else ''.'' @ pad0 p (show_int (q mod 10 ^ p)))))"

text \<open>
  The shortest decimal digits that round to \<open>x\<close>, as in \<open>strconv\<close>: \<open>f_point\<close> is the position of the
  decimal point (\<open>10 ^ (p - 1) \<le> x < 10 ^ p\<close>); \<open>f_try n\<close> the nearest of the two \<open>n\<close>-digit decimals
  around \<open>x\<close> that reads back as \<open>x\<close>; seventeen digits always do. The smallest positive float is
  above \<open>10 ^ - 324\<close>, so 330 steps of \<open>lead_zeros\<close> are enough.
\<close>

primrec lead_zeros :: "nat \<Rightarrow> int \<Rightarrow> int \<Rightarrow> int" where
  "lead_zeros 0 num den = 0"
| "lead_zeros (Suc n) num den = (if den \<le> num * 10 then 0 else 1 + lead_zeros n (num * 10) den)"

definition f_point :: "float64 \<Rightarrow> int" where
  "f_point x = (let num = f_num x; den = f_den x in
     if den \<le> num then int (length (show_int (num div den))) else - lead_zeros 330 num den)"

definition f_try :: "float64 \<Rightarrow> nat \<Rightarrow> int option" where
  "f_try x n =
     (let k = int n - f_point x; num = f_num x * pow10 k; den = f_den x * pow10 (- k);
          q = num div den; r = num mod den;
          ok = (\<lambda>d. f_round (f_sign x) (d * pow10 (- k)) (pow10 k) = x)
      in if ok q \<and> (\<not> ok (q + 1) \<or> 2 * r < den \<or> (2 * r = den \<and> even q)) then Some q
         else if ok (q + 1) then Some (q + 1) else None)"

fun f_shortest_from :: "float64 \<Rightarrow> nat list \<Rightarrow> int \<times> nat" where
  "f_shortest_from x [] = (0, 17)"
| "f_shortest_from x (n # ns) =
     (case f_try x n of Some d \<Rightarrow> (d, n) | None \<Rightarrow> f_shortest_from x ns)"

text \<open>Digits without trailing zeros and the position of the point, the fields \<open>d\<close> and \<open>dp\<close> of
  \<open>strconv\<close>'s \<open>decimalSlice\<close>.\<close>

definition strip_zeros :: "string \<Rightarrow> string" where
  "strip_zeros s = rev (dropWhile (\<lambda>c. c = CHR ''0'') (rev s))"

definition f_digits :: "float64 \<Rightarrow> string \<times> int" where
  "f_digits x =
     (if f_mant x = 0 then ([], 0)
      else (let (d, n) = f_shortest_from x [1..<18]; s = show_int d
            in (strip_zeros s, f_point x + (int (length s) - int n))))"

definition digits_f :: "string \<Rightarrow> int \<Rightarrow> string" where
  "digits_f ds dp =
     (let nd = length ds in
      (if 0 < dp then take (nat dp) ds @ replicate (nat dp - nd) (CHR ''0'') else ''0'') @
      (if int nd - dp \<le> 0 then []
       else ''.'' @ replicate (nat (- dp)) (CHR ''0'') @ drop (nat dp) ds))"

definition digits_e :: "string \<Rightarrow> int \<Rightarrow> string" where
  "digits_e ds dp =
     (let ex = (if ds = [] then 0 else dp - 1); d0 = (case ds of [] \<Rightarrow> CHR ''0'' | c # _ \<Rightarrow> c) in
      [d0] @ (if length ds > 1 then ''.'' @ tl ds else []) @ ''e'' @
      (if ex < 0 then ''-'' else ''+'') @ pad0 2 (show_int \<bar>ex\<bar>))"

definition f_special :: "float64 \<Rightarrow> string option" where
  "f_special x = (if is_nan x then Some ''NaN''
     else if is_inf x then Some (if f_sign x then ''-Inf'' else ''+Inf'') else None)"

text \<open>\<open>FormatFloat(x, 'f', -1, 64)\<close>.\<close>

definition FormatFloat_f :: "float64 \<Rightarrow> string" where
  "FormatFloat_f x = (case f_special x of Some s \<Rightarrow> s
     | None \<Rightarrow> (let (ds, dp) = f_digits x in (if f_sign x then ''-'' else []) @ digits_f ds dp))"

text \<open>\<open>FormatFloat(x, 'g', -1, 64)\<close>, which is what \<open>fmt\<close> prints for \<open>%v\<close>: the
  exponent form below \<open>10 ^ - 4\<close> and from \<open>10 ^ 6\<close> on.\<close>

definition FormatFloat_v :: "float64 \<Rightarrow> string" where
  "FormatFloat_v x = (case f_special x of Some s \<Rightarrow> s
     | None \<Rightarrow> (let (ds, dp) = f_digits x; ex = dp - 1 in
         (if f_sign x then ''-'' else []) @
         (if ex < - 4 \<or> 6 \<le> ex then digits_e ds dp else digits_f ds dp)))"

subsection \<open>Parsing\<close>

definition is_digit :: "char \<Rightarrow> bool" where
  "is_digit c \<longleftrightarrow> CHR ''0'' \<le> c \<and> c \<le> CHR ''9''"

definition is_hex_letter :: "char \<Rightarrow> bool" where
  "is_hex_letter c \<longleftrightarrow> CHR ''a'' \<le> to_lower c \<and> to_lower c \<le> CHR ''f''"

definition digit_val :: "char \<Rightarrow> int" where
  "digit_val c = (if is_digit c then of_char c - 48 else of_char (to_lower c) - 87)"

text \<open>The mantissa of \<open>readFloat\<close>: digits, one decimal point and underscores; the result is the
  value of the digits, the number of digits after the point, whether a digit and an underscore
  were seen, and the rest of the input.\<close>

fun read_mant :: "bool \<Rightarrow> int \<Rightarrow> int \<Rightarrow> bool \<Rightarrow> bool \<Rightarrow> bool \<Rightarrow> string \<Rightarrow> int \<times> int \<times> bool \<times> bool \<times> string" where
  "read_mant hex m fd dot digs us [] = (m, fd, digs, us, [])"
| "read_mant hex m fd dot digs us (c # cs) =
     (if c = CHR ''_'' then read_mant hex m fd dot digs True cs
      else if c = CHR ''.'' then (if dot then (m, fd, digs, us, c # cs) else read_mant hex m fd True digs us cs)
      else if is_digit c \<or> hex \<and> is_hex_letter c
      then read_mant hex (m * (if hex then 16 else 10) + digit_val c) (if dot then fd + 1 else fd) dot True us cs
      else (m, fd, digs, us, c # cs))"

fun read_exp :: "int \<Rightarrow> bool \<Rightarrow> string \<Rightarrow> int \<times> bool \<times> string" where
  "read_exp e us [] = (e, us, [])"
| "read_exp e us (c # cs) =
     (if c = CHR ''_'' then read_exp e True cs
      else if is_digit c then read_exp (if e < 10000 then e * 10 + digit_val c else e) us cs
      else (e, us, c # cs))"

text \<open>\<open>strconv.underscoreOK\<close>; \<open>saw\<close> is the kind of the last character.\<close>

fun underscore_scan :: "bool \<Rightarrow> char \<Rightarrow> string \<Rightarrow> bool" where
  "underscore_scan hex saw [] \<longleftrightarrow> saw \<noteq> CHR ''_''"
| "underscore_scan hex saw (c # cs) \<longleftrightarrow>
     (if is_digit c \<or> hex \<and> is_hex_letter c then underscore_scan hex (CHR ''0'') cs
      else if c = CHR ''_'' then saw = CHR ''0'' \<and> underscore_scan hex (CHR ''_'') cs
      else saw \<noteq> CHR ''_'' \<and> underscore_scan hex (CHR ''!'') cs)"

definition underscoreOK :: "string \<Rightarrow> bool" where
  "underscoreOK s =
     (let s1 = (case s of c # cs \<Rightarrow> if c = CHR ''-'' \<or> c = CHR ''+'' then cs else s | [] \<Rightarrow> []) in
      case s1 of
        c0 # c1 # cs \<Rightarrow>
          if c0 = CHR ''0'' \<and> (to_lower c1 = CHR ''b'' \<or> to_lower c1 = CHR ''o'' \<or> to_lower c1 = CHR ''x'')
          then underscore_scan (to_lower c1 = CHR ''x'') (CHR ''0'') cs
          else underscore_scan False (CHR ''^'') s1
      | _ \<Rightarrow> underscore_scan False (CHR ''^'') s1)"

text \<open>\<open>strconv.readFloat\<close> on a whole string: sign, numerator and denominator.\<close>

definition read_float :: "string \<Rightarrow> (bool \<times> int \<times> int) option" where
  "read_float s =
     (let (neg, s1) = (case s of [] \<Rightarrow> (False, []) | c # cs \<Rightarrow>
            if c = CHR ''+'' then (False, cs) else if c = CHR ''-'' then (True, cs) else (False, s));
          (hex, s2) = (if HasPrefix (ToLower s1) ''0x'' \<and> 2 < length s1 then (True, drop 2 s1) else (False, s1));
          (m, fd, digs, us, s3) = read_mant hex 0 0 False False False s2
      in if \<not> digs then None
         else (let fd2 = (if hex then 4 * fd else fd);
                   has_exp = (case s3 of [] \<Rightarrow> False | c # _ \<Rightarrow> to_lower c = (if hex then CHR ''p'' else CHR ''e''));
                   (ex, us2, rest, bad) =
                     (if \<not> has_exp then (0, us, s3, hex)
                      else (let t = tl s3;
                                (eneg, t1) = (case t of [] \<Rightarrow> (False, []) | c # cs \<Rightarrow>
                                  if c = CHR ''+'' then (False, cs) else if c = CHR ''-'' then (True, cs) else (False, t))
                            in if t1 = [] \<or> \<not> is_digit (hd t1) then (0, us, t1, True)
                               else (let (e, us', r) = read_exp 0 us t1
                                     in (if eneg then - e else e, us', r, False))));
                   k = ex - fd2
               in if bad \<or> rest \<noteq> [] \<or> us2 \<and> \<not> underscoreOK s then None
                  else if hex then Some (neg, m * pow2 k, pow2 (- k))
                  else Some (neg, m * pow10 k, pow10 (- k))))"

text \<open>\<open>strconv.ParseFloat(s, 64)\<close>; \<open>None\<close> stands for a syntax error or a value out of range.\<close>

definition ParseFloat :: "string \<Rightarrow> float64 option" where
  "ParseFloat s =
     (let u = ToLower s; t = (if HasPrefix u ''+'' \<or> HasPrefix u ''-'' then tl u else u) in
      if t = ''inf'' \<or> t = ''infinity'' then Some (f_inf (HasPrefix u ''-''))
      else if u = ''nan'' then Some f_nan
      else (case read_float s of None \<Rightarrow> None
            | Some (neg, num, den) \<Rightarrow>
                (let x = f_round neg num den in if is_inf x then None else Some x)))"

end
