(* ===== verification/Job_Types.thy ===== *)
theory Job_Types
  imports Float64 "HOL-Library.List_Lexorder" "HOL-Library.Char_ord"
begin

text \<open>
  The data of the collector (\<open>internal/types/job\<close>): jobs, metrics, the protocol
  configurations, collected data, and the operations on jobs: selection of the metrics that
  are due (\<open>ConstructPriorMetrics\<close>), \<open>NextCollectMetrics\<close> and \<open>Clone\<close>.

  Go pointers and maps are references. The objects the collector shares and mutates (the
  protocol configurations and the \<open>map[string]string\<close> objects) live in an explicit heap and
  the records hold their addresses, \<open>None\<close> being \<open>nil\<close>; so what \<open>Clone\<close> copies and what it
  shares is part of the model. A map object is an association list without duplicate keys,
  whose order is the order a \<open>range\<close> loop visits it in. A slice is a list (\<open>nil\<close> and the
  empty slice are not distinguished by the code modelled here).
  Field names carry the name of their struct where Go structs share one.
\<close>

subsection \<open>Values of type interface{} and map objects\<close>

type_synonym addr = nat
type_synonym gomap = "(string \<times> string) list"

record Calculate =
  Calc_Field :: string
  Calc_Script :: string
  Calc_AliasField :: string

record Unit =
  Unit_Field :: string
  Unit_Unit :: string

datatype any =
    ANil
  | ABool bool
  | AInt int64
  | AFloat float64
  | ANumber string
  | AStr string
  | AStrings "string list"
  | ACalculates "Calculate list"
  | AUnits "Unit list"
  | AArr "any list"
  | AObj "(string \<times> any) list"

text \<open>\<open>fmt.Sprintf("%v", x)\<close>: maps are printed in the order of their keys.\<close>

fun Sprintv :: "any \<Rightarrow> string" where
  "Sprintv ANil = ''<nil>''"
| "Sprintv (ABool b) = (if b then ''true'' else ''false'')"
| "Sprintv (AInt i) = FormatInt (sint i)"
| "Sprintv (AFloat x) = FormatFloat_v x"
| "Sprintv (ANumber s) = s"
| "Sprintv (AStr s) = s"
| "Sprintv (AStrings ss) = ''['' @ Join ss '' '' @ '']''"
| "Sprintv (ACalculates cs) = ''['' @ Join (map (\<lambda>c. ''{'' @ Calc_Field c @ '' '' @ Calc_Script c @ '' '' @
     Calc_AliasField c @ ''}'') cs) '' '' @ '']''"
| "Sprintv (AUnits us) = ''['' @ Join (map (\<lambda>u. ''{'' @ Unit_Field u @ '' '' @ Unit_Unit u @ ''}'') us) '' '' @ '']''"
| "Sprintv (AArr xs) = ''['' @ Join (map Sprintv xs) '' '' @ '']''"
| "Sprintv (AObj kvs) = ''map['' @
     Join (map (\<lambda>(k, s). k @ '':'' @ s) (sort_key fst (map (\<lambda>(k, v). (k, Sprintv v)) kvs))) '' '' @ '']''"

text \<open>Assignment \<open>m[k] = v\<close> on a map object.\<close>

fun map_put :: "'k \<Rightarrow> 'v \<Rightarrow> ('k \<times> 'v) list \<Rightarrow> ('k \<times> 'v) list" where
  "map_put k v [] = [(k, v)]"
| "map_put k v ((k', v') # m) = (if k' = k then (k, v) # m else (k', v') # map_put k v m)"

definition map_del :: "'k \<Rightarrow> ('k \<times> 'v) list \<Rightarrow> ('k \<times> 'v) list" where
  "map_del k m = filter (\<lambda>(k', _). k' \<noteq> k) m"

text \<open>Indexing a \<open>map[string]string\<close> gives the empty string for an absent key.\<close>

definition map_get :: "string \<Rightarrow> gomap \<Rightarrow> string" where
  "map_get k m = (case map_of m k of None \<Rightarrow> [] | Some v \<Rightarrow> v)"

lemma map_of_map_put [simp]: "map_of (map_put k v m) = (map_of m)(k \<mapsto> v)"
  by (induction k v m rule: map_put.induct) auto

lemma foldl_put: "map_of (foldl (\<lambda>m e. map_put (f e) (g e) m) m es) = map_of m ++ map_of (rev (map (\<lambda>e. (f e, g e)) es))"
  by (induction es arbitrary: m) simp_all

lemma keys_map_put [simp]: "fst ` set (map_put k v m) = insert k (fst ` set m)"
  by (induction k v m rule: map_put.induct) auto

lemma distinct_map_put [simp, intro]:
  "distinct (map fst m) \<Longrightarrow> distinct (map fst (map_put k v m))"
proof (induction k v m rule: map_put.induct)
  case (2 k v k' v' m)
  then show ?case using keys_map_put [of k v m] by (auto simp: image_iff)
qed simp

lemma map_of_map_del [simp]: "map_of (map_del k m) = (map_of m)(k := None)"
  by (induction m) (auto simp: map_del_def)

subsection \<open>Protocol configurations\<close>

record Authorization =
  Auth_Type :: string
  Auth_BasicAuthUsername :: string
  Auth_BasicAuthPassword :: string
  Auth_DigestAuthUsername :: string
  Auth_DigestAuthPassword :: string
  Auth_BearerTokenToken :: string

record HTTPProtocol =
  HTTP_URL :: string
  HTTP_Method :: string
  HTTP_Headers :: "addr option"
  HTTP_Params :: "addr option"
  HTTP_Body :: string
  HTTP_ParseScript :: string
  HTTP_ParseType :: string
  HTTP_Keyword :: string
  HTTP_Timeout :: string
  HTTP_SSL :: string
  HTTP_Authorization :: "addr option"

record SSHProtocol =
  SSH_Host :: string
  SSH_Port :: string
  SSH_Username :: string
  SSH_Password :: string
  SSH_PrivateKey :: string
  SSH_PrivateKeyPassphrase :: string
  SSH_Script :: string
  SSH_ParseType :: string
  SSH_ParseScript :: string
  SSH_Timeout :: string
  SSH_ReuseConnection :: string
  SSH_UseProxy :: string
  SSH_ProxyHost :: string
  SSH_ProxyPort :: string
  SSH_ProxyUsername :: string
  SSH_ProxyPassword :: string
  SSH_ProxyPrivateKey :: string

record SSHTunnel =
  Tun_Enable :: string
  Tun_Host :: string
  Tun_Port :: string
  Tun_Username :: string
  Tun_Password :: string

record JDBCProtocol =
  JDBC_Host :: string
  JDBC_Port :: string
  JDBC_Platform :: string
  JDBC_Username :: string
  JDBC_Password :: string
  JDBC_Database :: string
  JDBC_Timeout :: string
  JDBC_QueryType :: string
  JDBC_SQL :: string
  JDBC_URL :: string
  JDBC_ReuseConnection :: string
  JDBC_SSHTunnel :: "addr option"

record RedisProtocol =
  Redis_Host :: string
  Redis_Port :: string
  Redis_Username :: string
  Redis_Password :: string
  Redis_Pattern :: string
  Redis_Timeout :: string
  Redis_SSHTunnel :: "addr option"

record MilvusProtocol =
  Milvus_Host :: string
  Milvus_Port :: string
  Milvus_Username :: string
  Milvus_Password :: string
  Milvus_Timeout :: string

subsection \<open>Metrics, jobs and collected data\<close>

record Field =
  Field_Field :: string
  Field_Type :: int
  Field_Label :: bool
  Field_Unit :: string
  Field_Instance :: bool
  Field_Value :: any
  Field_I18n :: any

record Metrics =
  M_Name :: string
  M_I18n :: any
  M_Priority :: int64
  M_CollectTime :: int64
  M_Interval :: int64
  M_Visible :: "bool option"
  M_Fields :: "Field list"
  M_AliasFields :: "string list"
  M_Calculates :: any
  M_Filters :: any
  M_Units :: any
  M_Protocol :: string
  M_Host :: string
  M_Port :: string
  M_Timeout :: string
  M_Range :: string
  M_ConfigMap :: "addr option"
  M_HasSubTask :: bool
  M_HTTP :: "addr option"
  M_SSH :: "addr option"
  M_JDBC :: "addr option"
  M_SNMP :: "addr option"
  M_JMX :: "addr option"
  M_Redis :: "addr option"
  M_MongoDB :: "addr option"
  M_Milvus :: "addr option"

record Configmap =
  Conf_Key :: string
  Conf_Value :: any
  Conf_Type :: int
  Conf_Option :: "string list"

record Depend =
  Dep_Field :: string
  Dep_Values :: "string list"

record ParamDefine =
  PD_ID :: any
  PD_App :: any
  PD_Field :: string
  PD_Name :: any
  PD_Type :: string
  PD_Required :: bool
  PD_DefaultValue :: any
  PD_Placeholder :: string
  PD_Range :: string
  PD_Limit :: int
  PD_Options :: "(string \<times> string) list"
  PD_KeyAlias :: any
  PD_ValueAlias :: any
  PD_Hide :: bool
  PD_Creator :: any
  PD_Modifier :: any
  PD_GmtCreate :: any
  PD_GmtUpdate :: any
  PD_Depend :: "Depend option"

record ValueRow =
  Columns :: "string list"

record CollectRepMetricsData =
  R_ID :: int64
  R_MonitorID :: int64
  R_TenantID :: int64
  R_App :: string
  R_Metrics :: string
  R_Priority :: int64
  R_Time :: int64
  R_Code :: int
  R_Msg :: string
  R_Fields :: "Field list"
  R_Values :: "ValueRow list"
  R_Labels :: gomap
  R_Metadata :: gomap

record MetricsData =
  MD_ID :: int64
  MD_TenantID :: int64
  MD_App :: string
  MD_Metrics :: string
  MD_Priority :: int64
  MD_Time :: int64
  MD_Code :: int
  MD_Msg :: string
  MD_Fields :: "Field list"
  MD_Values :: "ValueRow list"
  MD_Metadata :: gomap
  MD_Labels :: gomap

text \<open>
  A pointer into the backing array of a \<open>[]Metrics\<close> slice: the array and the index.
  \<open>J_MetricsArr\<close> is the array of \<open>J_Metrics\<close>.
\<close>

datatype mptr = MPtr (mptr_arr: addr) (mptr_idx: nat)

record Job =
  J_ID :: int64
  J_TenantID :: int64
  J_MonitorID :: int64
  J_Metadata :: "addr option"
  J_Labels :: "addr option"
  J_Annotations :: "addr option"
  J_Hide :: bool
  J_Category :: string
  J_App :: string
  J_Name :: any
  J_Help :: any
  J_HelpLink :: any
  J_Timestamp :: int64
  J_DefaultInterval :: int64
  J_Intervals :: "int64 list"
  J_IsCyclic :: bool
  J_Params :: "ParamDefine list"
  J_MetricsArr :: addr
  J_Metrics :: "Metrics list"
  J_Configmap :: "Configmap list"
  J_IsSd :: bool
  J_Sd :: bool
  J_PrometheusProxyMode :: bool
  J_Cyclic :: bool
  J_Interval :: int64
  J_EnvConfigmaps :: "(string \<times> Configmap) list option"
  J_DispatchTime :: int64
  J_PriorMetrics :: "mptr list list"
  J_ResponseDataTemp :: "MetricsData list"

text \<open>Zero values, from which the code builds structs with a few fields set.\<close>

definition Metrics0 :: Metrics where
  "Metrics0 = \<lparr>M_Name = [], M_I18n = ANil, M_Priority = 0, M_CollectTime = 0, M_Interval = 0,
     M_Visible = None, M_Fields = [], M_AliasFields = [], M_Calculates = ANil, M_Filters = ANil,
     M_Units = ANil, M_Protocol = [], M_Host = [], M_Port = [], M_Timeout = [], M_Range = [],
     M_ConfigMap = None, M_HasSubTask = False, M_HTTP = None, M_SSH = None, M_JDBC = None,
     M_SNMP = None, M_JMX = None, M_Redis = None, M_MongoDB = None, M_Milvus = None\<rparr>"

definition Job0 :: Job where
  "Job0 = \<lparr>J_ID = 0, J_TenantID = 0, J_MonitorID = 0, J_Metadata = None, J_Labels = None,
     J_Annotations = None, J_Hide = False, J_Category = [], J_App = [], J_Name = ANil,
     J_Help = ANil, J_HelpLink = ANil, J_Timestamp = 0, J_DefaultInterval = 0, J_Intervals = [],
     J_IsCyclic = False, J_Params = [], J_MetricsArr = 0, J_Metrics = [], J_Configmap = [],
     J_IsSd = False, J_Sd = False, J_PrometheusProxyMode = False, J_Cyclic = False,
     J_Interval = 0, J_EnvConfigmaps = None, J_DispatchTime = 0, J_PriorMetrics = [],
     J_ResponseDataTemp = []\<rparr>"

definition Field0 :: Field where
  "Field0 = \<lparr>Field_Field = [], Field_Type = 0, Field_Label = False, Field_Unit = [],
     Field_Instance = False, Field_Value = ANil, Field_I18n = ANil\<rparr>"

definition Data0 :: CollectRepMetricsData where
  "Data0 = \<lparr>R_ID = 0, R_MonitorID = 0, R_TenantID = 0, R_App = [], R_Metrics = [],
     R_Priority = 0, R_Time = 0, R_Code = 0, R_Msg = [], R_Fields = [], R_Values = [],
     R_Labels = [], R_Metadata = []\<rparr>"

subsection \<open>The heap of shared objects\<close>

record Heap =
  maps :: "addr \<rightharpoonup> gomap"
  https :: "addr \<rightharpoonup> HTTPProtocol"
  auths :: "addr \<rightharpoonup> Authorization"
  sshs :: "addr \<rightharpoonup> SSHProtocol"
  jdbcs :: "addr \<rightharpoonup> JDBCProtocol"
  rediss :: "addr \<rightharpoonup> RedisProtocol"
  tunnels :: "addr \<rightharpoonup> SSHTunnel"
  milvuss :: "addr \<rightharpoonup> MilvusProtocol"
  next_addr :: addr

definition alloc_map :: "gomap \<Rightarrow> Heap \<Rightarrow> addr \<times> Heap" where
  "alloc_map m h = (next_addr h, h\<lparr>maps := (maps h)(next_addr h \<mapsto> m), next_addr := Suc (next_addr h)\<rparr>)"

definition alloc_http :: "HTTPProtocol \<Rightarrow> Heap \<Rightarrow> addr \<times> Heap" where
  "alloc_http p h = (next_addr h, h\<lparr>https := (https h)(next_addr h \<mapsto> p), next_addr := Suc (next_addr h)\<rparr>)"

definition alloc_auth :: "Authorization \<Rightarrow> Heap \<Rightarrow> addr \<times> Heap" where
  "alloc_auth p h = (next_addr h, h\<lparr>auths := (auths h)(next_addr h \<mapsto> p), next_addr := Suc (next_addr h)\<rparr>)"

definition alloc_arr :: "Heap \<Rightarrow> addr \<times> Heap" where
  "alloc_arr h = (next_addr h, h\<lparr>next_addr := Suc (next_addr h)\<rparr>)"

lemmas alloc_defs = alloc_map_def alloc_http_def alloc_auth_def alloc_arr_def

text \<open>\<open>keeps b h h'\<close>: \<open>h'\<close> agrees with \<open>h\<close> on every object below address \<open>b\<close>.\<close>

definition keeps :: "addr \<Rightarrow> Heap \<Rightarrow> Heap \<Rightarrow> bool" where
  "keeps b h h' \<longleftrightarrow> next_addr h \<le> next_addr h' \<and>
     (\<forall>a < b. maps h' a = maps h a \<and> https h' a = https h a \<and> auths h' a = auths h a \<and>
        sshs h' a = sshs h a \<and> jdbcs h' a = jdbcs h a \<and> rediss h' a = rediss h a \<and>
        tunnels h' a = tunnels h a \<and> milvuss h' a = milvuss h a)"

text \<open>The same for the objects that \<open>Clone\<close> copies: maps, HTTP configurations, authorizations.\<close>

definition keeps_copied :: "addr \<Rightarrow> Heap \<Rightarrow> Heap \<Rightarrow> bool" where
  "keeps_copied b h h' \<longleftrightarrow> next_addr h \<le> next_addr h' \<and>
     (\<forall>a < b. maps h' a = maps h a \<and> https h' a = https h a \<and> auths h' a = auths h a)"

lemma keeps_refl [simp, intro]: "keeps b h h"
  by (simp add: keeps_def)

lemma keeps_trans [trans]: "keeps b h h' \<Longrightarrow> keeps b h' h'' \<Longrightarrow> keeps b h h''"
  by (auto simp: keeps_def)

lemma keeps_mono: "keeps b h h' \<Longrightarrow> c \<le> b \<Longrightarrow> keeps c h h'"
  by (auto simp: keeps_def)

lemma keeps_next: "keeps b h h' \<Longrightarrow> next_addr h \<le> next_addr h'"
  by (simp add: keeps_def)

lemma keeps_copied_refl [simp, intro]: "keeps_copied b h h"
  by (simp add: keeps_copied_def)

lemma keeps_copied_trans [trans]:
  "keeps_copied b h h' \<Longrightarrow> keeps_copied b h' h'' \<Longrightarrow> keeps_copied b h h''"
  by (auto simp: keeps_copied_def)

lemma keeps_imp_copied: "keeps b h h' \<Longrightarrow> keeps_copied b h h'"
  by (auto simp: keeps_def keeps_copied_def)

end
