(* ===== verification/Job_Ops.thy ===== *)
theory Job_Ops
  imports Job_Types "HOL-Library.Multiset"
begin

text \<open>
  The operations of \<open>types/job/job_types.go\<close> and \<open>metrics_types.go\<close>: which metrics of a job
  are due and in which order of priority.
\<close>

subsection \<open>GetInterval, GetName and NextCollectMetrics\<close>

definition GetInterval :: "Metrics \<Rightarrow> duration" where
  "GetInterval m = (if 0 < sint (M_Interval m) then M_Interval m * Second else 30 * Second)"

text \<open>The name of a parameter, a string or a map from languages to names.\<close>

definition is_AStr :: "any \<Rightarrow> string option" where
  "is_AStr v = (case v of AStr s \<Rightarrow> Some s | _ \<Rightarrow> None)"

definition GetName :: "ParamDefine \<Rightarrow> string" where
  "GetName p =
     (case PD_Name p of
        AStr v \<Rightarrow> v
      | AObj v \<Rightarrow>
          (case Option.bind (map_of v ''en'') is_AStr of
             Some s \<Rightarrow> s
           | None \<Rightarrow> (case List.map_filter (\<lambda>(_, x). is_AStr x) v of [] \<Rightarrow> ''unknown'' | s # _ \<Rightarrow> s))
      | v \<Rightarrow> Sprintv v)"

definition NextCollectMetrics :: "Job \<Rightarrow> mptr list" where
  "NextCollectMetrics j = map (MPtr (J_MetricsArr j)) [0..<length (J_Metrics j)]"

subsection \<open>ConstructPriorMetrics\<close>

definition metric_due :: "int64 \<Rightarrow> Metrics \<Rightarrow> bool" where
  "metric_due now m \<longleftrightarrow> sint (M_CollectTime m + M_Interval m * 1000) \<le> sint now"

definition metric_touch :: "int64 \<Rightarrow> Metrics \<Rightarrow> Metrics" where
  "metric_touch now m =
     (let m' = m\<lparr>M_CollectTime := now\<rparr> in
      if M_AliasFields m = [] \<and> M_Fields m \<noteq> []
      then m'\<lparr>M_AliasFields := map Field_Field (M_Fields m)\<rparr> else m')"

text \<open>The loop over \<open>j.Metrics\<close>; \<open>g\<close> is the map \<open>currentCollectMetrics\<close> from priorities to
  the indices of the metrics selected so far.\<close>

fun collect_due ::
    "int64 \<Rightarrow> nat \<Rightarrow> Metrics list \<Rightarrow> (int64 \<times> nat list) list \<Rightarrow> Metrics list \<times> (int64 \<times> nat list) list"
  where
  "collect_due now i [] g = ([], g)"
| "collect_due now i (m # ms) g =
     (if metric_due now m then
        (let old = (case map_of g (M_Priority m) of None \<Rightarrow> [] | Some l \<Rightarrow> l);
             (ms', g') = collect_due now (Suc i) ms (map_put (M_Priority m) (old @ [i]) g)
         in (metric_touch now m # ms', g'))
      else (let (ms', g') = collect_due now (Suc i) ms g in (m # ms', g')))"

fun first_priority0 :: "nat \<Rightarrow> Metrics list \<Rightarrow> nat option" where
  "first_priority0 i [] = None"
| "first_priority0 i (m # ms) = (if M_Priority m = 0 then Some i else first_priority0 (Suc i) ms)"

definition prior_key :: "Metrics list \<Rightarrow> nat list \<Rightarrow> int" where
  "prior_key ms grp = (case grp of [] \<Rightarrow> 2 ^ 63 - 1 | i # _ \<Rightarrow> sint (M_Priority (ms ! i)))"

definition ConstructPriorMetrics :: "int64 \<Rightarrow> Job \<Rightarrow> Job" where
  "ConstructPriorMetrics now j =
     (let (ms, g) = collect_due now 0 (J_Metrics j) [];
          (ms2, g2) =
            (if g = [] then
               (case first_priority0 0 ms of
                  Some i \<Rightarrow> (ms[i := (ms ! i)\<lparr>M_CollectTime := now\<rparr>], [(0, [i])])
                | None \<Rightarrow> (ms, []))
             else (ms, g))
      in j\<lparr>J_Metrics := ms2,
           J_PriorMetrics := map (map (MPtr (J_MetricsArr j))) (sort_key (prior_key ms2) (map snd g2)),
           J_EnvConfigmaps := (case J_EnvConfigmaps j of None \<Rightarrow> Some [] | e \<Rightarrow> e)\<rparr>)"

subsection \<open>ConstructPriorMetrics against a reference definition\<close>

definition due_indices :: "int64 \<Rightarrow> Metrics list \<Rightarrow> nat list" where
  "due_indices now ms = filter (\<lambda>i. sint (M_CollectTime (ms ! i) + 1000 * M_Interval (ms ! i)) \<le> sint now) [0..<length ms]"

lemma due_indices_eq: "due_indices now ms = filter (\<lambda>i. metric_due now (ms ! i)) [0..<length ms]"
  by (simp add: due_indices_def metric_due_def mult.commute)

definition priority_at :: "Metrics list \<Rightarrow> nat \<Rightarrow> int" where
  "priority_at ms i = sint (M_Priority (ms ! i))"

text \<open>The due metrics grouped by priority, the groups in ascending order.\<close>

definition prior_spec :: "int64 \<Rightarrow> Metrics list \<Rightarrow> nat list list" where
  "prior_spec now ms =
     map (\<lambda>p. filter (\<lambda>i. priority_at ms i = p) (due_indices now ms))
       (sorted_list_of_set (priority_at ms ` set (due_indices now ms)))"

definition default_index :: "Metrics list \<Rightarrow> nat option" where
  "default_index ms = find (\<lambda>i. M_Priority (ms ! i) = 0) [0..<length ms]"

lemma metric_touch_priority [simp]: "M_Priority (metric_touch now m) = M_Priority m"
  by (simp add: metric_touch_def Let_def)

definition add_due :: "(int64 \<times> nat list) list \<Rightarrow> int64 \<times> nat \<Rightarrow> (int64 \<times> nat list) list" where
  "add_due g x = map_put (fst x) ((case map_of g (fst x) of None \<Rightarrow> [] | Some l \<Rightarrow> l) @ [snd x]) g"

lemma collect_due_eq:
  "collect_due now i ms g =
     (map (\<lambda>m. if metric_due now m then metric_touch now m else m) ms,
      foldl add_due g (map (\<lambda>(i, m). (M_Priority m, i)) (filter (\<lambda>(i, m). metric_due now m) (enumerate i ms))))"
  by (induction now i ms g rule: collect_due.induct) (auto simp: Let_def add_due_def split: prod.splits)

lemma enumerate_upt: "enumerate 0 ms = map (\<lambda>i. (i, ms ! i)) [0..<length ms]"
  by (rule nth_equalityI) (auto simp: nth_enumerate_eq)

lemma due_pairs:
  "map (\<lambda>(i, m). (M_Priority m, i)) (filter (\<lambda>(i, m). metric_due now m) (enumerate 0 ms)) =
   map (\<lambda>i. (M_Priority (ms ! i), i)) (due_indices now ms)"
  by (simp add: enumerate_upt due_indices_eq filter_map comp_def)

lemma foldl_add_due:
  "map_of (foldl add_due g l) p =
     (if p \<in> fst ` set l
      then Some ((case map_of g p of None \<Rightarrow> [] | Some x \<Rightarrow> x) @ map snd (filter (\<lambda>x. fst x = p) l))
      else map_of g p)"
  by (induction l arbitrary: g) (auto simp: add_due_def filter_empty_conv image_iff split: option.splits)

lemma foldl_add_due_distinct:
  "distinct (map fst g) \<Longrightarrow> distinct (map fst (foldl add_due g l))"
  by (induction l arbitrary: g) (simp_all add: add_due_def distinct_map_put)

lemma sort_key_distinct_keys:
  assumes d: "distinct (map k xs)" and f: "\<And>x. x \<in> set xs \<Longrightarrow> f (k x) = x"
  shows "sort_key k xs = map f (sorted_list_of_set (k ` set xs))"
proof -
  have "distinct (map k (sort_key k xs))"
    using d by (simp add: distinct_map inj_on_def)
  then have "map k (sort_key k xs) = sorted_list_of_set (k ` set xs)"
    by (intro sorted_distinct_set_unique) simp_all
  then have "map f (map k (sort_key k xs)) = map f (sorted_list_of_set (k ` set xs))"
    by simp
  moreover have "map f (map k (sort_key k xs)) = sort_key k xs"
    unfolding map_map by (intro map_idI) (simp add: f)
  ultimately show ?thesis by simp
qed

text \<open>The groups built by the loop: one per priority of a due metric, holding its indices in order.\<close>

definition due_groups :: "int64 \<Rightarrow> Metrics list \<Rightarrow> (int64 \<times> nat list) list" where
  "due_groups now ms = foldl add_due [] (map (\<lambda>i. (M_Priority (ms ! i), i)) (due_indices now ms))"

lemma collect_due_groups: "snd (collect_due now 0 ms []) = due_groups now ms"
  by (simp add: collect_due_eq due_pairs due_groups_def)

lemma due_groups_mem:
  "(p, l) \<in> set (due_groups now ms) \<longleftrightarrow>
     p \<in> (\<lambda>i. M_Priority (ms ! i)) ` set (due_indices now ms) \<and>
     l = filter (\<lambda>i. M_Priority (ms ! i) = p) (due_indices now ms)"
proof -
  have "distinct (map fst (due_groups now ms))"
    by (simp add: due_groups_def foldl_add_due_distinct)
  then have "(p, l) \<in> set (due_groups now ms) \<longleftrightarrow> map_of (due_groups now ms) p = Some l"
    by (metis map_of_eq_Some_iff)
  then show ?thesis
    by (auto simp: due_groups_def foldl_add_due filter_map comp_def image_iff)
qed

lemma due_groups_keys:
  "fst ` set (due_groups now ms) = (\<lambda>i. M_Priority (ms ! i)) ` set (due_indices now ms)"
  unfolding dom_map_of_conv_image_fst [symmetric]
  by (auto simp: due_groups_def foldl_add_due dom_def image_iff)

lemma due_groups_Nil: "due_groups now ms = [] \<longleftrightarrow> due_indices now ms = []"
  using due_groups_keys [of now ms] by (metis image_is_empty set_empty)

lemma prior_key_groups:
  assumes same: "\<And>i. i < length ms \<Longrightarrow> M_Priority (ms' ! i) = M_Priority (ms ! i)"
    and mem: "(p, l) \<in> set (due_groups now ms)"
  shows "prior_key ms' l = sint p" and "l = filter (\<lambda>i. priority_at ms i = sint p) (due_indices now ms)"
proof -
  from mem have l: "l = filter (\<lambda>i. M_Priority (ms ! i) = p) (due_indices now ms)"
    and p: "p \<in> (\<lambda>i. M_Priority (ms ! i)) ` set (due_indices now ms)"
    by (simp_all add: due_groups_mem)
  show "l = filter (\<lambda>i. priority_at ms i = sint p) (due_indices now ms)"
    using l by (simp add: priority_at_def sint_eq_iff64)
  from l p have "l \<noteq> []" by (auto simp: filter_empty_conv)
  then have "hd l \<in> set l" by simp
  then have "M_Priority (ms ! hd l) = p" and "hd l < length ms"
    using l by (auto simp: due_indices_eq)
  with same \<open>l \<noteq> []\<close> show "prior_key ms' l = sint p"
    by (cases l) (simp_all add: prior_key_def)
qed

lemma sort_due_groups:
  assumes same: "\<And>i. i < length ms \<Longrightarrow> M_Priority (ms' ! i) = M_Priority (ms ! i)"
  shows "sort_key (prior_key ms') (map snd (due_groups now ms)) = prior_spec now ms"
proof -
  let ?g = "due_groups now ms"
  have key: "prior_key ms' (snd x) = sint (fst x)" if "x \<in> set ?g" for x
    using prior_key_groups(1) [OF same, of "fst x" "snd x" now] that by simp
  have eq: "map (prior_key ms') (map snd ?g) = map sint (map fst ?g)"
    using key by simp
  have "distinct (map fst ?g)"
    by (simp add: due_groups_def foldl_add_due_distinct)
  then have "distinct (map (prior_key ms') (map snd ?g))"
    unfolding eq by (simp add: distinct_map inj_on_def sint_eq_iff64)
  moreover have "filter (\<lambda>i. priority_at ms i = prior_key ms' l) (due_indices now ms) = l"
    if "l \<in> set (map snd ?g)" for l
  proof -
    from that obtain p where "(p, l) \<in> set ?g" by auto
    from prior_key_groups [OF same this] show ?thesis by simp
  qed
  ultimately have "sort_key (prior_key ms') (map snd ?g) =
      map (\<lambda>p. filter (\<lambda>i. priority_at ms i = p) (due_indices now ms))
        (sorted_list_of_set (prior_key ms' ` set (map snd ?g)))"
    by (intro sort_key_distinct_keys) auto
  moreover have "prior_key ms' ` set (map snd ?g) = sint ` fst ` set ?g"
    using arg_cong [OF eq, of set] by (simp add: image_image)
  moreover have "fst ` set ?g = (\<lambda>i. M_Priority (ms ! i)) ` set (due_indices now ms)"
    by (rule due_groups_keys)
  ultimately show ?thesis
    by (simp add: prior_spec_def priority_at_def image_image)
qed

lemma find_map: "find P (map f xs) = map_option f (find (\<lambda>x. P (f x)) xs)"
  by (induction xs) auto

lemma default_index_Cons:
  "default_index (m # ms) = (if M_Priority m = 0 then Some 0 else map_option Suc (default_index ms))"
proof -
  have "[0..<length (m # ms)] = 0 # map Suc [0..<length ms]"
    by (simp add: upt_conv_Cons map_Suc_upt del: upt_Suc)
  then show ?thesis
    by (simp add: default_index_def find_map del: upt_Suc)
qed

lemma first_priority0_eq:
  "first_priority0 k ms = map_option (\<lambda>i. i + k) (default_index ms)"
proof (induction ms arbitrary: k)
  case Nil
  then show ?case by (simp add: default_index_def)
next
  case (Cons m ms)
  then show ?case
    by (simp add: default_index_Cons option.map_comp comp_def)
qed

lemma map_touch_none:
  "due_indices now ms = [] \<Longrightarrow> map (\<lambda>m. if metric_due now m then metric_touch now m else m) ms = ms"
  by (auto simp: due_indices_eq filter_empty_conv in_set_conv_nth intro!: map_idI)

text \<open>C11: \<open>ConstructPriorMetrics\<close> computes the reference grouping. The metrics whose interval in seconds has passed since they
  were last collected are partitioned by priority, the groups ascend in priority and keep the order of the job; when
  no metric is due, the only group is the first metric of priority 0, if there is one.\<close>

theorem construct_prior_metrics:
  "J_PriorMetrics (ConstructPriorMetrics now j) =
     map (map (MPtr (J_MetricsArr j)))
       (if due_indices now (J_Metrics j) \<noteq> [] then prior_spec now (J_Metrics j)
        else (case default_index (J_Metrics j) of None \<Rightarrow> [] | Some i \<Rightarrow> [[i]]))"
proof (cases "due_indices now (J_Metrics j) = []")
  case True
  then have "collect_due now 0 (J_Metrics j) [] = (J_Metrics j, [])"
    by (simp add: collect_due_eq due_pairs map_touch_none)
  with True show ?thesis
    by (simp add: ConstructPriorMetrics_def first_priority0_eq split: option.splits)
next
  case False
  let ?ms = "map (\<lambda>m. if metric_due now m then metric_touch now m else m) (J_Metrics j)"
  have "collect_due now 0 (J_Metrics j) [] = (?ms, due_groups now (J_Metrics j))"
    by (simp add: collect_due_eq due_pairs due_groups_def)
  moreover have "sort_key (prior_key ?ms) (map snd (due_groups now (J_Metrics j))) = prior_spec now (J_Metrics j)"
    by (rule sort_due_groups) simp
  ultimately show ?thesis
    using False by (simp add: ConstructPriorMetrics_def due_groups_Nil)
qed

text \<open>\<open>ConstructPriorMetrics\<close> stamps exactly the selected metrics. A due metric gets the
  current time and, if it has none, the names of its fields as alias fields; when nothing is
  due, only the default metric is stamped; every other metric is unchanged.\<close>

theorem construct_prior_stamps:
  "J_Metrics (ConstructPriorMetrics now j) =
     (if due_indices now (J_Metrics j) \<noteq> []
      then map (\<lambda>m. if metric_due now m then metric_touch now m else m) (J_Metrics j)
      else (case default_index (J_Metrics j) of None \<Rightarrow> J_Metrics j
            | Some i \<Rightarrow> (J_Metrics j)[i := (J_Metrics j ! i)\<lparr>M_CollectTime := now\<rparr>]))"
proof (cases "due_indices now (J_Metrics j) = []")
  case True
  then have "collect_due now 0 (J_Metrics j) [] = (J_Metrics j, [])"
    by (simp add: collect_due_eq due_pairs map_touch_none)
  with True show ?thesis
    by (simp add: ConstructPriorMetrics_def first_priority0_eq split: option.splits)
next
  case False
  then show ?thesis
    by (simp add: ConstructPriorMetrics_def collect_due_eq due_pairs due_groups_def [symmetric] due_groups_Nil)
qed

text \<open>The groups lose and duplicate nothing: together they hold every due metric exactly
  once, and their priorities strictly increase.\<close>

lemma prior_spec_partition:
  "mset (concat (prior_spec now ms)) = mset (due_indices now ms) \<and>
   sorted_wrt (\<lambda>g h. \<forall>i \<in> set g. \<forall>k \<in> set h. priority_at ms i < priority_at ms k) (prior_spec now ms)"
proof
  let ?D = "due_indices now ms" and ?S = "sorted_list_of_set (priority_at ms ` set (due_indices now ms))"
  have count: "count (mset (concat (map (\<lambda>p. filter (\<lambda>i. priority_at ms i = p) ?D) ps))) x =
      (if priority_at ms x \<in> set ps then count (mset ?D) x else 0)" if "distinct ps" for ps x
    using that by (induction ps) (auto simp: count_mset_0_iff)
  show "mset (concat (prior_spec now ms)) = mset ?D"
  proof (rule multiset_eqI)
    fix x
    show "count (mset (concat (prior_spec now ms))) x = count (mset ?D) x"
      unfolding prior_spec_def by (subst count) (auto simp: count_mset_0_iff)
  qed
  have "sorted_wrt (<) ?S" by simp
  then show "sorted_wrt (\<lambda>g h. \<forall>i \<in> set g. \<forall>k \<in> set h. priority_at ms i < priority_at ms k) (prior_spec now ms)"
    unfolding prior_spec_def sorted_wrt_map by (rule sorted_wrt_mono_rel [rotated]) auto
qed

end
