(* ===== verification/Time_Dispatch.thy ===== *)
theory Time_Dispatch
  imports Wheel_Timer Job_Ops
begin

text \<open>
  The scheduler: \<open>TimeDispatch\<close> (\<open>job/dispatcher/time_wheel.go\<close>) and the task it puts into the wheel,
  \<open>WheelTimerTask\<close> (\<open>job/dispatcher/wheel_timer_task.go\<close>).

  Jobs are shared by pointer between the scheduler, its tasks and the job server: a job pointer is
  an index into the list of jobs, which the operations read. Timeout pointers are indices into the
  objects of the timer. The concurrent maps are association lists; a stored \<open>None\<close> is a nil pointer.
  The present time is an argument of every operation that reads the clock.
\<close>

subsection \<open>State\<close>

record JobInfo =
  ji_Job :: nat
  ji_Timeout :: "nat option"
  ji_CreatedAt :: time
  ji_LastExecutedAt :: "time option"
  ji_NextExecutionAt :: "time option"
  ji_ExecutionCount :: int64

text \<open>\<open>None\<close> is the zero time.\<close>

record DispatcherStats =
  st_StartTime :: time
  st_TotalJobsAdded :: int64
  st_TotalJobsRemoved :: int64
  st_TotalJobsExecuted :: int64
  st_TotalJobsCompleted :: int64
  st_TotalJobsFailed :: int64
  st_LastExecutionTime :: "time option"

record WheelTimerTask =
  wtt_job :: "nat option"

record TimeDispatch =
  td_wheelTimer :: "WheelTimerTask hashedWheelTimer"
  td_cyclicTasks :: "(int64 \<times> nat option) list"
  td_tempTasks :: "(int64 \<times> nat option) list"
  td_jobInfos :: "(int64 \<times> JobInfo) list"
  td_started :: bool
  td_stats :: DispatcherStats
  td_statsLogging :: bool

text \<open>Reading a job through a pointer.\<close>

definition job_at :: "Job list \<Rightarrow> nat \<Rightarrow> Job" where
  "job_at jobs p = (if p < length jobs then jobs ! p else Job0)"

subsection \<open>Operations of the scheduler\<close>

definition NewTimeDispatch :: "time \<Rightarrow> TimeDispatch" where
  "NewTimeDispatch now = \<lparr>td_wheelTimer = NewHashedWheelTimer 512 (100 * Millisecond),
     td_cyclicTasks = [], td_tempTasks = [], td_jobInfos = [], td_started = False,
     td_stats = \<lparr>st_StartTime = now, st_TotalJobsAdded = 0, st_TotalJobsRemoved = 0, st_TotalJobsExecuted = 0,
       st_TotalJobsCompleted = 0, st_TotalJobsFailed = 0, st_LastExecutionTime = None\<rparr>,
     td_statsLogging = False\<rparr>"

definition NewWheelTimerTask :: "nat option \<Rightarrow> WheelTimerTask" where
  "NewWheelTimerTask job = \<lparr>wtt_job = job\<rparr>"

definition first_delay :: "Job \<Rightarrow> duration" where
  "first_delay job = (if 0 < sint (J_DefaultInterval job) then J_DefaultInterval job * Millisecond else 10 * Second)"

text \<open>The result is the returned error (\<open>None\<close> for nil) and the new state, or a panic.\<close>

definition AddJob :: "Job list \<Rightarrow> time \<Rightarrow> nat option \<Rightarrow> TimeDispatch \<Rightarrow> (string option \<times> TimeDispatch) outcome" where
  "AddJob jobs now jp td =
     (case jp of None \<Rightarrow> Inr (Some ''job cannot be nil'', td)
      | Some p \<Rightarrow>
          (let job = job_at jobs p;
               stats = (td_stats td)\<lparr>st_TotalJobsAdded := st_TotalJobsAdded (td_stats td) + 1\<rparr>;
               delay = first_delay job
           in case NewTimeout (NewWheelTimerTask (Some p)) delay now (td_wheelTimer td) of
                Inl e \<Rightarrow> Inl e
              | Inr (timeout, w) \<Rightarrow>
                  (let info = \<lparr>ji_Job = p, ji_Timeout = timeout, ji_CreatedAt = now, ji_LastExecutedAt = None,
                         ji_NextExecutionAt = Some (now + sint delay), ji_ExecutionCount = 0\<rparr>;
                       td1 = td\<lparr>td_stats := stats, td_wheelTimer := w,
                                td_jobInfos := map_put (J_ID job) info (td_jobInfos td)\<rparr>
                   in Inr (None, if J_IsCyclic job
                        then td1\<lparr>td_cyclicTasks := map_put (J_ID job) timeout (td_cyclicTasks td)\<rparr>
                        else td1\<lparr>td_tempTasks := map_put (J_ID job) timeout (td_tempTasks td)\<rparr>))))"

text \<open>Cancelling through a stored pointer panics when it is nil.\<close>

definition cancel_ptr :: "nat option \<Rightarrow> 'a hashedWheelTimer \<Rightarrow> 'a hashedWheelTimer outcome" where
  "cancel_ptr t w = (case t of None \<Rightarrow> Inl NilDereference | Some a \<Rightarrow> Inr (cancel_at a w))"

definition RemoveJob :: "int64 \<Rightarrow> TimeDispatch \<Rightarrow> (string option \<times> TimeDispatch) outcome" where
  "RemoveJob jobID td =
     (let td1 = td\<lparr>td_stats := (td_stats td)\<lparr>st_TotalJobsRemoved := st_TotalJobsRemoved (td_stats td) + 1\<rparr>\<rparr> in
      case map_of (td_cyclicTasks td) jobID of
        Some timeout \<Rightarrow>
          (case cancel_ptr timeout (td_wheelTimer td) of Inl e \<Rightarrow> Inl e
           | Inr w \<Rightarrow> Inr (None, td1\<lparr>td_cyclicTasks := map_del jobID (td_cyclicTasks td), td_wheelTimer := w,
                                    td_jobInfos := map_del jobID (td_jobInfos td)\<rparr>))
      | None \<Rightarrow>
          (case map_of (td_tempTasks td) jobID of
             Some timeout \<Rightarrow>
               (case cancel_ptr timeout (td_wheelTimer td) of Inl e \<Rightarrow> Inl e
                | Inr w \<Rightarrow> Inr (None, td1\<lparr>td_tempTasks := map_del jobID (td_tempTasks td), td_wheelTimer := w,
                                         td_jobInfos := map_del jobID (td_jobInfos td)\<rparr>))
           | None \<Rightarrow> Inr (Some (''job not found: '' @ FormatInt (sint jobID)), td1)))"

definition startStatsLogging :: "TimeDispatch \<Rightarrow> TimeDispatch" where
  "startStatsLogging td = td\<lparr>td_statsLogging := True\<rparr>"

definition stopStatsLogging :: "TimeDispatch \<Rightarrow> TimeDispatch" where
  "stopStatsLogging td = td\<lparr>td_statsLogging := False\<rparr>"

definition td_Start :: "time \<Rightarrow> TimeDispatch \<Rightarrow> string option \<times> TimeDispatch" where
  "td_Start now td =
     (if td_started td then (Some ''time dispatcher already started'', td)
      else (None, (startStatsLogging (td\<lparr>td_wheelTimer := Start now (td_wheelTimer td)\<rparr>))\<lparr>td_started := True\<rparr>))"

fun cancel_all :: "nat option list \<Rightarrow> 'a hashedWheelTimer \<Rightarrow> 'a hashedWheelTimer outcome" where
  "cancel_all [] w = Inr w"
| "cancel_all (t # ts) w = (case cancel_ptr t w of Inl e \<Rightarrow> Inl e | Inr w' \<Rightarrow> cancel_all ts w')"

definition td_Stop :: "TimeDispatch \<Rightarrow> TimeDispatch outcome" where
  "td_Stop td =
     (if \<not> td_started td then Inr td
      else (case cancel_all (map snd (td_cyclicTasks td) @ map snd (td_tempTasks td)) (td_wheelTimer td) of
              Inl e \<Rightarrow> Inl e
            | Inr w \<Rightarrow>
                (case Stop w of Inl e \<Rightarrow> Inl e
                 | Inr w' \<Rightarrow> Inr ((stopStatsLogging td)\<lparr>td_cyclicTasks := [], td_tempTasks := [],
                      td_jobInfos := [], td_wheelTimer := w', td_started := False\<rparr>))))"

definition RecordJobExecution :: "time \<Rightarrow> TimeDispatch \<Rightarrow> TimeDispatch" where
  "RecordJobExecution now td = td\<lparr>td_stats := (td_stats td)
     \<lparr>st_TotalJobsExecuted := st_TotalJobsExecuted (td_stats td) + 1, st_LastExecutionTime := Some now\<rparr>\<rparr>"

definition RecordJobCompleted :: "TimeDispatch \<Rightarrow> TimeDispatch" where
  "RecordJobCompleted td = td\<lparr>td_stats := (td_stats td)\<lparr>st_TotalJobsCompleted := st_TotalJobsCompleted (td_stats td) + 1\<rparr>\<rparr>"

definition RecordJobFailed :: "TimeDispatch \<Rightarrow> TimeDispatch" where
  "RecordJobFailed td = td\<lparr>td_stats := (td_stats td)\<lparr>st_TotalJobsFailed := st_TotalJobsFailed (td_stats td) + 1\<rparr>\<rparr>"

definition UpdateJobExecution :: "Job list \<Rightarrow> time \<Rightarrow> int64 \<Rightarrow> TimeDispatch \<Rightarrow> TimeDispatch" where
  "UpdateJobExecution jobs now jobID td =
     (case map_of (td_jobInfos td) jobID of None \<Rightarrow> td
      | Some info \<Rightarrow>
          (let job = job_at jobs (ji_Job info);
               info1 = info\<lparr>ji_LastExecutedAt := Some now, ji_ExecutionCount := ji_ExecutionCount info + 1\<rparr>;
               info2 = (if J_IsCyclic job \<and> 0 < sint (J_DefaultInterval job)
                        then info1\<lparr>ji_NextExecutionAt := Some (now + sint (J_DefaultInterval job * Second))\<rparr> else info1)
           in td\<lparr>td_jobInfos := map_put jobID info2 (td_jobInfos td)\<rparr>))"

definition next_delay :: "Job \<Rightarrow> duration" where
  "next_delay job = J_DefaultInterval job * Second"

definition RescheduleJob :: "Job list \<Rightarrow> time \<Rightarrow> nat \<Rightarrow> TimeDispatch \<Rightarrow> (string option \<times> TimeDispatch) outcome" where
  "RescheduleJob jobs now p td =
     (let job = job_at jobs p in
      if \<not> J_IsCyclic job \<or> sint (J_DefaultInterval job) \<le> 0
      then Inr (Some ''job is not cyclable or has invalid interval'', td)
      else (let nextDelay = next_delay job in
        case NewTimeout (NewWheelTimerTask (Some p)) nextDelay now (td_wheelTimer td) of
          Inl e \<Rightarrow> Inl e
        | Inr (timeout, w) \<Rightarrow>
            (let infos = (case map_of (td_jobInfos td) (J_ID job) of None \<Rightarrow> td_jobInfos td
                 | Some info \<Rightarrow> map_put (J_ID job)
                     (info\<lparr>ji_NextExecutionAt := Some (now + sint nextDelay), ji_Timeout := timeout\<rparr>) (td_jobInfos td))
             in Inr (None, td\<lparr>td_wheelTimer := w, td_cyclicTasks := map_put (J_ID job) timeout (td_cyclicTasks td),
                              td_jobInfos := infos\<rparr>))))"

subsection \<open>Statistics\<close>

record StatsView =
  sv_cyclicJobs :: nat
  sv_tempJobs :: nat
  sv_started :: bool
  sv_uptime :: int
  sv_totalJobsAdded :: int64
  sv_totalJobsRemoved :: int64
  sv_totalJobsExecuted :: int64
  sv_totalJobsCompleted :: int64
  sv_totalJobsFailed :: int64
  sv_lastExecutionTime :: "time option"

definition Stats :: "time \<Rightarrow> TimeDispatch \<Rightarrow> StatsView" where
  "Stats now td = (let st = td_stats td in
     \<lparr>sv_cyclicJobs = length (td_cyclicTasks td), sv_tempJobs = length (td_tempTasks td),
      sv_started = td_started td, sv_uptime = now - st_StartTime st,
      sv_totalJobsAdded = st_TotalJobsAdded st, sv_totalJobsRemoved = st_TotalJobsRemoved st,
      sv_totalJobsExecuted = st_TotalJobsExecuted st, sv_totalJobsCompleted = st_TotalJobsCompleted st,
      sv_totalJobsFailed = st_TotalJobsFailed st, sv_lastExecutionTime = st_LastExecutionTime st\<rparr>)"

text \<open>The report of \<open>logStatistics\<close>; durations are kept as numbers instead of their printed form.\<close>

datatype since = Never | Since int

datatype until = Unknown | Overdue | After int

record CyclicDetail =
  cd_jobID :: int64
  cd_app :: string
  cd_monitorID :: int64
  cd_interval :: int64
  cd_createdAt :: time
  cd_lastExecuted :: "time option"
  cd_nextExecution :: "time option"
  cd_execCount :: int64
  cd_timeSinceLastExec :: since
  cd_timeToNextExec :: until

record TempDetail =
  tp_jobID :: int64
  tp_app :: string
  tp_monitorID :: int64
  tp_createdAt :: time
  tp_nextExecution :: "time option"
  tp_execCount :: int64

record StatsReport =
  rep_stats :: StatsView
  rep_total :: nat
  rep_timer :: TimerStats
  rep_cyclicJobs :: "CyclicDetail list"
  rep_tempJobs :: "TempDetail list"

definition cyclic_detail :: "Job list \<Rightarrow> time \<Rightarrow> int64 \<Rightarrow> JobInfo \<Rightarrow> CyclicDetail" where
  "cyclic_detail jobs now jobID info = (let job = job_at jobs (ji_Job info) in
     \<lparr>cd_jobID = jobID, cd_app = J_App job, cd_monitorID = J_MonitorID job, cd_interval = J_DefaultInterval job,
      cd_createdAt = ji_CreatedAt info, cd_lastExecuted = ji_LastExecutedAt info,
      cd_nextExecution = ji_NextExecutionAt info, cd_execCount = ji_ExecutionCount info,
      cd_timeSinceLastExec = (case ji_LastExecutedAt info of None \<Rightarrow> Never | Some t \<Rightarrow> Since (now - t)),
      cd_timeToNextExec = (case ji_NextExecutionAt info of None \<Rightarrow> Unknown
        | Some t \<Rightarrow> if t < now then Overdue else After (t - now))\<rparr>)"

definition temp_detail :: "Job list \<Rightarrow> int64 \<Rightarrow> JobInfo \<Rightarrow> TempDetail" where
  "temp_detail jobs jobID info = (let job = job_at jobs (ji_Job info) in
     \<lparr>tp_jobID = jobID, tp_app = J_App job, tp_monitorID = J_MonitorID job, tp_createdAt = ji_CreatedAt info,
      tp_nextExecution = ji_NextExecutionAt info, tp_execCount = ji_ExecutionCount info\<rparr>)"

definition logStatistics :: "Job list \<Rightarrow> time \<Rightarrow> TimeDispatch \<Rightarrow> StatsReport" where
  "logStatistics jobs now td =
     (let stats = Stats now td; infos = map_of (td_jobInfos td) in
      \<lparr>rep_stats = stats, rep_total = sv_cyclicJobs stats + sv_tempJobs stats,
       rep_timer = GetStats (td_wheelTimer td),
       rep_cyclicJobs = List.map_filter (\<lambda>(k, _). map_option (cyclic_detail jobs now k) (infos k)) (td_cyclicTasks td),
       rep_tempJobs = List.map_filter (\<lambda>(k, _). map_option (temp_detail jobs k) (infos k)) (td_tempTasks td)\<rparr>)"

subsection \<open>The timer task\<close>

text \<open>
  \<open>Run\<close> in two parts, before and after the call of the metrics dispatcher, because other operations
  of the scheduler may happen during that call. \<open>run_finish\<close> takes the error it returned.
\<close>

definition run_begin :: "Job list \<Rightarrow> time \<Rightarrow> nat \<Rightarrow> TimeDispatch \<Rightarrow> TimeDispatch" where
  "run_begin jobs now p td = UpdateJobExecution jobs now (J_ID (job_at jobs p)) (RecordJobExecution now td)"

definition rescheduleJob :: "Job list \<Rightarrow> time \<Rightarrow> nat \<Rightarrow> TimeDispatch \<Rightarrow> TimeDispatch outcome" where
  "rescheduleJob jobs now p td =
     (if sint (J_DefaultInterval (job_at jobs p)) \<le> 0 then Inr td
      else (case RescheduleJob jobs now p td of Inl e \<Rightarrow> Inl e | Inr (err, td') \<Rightarrow> Inr td'))"

definition run_finish :: "Job list \<Rightarrow> time \<Rightarrow> nat \<Rightarrow> string option \<Rightarrow> TimeDispatch \<Rightarrow> (string option \<times> TimeDispatch) outcome" where
  "run_finish jobs now p err td =
     (case err of Some e \<Rightarrow> Inr (Some e, RecordJobFailed td)
      | None \<Rightarrow>
          (let td1 = RecordJobCompleted td; job = job_at jobs p in
           if J_IsCyclic job \<and> 0 < sint (J_DefaultInterval job)
           then (case rescheduleJob jobs now p td1 of Inl e \<Rightarrow> Inl e | Inr td2 \<Rightarrow> Inr (None, td2))
           else Inr (None, td1)))"

text \<open>The whole of \<open>Run\<close> when nothing else happens meanwhile; the dispatcher works on the jobs and on
  a state of its own.\<close>

definition Run :: "(nat \<Rightarrow> nat \<Rightarrow> Job list \<times> 'w \<Rightarrow> string option \<times> (Job list \<times> 'w)) \<Rightarrow> time \<Rightarrow> time \<Rightarrow>
    WheelTimerTask \<Rightarrow> nat \<Rightarrow> TimeDispatch \<times> Job list \<times> 'w \<Rightarrow> (string option \<times> TimeDispatch \<times> Job list \<times> 'w) outcome" where
  "Run DispatchMetricsTask start fin wtt timeout = (\<lambda>(td, jobs, world).
     case wtt_job wtt of None \<Rightarrow> Inr (Some ''job is nil, cannot execute'', td, jobs, world)
     | Some p \<Rightarrow>
         (case DispatchMetricsTask p timeout (jobs, world) of (err, jobs', world') \<Rightarrow>
            (case run_finish jobs' fin p err (run_begin jobs start p td) of
               Inl e \<Rightarrow> Inl e
             | Inr (err', td') \<Rightarrow> Inr (err', td', jobs', world'))))"

end
