(* ===== verification/Scheduler.thy ===== *)
theory Scheduler
  imports Time_Dispatch
begin

text \<open>
  The scheduler as a state machine: the operations of \<open>TimeDispatch\<close>, the ticks of its timer and the
  executions of the tasks that have fired, in any order. An execution is a goroutine: it is first
  spawned by the tick, then begins, and ends some time later with the result of the metrics
  dispatcher. The main invariant says that no cyclic job is lost.
\<close>

subsection \<open>Steps\<close>

record Sched =
  sc_td :: TimeDispatch
  sc_jobs :: "Job list"
  sc_spawned :: "nat list"
  sc_running :: "nat list"
  sc_failed :: "nat list"

abbreviation sc_wheel :: "Sched \<Rightarrow> WheelTimerTask hashedWheelTimer" where
  "sc_wheel s \<equiv> td_wheelTimer (sc_td s)"

definition task_of :: "WheelTimerTask hashedWheelTimer \<Rightarrow> nat \<Rightarrow> nat option" where
  "task_of w a = wtt_job (to_task (hwt_timeouts w ! a))"

text \<open>Intervals up to about 126 years, so that durations do not overflow.\<close>

definition sane :: "Job \<Rightarrow> bool" where
  "sane job \<longleftrightarrow> sint (J_DefaultInterval job) \<le> 4000000000"

text \<open>What an execution may change in a job: everything but the fields the scheduler reads.\<close>

definition same_schedule :: "Job \<Rightarrow> Job \<Rightarrow> bool" where
  "same_schedule j j' \<longleftrightarrow> J_ID j' = J_ID j \<and> J_IsCyclic j' = J_IsCyclic j \<and> J_DefaultInterval j' = J_DefaultInterval j"

definition early :: "'a hashedWheelTimer \<Rightarrow> bool" where
  "early w \<longleftrightarrow> tick_no w < 2 ^ 62"

inductive sched_step :: "Sched \<Rightarrow> Sched \<Rightarrow> bool" where
  receive: "sched_step s (s\<lparr>sc_jobs := sc_jobs s @ [job]\<rparr>)"
| add: "p < length (sc_jobs s) \<Longrightarrow> sane (job_at (sc_jobs s) p) \<Longrightarrow> early (sc_wheel s) \<Longrightarrow>
    AddJob (sc_jobs s) now (Some p) (sc_td s) = Inr (err, td') \<Longrightarrow> sched_step s (s\<lparr>sc_td := td'\<rparr>)"
| remove: "RemoveJob jobID (sc_td s) = Inr (err, td') \<Longrightarrow> sched_step s (s\<lparr>sc_td := td'\<rparr>)"
| start: "sched_step s (s\<lparr>sc_td := snd (td_Start now (sc_td s))\<rparr>)"
| stop: "td_Stop (sc_td s) = Inr td' \<Longrightarrow> sched_step s (s\<lparr>sc_td := td'\<rparr>)"
| ticked: "hwt_running (sc_wheel s) \<Longrightarrow> early (sc_wheel s) \<Longrightarrow> tick (sc_wheel s) = Inr (fired, w') \<Longrightarrow>
    sched_step s (s\<lparr>sc_td := (sc_td s)\<lparr>td_wheelTimer := w'\<rparr>, sc_spawned := sc_spawned s @ fired\<rparr>)"
| began: "a \<in> set (sc_spawned s) \<Longrightarrow> task_of (sc_wheel s) a = Some p \<Longrightarrow>
    sched_step s (s\<lparr>sc_td := run_begin (sc_jobs s) now p (sc_td s), sc_spawned := remove1 a (sc_spawned s),
                    sc_running := a # sc_running s\<rparr>)"
| worked: "list_all2 same_schedule (sc_jobs s) jobs' \<Longrightarrow> sched_step s (s\<lparr>sc_jobs := jobs'\<rparr>)"
| ended: "a \<in> set (sc_running s) \<Longrightarrow> task_of (sc_wheel s) a = Some p \<Longrightarrow> early (sc_wheel s) \<Longrightarrow>
    run_finish (sc_jobs s) now p err (sc_td s) = Inr (err', td') \<Longrightarrow>
    sched_step s (s\<lparr>sc_td := td', sc_running := remove1 a (sc_running s),
                    sc_failed := (if err = None then sc_failed s else a # sc_failed s)\<rparr>)"

inductive_cases sched_stepE: "sched_step s s'"

definition sched_init :: "time \<Rightarrow> Sched" where
  "sched_init now = \<lparr>sc_td = NewTimeDispatch now, sc_jobs = [], sc_spawned = [], sc_running = [], sc_failed = []\<rparr>"

definition sched_reachable :: "time \<Rightarrow> Sched \<Rightarrow> bool" where
  "sched_reachable now s \<longleftrightarrow> sched_step\<^sup>*\<^sup>* (sched_init now) s"

subsection \<open>The invariant\<close>

definition task_ok :: "Job list \<Rightarrow> WheelTimerTask hashedWheelTimer \<Rightarrow> nat \<Rightarrow> bool" where
  "task_ok jobs w a \<longleftrightarrow> (\<exists>p. task_of w a = Some p \<and> p < length jobs \<and> sane (job_at jobs p))"

definition entry_ok :: "Job list \<Rightarrow> WheelTimerTask hashedWheelTimer \<Rightarrow> bool \<Rightarrow> int64 \<Rightarrow> nat \<Rightarrow> bool" where
  "entry_ok jobs w cyc jobID a \<longleftrightarrow> a < length (hwt_timeouts w) \<and>
     (\<exists>p. task_of w a = Some p \<and> J_ID (job_at jobs p) = jobID \<and> J_IsCyclic (job_at jobs p) = cyc)"

text \<open>The task of \<open>a\<close> repeats.\<close>

definition repeats :: "Job list \<Rightarrow> WheelTimerTask hashedWheelTimer \<Rightarrow> nat \<Rightarrow> bool" where
  "repeats jobs w a \<longleftrightarrow> (\<exists>p. task_of w a = Some p \<and> 0 < sint (J_DefaultInterval (job_at jobs p)))"

text \<open>The timeout waits in the wheel, its execution is under way, or its execution failed.\<close>

definition alive :: "Sched \<Rightarrow> nat \<Rightarrow> bool" where
  "alive s a \<longleftrightarrow> (\<exists>d. (a, d) \<in> pending (sc_wheel s)) \<or> a \<in> set (sc_spawned s) \<or> a \<in> set (sc_running s) \<or> a \<in> set (sc_failed s)"

definition wheel_inv :: "WheelTimerTask hashedWheelTimer \<Rightarrow> bool" where
  "wheel_inv w \<longleftrightarrow> wheel_ok w \<and> hwt_tickDuration w = 100 * Millisecond \<and> tick_no w \<le> 2 ^ 62"

definition tasks_inv :: "Sched \<Rightarrow> bool" where
  "tasks_inv s \<longleftrightarrow> (\<forall>a < length (hwt_timeouts (sc_wheel s)). task_ok (sc_jobs s) (sc_wheel s) a) \<and>
     set (sc_spawned s) \<union> set (sc_running s) \<subseteq> {..<length (hwt_timeouts (sc_wheel s))}"

definition entries_inv :: "Sched \<Rightarrow> bool" where
  "entries_inv s \<longleftrightarrow>
     (\<forall>k a. map_of (td_cyclicTasks (sc_td s)) k = Some (Some a) \<longrightarrow> entry_ok (sc_jobs s) (sc_wheel s) True k a) \<and>
     (\<forall>k a. map_of (td_tempTasks (sc_td s)) k = Some (Some a) \<longrightarrow> entry_ok (sc_jobs s) (sc_wheel s) False k a)"

definition none_lost :: "Sched \<Rightarrow> bool" where
  "none_lost s \<longleftrightarrow> (\<forall>k a. map_of (td_cyclicTasks (sc_td s)) k = Some (Some a) \<longrightarrow>
     repeats (sc_jobs s) (sc_wheel s) a \<longrightarrow> alive s a)"

definition sched_ok :: "Sched \<Rightarrow> bool" where
  "sched_ok s \<longleftrightarrow> wheel_inv (sc_wheel s) \<and> tasks_inv s \<and> entries_inv s \<and> none_lost s"

lemmas sched_defs = sched_ok_def wheel_inv_def tasks_inv_def entries_inv_def none_lost_def

subsection \<open>Creating a timeout\<close>

lemma sane_first_delay:
  assumes "sane job"
  shows "0 \<le> sint (first_delay job)" and "sint (first_delay job) \<le> 4000000000000000000"
proof -
  have "0 \<le> sint (J_DefaultInterval job * Millisecond) \<and> sint (J_DefaultInterval job * Millisecond) \<le> 4000000000000000000"
    if "0 < sint (J_DefaultInterval job)"
  proof -
    have ms: "sint Millisecond = 1000000" by (simp add: Millisecond_def)
    have "sint (J_DefaultInterval job * Millisecond) = sint (J_DefaultInterval job) * 1000000"
      using that assms by (simp add: sint_mult64 ms in_int64_def sane_def)
    with that assms show ?thesis by (simp add: sane_def)
  qed
  moreover have "sint (10 * Second) = 10000000000" by (simp add: Second_def)
  ultimately show "0 \<le> sint (first_delay job)" and "sint (first_delay job) \<le> 4000000000000000000"
    by (simp_all add: first_delay_def)
qed

lemma sane_next_delay:
  assumes "sane job" and "0 < sint (J_DefaultInterval job)"
  shows "sint (next_delay job) = sint (J_DefaultInterval job) * 1000000000"
    and "0 \<le> sint (next_delay job)" and "sint (next_delay job) \<le> 4000000000000000000"
proof -
  have s: "sint Second = 1000000000" by (simp add: Second_def)
  show "sint (next_delay job) = sint (J_DefaultInterval job) * 1000000000"
    using assms by (simp add: next_delay_def sint_mult64 s in_int64_def sane_def)
  then show "0 \<le> sint (next_delay job)" and "sint (next_delay job) \<le> 4000000000000000000"
    using assms by (simp_all add: sane_def)
qed

lemma delay_in_range:
  assumes inv: "wheel_inv w" and e: "early w" and d: "0 \<le> sint delay" "sint delay \<le> 4000000000000000000"
  shows "in_int64 (tick_no w + sint delay div sint (hwt_tickDuration w))"
proof -
  have ms: "sint (100 * Millisecond) = 100000000" by (simp add: Millisecond_def)
  have "sint delay div 100000000 \<le> 40000000000" using zdiv_mono1 [OF d(2), of 100000000] by simp
  moreover have "0 \<le> sint delay div 100000000" using d(1) by simp
  moreover have "0 \<le> tick_no w" using inv by (simp add: wheel_inv_def wheel_ok_def)
  ultimately show ?thesis
    using inv e by (simp add: wheel_inv_def early_def in_int64_def ms)
qed

lemma new_timeout_total:
  assumes inv: "wheel_inv w" and e: "early w" and d: "0 \<le> sint delay" "sint delay \<le> 4000000000000000000"
  shows "\<exists>t w'. NewTimeout task delay now w = Inr (t, w')"
proof (cases "hwt_stopped w")
  case False
  obtain b t where "NewTimeout task delay now w = Inr (Some (length (hwt_timeouts w)), add_timeout b t w)"
    using NewTimeout_spec [OF _ False d(1) delay_in_range [OF inv e d], of task now] inv unfolding wheel_inv_def by blast
  then show ?thesis by blast
qed (simp add: NewTimeout_def)

lemma new_timeout_cases:
  assumes inv: "wheel_inv w" and e: "early w" and d: "0 \<le> sint delay" "sint delay \<le> 4000000000000000000"
    and nt: "NewTimeout task delay now w = Inr (t, w')"
  obtains "hwt_stopped w" "t = None" "w' = w"
    | b to where "t = Some (length (hwt_timeouts w))" "w' = add_timeout b to w" "wheel_inv (add_timeout b to w)"
      "b < length (hwt_wheel w)" "to_task to = task" "\<not> hwt_stopped w"
      "pending w' = insert (length (hwt_timeouts w), tick_no w + delay_ticks delay w) (pending w)"
proof (cases "hwt_stopped w")
  case True
  with nt have "t = None" "w' = w" by (simp_all add: NewTimeout_def)
  with True show thesis by (rule that(1))
next
  case False
  note delay_in_range [OF inv e d]
  then obtain b to where r: "NewTimeout task delay now w = Inr (Some (length (hwt_timeouts w)), add_timeout b to w)"
    "wheel_ok (add_timeout b to w)" "b < length (hwt_wheel w)" "to_task to = task"
    "pending (add_timeout b to w) = insert (length (hwt_timeouts w), tick_no w + delay_ticks delay w) (pending w)"
    using NewTimeout_spec [OF _ False d(1), of task now] inv unfolding wheel_inv_def by blast
  then have "wheel_inv (add_timeout b to w)" using inv by (simp add: wheel_inv_def)
  moreover have "t = Some (length (hwt_timeouts w))" "w' = add_timeout b to w" using r(1) nt by simp_all
  ultimately show thesis using that(2) r(3,4,5) False by blast
qed

subsection \<open>Preservation\<close>

lemma task_of_add:
  "a < length (hwt_timeouts w) \<Longrightarrow> task_of (add_timeout b t w) a = task_of w a"
  "task_of (add_timeout b t w) (length (hwt_timeouts w)) = wtt_job (to_task t)"
  by (simp_all add: task_of_def nth_append)

lemma task_of_same:
  "map to_task (hwt_timeouts w') = map to_task (hwt_timeouts w) \<Longrightarrow> a < length (hwt_timeouts w) \<Longrightarrow>
   task_of w' a = task_of w a"
  unfolding task_of_def by (metis length_map nth_map)

text \<open>Steps that only change the jobs, or the timeouts without their tasks.\<close>

definition jobs_le :: "Job list \<Rightarrow> Job list \<Rightarrow> bool" where
  "jobs_le jobs jobs' \<longleftrightarrow> length jobs \<le> length jobs' \<and> (\<forall>p < length jobs. same_schedule (job_at jobs p) (job_at jobs' p))"

lemma task_ok_mono:
  "task_ok jobs w a \<Longrightarrow> jobs_le jobs jobs' \<Longrightarrow> task_of w' a = task_of w a \<Longrightarrow> task_ok jobs' w' a"
  by (auto simp: task_ok_def jobs_le_def same_schedule_def sane_def)

lemma entry_ok_mono:
  assumes "entry_ok jobs w cyc k a" and "task_ok jobs w a" and "jobs_le jobs jobs'"
    and "task_of w' a = task_of w a" and "length (hwt_timeouts w) \<le> length (hwt_timeouts w')"
  shows "entry_ok jobs' w' cyc k a"
  using assms by (auto simp: entry_ok_def task_ok_def jobs_le_def same_schedule_def)

lemma repeats_mono:
  "task_ok jobs w a \<Longrightarrow> jobs_le jobs jobs' \<Longrightarrow> task_of w' a = task_of w a \<Longrightarrow> repeats jobs' w' a \<Longrightarrow> repeats jobs w a"
  by (auto simp: task_ok_def repeats_def jobs_le_def same_schedule_def)

lemma jobs_le_refl [simp]: "jobs_le jobs jobs"
  by (simp add: jobs_le_def same_schedule_def)

lemma jobs_le_append: "jobs_le jobs (jobs @ [job])"
  by (simp add: jobs_le_def same_schedule_def job_at_def nth_append)

lemma jobs_le_same: "list_all2 same_schedule jobs jobs' \<Longrightarrow> jobs_le jobs jobs'"
  by (simp add: jobs_le_def job_at_def list_all2_conv_all_nth)

text \<open>The general step: the tasks of the existing timeouts and the schedule of the jobs are kept, and a
  stored pointer is either new and alive or comes from before and has not lost its life.\<close>

lemma sched_ok_preserved:
  assumes ok: "sched_ok s" and w: "wheel_inv (sc_wheel s')" and jobs: "jobs_le (sc_jobs s) (sc_jobs s')"
    and len: "length (hwt_timeouts (sc_wheel s)) \<le> length (hwt_timeouts (sc_wheel s'))"
    and tasks: "\<And>a. a < length (hwt_timeouts (sc_wheel s)) \<Longrightarrow> task_of (sc_wheel s') a = task_of (sc_wheel s) a"
    and new: "\<And>a. length (hwt_timeouts (sc_wheel s)) \<le> a \<Longrightarrow> a < length (hwt_timeouts (sc_wheel s')) \<Longrightarrow>
       task_ok (sc_jobs s') (sc_wheel s') a"
    and active: "set (sc_spawned s') \<union> set (sc_running s') \<subseteq> {..<length (hwt_timeouts (sc_wheel s'))}"
    and cyc: "\<And>k a. map_of (td_cyclicTasks (sc_td s')) k = Some (Some a) \<Longrightarrow>
       entry_ok (sc_jobs s') (sc_wheel s') True k a \<and> alive s' a \<or>
       map_of (td_cyclicTasks (sc_td s)) k = Some (Some a) \<and>
         (repeats (sc_jobs s) (sc_wheel s) a \<longrightarrow> alive s a \<longrightarrow> alive s' a)"
    and tmp: "\<And>k a. map_of (td_tempTasks (sc_td s')) k = Some (Some a) \<Longrightarrow>
       entry_ok (sc_jobs s') (sc_wheel s') False k a \<or> map_of (td_tempTasks (sc_td s)) k = Some (Some a)"
  shows "sched_ok s'"
proof -
  let ?w = "sc_wheel s" and ?w' = "sc_wheel s'"
  have tk: "task_ok (sc_jobs s) ?w a" if "a < length (hwt_timeouts ?w)" for a
    using that ok by (simp add: sched_defs)
  have old: "entry_ok (sc_jobs s') ?w' c k a" "task_ok (sc_jobs s) ?w a" "task_of ?w' a = task_of ?w a"
    if e: "entry_ok (sc_jobs s) ?w c k a" for c k a
  proof -
    have a: "a < length (hwt_timeouts ?w)" using e by (simp add: entry_ok_def)
    show "entry_ok (sc_jobs s') ?w' c k a" by (rule entry_ok_mono [OF e tk [OF a] jobs tasks [OF a] len])
    show "task_ok (sc_jobs s) ?w a" "task_of ?w' a = task_of ?w a" using tk tasks a by blast+
  qed
  have ents: "map_of (td_cyclicTasks (sc_td s)) k = Some (Some a) \<Longrightarrow> entry_ok (sc_jobs s) ?w True k a"
    "map_of (td_tempTasks (sc_td s)) k = Some (Some a) \<Longrightarrow> entry_ok (sc_jobs s) ?w False k a"
    "map_of (td_cyclicTasks (sc_td s)) k = Some (Some a) \<Longrightarrow> repeats (sc_jobs s) ?w a \<Longrightarrow> alive s a" for k a
    using ok by (simp_all add: sched_defs)
  have "task_ok (sc_jobs s') ?w' a" if "a < length (hwt_timeouts ?w')" for a
    using that new task_ok_mono [OF tk jobs tasks] by (cases "a < length (hwt_timeouts ?w)") auto
  with active have "tasks_inv s'" by (simp add: tasks_inv_def)
  moreover have "entries_inv s'"
    unfolding entries_inv_def using cyc tmp old(1) ents(1,2) by blast
  moreover have "none_lost s'"
    unfolding none_lost_def
  proof (intro allI impI)
    fix k a
    assume m: "map_of (td_cyclicTasks (sc_td s')) k = Some (Some a)" and r: "repeats (sc_jobs s') ?w' a"
    from cyc [OF m] show "alive s' a"
    proof
      assume c: "map_of (td_cyclicTasks (sc_td s)) k = Some (Some a) \<and>
         (repeats (sc_jobs s) (sc_wheel s) a \<longrightarrow> alive s a \<longrightarrow> alive s' a)"
      then have "repeats (sc_jobs s) ?w a" using repeats_mono [OF old(2) jobs old(3) r] ents(1) by blast
      with c ents(3) show "alive s' a" by blast
    qed simp
  qed
  ultimately show ?thesis using w by (simp add: sched_ok_def)
qed

text \<open>The special case of steps that create no timeout.\<close>

lemma sched_ok_frame:
  assumes ok: "sched_ok s" and "wheel_inv (sc_wheel s')" and "jobs_le (sc_jobs s) (sc_jobs s')"
    and tasks: "map to_task (hwt_timeouts (sc_wheel s')) = map to_task (hwt_timeouts (sc_wheel s))"
    and "set (sc_spawned s') \<union> set (sc_running s') \<subseteq> {..<length (hwt_timeouts (sc_wheel s))}"
    and "\<And>k a. map_of (td_cyclicTasks (sc_td s')) k = Some (Some a) \<Longrightarrow>
       map_of (td_cyclicTasks (sc_td s)) k = Some (Some a) \<and> (repeats (sc_jobs s) (sc_wheel s) a \<longrightarrow> alive s a \<longrightarrow> alive s' a)"
    and "\<And>k a. map_of (td_tempTasks (sc_td s')) k = Some (Some a) \<Longrightarrow> map_of (td_tempTasks (sc_td s)) k = Some (Some a)"
  shows "sched_ok s'"
proof -
  have len: "length (hwt_timeouts (sc_wheel s')) = length (hwt_timeouts (sc_wheel s))" using tasks by (metis length_map)
  show ?thesis
    by (rule sched_ok_preserved [OF ok assms(2,3)]) (use assms(5-7) task_of_same [OF tasks] len in auto)
qed

subsection \<open>The steps preserve the invariant\<close>

lemma active_allocated:
  "sched_ok s \<Longrightarrow> a \<in> set (sc_spawned s) \<union> set (sc_running s) \<Longrightarrow> a < length (hwt_timeouts (sc_wheel s))"
  by (auto simp: sched_defs)

definition wheel_data :: "'a hashedWheelTimer \<Rightarrow> nat list list \<times> 'a Timeout list \<times> int64 \<times> int64 \<times> duration" where
  "wheel_data w = (hwt_wheel w, hwt_timeouts w, hwt_currentTick w, hwt_wheelSize w, hwt_tickDuration w)"

lemma wheel_data_cong:
  assumes "wheel_data w' = wheel_data w"
  shows "pending w' = pending w" "wheel_ok w' = wheel_ok w" "tick_no w' = tick_no w" "hwt_timeouts w' = hwt_timeouts w"
    "hwt_tickDuration w' = hwt_tickDuration w"
proof -
  have *: "hwt_wheel w' = hwt_wheel w" "hwt_timeouts w' = hwt_timeouts w" "hwt_currentTick w' = hwt_currentTick w"
    "hwt_wheelSize w' = hwt_wheelSize w" "hwt_tickDuration w' = hwt_tickDuration w"
    using assms by (simp_all add: wheel_data_def)
  have "wheel_index w' = wheel_index w" by (simp add: wheel_index_def * fun_eq_iff)
  moreover from this have "in_bucket_ok w' = in_bucket_ok w" by (simp add: in_bucket_ok_def * fun_eq_iff)
  ultimately show "pending w' = pending w" "wheel_ok w' = wheel_ok w" "tick_no w' = tick_no w" "hwt_timeouts w' = hwt_timeouts w"
      "hwt_tickDuration w' = hwt_tickDuration w"
    by (simp_all add: wheel_ok_def pending_def waiting_def is_cancelled_def due_of_def tick_no_def *)
qed

lemma wheel_inv_cong: "wheel_data w' = wheel_data w \<Longrightarrow> wheel_inv w' = wheel_inv w"
  by (simp add: wheel_inv_def wheel_data_cong [of w' w])

lemma sched_okD:
  "sched_ok s \<Longrightarrow> wheel_inv (sc_wheel s)" "sched_ok s \<Longrightarrow> wheel_ok (sc_wheel s)"
  "sched_ok s \<Longrightarrow> set (sc_spawned s) \<union> set (sc_running s) \<subseteq> {..<length (hwt_timeouts (sc_wheel s))}"
  by (simp_all add: sched_defs)

text \<open>Steps that leave the timeouts as they are.\<close>

definition active :: "Sched \<Rightarrow> nat set" where
  "active s = set (sc_spawned s) \<union> set (sc_running s) \<union> set (sc_failed s)"

lemma alive_iff: "alive s a \<longleftrightarrow> (\<exists>d. (a, d) \<in> pending (sc_wheel s)) \<or> a \<in> active s"
  by (auto simp: alive_def active_def)

lemma sched_ok_same_wheel:
  assumes ok: "sched_ok s" and d: "wheel_data (sc_wheel s') = wheel_data (sc_wheel s)"
    and "jobs_le (sc_jobs s) (sc_jobs s')"
    and act: "set (sc_spawned s') \<union> set (sc_running s') \<subseteq> set (sc_spawned s) \<union> set (sc_running s)"
    and cyc: "\<And>k a. map_of (td_cyclicTasks (sc_td s')) k = Some (Some a) \<Longrightarrow>
       map_of (td_cyclicTasks (sc_td s)) k = Some (Some a) \<and>
       (repeats (sc_jobs s) (sc_wheel s) a \<longrightarrow> a \<in> active s \<longrightarrow> a \<in> active s')"
    and tmp: "\<And>k a. map_of (td_tempTasks (sc_td s')) k = Some (Some a) \<Longrightarrow> map_of (td_tempTasks (sc_td s)) k = Some (Some a)"
  shows "sched_ok s'"
proof (rule sched_ok_frame [OF ok _ assms(3) _ _ _ tmp])
  show "wheel_inv (sc_wheel s')" using sched_okD(1) [OF ok] wheel_inv_cong [OF d] by simp
  show "map to_task (hwt_timeouts (sc_wheel s')) = map to_task (hwt_timeouts (sc_wheel s))"
    by (simp add: wheel_data_cong(4) [OF d])
  show "set (sc_spawned s') \<union> set (sc_running s') \<subseteq> {..<length (hwt_timeouts (sc_wheel s))}"
    using act sched_okD(3) [OF ok] by blast
  show "map_of (td_cyclicTasks (sc_td s)) k = Some (Some a) \<and> (repeats (sc_jobs s) (sc_wheel s) a \<longrightarrow> alive s a \<longrightarrow> alive s' a)"
    if "map_of (td_cyclicTasks (sc_td s')) k = Some (Some a)" for k a
    using cyc [OF that] by (auto simp: alive_iff wheel_data_cong(1) [OF d])
qed

lemma sched_ok_start:
  assumes ok: "sched_ok s"
  shows "sched_ok (s\<lparr>sc_td := snd (td_Start now (sc_td s))\<rparr>)"
  by (rule sched_ok_same_wheel [OF ok])
    (auto simp: active_def td_Start_def startStatsLogging_def Start_def wheel_data_def split: if_splits)

lemma sched_ok_jobs:
  assumes ok: "sched_ok s" and "jobs_le (sc_jobs s) jobs'"
  shows "sched_ok (s\<lparr>sc_jobs := jobs'\<rparr>)"
  by (rule sched_ok_same_wheel [OF ok]) (use assms(2) in \<open>auto simp: active_def\<close>)

lemma run_begin_fields:
  "td_wheelTimer (run_begin jobs now p td) = td_wheelTimer td"
  "td_cyclicTasks (run_begin jobs now p td) = td_cyclicTasks td"
  "td_tempTasks (run_begin jobs now p td) = td_tempTasks td"
  by (simp_all add: run_begin_def UpdateJobExecution_def RecordJobExecution_def Let_def split: option.split)

lemma in_set_remove1: "x \<in> set xs \<Longrightarrow> x = a \<or> x \<in> set (remove1 a xs)"
  by (induction xs) auto

lemma sched_ok_began:
  assumes ok: "sched_ok s" and a: "a \<in> set (sc_spawned s)"
  shows "sched_ok (s\<lparr>sc_td := run_begin (sc_jobs s) now p (sc_td s), sc_spawned := remove1 a (sc_spawned s),
                    sc_running := a # sc_running s\<rparr>)"
proof (rule sched_ok_same_wheel [OF ok])
  show "set (sc_spawned (s\<lparr>sc_td := run_begin (sc_jobs s) now p (sc_td s), sc_spawned := remove1 a (sc_spawned s),
      sc_running := a # sc_running s\<rparr>)) \<union> set (sc_running (s\<lparr>sc_td := run_begin (sc_jobs s) now p (sc_td s),
      sc_spawned := remove1 a (sc_spawned s), sc_running := a # sc_running s\<rparr>)) \<subseteq> set (sc_spawned s) \<union> set (sc_running s)"
    using a set_remove1_subset [of a "sc_spawned s"] by auto
qed (use in_set_remove1 [of _ "sc_spawned s" a] in \<open>auto simp: run_begin_fields active_def wheel_data_def\<close>)

lemma cancel_wheel:
  assumes "wheel_inv w"
  shows "wheel_inv (cancel_at a w)" and "map to_task (hwt_timeouts (cancel_at a w)) = map to_task (hwt_timeouts w)"
    and "pending (cancel_at a w) \<supseteq> {(x, d) \<in> pending w. x \<noteq> a}"
proof -
  have "wheel_inv (cancel_at a w) \<and> map to_task (hwt_timeouts (cancel_at a w)) = map to_task (hwt_timeouts w) \<and>
     pending (cancel_at a w) \<supseteq> {(x, d) \<in> pending w. x \<noteq> a}"
  proof (cases "a < length (hwt_timeouts w)")
    case True
    have "wheel_ok w" using assms by (simp add: wheel_inv_def)
    note c = cancel_spec [OF this True]
    have "hwt_tickDuration (cancel_at a w) = hwt_tickDuration w" by (simp add: cancel_at_def)
    with assms show ?thesis by (simp add: wheel_inv_def c)
  next
    case False
    then have "cancel_at a w = w" by (simp add: cancel_at_def list_update_beyond)
    with assms show ?thesis by auto
  qed
  then show "wheel_inv (cancel_at a w)" "map to_task (hwt_timeouts (cancel_at a w)) = map to_task (hwt_timeouts w)"
    "pending (cancel_at a w) \<supseteq> {(x, d) \<in> pending w. x \<noteq> a}" by blast+
qed

lemma cancel_all_spec:
  "wheel_inv w \<Longrightarrow> cancel_all ts w = Inr w' \<Longrightarrow>
   wheel_inv w' \<and> map to_task (hwt_timeouts w') = map to_task (hwt_timeouts w)"
proof (induction ts arbitrary: w)
  case (Cons t ts)
  from Cons.prems(2) obtain a where "t = Some a" and c: "cancel_all ts (cancel_at a w) = Inr w'"
    by (cases t) (simp_all add: cancel_ptr_def)
  with Cons.IH [OF cancel_wheel(1) [OF Cons.prems(1)] c] cancel_wheel(2) [OF Cons.prems(1)] show ?case by simp
qed simp

lemma Stop_same: "Stop w = Inr w' \<Longrightarrow> wheel_data w' = wheel_data w"
  by (auto simp: Stop_def wheel_data_def split: if_splits)

lemma entry_allocated:
  "sched_ok s \<Longrightarrow> map_of (td_cyclicTasks (sc_td s)) k = Some (Some a) \<Longrightarrow> a < length (hwt_timeouts (sc_wheel s))"
  "sched_ok s \<Longrightarrow> map_of (td_tempTasks (sc_td s)) k = Some (Some a) \<Longrightarrow> a < length (hwt_timeouts (sc_wheel s))"
  by (auto simp: sched_defs entry_ok_def)

lemma sched_ok_stop:
  assumes ok: "sched_ok s" and st: "td_Stop (sc_td s) = Inr td'"
  shows "sched_ok (s\<lparr>sc_td := td'\<rparr>)"
proof (cases "td_started (sc_td s)")
  case False
  with st have "td' = sc_td s" by (simp add: td_Stop_def)
  with ok show ?thesis by simp
next
  case True
  with st obtain w w' where c: "cancel_all (map snd (td_cyclicTasks (sc_td s)) @ map snd (td_tempTasks (sc_td s))) (sc_wheel s) = Inr w"
    and w': "Stop w = Inr w'"
    and td': "td' = (stopStatsLogging (sc_td s))\<lparr>td_cyclicTasks := [], td_tempTasks := [],
                      td_jobInfos := [], td_wheelTimer := w', td_started := False\<rparr>"
    by (auto simp: td_Stop_def split: sum.splits)
  note sp = cancel_all_spec [OF sched_okD(1) [OF ok] c]
  note sw = Stop_same [OF w']
  show ?thesis
    by (rule sched_ok_frame [OF ok])
      (use sp sched_okD(3) [OF ok] in \<open>auto simp: td' wheel_inv_cong [OF sw] wheel_data_cong(4) [OF sw]\<close>)
qed

lemma tick_tickDuration: "tick w = Inr (f, w') \<Longrightarrow> hwt_tickDuration w' = hwt_tickDuration w"
  by (auto simp: tick_def Let_def split: sum.splits)

lemma sched_ok_ticked:
  assumes ok: "sched_ok s" and e: "early (sc_wheel s)" and t: "tick (sc_wheel s) = Inr (fired, w')"
  shows "sched_ok (s\<lparr>sc_td := (sc_td s)\<lparr>td_wheelTimer := w'\<rparr>, sc_spawned := sc_spawned s @ fired\<rparr>)"
proof -
  let ?w = "sc_wheel s"
  have room: "0 < room ?w" using e by (simp add: room_def early_def)
  note sp = tick_spec [OF sched_okD(2) [OF ok] room t]
  have fired: "set fired \<subseteq> {..<length (hwt_timeouts ?w)}"
    using sp(4) waiting_allocated [OF sched_okD(2) [OF ok]] by (auto simp: pending_iff)
  have inv: "wheel_inv w'"
    using sp(1,2) e sched_okD(1) [OF ok] tick_tickDuration [OF t] by (simp add: wheel_inv_def early_def)
  have keep: "(\<exists>d. (a, d) \<in> pending w') \<or> a \<in> set fired" if "(a, d) \<in> pending ?w" for a d
    using that unfolding sp(4,5) by (cases "d = tick_no ?w + 1") auto
  show ?thesis
    by (rule sched_ok_frame [OF ok])
      (use inv fired sched_okD(3) [OF ok] keep in \<open>auto simp: sp(6) alive_def\<close>)
qed

lemma entries:
  assumes "sched_ok s"
  shows "map_of (td_cyclicTasks (sc_td s)) k = Some (Some a) \<Longrightarrow> entry_ok (sc_jobs s) (sc_wheel s) True k a"
    and "map_of (td_tempTasks (sc_td s)) k = Some (Some a) \<Longrightarrow> entry_ok (sc_jobs s) (sc_wheel s) False k a"
  using assms by (simp_all add: sched_defs)

text \<open>A pointer determines the job and so the map and the key it is stored under.\<close>

lemma entry_ok_unique: "entry_ok jobs w c k a \<Longrightarrow> entry_ok jobs w c' k' a \<Longrightarrow> c = c' \<and> k = k'"
  by (auto simp: entry_ok_def)

lemma sched_ok_cancel:
  assumes ok: "sched_ok s" and "sc_wheel s' = cancel_at a (sc_wheel s)" and "sc_jobs s' = sc_jobs s"
    and "sc_spawned s' = sc_spawned s" and "sc_running s' = sc_running s" and "sc_failed s' = sc_failed s"
    and cyc: "\<And>k x. map_of (td_cyclicTasks (sc_td s')) k = Some (Some x) \<Longrightarrow> map_of (td_cyclicTasks (sc_td s)) k = Some (Some x) \<and> x \<noteq> a"
    and tmp: "\<And>k x. map_of (td_tempTasks (sc_td s')) k = Some (Some x) \<Longrightarrow> map_of (td_tempTasks (sc_td s)) k = Some (Some x)"
  shows "sched_ok s'"
proof (rule sched_ok_frame [OF ok _ _ _ _ _ tmp])
  note c = cancel_wheel [OF sched_okD(1) [OF ok], of a]
  show "wheel_inv (sc_wheel s')" "jobs_le (sc_jobs s) (sc_jobs s')"
    "map to_task (hwt_timeouts (sc_wheel s')) = map to_task (hwt_timeouts (sc_wheel s))"
    using c(1,2) by (simp_all add: assms)
  show "set (sc_spawned s') \<union> set (sc_running s') \<subseteq> {..<length (hwt_timeouts (sc_wheel s))}"
    using sched_okD(3) [OF ok] by (simp add: assms)
  show "map_of (td_cyclicTasks (sc_td s)) k = Some (Some x) \<and> (repeats (sc_jobs s) (sc_wheel s) x \<longrightarrow> alive s x \<longrightarrow> alive s' x)"
    if "map_of (td_cyclicTasks (sc_td s')) k = Some (Some x)" for k x
    using cyc [OF that] c(3) by (auto simp: alive_def assms)
qed

lemma sched_ok_remove:
  assumes ok: "sched_ok s" and rm: "RemoveJob k (sc_td s) = Inr (err, td')"
  shows "sched_ok (s\<lparr>sc_td := td'\<rparr>)"
proof -
  consider (cyclic) a where "map_of (td_cyclicTasks (sc_td s)) k = Some (Some a)"
      "td_wheelTimer td' = cancel_at a (sc_wheel s)" "td_cyclicTasks td' = map_del k (td_cyclicTasks (sc_td s))"
      "td_tempTasks td' = td_tempTasks (sc_td s)"
    | (temp) a where "map_of (td_tempTasks (sc_td s)) k = Some (Some a)"
      "td_wheelTimer td' = cancel_at a (sc_wheel s)" "td_cyclicTasks td' = td_cyclicTasks (sc_td s)"
      "td_tempTasks td' = map_del k (td_tempTasks (sc_td s))"
    | (absent) "td_wheelTimer td' = sc_wheel s" "td_cyclicTasks td' = td_cyclicTasks (sc_td s)"
      "td_tempTasks td' = td_tempTasks (sc_td s)"
    using rm by (auto simp: RemoveJob_def Let_def cancel_ptr_def split: option.splits sum.splits)
  then show ?thesis
  proof cases
    case cyclic
    show ?thesis
    proof (rule sched_ok_cancel [OF ok, of _ a])
      fix k' x assume "map_of (td_cyclicTasks (sc_td (s\<lparr>sc_td := td'\<rparr>))) k' = Some (Some x)"
      then have k': "k' \<noteq> k" and m: "map_of (td_cyclicTasks (sc_td s)) k' = Some (Some x)"
        by (simp_all add: cyclic(3) split: if_splits)
      have "x \<noteq> a" using entries(1) [OF ok m] entries(1) [OF ok cyclic(1)] k' entry_ok_unique by metis
      with m show "map_of (td_cyclicTasks (sc_td s)) k' = Some (Some x) \<and> x \<noteq> a" by simp
    qed (simp_all add: cyclic)
  next
    case temp
    show ?thesis
    proof (rule sched_ok_cancel [OF ok, of _ a])
      fix k' x assume "map_of (td_cyclicTasks (sc_td (s\<lparr>sc_td := td'\<rparr>))) k' = Some (Some x)"
      then have m: "map_of (td_cyclicTasks (sc_td s)) k' = Some (Some x)" by (simp add: temp(3))
      have "x \<noteq> a" using entries(1) [OF ok m] entries(2) [OF ok temp(1)] entry_ok_unique by metis
      with m show "map_of (td_cyclicTasks (sc_td s)) k' = Some (Some x) \<and> x \<noteq> a" by simp
    qed (simp_all add: temp split: if_splits)
  next
    case absent
    show ?thesis by (rule sched_ok_same_wheel [OF ok]) (auto simp: absent wheel_data_def active_def)
  qed
qed

lemma sched_ok_schedule:
  assumes ok: "sched_ok s" and w: "sc_wheel s' = add_timeout b t (sc_wheel s)" and inv: "wheel_inv (add_timeout b t (sc_wheel s))"
    and t: "to_task t = NewWheelTimerTask (Some p)" and p: "p < length (sc_jobs s)" "sane (job_at (sc_jobs s) p)"
    and jobs: "sc_jobs s' = sc_jobs s"
    and pend: "pending (sc_wheel s') = insert (length (hwt_timeouts (sc_wheel s)), d) (pending (sc_wheel s))"
    and act: "set (sc_spawned s') \<union> set (sc_running s') \<subseteq> set (sc_spawned s) \<union> set (sc_running s)"
    and cyc: "\<And>k x. map_of (td_cyclicTasks (sc_td s')) k = Some (Some x) \<Longrightarrow>
       k = J_ID (job_at (sc_jobs s) p) \<and> x = length (hwt_timeouts (sc_wheel s)) \<and> J_IsCyclic (job_at (sc_jobs s) p) \<or>
       map_of (td_cyclicTasks (sc_td s)) k = Some (Some x) \<and> (repeats (sc_jobs s) (sc_wheel s) x \<longrightarrow> x \<in> active s \<longrightarrow> x \<in> active s')"
    and tmp: "\<And>k x. map_of (td_tempTasks (sc_td s')) k = Some (Some x) \<Longrightarrow>
       k = J_ID (job_at (sc_jobs s) p) \<and> x = length (hwt_timeouts (sc_wheel s)) \<and> \<not> J_IsCyclic (job_at (sc_jobs s) p) \<or>
       map_of (td_tempTasks (sc_td s)) k = Some (Some x)"
  shows "sched_ok s'"
proof (rule sched_ok_preserved [OF ok])
  let ?a = "length (hwt_timeouts (sc_wheel s))"
  have ta: "task_of (sc_wheel s') ?a = Some p" by (simp add: w task_of_add t NewWheelTimerTask_def)
  have len: "length (hwt_timeouts (sc_wheel s')) = Suc ?a" by (simp add: w)
  have new: "entry_ok (sc_jobs s') (sc_wheel s') c (J_ID (job_at (sc_jobs s) p)) ?a"
    if "J_IsCyclic (job_at (sc_jobs s) p) = c" for c
    unfolding entry_ok_def jobs len by (intro conjI exI [of _ p] lessI ta refl that)
  show "wheel_inv (sc_wheel s')" "jobs_le (sc_jobs s) (sc_jobs s')" "?a \<le> length (hwt_timeouts (sc_wheel s'))"
    using inv len by (simp_all add: w jobs)
  show "task_of (sc_wheel s') x = task_of (sc_wheel s) x" if "x < ?a" for x
    using that by (simp add: w task_of_add)
  show "task_ok (sc_jobs s') (sc_wheel s') x" if "?a \<le> x" "x < length (hwt_timeouts (sc_wheel s'))" for x
  proof -
    have x: "x = ?a" using that len by simp
    show ?thesis unfolding task_ok_def jobs x by (intro conjI exI [of _ p] ta p)
  qed
  show "set (sc_spawned s') \<union> set (sc_running s') \<subseteq> {..<length (hwt_timeouts (sc_wheel s'))}"
    unfolding len by (rule subset_trans [OF act subset_trans [OF sched_okD(3) [OF ok]]]) (simp only: lessThan_subset_iff lessI less_imp_le)
  have keep: "alive s' x" if "alive s x" "x \<in> active s \<longrightarrow> x \<in> active s'" for x
    using that by (auto simp: alive_iff pend)
  have anew: "alive s' ?a" by (auto simp: alive_iff pend)
  show "entry_ok (sc_jobs s') (sc_wheel s') True k x \<and> alive s' x \<or>
       map_of (td_cyclicTasks (sc_td s)) k = Some (Some x) \<and> (repeats (sc_jobs s) (sc_wheel s) x \<longrightarrow> alive s x \<longrightarrow> alive s' x)"
    if "map_of (td_cyclicTasks (sc_td s')) k = Some (Some x)" for k x
    using cyc [OF that] new [of True] anew keep [of x] by (elim disjE) simp_all
  show "entry_ok (sc_jobs s') (sc_wheel s') False k x \<or> map_of (td_tempTasks (sc_td s)) k = Some (Some x)"
    if "map_of (td_tempTasks (sc_td s')) k = Some (Some x)" for k x
    using tmp [OF that] new [of False] by (elim disjE) simp_all
qed

text \<open>Storing a nil pointer, as after the timer has been stopped, forgets the entry.\<close>

lemma sched_ok_add:
  assumes ok: "sched_ok s" and p: "p < length (sc_jobs s)" "sane (job_at (sc_jobs s) p)" and e: "early (sc_wheel s)"
    and ad: "AddJob (sc_jobs s) now (Some p) (sc_td s) = Inr (err, td')"
  shows "sched_ok (s\<lparr>sc_td := td'\<rparr>)"
proof -
  let ?job = "job_at (sc_jobs s) p"
  from ad obtain t w' where nt: "NewTimeout (NewWheelTimerTask (Some p)) (first_delay ?job) now (sc_wheel s) = Inr (t, w')"
    and w': "td_wheelTimer td' = w'"
    and cy: "td_cyclicTasks td' = (if J_IsCyclic ?job then map_put (J_ID ?job) t (td_cyclicTasks (sc_td s)) else td_cyclicTasks (sc_td s))"
    and tm: "td_tempTasks td' = (if J_IsCyclic ?job then td_tempTasks (sc_td s) else map_put (J_ID ?job) t (td_tempTasks (sc_td s)))"
    by (auto simp: AddJob_def Let_def split: sum.splits if_splits)
  from sched_okD(1) [OF ok] e sane_first_delay [OF p(2)] nt show ?thesis
  proof (rule new_timeout_cases)
    assume "t = None" and "w' = sc_wheel s"
    then show ?thesis
      by (intro sched_ok_same_wheel [OF ok]) (auto simp: w' cy tm active_def wheel_data_def split: if_splits)
  next
    fix b to assume t: "t = Some (length (hwt_timeouts (sc_wheel s)))" and w: "w' = add_timeout b to (sc_wheel s)"
      and inv: "wheel_inv (add_timeout b to (sc_wheel s))" and tt: "to_task to = NewWheelTimerTask (Some p)"
      and pd: "pending w' = insert (length (hwt_timeouts (sc_wheel s)), tick_no (sc_wheel s) + delay_ticks (first_delay ?job) (sc_wheel s)) (pending (sc_wheel s))"
    show ?thesis
      by (rule sched_ok_schedule [OF ok _ inv tt p])
        (use pd in \<open>auto simp: w' w [symmetric] cy tm t active_def split: if_splits\<close>)
  qed
qed

lemma run_finish_cases:
  assumes "run_finish jobs now p err td = Inr (err', td')"
  obtains (keep) "td_wheelTimer td' = td_wheelTimer td" "td_cyclicTasks td' = td_cyclicTasks td"
      "td_tempTasks td' = td_tempTasks td"
      "err \<noteq> None \<or> \<not> (J_IsCyclic (job_at jobs p) \<and> 0 < sint (J_DefaultInterval (job_at jobs p)))"
    | (again) t w' where "err = None" "J_IsCyclic (job_at jobs p)" "0 < sint (J_DefaultInterval (job_at jobs p))"
      "NewTimeout (NewWheelTimerTask (Some p)) (next_delay (job_at jobs p)) now (td_wheelTimer td) = Inr (t, w')"
      "td_wheelTimer td' = w'" "td_cyclicTasks td' = map_put (J_ID (job_at jobs p)) t (td_cyclicTasks td)"
      "td_tempTasks td' = td_tempTasks td"
  using assms
  by (auto simp: run_finish_def rescheduleJob_def RescheduleJob_def RecordJobFailed_def RecordJobCompleted_def Let_def
      split: option.splits if_splits sum.splits)

lemma sched_ok_ended:
  assumes ok: "sched_ok s" and a: "a \<in> set (sc_running s)" and tp: "task_of (sc_wheel s) a = Some p"
    and e: "early (sc_wheel s)" and rf: "run_finish (sc_jobs s) now p err (sc_td s) = Inr (err', td')"
  shows "sched_ok (s\<lparr>sc_td := td', sc_running := remove1 a (sc_running s),
                    sc_failed := (if err = None then sc_failed s else a # sc_failed s)\<rparr>)" (is "sched_ok ?s'")
proof -
  let ?job = "job_at (sc_jobs s) p"
  have al: "a < length (hwt_timeouts (sc_wheel s))" using active_allocated [OF ok] a by blast
  then have p: "p < length (sc_jobs s)" "sane ?job"
    using ok tp by (auto simp: sched_defs task_ok_def)
  have act: "set (sc_spawned ?s') \<union> set (sc_running ?s') \<subseteq> set (sc_spawned s) \<union> set (sc_running s)"
    using set_remove1_subset [of a "sc_running s"] by auto
  have other: "x \<in> active ?s'" if "x \<in> active s" "x \<noteq> a \<or> err \<noteq> None" for x
    using that in_set_remove1 [of x "sc_running s" a] by (auto simp: active_def)
  have key: "x \<noteq> a" if "map_of (td_cyclicTasks (sc_td s)) k = Some (Some x)" "k \<noteq> J_ID ?job" for k x
    using entries(1) [OF ok that(1)] that(2) tp by (auto simp: entry_ok_def)
  from rf show ?thesis
  proof (cases rule: run_finish_cases)
    case keep
    show ?thesis
    proof (rule sched_ok_same_wheel [OF ok _ _ act])
      fix k x assume "map_of (td_cyclicTasks (sc_td ?s')) k = Some (Some x)"
      then have m: "map_of (td_cyclicTasks (sc_td s)) k = Some (Some x)" by (simp add: keep)
      have "err \<noteq> None" if "x = a" "repeats (sc_jobs s) (sc_wheel s) x"
        using that entries(1) [OF ok m] keep(4) tp by (auto simp: entry_ok_def repeats_def)
      with m other show "map_of (td_cyclicTasks (sc_td s)) k = Some (Some x) \<and>
          (repeats (sc_jobs s) (sc_wheel s) x \<longrightarrow> x \<in> active s \<longrightarrow> x \<in> active ?s')" by blast
    qed (simp_all add: keep wheel_data_def)
  next
    case (again t w')
    have cyc: "k = J_ID ?job \<and> t = Some x \<or> map_of (td_cyclicTasks (sc_td s)) k = Some (Some x) \<and> x \<noteq> a"
      if "map_of (td_cyclicTasks (sc_td ?s')) k = Some (Some x)" for k x
      using that key [of k x] by (simp add: again split: if_splits)
    from sched_okD(1) [OF ok] e sane_next_delay(2,3) [OF p(2) again(3)] again(4) show ?thesis
    proof (rule new_timeout_cases)
      assume t: "t = None" and w: "w' = sc_wheel s"
      show ?thesis
      proof (rule sched_ok_same_wheel [OF ok _ _ act])
        show "wheel_data (sc_wheel ?s') = wheel_data (sc_wheel s)" by (simp add: again(5) w)
        show "map_of (td_cyclicTasks (sc_td s)) k = Some (Some x) \<and>
            (repeats (sc_jobs s) (sc_wheel s) x \<longrightarrow> x \<in> active s \<longrightarrow> x \<in> active ?s')"
          if "map_of (td_cyclicTasks (sc_td ?s')) k = Some (Some x)" for k x
          using cyc [OF that] t other by simp
      qed (simp_all add: again)
    next
      fix b to assume t: "t = Some (length (hwt_timeouts (sc_wheel s)))" and w: "w' = add_timeout b to (sc_wheel s)"
        and inv: "wheel_inv (add_timeout b to (sc_wheel s))" and tt: "to_task to = NewWheelTimerTask (Some p)"
        and pd: "pending w' = insert (length (hwt_timeouts (sc_wheel s)), tick_no (sc_wheel s) + delay_ticks (next_delay ?job) (sc_wheel s)) (pending (sc_wheel s))"
      show ?thesis
      proof (rule sched_ok_schedule [OF ok _ inv tt p _ _ act])
        show "sc_wheel ?s' = add_timeout b to (sc_wheel s)" by (simp add: again(5) w)
        show "pending (sc_wheel ?s') = insert (length (hwt_timeouts (sc_wheel s)), tick_no (sc_wheel s) + delay_ticks (next_delay ?job) (sc_wheel s)) (pending (sc_wheel s))"
          using pd by (simp add: again(5))
        show "k = J_ID ?job \<and> x = length (hwt_timeouts (sc_wheel s)) \<and> J_IsCyclic ?job \<or>
            map_of (td_cyclicTasks (sc_td s)) k = Some (Some x) \<and>
            (repeats (sc_jobs s) (sc_wheel s) x \<longrightarrow> x \<in> active s \<longrightarrow> x \<in> active ?s')"
          if "map_of (td_cyclicTasks (sc_td ?s')) k = Some (Some x)" for k x
          using cyc [OF that] t other again(2) by auto
      qed (simp_all add: again)
    qed
  qed
qed

subsection \<open>Properties of the scheduler\<close>

lemma sched_ok_init: "sched_ok (sched_init now)"
  by (simp add: sched_defs sched_init_def NewTimeDispatch_def new_wheel_ok)
    (simp add: NewHashedWheelTimer_def Let_def tick_no_def Millisecond_def)

lemma sched_step_ok: "sched_step s s' \<Longrightarrow> sched_ok s \<Longrightarrow> sched_ok s'"
proof (induction rule: sched_step.induct)
  case (receive s job)
  then show ?case by (rule sched_ok_jobs) (rule jobs_le_append)
next
  case (worked s jobs')
  then show ?case by (intro sched_ok_jobs jobs_le_same)
qed (blast intro: sched_ok_add sched_ok_remove sched_ok_start sched_ok_stop sched_ok_ticked sched_ok_began sched_ok_ended)+

lemma reachable_ok: "sched_reachable now s \<Longrightarrow> sched_ok s"
  unfolding sched_reachable_def
  by (induction rule: rtranclp_induct) (auto intro: sched_ok_init sched_step_ok)

lemma init_wheel:
  "wheel_inv (td_wheelTimer (NewTimeDispatch now))" "early (td_wheelTimer (NewTimeDispatch now))"
  "\<not> hwt_stopped (td_wheelTimer (NewTimeDispatch now))" "hwt_timeouts (td_wheelTimer (NewTimeDispatch now)) = []"
  "tick_no (td_wheelTimer (NewTimeDispatch now)) = 0" "hwt_wheelSize (td_wheelTimer (NewTimeDispatch now)) = 512"
  using sched_okD(1) [OF sched_ok_init]
  by (simp_all add: sched_init_def NewTimeDispatch_def)
    (simp_all add: NewHashedWheelTimer_def Let_def early_def tick_no_def)

text \<open>What adding and rescheduling do when the timer is not stopped.\<close>

lemma AddJob_schedules:
  assumes "wheel_inv (td_wheelTimer td)" and "early (td_wheelTimer td)" and "\<not> hwt_stopped (td_wheelTimer td)"
    and p: "sane (job_at jobs p)"
  obtains b t td' where "AddJob jobs now (Some p) td = Inr (None, td')" "td_wheelTimer td' = add_timeout b t (td_wheelTimer td)"
    "to_task t = NewWheelTimerTask (Some p)" "wheel_inv (td_wheelTimer td')"
    "pending (td_wheelTimer td') = insert (length (hwt_timeouts (td_wheelTimer td)),
       tick_no (td_wheelTimer td) + delay_ticks (first_delay (job_at jobs p)) (td_wheelTimer td)) (pending (td_wheelTimer td))"
    "td_cyclicTasks td' = (if J_IsCyclic (job_at jobs p) then map_put (J_ID (job_at jobs p)) (Some (length (hwt_timeouts (td_wheelTimer td)))) (td_cyclicTasks td) else td_cyclicTasks td)"
    "td_tempTasks td' = (if J_IsCyclic (job_at jobs p) then td_tempTasks td else map_put (J_ID (job_at jobs p)) (Some (length (hwt_timeouts (td_wheelTimer td)))) (td_tempTasks td))"
    "td_stats td' = (td_stats td)\<lparr>st_TotalJobsAdded := st_TotalJobsAdded (td_stats td) + 1\<rparr>"
proof -
  let ?w = "td_wheelTimer td" and ?job = "job_at jobs p"
  obtain t' w' where nt: "NewTimeout (NewWheelTimerTask (Some p)) (first_delay ?job) now ?w = Inr (t', w')"
    using new_timeout_total [OF assms(1,2) sane_first_delay [OF p]] by blast
  from assms(1,2) sane_first_delay [OF p] nt show thesis
  proof (rule new_timeout_cases)
    assume "hwt_stopped ?w" with assms(3) show thesis by simp
  next
    fix b t assume "t' = Some (length (hwt_timeouts ?w))" "w' = add_timeout b t ?w" "wheel_inv (add_timeout b t ?w)"
      "to_task t = NewWheelTimerTask (Some p)"
      "pending w' = insert (length (hwt_timeouts ?w), tick_no ?w + delay_ticks (first_delay ?job) ?w) (pending ?w)"
    with nt show thesis by (intro that [of _ b t]) (simp add: AddJob_def Let_def, simp_all)
  qed
qed

lemma RescheduleJob_schedules:
  assumes "wheel_inv (td_wheelTimer td)" and "early (td_wheelTimer td)" and "\<not> hwt_stopped (td_wheelTimer td)"
    and p: "sane (job_at jobs p)" "J_IsCyclic (job_at jobs p)" "0 < sint (J_DefaultInterval (job_at jobs p))"
  obtains td' where "RescheduleJob jobs now p td = Inr (None, td')"
    "pending (td_wheelTimer td') = insert (length (hwt_timeouts (td_wheelTimer td)),
       tick_no (td_wheelTimer td) + delay_ticks (next_delay (job_at jobs p)) (td_wheelTimer td)) (pending (td_wheelTimer td))"
    "map_of (td_cyclicTasks td') (J_ID (job_at jobs p)) = Some (Some (length (hwt_timeouts (td_wheelTimer td))))"
    "task_of (td_wheelTimer td') (length (hwt_timeouts (td_wheelTimer td))) = Some p" "hwt_running (td_wheelTimer td') = hwt_running (td_wheelTimer td)"
    "\<not> hwt_stopped (td_wheelTimer td')" "tick_no (td_wheelTimer td') = tick_no (td_wheelTimer td)"
proof -
  let ?w = "td_wheelTimer td" and ?job = "job_at jobs p"
  note d = sane_next_delay(2,3) [OF p(1,3)]
  obtain t' w' where nt: "NewTimeout (NewWheelTimerTask (Some p)) (next_delay ?job) now ?w = Inr (t', w')"
    using new_timeout_total [OF assms(1,2) d] by blast
  from assms(1,2) d nt show thesis
  proof (rule new_timeout_cases)
    assume "hwt_stopped ?w" with assms(3) show thesis by simp
  next
    fix b t assume "t' = Some (length (hwt_timeouts ?w))" "w' = add_timeout b t ?w" "to_task t = NewWheelTimerTask (Some p)" "\<not> hwt_stopped ?w"
      "pending w' = insert (length (hwt_timeouts ?w), tick_no ?w + delay_ticks (next_delay ?job) ?w) (pending ?w)"
    with nt p show thesis by (intro that) (simp add: RescheduleJob_def Let_def, simp_all add: task_of_add NewWheelTimerTask_def)
  qed
qed

text \<open>C1: no cyclic job is lost. In every reachable state of the scheduler, whatever the order of
  additions, removals, ticks, executions, starts and stops, the timeout stored for a cyclic job
  with a positive interval waits in the wheel, is being executed, or belongs to an execution that
  has failed.\<close>

theorem no_cyclic_job_lost:
  assumes "sched_reachable now s" and "map_of (td_cyclicTasks (sc_td s)) jobID = Some (Some a)"
    and "task_of (sc_wheel s) a = Some p" and "0 < sint (J_DefaultInterval (job_at (sc_jobs s) p))"
  shows "J_ID (job_at (sc_jobs s) p) = jobID \<and> alive s a"
proof -
  have ok: "sched_ok s" by (rule reachable_ok [OF assms(1)])
  have "repeats (sc_jobs s) (sc_wheel s) a" using assms(3,4) by (simp add: repeats_def)
  with ok assms(2) have "alive s a" by (simp add: sched_defs)
  moreover have "J_ID (job_at (sc_jobs s) p) = jobID"
    using entries(1) [OF ok assms(2)] assms(3) by (simp add: entry_ok_def)
  ultimately show ?thesis by simp
qed

definition cyclic_ex :: Job where
  "cyclic_ex = Job0\<lparr>J_ID := 7, J_IsCyclic := True, J_DefaultInterval := 60\<rparr>"

lemma cyclic_ex_fields [simp]:
  "J_ID cyclic_ex = 7" "J_IsCyclic cyclic_ex" "J_DefaultInterval cyclic_ex = 60" "sane cyclic_ex"
  by (simp_all add: cyclic_ex_def sane_def Job0_def)

lemma job_at_ex [simp]: "job_at [cyclic_ex] 0 = cyclic_ex"
  by (simp add: job_at_def)

lemma add_ex:
  obtains td where "AddJob [cyclic_ex] 5 (Some 0) (NewTimeDispatch 0) = Inr (None, td)"
    "map_of (td_cyclicTasks td) 7 = Some (Some 0)" "wheel_inv (td_wheelTimer td)" "early (td_wheelTimer td)"
    "\<not> hwt_stopped (td_wheelTimer td)" "task_of (td_wheelTimer td) 0 = Some 0" "0 < length (hwt_timeouts (td_wheelTimer td))"
proof -
  let ?td0 = "NewTimeDispatch 0"
  have "sane (job_at [cyclic_ex] 0)" by simp
  then obtain b t td where "AddJob [cyclic_ex] 5 (Some 0) ?td0 = Inr (None, td)" "td_wheelTimer td = add_timeout b t (td_wheelTimer ?td0)"
    "to_task t = NewWheelTimerTask (Some 0)" "wheel_inv (td_wheelTimer td)"
    "td_cyclicTasks td = (if J_IsCyclic (job_at [cyclic_ex] 0) then map_put (J_ID (job_at [cyclic_ex] 0)) (Some (length (hwt_timeouts (td_wheelTimer ?td0)))) (td_cyclicTasks ?td0) else td_cyclicTasks ?td0)"
    using AddJob_schedules [OF init_wheel(1-3)] by metis
  then show thesis
    using init_wheel [of 0] by (intro that [of td]) (simp_all add: early_def task_of_def NewWheelTimerTask_def)
qed

theorem no_cyclic_job_lost_witness:
  "\<exists>s. sched_reachable 0 s \<and> map_of (td_cyclicTasks (sc_td s)) 7 = Some (Some 0) \<and>
     task_of (sc_wheel s) 0 = Some 0 \<and> 0 < sint (J_DefaultInterval (job_at (sc_jobs s) 0)) \<and> alive s 0"
proof -
  obtain td where td: "AddJob [cyclic_ex] 5 (Some 0) (NewTimeDispatch 0) = Inr (None, td)"
    "map_of (td_cyclicTasks td) 7 = Some (Some 0)" "task_of (td_wheelTimer td) 0 = Some 0"
    using add_ex by blast
  let ?s0 = "sched_init 0" let ?s1 = "?s0\<lparr>sc_jobs := [cyclic_ex]\<rparr>" let ?s2 = "?s1\<lparr>sc_td := td\<rparr>"
  have "sched_step ?s0 (?s0\<lparr>sc_jobs := sc_jobs ?s0 @ [cyclic_ex]\<rparr>)" by (rule sched_step.receive)
  then have s1: "sched_step ?s0 ?s1" by (simp add: sched_init_def)
  have s2: "sched_step ?s1 ?s2"
    by (rule sched_step.add [where p = 0 and now = 5 and err = None]) (use td init_wheel in \<open>simp_all add: sched_init_def\<close>)
  from s1 s2 have r: "sched_reachable 0 ?s2"
    unfolding sched_reachable_def by (meson rtranclp.rtrancl_into_rtrancl rtranclp.rtrancl_refl)
  with no_cyclic_job_lost [OF r, of 7 0 0] td show ?thesis by (intro exI [of _ ?s2]) simp
qed

text \<open>C15: the first run and the repetitions of a job use different units. With an interval of \<open>n\<close>
  the first run is scheduled after \<open>n\<close> milliseconds, that is \<open>n div 100\<close> ticks of the wheel, or a full turn of 512 ticks (51.2 seconds) when \<open>n < 100\<close>;
  every repetition after \<open>n\<close> seconds, \<open>10 * n\<close> ticks.\<close>

theorem first_run_and_repetition:
  assumes "wheel_inv (td_wheelTimer td)" and "early (td_wheelTimer td)" and "\<not> hwt_stopped (td_wheelTimer td)"
    and "hwt_wheelSize (td_wheelTimer td) = 512"
    and "sane (job_at jobs p)" and "J_IsCyclic (job_at jobs p)" and n: "sint (J_DefaultInterval (job_at jobs p)) = n" "0 < n"
  shows "(\<exists>td'. AddJob jobs now (Some p) td = Inr (None, td') \<and>
       (length (hwt_timeouts (td_wheelTimer td)), tick_no (td_wheelTimer td) + (if n < 100 then 512 else n div 100)) \<in> pending (td_wheelTimer td')) \<and>
     (\<exists>td'. RescheduleJob jobs now p td = Inr (None, td') \<and>
       (length (hwt_timeouts (td_wheelTimer td)), tick_no (td_wheelTimer td) + 10 * n) \<in> pending (td_wheelTimer td'))"
proof -
  let ?w = "td_wheelTimer td" and ?job = "job_at jobs p"
  have tk: "sint (hwt_tickDuration ?w) = 100000000"
    using assms(1) by (simp add: wheel_inv_def Millisecond_def)
  have ms: "sint (first_delay ?job) = n * 1000000"
    using assms(5) n by (simp add: first_delay_def sint_mult64 Millisecond_def in_int64_def sane_def)
  have "n * 1000000 div 100000000 = n div 100"
    using div_mult_mult2 [of 1000000 n 100] by simp
  then have d1: "delay_ticks (first_delay ?job) ?w = (if n < 100 then 512 else n div 100)"
    using n(2) assms(4) by (auto simp: delay_ticks_def Let_def ms tk div_eq_0_iff)
  have d2: "delay_ticks (next_delay ?job) ?w = 10 * n"
    using n by (simp add: delay_ticks_def Let_def tk sane_next_delay(1) [OF assms(5)])
  obtain td1 where "AddJob jobs now (Some p) td = Inr (None, td1)"
    "pending (td_wheelTimer td1) = insert (length (hwt_timeouts ?w), tick_no ?w + delay_ticks (first_delay ?job) ?w) (pending ?w)"
    using AddJob_schedules [OF assms(1-3,5), of now] by blast
  moreover obtain td2 where "RescheduleJob jobs now p td = Inr (None, td2)"
    "pending (td_wheelTimer td2) = insert (length (hwt_timeouts ?w), tick_no ?w + delay_ticks (next_delay ?job) ?w) (pending ?w)"
    using RescheduleJob_schedules [OF assms(1-3,5,6), of now] n by blast
  ultimately show ?thesis unfolding d1 d2 by blast
qed

theorem first_run_and_repetition_witness:
  "(\<exists>td'. AddJob [cyclic_ex] 5 (Some 0) (NewTimeDispatch 0) = Inr (None, td') \<and> (0, 512) \<in> pending (td_wheelTimer td')) \<and>
   (\<exists>td'. RescheduleJob [cyclic_ex] 5 0 (NewTimeDispatch 0) = Inr (None, td') \<and> (0, 600) \<in> pending (td_wheelTimer td'))"
  using first_run_and_repetition [OF init_wheel(1-3), of 0 "[cyclic_ex]" 0 60 5] init_wheel [of 0] by simp

text \<open>removing a scheduled job cancels it. The entry of the job disappears from the map that held it
  and from the job infos, the counter of removals goes up, and the timeout it pointed to is not
  pending any more; a job that is not scheduled gives an error and changes nothing but the counter.\<close>

theorem remove_job_cancels:
  assumes "wheel_ok (td_wheelTimer td)"
    and "map_of (td_cyclicTasks td) jobID = Some (Some a) \<or>
         map_of (td_cyclicTasks td) jobID = None \<and> map_of (td_tempTasks td) jobID = Some (Some a)"
    and "a < length (hwt_timeouts (td_wheelTimer td))"
  shows "\<exists>td'. RemoveJob jobID td = Inr (None, td') \<and> map_of (td_cyclicTasks td') jobID = None \<and>
    map_of (td_jobInfos td') jobID = None \<and> pending (td_wheelTimer td') = {(x, d) \<in> pending (td_wheelTimer td). x \<noteq> a} \<and>
    st_TotalJobsRemoved (td_stats td') = st_TotalJobsRemoved (td_stats td) + 1 \<and>
    (\<forall>k. k \<noteq> jobID \<longrightarrow> map_of (td_cyclicTasks td') k = map_of (td_cyclicTasks td) k \<and> map_of (td_tempTasks td') k = map_of (td_tempTasks td) k)"
  using assms(2) cancel_spec(4) [OF assms(1,3)]
  by (elim disjE) (simp_all add: RemoveJob_def Let_def cancel_ptr_def)

theorem remove_job_cancels_witness:
  "\<exists>td td'. AddJob [cyclic_ex] 5 (Some 0) (NewTimeDispatch 0) = Inr (None, td) \<and> RemoveJob 7 td = Inr (None, td') \<and>
     map_of (td_cyclicTasks td') 7 = None \<and> (\<forall>d. (0, d) \<notin> pending (td_wheelTimer td'))"
proof -
  obtain td where td: "AddJob [cyclic_ex] 5 (Some 0) (NewTimeDispatch 0) = Inr (None, td)"
    "map_of (td_cyclicTasks td) 7 = Some (Some 0)" "wheel_inv (td_wheelTimer td)" "task_of (td_wheelTimer td) 0 = Some 0"
    "0 < length (hwt_timeouts (td_wheelTimer td))"
    using add_ex by blast
  have "wheel_ok (td_wheelTimer td)" using td(3) by (simp add: wheel_inv_def)
  from remove_job_cancels [OF this _ td(5), of 7] td show ?thesis by auto
qed

text \<open>C16: a job removed while it is being executed comes back. When the execution ends, the task
  stores a new timeout for the job although its entry has been removed meanwhile.\<close>

theorem removed_job_comes_back:
  assumes "wheel_inv (td_wheelTimer td)" and "early (td_wheelTimer td)" and "\<not> hwt_stopped (td_wheelTimer td)"
    and "sane (job_at jobs p)" and "J_IsCyclic (job_at jobs p)" and "0 < sint (J_DefaultInterval (job_at jobs p))"
    and rm: "RemoveJob (J_ID (job_at jobs p)) td = Inr (None, td')"
  shows "\<exists>td''. run_finish jobs now p None td' = Inr (None, td'') \<and>
    (\<exists>a d. map_of (td_cyclicTasks td'') (J_ID (job_at jobs p)) = Some (Some a) \<and> (a, d) \<in> pending (td_wheelTimer td''))"
proof -
  let ?td = "RecordJobCompleted td'"
  have w: "td_wheelTimer td' = td_wheelTimer td \<or> (\<exists>a. td_wheelTimer td' = cancel_at a (td_wheelTimer td))"
    using rm by (auto simp: RemoveJob_def Let_def cancel_ptr_def split: option.splits sum.splits)
  then have inv: "wheel_inv (td_wheelTimer td')" "early (td_wheelTimer td')" "\<not> hwt_stopped (td_wheelTimer td')"
    using assms(1-3) cancel_wheel(1) [OF assms(1)] by (auto simp: early_def tick_no_def cancel_at_def)
  then have "wheel_inv (td_wheelTimer ?td)" "early (td_wheelTimer ?td)" "\<not> hwt_stopped (td_wheelTimer ?td)"
    by (simp_all add: RecordJobCompleted_def)
  then obtain td2 where "RescheduleJob jobs now p ?td = Inr (None, td2)"
    "pending (td_wheelTimer td2) = insert (length (hwt_timeouts (td_wheelTimer ?td)),
       tick_no (td_wheelTimer ?td) + delay_ticks (next_delay (job_at jobs p)) (td_wheelTimer ?td)) (pending (td_wheelTimer ?td))"
    "map_of (td_cyclicTasks td2) (J_ID (job_at jobs p)) = Some (Some (length (hwt_timeouts (td_wheelTimer ?td))))"
    using RescheduleJob_schedules assms(4-6) by metis
  with assms(5,6) show ?thesis by (auto simp: run_finish_def rescheduleJob_def)
qed

theorem removed_job_comes_back_witness:
  "\<exists>td td' td''. AddJob [cyclic_ex] 5 (Some 0) (NewTimeDispatch 0) = Inr (None, td) \<and>
     RemoveJob 7 (run_begin [cyclic_ex] 6 0 td) = Inr (None, td') \<and> run_finish [cyclic_ex] 8 0 None td' = Inr (None, td'') \<and>
     map_of (td_cyclicTasks td') 7 = None \<and> map_of (td_cyclicTasks td'') 7 \<noteq> None"
proof -
  obtain td where td: "AddJob [cyclic_ex] 5 (Some 0) (NewTimeDispatch 0) = Inr (None, td)"
    "map_of (td_cyclicTasks td) 7 = Some (Some 0)" "wheel_inv (td_wheelTimer td)" "early (td_wheelTimer td)"
    "\<not> hwt_stopped (td_wheelTimer td)"
    using add_ex by blast
  let ?td = "run_begin [cyclic_ex] 6 0 td"
  obtain td' where rm: "RemoveJob 7 ?td = Inr (None, td')" "map_of (td_cyclicTasks td') 7 = None"
    using td(2) by (simp add: RemoveJob_def Let_def cancel_ptr_def run_begin_fields)
  from removed_job_comes_back [of ?td "[cyclic_ex]" 0 td' 8] td rm show ?thesis
    by (auto simp: run_begin_fields)
qed

text \<open>a scheduler cannot be restarted. Starting again after a stop succeeds but its timer does not
  run; a job added then is stored with a nil timeout, and removing it panics.\<close>

theorem restart_is_broken:
  "\<exists>td1 td2 td3. td_Stop (snd (td_Start t0 (NewTimeDispatch now))) = Inr td1 \<and> td_Start t1 td1 = (None, td2) \<and>
     td_started td2 \<and> \<not> hwt_running (td_wheelTimer td2) \<and>
     AddJob [cyclic_ex] t2 (Some 0) td2 = Inr (None, td3) \<and> RemoveJob 7 td3 = Inl NilDereference"
  by (simp add: td_Stop_def td_Start_def startStatsLogging_def stopStatsLogging_def NewTimeDispatch_def
      NewHashedWheelTimer_def Start_def Stop_def AddJob_def NewTimeout_def RemoveJob_def cancel_ptr_def Let_def)

subsection \<open>The counters balance\<close>

definition balanced :: "Sched \<Rightarrow> bool" where
  "balanced s \<longleftrightarrow> (let st = td_stats (sc_td s) in
     st_TotalJobsExecuted st = st_TotalJobsCompleted st + st_TotalJobsFailed st + word_of_nat (length (sc_running s)))"

lemma stats_simps:
  "AddJob jobs now jp td = Inr (e, td') \<Longrightarrow> st_TotalJobsExecuted (td_stats td') = st_TotalJobsExecuted (td_stats td) \<and>
     st_TotalJobsCompleted (td_stats td') = st_TotalJobsCompleted (td_stats td) \<and> st_TotalJobsFailed (td_stats td') = st_TotalJobsFailed (td_stats td)"
  "RemoveJob k td = Inr (e, td') \<Longrightarrow> st_TotalJobsExecuted (td_stats td') = st_TotalJobsExecuted (td_stats td) \<and>
     st_TotalJobsCompleted (td_stats td') = st_TotalJobsCompleted (td_stats td) \<and> st_TotalJobsFailed (td_stats td') = st_TotalJobsFailed (td_stats td)"
  "td_Stop td = Inr td' \<Longrightarrow> td_stats td' = td_stats td"
  "td_stats (snd (td_Start now td)) = td_stats td"
  by (auto simp: AddJob_def RemoveJob_def td_Stop_def td_Start_def startStatsLogging_def stopStatsLogging_def Let_def
      split: option.splits sum.splits if_splits)

lemma run_begin_stats:
  "td_stats (run_begin jobs now p td) = (td_stats td)\<lparr>st_TotalJobsExecuted := st_TotalJobsExecuted (td_stats td) + 1,
     st_LastExecutionTime := Some now\<rparr>"
  by (simp add: run_begin_def UpdateJobExecution_def RecordJobExecution_def Let_def split: option.split)

lemma run_finish_stats:
  "run_finish jobs now p err td = Inr (e, td') \<Longrightarrow> td_stats td' = (if err = None
     then (td_stats td)\<lparr>st_TotalJobsCompleted := st_TotalJobsCompleted (td_stats td) + 1\<rparr>
     else (td_stats td)\<lparr>st_TotalJobsFailed := st_TotalJobsFailed (td_stats td) + 1\<rparr>)"
  by (auto simp: run_finish_def rescheduleJob_def RescheduleJob_def RecordJobFailed_def RecordJobCompleted_def Let_def
      split: option.splits if_splits sum.splits)

lemma step_balanced: "sched_step s s' \<Longrightarrow> balanced s \<Longrightarrow> balanced s'"
proof (induction rule: sched_step.induct)
  case (ended a s p now err err' td')
  have "length (sc_running s) = Suc (length (remove1 a (sc_running s)))"
    using ended(1) length_pos_if_in_set [OF ended(1)] by (simp add: length_remove1)
  with ended run_finish_stats [OF ended(4)] show ?case by (auto simp: balanced_def Let_def)
qed (auto simp: balanced_def Let_def stats_simps run_begin_stats)

text \<open>in every reachable state the executions counted are those completed, those failed and those
  under way.\<close>

theorem executions_balance:
  assumes "sched_reachable now s"
  shows "st_TotalJobsExecuted (td_stats (sc_td s)) = st_TotalJobsCompleted (td_stats (sc_td s)) +
    st_TotalJobsFailed (td_stats (sc_td s)) + word_of_nat (length (sc_running s))"
proof -
  have "balanced (sched_init now)" by (simp add: balanced_def sched_init_def NewTimeDispatch_def)
  with assms have "balanced s"
    unfolding sched_reachable_def by (induction rule: rtranclp_induct) (auto intro: step_balanced)
  then show ?thesis by (simp add: balanced_def Let_def)
qed

theorem executions_balance_witness:
  "sched_reachable 0 (sched_init 0) \<and> st_TotalJobsExecuted (td_stats (sc_td (sched_init 0))) =
     st_TotalJobsCompleted (td_stats (sc_td (sched_init 0))) + st_TotalJobsFailed (td_stats (sc_td (sched_init 0)))"
proof -
  have r: "sched_reachable 0 (sched_init 0)" by (simp add: sched_reachable_def)
  from executions_balance [OF r] r show ?thesis by (simp add: sched_init_def)
qed

end
