(* ===== verification/Job_Clone.thy ===== *)
theory Job_Clone
  imports Job_Ops
begin

text \<open>
  \<open>Job.Clone\<close> (\<open>types/job/metrics_types.go\<close>), on the explicit heap: what the copy shares with
  the original and what it does not. The maps of the job and of its metrics, the HTTP
  configurations and their headers, parameters and authorization are fresh objects with the
  same contents; the SSH, JDBC, Redis, SNMP, JMX, MongoDB and Milvus configurations are shared.
\<close>

subsection \<open>Clone\<close>

definition clone_map :: "addr option \<Rightarrow> Heap \<Rightarrow> addr option \<times> Heap" where
  "clone_map p h = (case Option.bind p (maps h) of None \<Rightarrow> (None, h)
     | Some m \<Rightarrow> (let (a, h') = alloc_map m h in (Some a, h')))"

definition clone_auth :: "addr option \<Rightarrow> Heap \<Rightarrow> addr option \<times> Heap" where
  "clone_auth p h = (case Option.bind p (auths h) of None \<Rightarrow> (None, h)
     | Some m \<Rightarrow> (let (a, h') = alloc_auth m h in (Some a, h')))"

definition clone_http :: "addr option \<Rightarrow> Heap \<Rightarrow> addr option \<times> Heap" where
  "clone_http p h = (case Option.bind p (https h) of None \<Rightarrow> (None, h)
     | Some q \<Rightarrow>
         (let (hd', h1) = clone_map (HTTP_Headers q) h;
              (pa', h2) = clone_map (HTTP_Params q) h1;
              (au', h3) = clone_auth (HTTP_Authorization q) h2;
              (a, h4) = alloc_http (q\<lparr>HTTP_Headers := hd', HTTP_Params := pa', HTTP_Authorization := au'\<rparr>) h3
          in (Some a, h4)))"

definition clone_metric :: "Metrics \<Rightarrow> Heap \<Rightarrow> Metrics \<times> Heap" where
  "clone_metric m h =
     (let (cm, h1) = clone_map (M_ConfigMap m) h;
          (ht, h2) = clone_http (M_HTTP m) h1
      in (m\<lparr>M_ConfigMap := cm, M_HTTP := ht\<rparr>, h2))"

fun clone_metrics :: "Metrics list \<Rightarrow> Heap \<Rightarrow> Metrics list \<times> Heap" where
  "clone_metrics [] h = ([], h)"
| "clone_metrics (m # ms) h =
     (let (m', h1) = clone_metric m h; (ms', h2) = clone_metrics ms h1 in (m' # ms', h2))"

text \<open>The fields that the composite literal of the source does not list keep their zero
  values; the pointers in \<open>PriorMetrics\<close> are copied and still point into the original's array.\<close>

definition Clone :: "Job option \<Rightarrow> Heap \<Rightarrow> Job option \<times> Heap" where
  "Clone jo h = (case jo of None \<Rightarrow> (None, h)
     | Some j \<Rightarrow>
         (let (md, h1) = clone_map (J_Metadata j) h;
              (lb, h2) = clone_map (J_Labels j) h1;
              (an, h3) = clone_map (J_Annotations j) h2;
              (arr, h4) = alloc_arr h3;
              (ms, h5) = clone_metrics (J_Metrics j) h4
          in (Some (Job0\<lparr>J_ID := J_ID j, J_TenantID := J_TenantID j, J_MonitorID := J_MonitorID j,
                J_Hide := J_Hide j, J_Category := J_Category j, J_App := J_App j,
                J_Name := J_Name j, J_Help := J_Help j, J_HelpLink := J_HelpLink j,
                J_Timestamp := J_Timestamp j, J_DefaultInterval := J_DefaultInterval j,
                J_IsCyclic := J_IsCyclic j, J_Intervals := J_Intervals j, J_Params := J_Params j,
                J_Configmap := J_Configmap j, J_PriorMetrics := J_PriorMetrics j,
                J_Metadata := md, J_Labels := lb, J_Annotations := an,
                J_MetricsArr := arr, J_Metrics := ms\<rparr>), h5)))"

subsection \<open>What the copy shares\<close>

definition heap_wf :: "Heap \<Rightarrow> bool" where
  "heap_wf h \<longleftrightarrow> (\<forall>a. next_addr h \<le> a \<longrightarrow>
     maps h a = None \<and> https h a = None \<and> auths h a = None \<and> sshs h a = None \<and>
     jdbcs h a = None \<and> rediss h a = None \<and> tunnels h a = None \<and> milvuss h a = None)"

text \<open>\<open>p'\<close> points to a fresh copy of the map \<open>p\<close> points to: the address is at or above \<open>b\<close>.\<close>

definition map_copied :: "addr \<Rightarrow> Heap \<Rightarrow> Heap \<Rightarrow> addr option \<Rightarrow> addr option \<Rightarrow> bool" where
  "map_copied b h h' p p' \<longleftrightarrow>
     (case Option.bind p (maps h) of None \<Rightarrow> p' = None
      | Some m \<Rightarrow> (case p' of None \<Rightarrow> False
                 | Some a' \<Rightarrow> b \<le> a' \<and> a' < next_addr h' \<and> maps h' a' = Some m))"

definition auth_copied :: "addr \<Rightarrow> Heap \<Rightarrow> Heap \<Rightarrow> addr option \<Rightarrow> addr option \<Rightarrow> bool" where
  "auth_copied b h h' p p' \<longleftrightarrow>
     (case Option.bind p (auths h) of None \<Rightarrow> p' = None
      | Some m \<Rightarrow> (case p' of None \<Rightarrow> False
                 | Some a' \<Rightarrow> b \<le> a' \<and> a' < next_addr h' \<and> auths h' a' = Some m))"

definition http_copied :: "addr \<Rightarrow> Heap \<Rightarrow> Heap \<Rightarrow> addr option \<Rightarrow> addr option \<Rightarrow> bool" where
  "http_copied b h h' p p' \<longleftrightarrow>
     (case Option.bind p (https h) of None \<Rightarrow> p' = None
      | Some q \<Rightarrow> (case p' of None \<Rightarrow> False
                 | Some a' \<Rightarrow> b \<le> a' \<and> a' < next_addr h' \<and>
                    (case https h' a' of None \<Rightarrow> False
                     | Some q' \<Rightarrow>
                         map_copied b h h' (HTTP_Headers q) (HTTP_Headers q') \<and>
                         map_copied b h h' (HTTP_Params q) (HTTP_Params q') \<and>
                         auth_copied b h h' (HTTP_Authorization q) (HTTP_Authorization q') \<and>
                         q' = q\<lparr>HTTP_Headers := HTTP_Headers q', HTTP_Params := HTTP_Params q',
                              HTTP_Authorization := HTTP_Authorization q'\<rparr>)))"

text \<open>A metric and its copy: fresh configuration map and HTTP configuration, everything else
  equal, in particular the pointers to the other protocol configurations.\<close>

definition metric_copied :: "addr \<Rightarrow> Heap \<Rightarrow> Heap \<Rightarrow> Metrics \<Rightarrow> Metrics \<Rightarrow> bool" where
  "metric_copied b h h' m m' \<longleftrightarrow>
     map_copied b h h' (M_ConfigMap m) (M_ConfigMap m') \<and>
     http_copied b h h' (M_HTTP m) (M_HTTP m') \<and>
     m' = m\<lparr>M_ConfigMap := M_ConfigMap m', M_HTTP := M_HTTP m'\<rparr>"

text \<open>Allocation keeps every object below its address, and copies survive later allocations.\<close>

lemma map_copied_keeps:
  "map_copied b h h1 p p' \<Longrightarrow> keeps (next_addr h1) h1 h2 \<Longrightarrow> map_copied b h h2 p p'"
  by (auto simp: map_copied_def keeps_def split: option.splits)

lemma auth_copied_keeps:
  "auth_copied b h h1 p p' \<Longrightarrow> keeps (next_addr h1) h1 h2 \<Longrightarrow> auth_copied b h h2 p p'"
  by (auto simp: auth_copied_def keeps_def split: option.splits)

lemma http_copied_keeps:
  assumes "http_copied b h h1 p p'" and "keeps (next_addr h1) h1 h2"
  shows "http_copied b h h2 p p'"
proof -
  from assms(2) have "a < next_addr h1 \<Longrightarrow> https h2 a = https h1 a \<and> a < next_addr h2" for a
    by (auto simp: keeps_def)
  with assms show ?thesis
    unfolding http_copied_def
    by (auto split: option.splits intro: map_copied_keeps auth_copied_keeps)
qed

lemma metric_copied_keeps:
  "metric_copied b h h1 m m' \<Longrightarrow> keeps (next_addr h1) h1 h2 \<Longrightarrow> metric_copied b h h2 m m'"
  unfolding metric_copied_def by (blast intro: map_copied_keeps http_copied_keeps)

text \<open>The pointers of a well-formed job stay below the bound, so a copy of the state \<open>h1\<close> is a copy of \<open>h\<close>.\<close>

definition ptr_below :: "addr \<Rightarrow> addr option \<Rightarrow> bool" where
  "ptr_below b p \<longleftrightarrow> (case p of None \<Rightarrow> True | Some a \<Rightarrow> a < b)"

lemma clone_map_spec:
  assumes "clone_map p h = (p', h')" and "keeps b h0 h" and "ptr_below b p" and "b \<le> next_addr h"
  shows "keeps (next_addr h) h h' \<and> map_copied b h0 h' p p'"
  using assms
  by (auto simp: clone_map_def map_copied_def keeps_def alloc_defs ptr_below_def split: option.splits)

lemma clone_auth_spec:
  assumes "clone_auth p h = (p', h')" and "keeps b h0 h" and "ptr_below b p" and "b \<le> next_addr h"
  shows "keeps (next_addr h) h h' \<and> auth_copied b h0 h' p p'"
  using assms
  by (auto simp: clone_auth_def auth_copied_def keeps_def alloc_defs ptr_below_def split: option.splits)

text \<open>Composition of allocation steps.\<close>

lemma keeps_step:
  "keeps (next_addr h) h h1 \<Longrightarrow> keeps (next_addr h1) h1 h2 \<Longrightarrow> keeps (next_addr h) h h2"
  by (rule keeps_trans, assumption) (rule keeps_mono, assumption, rule keeps_next)

lemma keeps_base:
  assumes "keeps b h0 h" and "b \<le> next_addr h" and "keeps (next_addr h) h h1"
  shows "keeps b h0 h1" and "b \<le> next_addr h1"
  using keeps_trans [OF assms(1) keeps_mono [OF assms(3,2)]] keeps_next [OF assms(3)] assms(2)
  by simp_all

definition http_below :: "addr \<Rightarrow> Heap \<Rightarrow> addr option \<Rightarrow> bool" where
  "http_below b h p \<longleftrightarrow> ptr_below b p \<and>
     (case Option.bind p (https h) of None \<Rightarrow> True
      | Some q \<Rightarrow> ptr_below b (HTTP_Headers q) \<and> ptr_below b (HTTP_Params q) \<and>
                 ptr_below b (HTTP_Authorization q))"

definition metric_below :: "addr \<Rightarrow> Heap \<Rightarrow> Metrics \<Rightarrow> bool" where
  "metric_below b h m \<longleftrightarrow> ptr_below b (M_ConfigMap m) \<and> http_below b h (M_HTTP m)"

text \<open>A job whose references are addresses of allocated objects.\<close>

definition job_ok :: "Heap \<Rightarrow> Job \<Rightarrow> bool" where
  "job_ok h j \<longleftrightarrow> ptr_below (next_addr h) (J_Metadata j) \<and> ptr_below (next_addr h) (J_Labels j) \<and>
     ptr_below (next_addr h) (J_Annotations j) \<and> list_all (metric_below (next_addr h) h) (J_Metrics j)"

lemma clone_http_spec:
  assumes cl: "clone_http p h = (p', h')" and k: "keeps b h0 h"
    and below: "http_below b h0 p" and b: "b \<le> next_addr h"
  shows "keeps (next_addr h) h h' \<and> http_copied b h0 h' p p'"
proof (cases "Option.bind p (https h)")
  case None
  with cl k below show ?thesis
    by (auto simp: clone_http_def http_copied_def http_below_def ptr_below_def keeps_def split: option.splits)
next
  case (Some q)
  then obtain a where a: "p = Some a" "https h a = Some q" by (cases p) auto
  with k below have q0: "https h0 a = Some q"
    by (auto simp: http_below_def ptr_below_def keeps_def)
  with below a have ptrs: "ptr_below b (HTTP_Headers q)" "ptr_below b (HTTP_Params q)"
    "ptr_below b (HTTP_Authorization q)"
    by (simp_all add: http_below_def)
  obtain hd' h1 where c1: "clone_map (HTTP_Headers q) h = (hd', h1)" by fastforce
  obtain pa' h2 where c2: "clone_map (HTTP_Params q) h1 = (pa', h2)" by fastforce
  obtain au' h3 where c3: "clone_auth (HTTP_Authorization q) h2 = (au', h3)" by fastforce
  from clone_map_spec [OF c1 k ptrs(1) b]
  have s1: "keeps (next_addr h) h h1" "map_copied b h0 h1 (HTTP_Headers q) hd'" by auto
  note k1 = keeps_base(1) [OF k b s1(1)] and b1 = keeps_base(2) [OF k b s1(1)]
  from clone_map_spec [OF c2 k1 ptrs(2) b1]
  have s2: "keeps (next_addr h1) h1 h2" "map_copied b h0 h2 (HTTP_Params q) pa'" by auto
  note k2 = keeps_base(1) [OF k1 b1 s2(1)] and b2 = keeps_base(2) [OF k1 b1 s2(1)]
  from clone_auth_spec [OF c3 k2 ptrs(3) b2]
  have s3: "keeps (next_addr h2) h2 h3" "auth_copied b h0 h3 (HTTP_Authorization q) au'" by auto
  let ?q' = "q\<lparr>HTTP_Headers := hd', HTTP_Params := pa', HTTP_Authorization := au'\<rparr>"
  have h': "h' = snd (alloc_http ?q' h3)" "p' = Some (next_addr h3)"
    using cl a c1 c2 c3 by (simp_all add: clone_http_def alloc_http_def)
  have s4: "keeps (next_addr h3) h3 h'"
    by (simp add: h' alloc_http_def keeps_def)
  note k24 = keeps_step [OF s3(1) s4]
  note k13 = keeps_step [OF s2(1) k24]
  have "keeps (next_addr h) h h'"
    by (rule keeps_step [OF s1(1) k13])
  moreover have "map_copied b h0 h' (HTTP_Headers q) hd'"
    by (rule map_copied_keeps [OF s1(2) k13])
  moreover have "map_copied b h0 h' (HTTP_Params q) pa'"
    by (rule map_copied_keeps [OF s2(2) k24])
  moreover have "auth_copied b h0 h' (HTTP_Authorization q) au'"
    by (rule auth_copied_keeps [OF s3(2) s4])
  moreover have "https h' (next_addr h3) = Some ?q'" "next_addr h3 < next_addr h'"
    by (simp_all add: h' alloc_http_def)
  moreover have "b \<le> next_addr h3"
    using b2 keeps_next [OF s3(1)] by simp
  ultimately show ?thesis
    by (simp add: http_copied_def a q0 h'(2))
qed

lemma clone_metric_spec:
  assumes cl: "clone_metric m h = (m', h')" and k: "keeps b h0 h"
    and below: "metric_below b h0 m" and b: "b \<le> next_addr h"
  shows "keeps (next_addr h) h h' \<and> metric_copied b h0 h' m m'"
proof -
  obtain cm h1 where c1: "clone_map (M_ConfigMap m) h = (cm, h1)" by fastforce
  obtain ht h2 where c2: "clone_http (M_HTTP m) h1 = (ht, h2)" by fastforce
  have below': "ptr_below b (M_ConfigMap m)" "http_below b h0 (M_HTTP m)"
    using below by (simp_all add: metric_below_def)
  from clone_map_spec [OF c1 k below'(1) b]
  have s1: "keeps (next_addr h) h h1" "map_copied b h0 h1 (M_ConfigMap m) cm" by auto
  note k1 = keeps_base(1) [OF k b s1(1)] and b1 = keeps_base(2) [OF k b s1(1)]
  from clone_http_spec [OF c2 k1 below'(2) b1]
  have s2: "keeps (next_addr h1) h1 h2" "http_copied b h0 h2 (M_HTTP m) ht" by auto
  have eq: "m' = m\<lparr>M_ConfigMap := cm, M_HTTP := ht\<rparr>" "h' = h2"
    using cl c1 c2 by (simp_all add: clone_metric_def)
  have "keeps (next_addr h) h h2"
    by (rule keeps_step [OF s1(1) s2(1)])
  then show ?thesis
    using map_copied_keeps [OF s1(2) s2(1)] s2(2) by (simp add: eq metric_copied_def)
qed

lemma clone_metrics_spec:
  assumes "clone_metrics ms h = (ms', h')" and "keeps b h0 h"
    and "list_all (metric_below b h0) ms" and "b \<le> next_addr h"
  shows "keeps (next_addr h) h h' \<and> list_all2 (metric_copied b h0 h') ms ms'"
  using assms
proof (induction ms arbitrary: h ms' h')
  case Nil
  then show ?case by simp
next
  case (Cons m ms)
  obtain m1 h1 where c1: "clone_metric m h = (m1, h1)" by fastforce
  obtain ms2 h2 where c2: "clone_metrics ms h1 = (ms2, h2)" by fastforce
  from Cons.prems have below: "metric_below b h0 m" "list_all (metric_below b h0) ms" by simp_all
  from clone_metric_spec [OF c1 Cons.prems(2) below(1) Cons.prems(4)]
  have s1: "keeps (next_addr h) h h1" "metric_copied b h0 h1 m m1" by auto
  note k1 = keeps_base(1) [OF Cons.prems(2,4) s1(1)] and b1 = keeps_base(2) [OF Cons.prems(2,4) s1(1)]
  from Cons.IH [OF c2 k1 below(2) b1]
  have s2: "keeps (next_addr h1) h1 h2" "list_all2 (metric_copied b h0 h2) ms ms2" by auto
  have "keeps (next_addr h) h h2"
    by (rule keeps_step [OF s1(1) s2(1)])
  moreover have "metric_copied b h0 h2 m m1"
    by (rule metric_copied_keeps [OF s1(2) s2(1)])
  ultimately show ?case
    using Cons.prems(1) c1 c2 s2(2) by auto
qed

subsection \<open>Properties of Clone\<close>

lemma Clone_Some: obtains j' h' where "Clone (Some j) h = (Some j', h')"
proof -
  have "fst (Clone (Some j) h) \<noteq> None" by (simp add: Clone_def split: prod.split)
  then show ?thesis using that by (cases "Clone (Some j) h") auto
qed

lemma Clone_spec:
  assumes ok: "job_ok h j" and cl: "Clone (Some j) h = (Some j', h')"
  shows "keeps (next_addr h) h h' \<and>
    map_copied (next_addr h) h h' (J_Metadata j) (J_Metadata j') \<and>
    map_copied (next_addr h) h h' (J_Labels j) (J_Labels j') \<and>
    map_copied (next_addr h) h h' (J_Annotations j) (J_Annotations j') \<and>
    list_all2 (metric_copied (next_addr h) h h') (J_Metrics j) (J_Metrics j')"
proof -
  let ?b = "next_addr h"
  obtain md h1 where c1: "clone_map (J_Metadata j) h = (md, h1)" by fastforce
  obtain lb h2 where c2: "clone_map (J_Labels j) h1 = (lb, h2)" by fastforce
  obtain an h3 where c3: "clone_map (J_Annotations j) h2 = (an, h3)" by fastforce
  obtain arr h4 where c4: "alloc_arr h3 = (arr, h4)" by fastforce
  obtain ms h5 where c5: "clone_metrics (J_Metrics j) h4 = (ms, h5)" by fastforce
  have j': "J_Metadata j' = md" "J_Labels j' = lb" "J_Annotations j' = an" "J_Metrics j' = ms" "h' = h5"
    using cl c1 c2 c3 c4 c5 by (auto simp: Clone_def)
  have ptr: "ptr_below ?b (J_Metadata j)" "ptr_below ?b (J_Labels j)" "ptr_below ?b (J_Annotations j)"
    and below: "list_all (metric_below ?b h) (J_Metrics j)"
    using ok by (simp_all add: job_ok_def)
  note s1 = clone_map_spec [OF c1 keeps_refl ptr(1) order_refl]
  note k1 = keeps_base [OF keeps_refl order_refl s1 [THEN conjunct1]]
  note s2 = clone_map_spec [OF c2 k1(1) ptr(2) k1(2)]
  note k2 = keeps_base [OF k1 s2 [THEN conjunct1]]
  note s3 = clone_map_spec [OF c3 k2(1) ptr(3) k2(2)]
  note k3 = keeps_base [OF k2 s3 [THEN conjunct1]]
  have s4: "keeps (next_addr h3) h3 h4" using c4 by (auto simp: alloc_arr_def keeps_def)
  note k4 = keeps_base [OF k3 s4]
  note s5 = clone_metrics_spec [OF c5 k4(1) below k4(2)]
  note e4 = keeps_step [OF s4 s5 [THEN conjunct1]]
  note e3 = keeps_step [OF s3 [THEN conjunct1] e4]
  note e2 = keeps_step [OF s2 [THEN conjunct1] e3]
  note e1 = keeps_step [OF s1 [THEN conjunct1] e2]
  show ?thesis
    using e1 s5 map_copied_keeps [OF s1 [THEN conjunct2] e2] map_copied_keeps [OF s2 [THEN conjunct2] e3]
      map_copied_keeps [OF s3 [THEN conjunct2] e4]
    by (simp add: j')
qed

text \<open>the copy is isolated from the original in the objects it copies. \<open>Clone\<close> leaves every
  existing object unchanged, and the maps of the job, the configuration map and the HTTP
  configuration of every metric (with its headers, parameters and authorization) are new
  objects with equal contents.\<close>

theorem clone_isolates:
  assumes ok: "job_ok h j" and cl: "Clone (Some j) h = (Some j', h')"
  shows "keeps (next_addr h) h h' \<and>
    map_copied (next_addr h) h h' (J_Metadata j) (J_Metadata j') \<and>
    map_copied (next_addr h) h h' (J_Labels j) (J_Labels j') \<and>
    map_copied (next_addr h) h h' (J_Annotations j) (J_Annotations j') \<and>
    list_all2 (metric_copied (next_addr h) h h') (J_Metrics j) (J_Metrics j')"
  using Clone_spec [OF ok cl] .

definition heap_ex :: Heap where
  "heap_ex = \<lparr>maps = [0 \<mapsto> [(''h'', ''v'')], 1 \<mapsto> [(''env'', ''prod'')]],
     https = [2 \<mapsto> \<lparr>HTTP_URL = ''^_^url^_^'', HTTP_Method = ''GET'', HTTP_Headers = Some 0,
        HTTP_Params = None, HTTP_Body = [], HTTP_ParseScript = [], HTTP_ParseType = [],
        HTTP_Keyword = [], HTTP_Timeout = [], HTTP_SSL = [], HTTP_Authorization = None\<rparr>],
     auths = Map.empty, sshs = Map.empty,
     jdbcs = [3 \<mapsto> \<lparr>JDBC_Host = ''^_^host^_^'', JDBC_Port = ''3306'', JDBC_Platform = ''mysql'',
        JDBC_Username = [], JDBC_Password = [], JDBC_Database = [], JDBC_Timeout = [],
        JDBC_QueryType = ''oneRow'', JDBC_SQL = ''select 1'', JDBC_URL = [],
        JDBC_ReuseConnection = [], JDBC_SSHTunnel = None\<rparr>],
     rediss = Map.empty, tunnels = Map.empty, milvuss = Map.empty, next_addr = 4\<rparr>"

definition job_ex :: Job where
  "job_ex = Job0\<lparr>J_ID := 7, J_Labels := Some 1, J_IsSd := True, J_Interval := 60,
     J_Configmap := [\<lparr>Conf_Key = ''host'', Conf_Value = AStr ''db1'', Conf_Type = 1, Conf_Option = []\<rparr>],
     J_Metrics := [Metrics0\<lparr>M_Name := ''basic'', M_HTTP := Some 2, M_JDBC := Some 3\<rparr>]\<rparr>"

theorem clone_isolates_witness:
  "job_ok heap_ex job_ex \<and> (\<exists>j' h'. Clone (Some job_ex) heap_ex = (Some j', h') \<and> keeps 4 heap_ex h' \<and>
     list_all2 (metric_copied 4 heap_ex h') (J_Metrics job_ex) (J_Metrics j'))"
proof -
  have ok: "job_ok heap_ex job_ex"
    by (simp add: job_ok_def heap_ex_def job_ex_def Job0_def Metrics0_def ptr_below_def
        metric_below_def http_below_def)
  obtain j' h' where cl: "Clone (Some job_ex) heap_ex = (Some j', h')"
    by (rule Clone_Some)
  have "next_addr heap_ex = 4" by (simp add: heap_ex_def)
  with clone_isolates [OF ok cl] ok cl show ?thesis by auto
qed

lemma clone_metrics_frame:
  "map (\<lambda>m. m\<lparr>M_ConfigMap := None, M_HTTP := None\<rparr>) (fst (clone_metrics ms h)) =
   map (\<lambda>m. m\<lparr>M_ConfigMap := None, M_HTTP := None\<rparr>) ms"
  by (induction ms h rule: clone_metrics.induct)
    (auto simp: clone_metric_def Let_def split: prod.splits)

lemma clone_metrics_field:
  assumes "\<And>m. f (m\<lparr>M_ConfigMap := None, M_HTTP := None\<rparr>) = f m"
  shows "map f (fst (clone_metrics ms h)) = map f ms"
  using arg_cong [OF clone_metrics_frame [of ms h], of "map f"] by (simp add: assms comp_def)

text \<open>the copy is not deep. The metrics of the clone point to the very JDBC, SSH, Redis and
  Milvus configurations of the original, and the clone loses the service-discovery flags, the
  cyclic flag and the interval of the job, its environment and its temporary data.\<close>

theorem clone_shares_protocols:
  "\<exists>j' h'. Clone (Some j) h = (Some j', h') \<and>
     map M_JDBC (J_Metrics j') = map M_JDBC (J_Metrics j) \<and>
     map M_SSH (J_Metrics j') = map M_SSH (J_Metrics j) \<and>
     map M_Redis (J_Metrics j') = map M_Redis (J_Metrics j) \<and>
     map M_Milvus (J_Metrics j') = map M_Milvus (J_Metrics j) \<and>
     J_IsSd j' = False \<and> J_Sd j' = False \<and> J_PrometheusProxyMode j' = False \<and>
     J_Cyclic j' = False \<and> J_Interval j' = 0 \<and> J_EnvConfigmaps j' = None \<and>
     J_DispatchTime j' = 0 \<and> J_ResponseDataTemp j' = []"
proof -
  define h4 where "h4 = snd (alloc_arr (snd (clone_map (J_Annotations j)
    (snd (clone_map (J_Labels j) (snd (clone_map (J_Metadata j) h)))))))"
  obtain j' h' where cl: "Clone (Some j) h = (Some j', h')"
    by (rule Clone_Some)
  then have ms: "J_Metrics j' = fst (clone_metrics (J_Metrics j) h4)"
    by (auto simp: Clone_def h4_def split: prod.splits)
  from cl have "J_IsSd j' = False \<and> J_Sd j' = False \<and> J_PrometheusProxyMode j' = False \<and>
     J_Cyclic j' = False \<and> J_Interval j' = 0 \<and> J_EnvConfigmaps j' = None \<and>
     J_DispatchTime j' = 0 \<and> J_ResponseDataTemp j' = []"
    by (auto simp: Clone_def Job0_def split: prod.splits)
  with cl show ?thesis by (auto simp: ms clone_metrics_field)
qed

end
