(* ===== verification/Crypto.thy ===== *)
theory Crypto
  imports Go_Strings
begin

text \<open>
  \<open>util/crypto/aes_util.go\<close>: decryption of the passwords the manager sends, AES-128 in CBC mode
  with the key as initialisation vector, PKCS7 padding and base64.

  Base64, the CBC chaining and the padding are defined here. The AES block permutation is a
  parameter: \<open>D key block\<close> is the decryption of one 16-byte block (\<open>cipher.Block.Decrypt\<close>).
\<close>

subsection \<open>base64.StdEncoding\<close>

definition b64_val :: "char \<Rightarrow> nat option" where
  "b64_val c =
     (let n = of_char c :: nat in
      if 65 \<le> n \<and> n \<le> 90 then Some (n - 65)
      else if 97 \<le> n \<and> n \<le> 122 then Some (n - 71)
      else if 48 \<le> n \<and> n \<le> 57 then Some (n + 4)
      else if n = 43 then Some 62
      else if n = 47 then Some 63
      else None)"

definition b64_char :: "nat \<Rightarrow> char" where
  "b64_char v =
     (if v < 26 then char_of (v + 65)
      else if v < 52 then char_of (v + 71)
      else if v < 62 then char_of (v - 4)
      else if v = 62 then char_of (43 :: nat)
      else char_of (47 :: nat))"

fun b64_quads :: "string \<Rightarrow> string option" where
  "b64_quads [] = Some []"
| "b64_quads (a # b # c # d # rest) =
     (case (b64_val a, b64_val b) of
        (Some x, Some y) \<Rightarrow>
          (let o1 = char_of (x * 4 + y div 16) in
           if d = CHR ''='' then
             (if rest \<noteq> [] then None
              else if c = CHR ''='' then Some [o1]
              else (case b64_val c of None \<Rightarrow> None
                    | Some z \<Rightarrow> Some [o1, char_of ((y mod 16) * 16 + z div 4)]))
           else (case (b64_val c, b64_val d) of
                   (Some z, Some w) \<Rightarrow>
                     map_option (\<lambda>r. o1 # char_of ((y mod 16) * 16 + z div 4) # char_of ((z mod 4) * 64 + w) # r)
                       (b64_quads rest)
                 | _ \<Rightarrow> None))
      | _ \<Rightarrow> None)"
| "b64_quads _ = None"

text \<open>\<open>DecodeString\<close> skips carriage returns and newlines.\<close>

definition b64_decode :: "string \<Rightarrow> string option" where
  "b64_decode s = b64_quads (filter (\<lambda>c. c \<noteq> CHR 0x0A \<and> c \<noteq> CHR 0x0D) s)"

subsection \<open>CBC and padding\<close>

definition xor_bytes :: "string \<Rightarrow> string \<Rightarrow> string" where
  "xor_bytes a b = map2 (\<lambda>x y. char_of (xor (of_char x) (of_char y) :: nat)) a b"

text \<open>\<open>CryptBlocks\<close> of a CBC decrypter, for data whose length is a multiple of the block size.\<close>

function cbc_decrypt :: "(string \<Rightarrow> string \<Rightarrow> string) \<Rightarrow> string \<Rightarrow> string \<Rightarrow> string \<Rightarrow> string" where
  "cbc_decrypt D key iv cs =
     (if cs = [] then []
      else xor_bytes (D key (take 16 cs)) iv @ cbc_decrypt D key (take 16 cs) (drop 16 cs))"
  by pat_completeness auto
termination
  by (relation "measure (\<lambda>(D, key, iv, cs). length cs)") auto

declare cbc_decrypt.simps [simp del]

definition removePKCS7Padding :: "string \<Rightarrow> string" where
  "removePKCS7Padding data =
     (if data = [] then data
      else (let paddingLen = (of_char (last data) :: nat) in
        if length data < paddingLen \<or> paddingLen = 0 then data
        else if list_all (\<lambda>i. (of_char (data ! (length data - 1 - i)) :: nat) = paddingLen) [0..<paddingLen]
        then take (length data - paddingLen) data
        else data))"

subsection \<open>The AES utility\<close>

record AESUtil =
  secretKey :: string

datatype aes_error = KeyNotSet | BadKeyLength nat | BadBase64 | BadDataLength nat

definition SetSecretKey :: "string \<Rightarrow> AESUtil \<Rightarrow> AESUtil" where
  "SetSecretKey k a = a\<lparr>secretKey := k\<rparr>"

definition GetSecretKey :: "AESUtil \<Rightarrow> string" where
  "GetSecretKey a = secretKey a"

definition AesDecodeWithKey :: "(string \<Rightarrow> string \<Rightarrow> string) \<Rightarrow> string \<Rightarrow> string \<Rightarrow> aes_error + string" where
  "AesDecodeWithKey D encryptedData key =
     (if length key \<noteq> 16 then Inl (BadKeyLength (length key))
      else (case b64_decode encryptedData of
              None \<Rightarrow> Inl BadBase64
            | Some encryptedBytes \<Rightarrow>
                if length encryptedBytes < 16 \<or> length encryptedBytes mod 16 \<noteq> 0
                then Inl (BadDataLength (length encryptedBytes))
                else Inr (removePKCS7Padding (cbc_decrypt D key key encryptedBytes))))"

definition AesDecode :: "(string \<Rightarrow> string \<Rightarrow> string) \<Rightarrow> AESUtil \<Rightarrow> string \<Rightarrow> aes_error + string" where
  "AesDecode D a encryptedData =
     (let key = GetSecretKey a in
      if key = [] then Inl KeyNotSet else AesDecodeWithKey D encryptedData key)"

definition IsCiphertext :: "(string \<Rightarrow> string \<Rightarrow> string) \<Rightarrow> AESUtil \<Rightarrow> string \<Rightarrow> bool" where
  "IsCiphertext D a txt \<longleftrightarrow>
     b64_decode txt \<noteq> None \<and> (case AesDecode D a txt of Inl _ \<Rightarrow> False | Inr _ \<Rightarrow> True)"

text \<open>
  The instance of the package. \<open>GetDefaultAESUtil\<close> replaces it by a new one in the first call, and every operation on it goes through
  \<open>GetDefaultAESUtil\<close>.
\<close>

record CryptoPackage =
  pk_default :: AESUtil
  pk_once :: bool

definition GetDefaultAESUtil :: "CryptoPackage \<Rightarrow> AESUtil \<times> CryptoPackage" where
  "GetDefaultAESUtil p = (if pk_once p then (pk_default p, p) else (\<lparr>secretKey = []\<rparr>, \<lparr>pk_default = \<lparr>secretKey = []\<rparr>, pk_once = True\<rparr>))"

definition SetDefaultSecretKey :: "string \<Rightarrow> CryptoPackage \<Rightarrow> CryptoPackage" where
  "SetDefaultSecretKey k p = (case GetDefaultAESUtil p of (a, p') \<Rightarrow> p'\<lparr>pk_default := SetSecretKey k a\<rparr>)"

definition GetDefaultSecretKey :: "CryptoPackage \<Rightarrow> string \<times> CryptoPackage" where
  "GetDefaultSecretKey p = (case GetDefaultAESUtil p of (a, p') \<Rightarrow> (GetSecretKey a, p'))"

definition default_AesDecode :: "(string \<Rightarrow> string \<Rightarrow> string) \<Rightarrow> string \<Rightarrow> CryptoPackage \<Rightarrow> (aes_error + string) \<times> CryptoPackage" where
  "default_AesDecode D encryptedData p = (case GetDefaultAESUtil p of (a, p') \<Rightarrow> (AesDecode D a encryptedData, p'))"

definition default_AesDecodeWithKey :: "(string \<Rightarrow> string \<Rightarrow> string) \<Rightarrow> string \<Rightarrow> string \<Rightarrow> CryptoPackage \<Rightarrow> (aes_error + string) \<times> CryptoPackage" where
  "default_AesDecodeWithKey D encryptedData key p = (case GetDefaultAESUtil p of (a, p') \<Rightarrow> (AesDecodeWithKey D encryptedData key, p'))"

definition default_IsCiphertext :: "(string \<Rightarrow> string \<Rightarrow> string) \<Rightarrow> string \<Rightarrow> CryptoPackage \<Rightarrow> bool \<times> CryptoPackage" where
  "default_IsCiphertext D txt p = (case GetDefaultAESUtil p of (a, p') \<Rightarrow> (IsCiphertext D a txt, p'))"

text \<open>The key that has been set last is the one that is used, also when nothing has used the package before.\<close>

lemma default_key_used:
  "GetDefaultSecretKey (SetDefaultSecretKey k p) = (k, SetDefaultSecretKey k p)"
  "k \<noteq> [] \<Longrightarrow> fst (default_AesDecode D s (SetDefaultSecretKey k p)) = fst (default_AesDecodeWithKey D s k (SetDefaultSecretKey k p))"
  "k \<noteq> [] \<Longrightarrow> fst (default_IsCiphertext D s (SetDefaultSecretKey k p)) \<longleftrightarrow> (\<exists>t. fst (default_AesDecodeWithKey D s k (SetDefaultSecretKey k p)) = Inr t)"
  by (auto simp: GetDefaultSecretKey_def SetDefaultSecretKey_def GetDefaultAESUtil_def SetSecretKey_def GetSecretKey_def default_AesDecode_def
      default_AesDecodeWithKey_def default_IsCiphertext_def AesDecode_def IsCiphertext_def AesDecodeWithKey_def Let_def split: sum.splits option.splits if_splits)

subsection \<open>The sender's side\<close>

text \<open>The encryption that the manager performs, as the reference for decryption.\<close>

fun b64_encode :: "string \<Rightarrow> string" where
  "b64_encode [] = []"
| "b64_encode [x] =
     (let n = of_char x :: nat in
      [b64_char (n div 4), b64_char ((n mod 4) * 16), CHR ''='', CHR ''=''])"
| "b64_encode [x, y] =
     (let n = of_char x :: nat; m = of_char y :: nat in
      [b64_char (n div 4), b64_char ((n mod 4) * 16 + m div 16), b64_char ((m mod 16) * 4), CHR ''=''])"
| "b64_encode (x # y # z # rest) =
     (let n = of_char x :: nat; m = of_char y :: nat; k = of_char z :: nat in
      b64_char (n div 4) # b64_char ((n mod 4) * 16 + m div 16) #
      b64_char ((m mod 16) * 4 + k div 64) # b64_char (k mod 64) # b64_encode rest)"

definition pkcs7_pad :: "string \<Rightarrow> string" where
  "pkcs7_pad s = (let p = 16 - length s mod 16 in s @ replicate p (char_of p))"

function cbc_encrypt :: "(string \<Rightarrow> string \<Rightarrow> string) \<Rightarrow> string \<Rightarrow> string \<Rightarrow> string \<Rightarrow> string" where
  "cbc_encrypt E key iv ps =
     (if ps = [] then []
      else (let c = E key (xor_bytes (take 16 ps) iv) in c @ cbc_encrypt E key c (drop 16 ps)))"
  by pat_completeness auto
termination
  by (relation "measure (\<lambda>(E, key, iv, ps). length ps)") auto

declare cbc_encrypt.simps [simp del]

definition aes_encode :: "(string \<Rightarrow> string \<Rightarrow> string) \<Rightarrow> string \<Rightarrow> string \<Rightarrow> string" where
  "aes_encode E key pt = b64_encode (cbc_encrypt E key key (pkcs7_pad pt))"

subsection \<open>Lemmas\<close>

lemma b64_val_char: "v < 64 \<Longrightarrow> b64_val (b64_char v) = Some v"
  by (auto simp: b64_val_def b64_char_def Let_def)

lemma b64_char_plain [simp]:
  "b64_char v \<noteq> CHR ''=''" "b64_char v \<noteq> CHR 0x0A" "b64_char v \<noteq> CHR 0x0D"
proof -
  have "b64_val (CHR ''='') = None" "b64_val (CHR 0x0A) = None" "b64_val (CHR 0x0D) = None"
    by (simp_all add: b64_val_def)
  moreover have "b64_val (b64_char v) \<noteq> None"
    using b64_val_char [of v] by (cases "v < 64") (simp_all add: b64_char_def b64_val_def)
  ultimately show "b64_char v \<noteq> CHR ''=''" "b64_char v \<noteq> CHR 0x0A" "b64_char v \<noteq> CHR 0x0D"
    by metis+
qed

lemma of_char_less: "(of_char c :: nat) < 256"
  by simp

text \<open>The four 6-bit groups of three bytes, and the bytes read back from them.\<close>

lemma b64_groups:
  fixes n m k :: nat
  assumes "n < 256" and "m < 256" and "k < 256"
  shows "n div 4 < 64" "(n mod 4) * 16 < 64" "(n mod 4) * 16 + m div 16 < 64" "(m mod 16) * 4 < 64"
    "(m mod 16) * 4 + k div 64 < 64" "k mod 64 < 64"
    "n div 4 * 4 + (n mod 4 * 16 + m div 16) div 16 = n"
    "(n mod 4 * 16 + m div 16) mod 16 * 16 + (m mod 16 * 4 + k div 64) div 4 = m"
    "(m mod 16 * 4 + k div 64) mod 4 * 64 + k mod 64 = k"
    "(n mod 4 * 16 + m div 16) mod 16 * 16 + m mod 16 = m"
  using assms by auto

lemma b64_quads_encode: "b64_quads (b64_encode s) = Some s"
proof (induction s rule: b64_encode.induct)
  case (2 x)
  show ?case
    using b64_groups [OF of_char_less [of x] of_char_less [of "CHR ''a''"] of_char_less [of "CHR ''a''"]] by (simp add: Let_def b64_val_char)
next
  case (3 x y)
  show ?case
    using b64_groups [OF of_char_less [of x] of_char_less [of y] of_char_less [of "CHR ''a''"]] by (simp add: Let_def b64_val_char)
next
  case (4 x y z rest)
  then show ?case
    using b64_groups [OF of_char_less [of x] of_char_less [of y] of_char_less [of z]] by (simp add: Let_def b64_val_char)
qed simp

lemma b64_encode_plain: "c \<in> set (b64_encode s) \<Longrightarrow> c \<noteq> CHR 0x0A \<and> c \<noteq> CHR 0x0D"
  by (induction s rule: b64_encode.induct) (auto simp: Let_def)

lemma b64_decode_encode: "b64_decode (b64_encode s) = Some s"
proof -
  have "filter (\<lambda>c. c \<noteq> CHR 0x0A \<and> c \<noteq> CHR 0x0D) (b64_encode s) = b64_encode s"
    using b64_encode_plain [of _ s] by (auto simp: filter_id_conv)
  then show ?thesis by (simp add: b64_decode_def b64_quads_encode)
qed

text \<open>Removing the padding undoes adding it.\<close>

lemma pkcs7_remove_pad: "removePKCS7Padding (pkcs7_pad s) = s"
proof -
  define p where "p = 16 - length s mod 16"
  have p: "0 < p" "p \<le> 16" by (auto simp: p_def)
  then have code: "(of_char (char_of p :: char) :: nat) = p" by simp
  have "pkcs7_pad s = s @ replicate p (char_of p)" by (simp add: pkcs7_pad_def p_def Let_def)
  moreover have "last (s @ replicate p (char_of p :: char)) = char_of p" using p by simp
  moreover have "(s @ replicate p (char_of p :: char)) ! (length s + p - 1 - i) = char_of p" if "i < p" for i
    using that p by (auto simp: nth_append)
  ultimately show ?thesis
    using p code by (auto simp: removePKCS7Padding_def list_all_iff)
qed

lemma length_pkcs7_pad: "length (pkcs7_pad s) mod 16 = 0" "16 \<le> length (pkcs7_pad s)"
proof -
  have "length (pkcs7_pad s) = length s + (16 - length s mod 16)" by (simp add: pkcs7_pad_def Let_def)
  also have "\<dots> = (length s div 16) * 16 + 16" by presburger
  finally have eq: "length (pkcs7_pad s) = (length s div 16) * 16 + 16" .
  show "length (pkcs7_pad s) mod 16 = 0" "16 \<le> length (pkcs7_pad s)" by (simp_all add: eq)
qed

lemma length_xor_bytes [simp]: "length (xor_bytes a b) = min (length a) (length b)"
  by (simp add: xor_bytes_def)

lemma xor_bytes_cancel:
  assumes "length a \<le> length b"
  shows "xor_bytes (xor_bytes a b) b = a"
proof (rule nth_equalityI)
  show "length (xor_bytes (xor_bytes a b) b) = length a" using assms by simp
  fix i assume "i < length (xor_bytes (xor_bytes a b) b)"
  then have i: "i < length a" "i < length b" using assms by simp_all
  have "xor (of_char (a ! i)) (of_char (b ! i)) < (256 :: nat)"
  proof -
    have "take_bit 8 (xor (of_char (a ! i)) (of_char (b ! i)) :: nat) = xor (of_char (a ! i)) (of_char (b ! i))"
      using of_char_less [of "a ! i"] of_char_less [of "b ! i"]
      by (simp add: take_bit_xor take_bit_nat_eq_self)
    then show ?thesis
      using take_bit_nat_less_exp [of 8 "xor (of_char (a ! i)) (of_char (b ! i))"] by simp
  qed
  then have "xor (of_char (char_of (xor (of_char (a ! i)) (of_char (b ! i)) :: nat) :: char)) (of_char (b ! i)) = (of_char (a ! i) :: nat)"
    by (simp add: xor.assoc)
  then show "xor_bytes (xor_bytes a b) b ! i = a ! i"
    using i by (simp add: xor_bytes_def)
qed

definition block_inverse ::
    "(string \<Rightarrow> string \<Rightarrow> string) \<Rightarrow> (string \<Rightarrow> string \<Rightarrow> string) \<Rightarrow> string \<Rightarrow> bool" where
  "block_inverse E D key \<longleftrightarrow>
     (\<forall>b. length b = 16 \<longrightarrow> length (E key b) = 16 \<and> D key (E key b) = b)"

lemma length_cbc_encrypt:
  "block_inverse E D key \<Longrightarrow> length iv = 16 \<Longrightarrow> length ps mod 16 = 0 \<Longrightarrow>
   length (cbc_encrypt E key iv ps) = length ps"
proof (induction E key iv ps rule: cbc_encrypt.induct)
  case (1 E key iv ps)
  show ?case
  proof (cases "ps = []")
    case False
    with "1.prems" have len: "16 \<le> length ps" by (cases "length ps < 16") auto
    then have "length (E key (xor_bytes (take 16 ps) iv)) = 16"
      using "1.prems" by (simp add: block_inverse_def)
    moreover have "length (drop 16 ps) mod 16 = 0"
      using "1.prems"(3) len by (simp add: le_mod_geq)
    ultimately show ?thesis
      using "1.IH" [OF False refl "1.prems"(1)] False len by (subst cbc_encrypt.simps) (simp add: Let_def)
  qed (simp add: cbc_encrypt.simps)
qed

lemma cbc_decrypt_encrypt:
  "block_inverse E D key \<Longrightarrow> length iv = 16 \<Longrightarrow> length ps mod 16 = 0 \<Longrightarrow>
   cbc_decrypt D key iv (cbc_encrypt E key iv ps) = ps"
proof (induction E key iv ps rule: cbc_encrypt.induct)
  case (1 E key iv ps)
  show ?case
  proof (cases "ps = []")
    case False
    let ?c = "E key (xor_bytes (take 16 ps) iv)"
    from False "1.prems" have len: "16 \<le> length ps" by (cases "length ps < 16") auto
    then have c: "length ?c = 16" "D key ?c = xor_bytes (take 16 ps) iv"
      using "1.prems" by (simp_all add: block_inverse_def)
    have "length (drop 16 ps) mod 16 = 0"
      using "1.prems"(3) len by (simp add: le_mod_geq)
    then have IH: "cbc_decrypt D key ?c (cbc_encrypt E key ?c (drop 16 ps)) = drop 16 ps"
      using "1.IH" [OF False refl "1.prems"(1) c(1)] by simp
    have "cbc_encrypt E key iv ps = ?c @ cbc_encrypt E key ?c (drop 16 ps)"
      using False by (subst cbc_encrypt.simps) (simp add: Let_def)
    then have "cbc_decrypt D key iv (cbc_encrypt E key iv ps) =
        xor_bytes (xor_bytes (take 16 ps) iv) iv @ drop 16 ps"
      using c IH by (subst cbc_decrypt.simps) auto
    then show ?thesis
      using "1.prems"(2) by (simp add: xor_bytes_cancel)
  qed (simp add: cbc_encrypt.simps cbc_decrypt.simps)
qed

lemma aes_decode_encode:
  assumes "length key = 16" and "block_inverse E D key"
  shows "AesDecodeWithKey D (aes_encode E key pt) key = Inr pt"
proof -
  have "length (cbc_encrypt E key key (pkcs7_pad pt)) = length (pkcs7_pad pt)"
    by (rule length_cbc_encrypt [OF assms(2,1) length_pkcs7_pad(1)])
  moreover have "cbc_decrypt D key key (cbc_encrypt E key key (pkcs7_pad pt)) = pkcs7_pad pt"
    by (rule cbc_decrypt_encrypt [OF assms(2,1) length_pkcs7_pad(1)])
  ultimately show ?thesis
    using length_pkcs7_pad [of pt] assms(1)
    by (simp add: AesDecodeWithKey_def aes_encode_def b64_decode_encode pkcs7_remove_pad)
qed

text \<open>C10: decryption inverts the manager's encryption. For every 16-byte key on which the block
  decryption inverts the block encryption, \<open>AesDecodeWithKey\<close> of the base64 text of the CBC
  encryption of a padded plaintext is that plaintext.\<close>

theorem aes_round_trip:
  assumes "length key = 16" and "block_inverse E D key"
  shows "AesDecodeWithKey D (aes_encode E key pt) key = Inr pt \<and>
         AesDecode D \<lparr>secretKey = key\<rparr> (aes_encode E key pt) = Inr pt \<and>
         IsCiphertext D \<lparr>secretKey = key\<rparr> (aes_encode E key pt)"
proof -
  have "key \<noteq> []" using assms(1) by auto
  with aes_decode_encode [OF assms, of pt] show ?thesis
    by (simp add: AesDecode_def GetSecretKey_def IsCiphertext_def Let_def aes_encode_def b64_decode_encode)
qed

theorem aes_round_trip_witness:
  "length ''tomSun28HaHaHaHa'' = 16 \<and>
   block_inverse (\<lambda>k b. xor_bytes b k) (\<lambda>k b. xor_bytes b k) ''tomSun28HaHaHaHa'' \<and>
   AesDecodeWithKey (\<lambda>k b. xor_bytes b k)
     (aes_encode (\<lambda>k b. xor_bytes b k) ''tomSun28HaHaHaHa'' ''secret'') ''tomSun28HaHaHaHa'' = Inr ''secret''"
proof -
  have len: "length ''tomSun28HaHaHaHa'' = 16" by simp
  then have inv: "block_inverse (\<lambda>k b. xor_bytes b k) (\<lambda>k b. xor_bytes b k) ''tomSun28HaHaHaHa''"
    by (simp add: block_inverse_def xor_bytes_cancel)
  show ?thesis using len inv aes_round_trip [OF len inv] by blast
qed

lemma pad_check_iff:
  assumes p: "p \<le> length data"
  shows "list_all (\<lambda>i. data ! (length data - 1 - i) = c) [0..<p] \<longleftrightarrow>
         drop (length data - p) data = replicate p c"
proof
  assume *: "list_all (\<lambda>i. data ! (length data - 1 - i) = c) [0..<p]"
  show "drop (length data - p) data = replicate p c"
  proof (rule nth_equalityI)
    fix i assume i: "i < length (drop (length data - p) data)"
    then have lt: "p - 1 - i < p" and eq: "length data - 1 - (p - 1 - i) = length data - p + i"
      using p by auto
    from * lt have "data ! (length data - 1 - (p - 1 - i)) = c"
      unfolding list_all_iff set_upt by (metis atLeastLessThan_iff zero_le)
    with i p eq show "drop (length data - p) data ! i = replicate p c ! i" by simp
  qed (use p in simp)
next
  assume *: "drop (length data - p) data = replicate p c"
  have "data ! (length data - 1 - i) = c" if i: "i < p" for i
  proof -
    have "data ! (length data - 1 - i) = drop (length data - p) data ! (p - 1 - i)"
      using i p by simp
    with * i show ?thesis by simp
  qed
  then show "list_all (\<lambda>i. data ! (length data - 1 - i) = c) [0..<p]"
    by (simp add: list_all_iff)
qed

text \<open>\<open>removePKCS7Padding\<close> never reads outside the data and only ever removes a suffix; it
  removes something exactly when the data ends in a valid padding, a run of \<open>p\<close> bytes of value \<open>p\<close>
  for some positive \<open>p\<close>, and then it removes that run.\<close>

theorem pkcs7_removes_valid_padding:
  "removePKCS7Padding data =
     (case data of [] \<Rightarrow> []
      | _ \<Rightarrow> (let p = (of_char (last data) :: nat) in
              if 0 < p \<and> p \<le> length data \<and> drop (length data - p) data = replicate p (last data)
              then take (length data - p) data else data))"
  using pad_check_iff [of "of_char (last data)" data "last data"]
  by (auto simp: removePKCS7Padding_def Let_def not_less split: list.split)

end
