(* ===== verification/Param_Replacer.thy ===== *)
theory Param_Replacer
  imports Job_Clone Crypto
begin

text \<open>
  \<open>util/param/param_replacer.go\<close>: decryption of the password parameters of a job, the map of its
  parameters, and the replacement of the placeholders \<open>^_^name^_^\<close> in the configurations of its
  metrics, on the explicit heap; extraction of a number and its unit from a string.

  A \<open>range\<close> loop over a Go map visits the entries in an unspecified order; here it is the order
  of the association list, and the theorem on templates says when the order does not matter.
\<close>

subsection \<open>Passwords\<close>

definition decryptPassword :: "(string \<Rightarrow> string \<Rightarrow> string) \<Rightarrow> AESUtil \<Rightarrow> string \<Rightarrow> string result" where
  "decryptPassword D aes encryptedPassword =
     (case AesDecode D aes encryptedPassword of
        Inr r \<Rightarrow> Ok r
      | Inl _ \<Rightarrow>
          (case AesDecodeWithKey D encryptedPassword ''tomSun28HaHaHaHa'' of
             Inr r \<Rightarrow> Ok r
           | Inl _ \<Rightarrow> Ok encryptedPassword))"

definition preprocess_config :: "(string \<Rightarrow> string \<Rightarrow> string) \<Rightarrow> AESUtil \<Rightarrow> Configmap \<Rightarrow> Configmap" where
  "preprocess_config D aes config =
     (if Conf_Type config = 2 then
        (case Conf_Value config of
           AStr encryptedValue \<Rightarrow>
             (case decryptPassword D aes encryptedValue of
                Inr decoded \<Rightarrow> config\<lparr>Conf_Value := AStr decoded, Conf_Type := 1\<rparr>
              | Inl _ \<Rightarrow> config)
         | _ \<Rightarrow> config)
      else config)"

text \<open>The job is modified in place; the second component is the returned error.\<close>

definition PreprocessJobPasswords ::
    "(string \<Rightarrow> string \<Rightarrow> string) \<Rightarrow> AESUtil \<Rightarrow> Job option \<Rightarrow> Job option \<times> string option" where
  "PreprocessJobPasswords D aes jo =
     (case jo of None \<Rightarrow> (None, None)
      | Some j \<Rightarrow> (Some (j\<lparr>J_Configmap := map (preprocess_config D aes) (J_Configmap j)\<rparr>), None))"

subsection \<open>The parameter map and the placeholders\<close>

definition param_string :: "Configmap \<Rightarrow> string" where
  "param_string config =
     (if Conf_Value config = ANil then []
      else if Conf_Type config = 0 then
        (case Conf_Value config of
           AFloat x \<Rightarrow> FormatFloat_f x
         | AInt i \<Rightarrow> FormatInt (sint i)
         | v \<Rightarrow> Sprintv v)
      else Sprintv (Conf_Value config))"

definition createParamMapSimple :: "Configmap list \<Rightarrow> gomap" where
  "createParamMapSimple configmap =
     foldl (\<lambda>pm config. map_put (Conf_Key config) (param_string config) pm) [] configmap"

definition placeholder :: "string \<Rightarrow> string" where
  "placeholder n = ''^_^'' @ n @ ''^_^''"

definition replace_param :: "string \<Rightarrow> string \<times> string \<Rightarrow> string" where
  "replace_param res = (\<lambda>(paramName, paramValue).
     if paramName = [] then res else ReplaceAll res (placeholder paramName) paramValue)"

definition replaceParamPlaceholders :: "string \<Rightarrow> gomap \<Rightarrow> string" where
  "replaceParamPlaceholders template paramMap =
     (if template = [] then []
      else if \<not> Contains template ''^_^'' then template
      else foldl replace_param template paramMap)"

subsection \<open>Replacement in the protocol configurations\<close>

definition replace_entries :: "gomap \<Rightarrow> gomap \<Rightarrow> gomap" where
  "replace_entries paramMap entries =
     foldl (\<lambda>acc (k, v).
        let newKey = replaceParamPlaceholders k paramMap in
        if newKey \<noteq> [] \<and> \<not> Contains newKey ''^_^''
        then map_put newKey (replaceParamPlaceholders v paramMap) acc else acc) [] entries"

definition replace_auth :: "gomap \<Rightarrow> Authorization \<Rightarrow> Authorization" where
  "replace_auth pm u = (let r = (\<lambda>s. replaceParamPlaceholders s pm) in
     u\<lparr>Auth_Type := r (Auth_Type u),
       Auth_BasicAuthUsername := r (Auth_BasicAuthUsername u),
       Auth_BasicAuthPassword := r (Auth_BasicAuthPassword u),
       Auth_DigestAuthUsername := r (Auth_DigestAuthUsername u),
       Auth_DigestAuthPassword := r (Auth_DigestAuthPassword u),
       Auth_BearerTokenToken := r (Auth_BearerTokenToken u)\<rparr>)"

definition replace_http_strings :: "gomap \<Rightarrow> HTTPProtocol \<Rightarrow> HTTPProtocol" where
  "replace_http_strings pm q = (let r = (\<lambda>s. replaceParamPlaceholders s pm) in
     q\<lparr>HTTP_URL := r (HTTP_URL q), HTTP_Method := r (HTTP_Method q), HTTP_Body := r (HTTP_Body q),
       HTTP_ParseScript := r (HTTP_ParseScript q), HTTP_ParseType := r (HTTP_ParseType q),
       HTTP_Keyword := r (HTTP_Keyword q), HTTP_Timeout := r (HTTP_Timeout q),
       HTTP_SSL := r (HTTP_SSL q)\<rparr>)"

text \<open>A map reference is replaced by a new map with the entries rewritten; \<open>nil\<close> stays \<open>nil\<close>.\<close>

definition replace_map_ref :: "gomap \<Rightarrow> addr option \<Rightarrow> Heap \<Rightarrow> addr option \<times> Heap" where
  "replace_map_ref pm p h = (case Option.bind p (maps h) of None \<Rightarrow> (p, h)
     | Some m \<Rightarrow> (let (a, h') = alloc_map (replace_entries pm m) h in (Some a, h')))"

definition replaceHTTPParams :: "addr \<Rightarrow> gomap \<Rightarrow> Heap \<Rightarrow> Heap" where
  "replaceHTTPParams a pm h = (case https h a of None \<Rightarrow> h
     | Some q \<Rightarrow>
         (let q1 = replace_http_strings pm q;
              (hd', h1) = replace_map_ref pm (HTTP_Headers q1) h;
              (pa', h2) = replace_map_ref pm (HTTP_Params q1) h1;
              h3 = h2\<lparr>https := (https h2)(a \<mapsto> q1\<lparr>HTTP_Headers := hd', HTTP_Params := pa'\<rparr>)\<rparr>
          in (case HTTP_Authorization q1 of None \<Rightarrow> h3
              | Some u \<Rightarrow> h3\<lparr>auths := (auths h3)(u := map_option (replace_auth pm) (auths h3 u))\<rparr>)))"

definition replace_tunnel :: "gomap \<Rightarrow> SSHTunnel \<Rightarrow> SSHTunnel" where
  "replace_tunnel pm t = (let r = (\<lambda>s. replaceParamPlaceholders s pm) in
     t\<lparr>Tun_Host := r (Tun_Host t), Tun_Port := r (Tun_Port t), Tun_Username := r (Tun_Username t),
       Tun_Password := r (Tun_Password t)\<rparr>)"

definition replace_tunnel_ref :: "gomap \<Rightarrow> addr option \<Rightarrow> Heap \<Rightarrow> Heap" where
  "replace_tunnel_ref pm p h = (case p of None \<Rightarrow> h
     | Some t \<Rightarrow> h\<lparr>tunnels := (tunnels h)(t := map_option (replace_tunnel pm) (tunnels h t))\<rparr>)"

definition replace_redis :: "gomap \<Rightarrow> RedisProtocol \<Rightarrow> RedisProtocol" where
  "replace_redis pm q = (let r = (\<lambda>s. replaceParamPlaceholders s pm) in
     q\<lparr>Redis_Host := r (Redis_Host q), Redis_Port := r (Redis_Port q),
       Redis_Username := r (Redis_Username q), Redis_Password := r (Redis_Password q),
       Redis_Pattern := r (Redis_Pattern q), Redis_Timeout := r (Redis_Timeout q)\<rparr>)"

definition replaceRedisParams :: "addr \<Rightarrow> gomap \<Rightarrow> Heap \<Rightarrow> Heap" where
  "replaceRedisParams a pm h = (case rediss h a of None \<Rightarrow> h
     | Some q \<Rightarrow> replace_tunnel_ref pm (Redis_SSHTunnel q)
         (h\<lparr>rediss := (rediss h)(a \<mapsto> replace_redis pm q)\<rparr>))"

definition replace_ssh :: "gomap \<Rightarrow> SSHProtocol \<Rightarrow> SSHProtocol" where
  "replace_ssh pm q = (let r = (\<lambda>s. replaceParamPlaceholders s pm) in
     q\<lparr>SSH_Host := r (SSH_Host q), SSH_Port := r (SSH_Port q), SSH_Username := r (SSH_Username q),
       SSH_Password := r (SSH_Password q), SSH_PrivateKey := r (SSH_PrivateKey q),
       SSH_PrivateKeyPassphrase := r (SSH_PrivateKeyPassphrase q), SSH_Script := r (SSH_Script q),
       SSH_ParseType := r (SSH_ParseType q), SSH_ParseScript := r (SSH_ParseScript q),
       SSH_Timeout := r (SSH_Timeout q), SSH_ReuseConnection := r (SSH_ReuseConnection q),
       SSH_UseProxy := r (SSH_UseProxy q), SSH_ProxyHost := r (SSH_ProxyHost q),
       SSH_ProxyPort := r (SSH_ProxyPort q), SSH_ProxyUsername := r (SSH_ProxyUsername q),
       SSH_ProxyPassword := r (SSH_ProxyPassword q), SSH_ProxyPrivateKey := r (SSH_ProxyPrivateKey q)\<rparr>)"

definition replaceSSHParams :: "addr \<Rightarrow> gomap \<Rightarrow> Heap \<Rightarrow> Heap" where
  "replaceSSHParams a pm h = h\<lparr>sshs := (sshs h)(a := map_option (replace_ssh pm) (sshs h a))\<rparr>"

definition replace_jdbc :: "gomap \<Rightarrow> JDBCProtocol \<Rightarrow> JDBCProtocol" where
  "replace_jdbc pm q = (let r = (\<lambda>s. replaceParamPlaceholders s pm) in
     q\<lparr>JDBC_Host := r (JDBC_Host q), JDBC_Port := r (JDBC_Port q), JDBC_Platform := r (JDBC_Platform q),
       JDBC_Username := r (JDBC_Username q), JDBC_Password := r (JDBC_Password q),
       JDBC_Database := r (JDBC_Database q), JDBC_Timeout := r (JDBC_Timeout q),
       JDBC_QueryType := r (JDBC_QueryType q), JDBC_SQL := r (JDBC_SQL q), JDBC_URL := r (JDBC_URL q),
       JDBC_ReuseConnection := r (JDBC_ReuseConnection q)\<rparr>)"

definition replaceJDBCParams :: "addr \<Rightarrow> gomap \<Rightarrow> Heap \<Rightarrow> Heap" where
  "replaceJDBCParams a pm h = (case jdbcs h a of None \<Rightarrow> h
     | Some q \<Rightarrow> replace_tunnel_ref pm (JDBC_SSHTunnel q)
         (h\<lparr>jdbcs := (jdbcs h)(a \<mapsto> replace_jdbc pm q)\<rparr>))"

text \<open>
  The map of parameters is passed by reference: \<open>deref pa h\<close> is its present content. In the loop
  over \<open>metrics.ConfigMap\<close> it may be that very map (\<open>CollectMetrics\<close> passes it), and every step
  reads what the steps before have written.
\<close>

definition deref :: "addr option \<Rightarrow> Heap \<Rightarrow> gomap" where
  "deref p h = (case Option.bind p (maps h) of None \<Rightarrow> [] | Some m \<Rightarrow> m)"

definition replace_config_entry :: "addr option \<Rightarrow> addr \<Rightarrow> Heap \<Rightarrow> string \<Rightarrow> Heap" where
  "replace_config_entry pa a h key = (case maps h a of None \<Rightarrow> h
     | Some cm \<Rightarrow> h\<lparr>maps := (maps h)(a \<mapsto>
         map_put key (replaceParamPlaceholders (map_get key cm) (deref pa h)) cm)\<rparr>)"

definition replaceBasicMetricsParams :: "Metrics \<Rightarrow> addr option \<Rightarrow> Heap \<Rightarrow> (Metrics \<times> Heap) result" where
  "replaceBasicMetricsParams m pa h =
     (let r = (\<lambda>s. replaceParamPlaceholders s (deref pa h));
          m' = m\<lparr>M_Host := r (M_Host m), M_Port := r (M_Port m), M_Timeout := r (M_Timeout m),
                 M_Range := r (M_Range m)\<rparr>
      in Ok (m', (case M_ConfigMap m of None \<Rightarrow> h
                  | Some a \<Rightarrow> foldl (replace_config_entry pa a) h (map fst (deref (Some a) h)))))"

definition on_ref :: "addr option \<Rightarrow> (addr \<Rightarrow> Heap \<Rightarrow> Heap) \<Rightarrow> Heap \<Rightarrow> Heap" where
  "on_ref p f h = (case p of None \<Rightarrow> h | Some a \<Rightarrow> f a h)"

definition ReplaceMetricsParams :: "Metrics \<Rightarrow> addr option \<Rightarrow> Heap \<Rightarrow> (Metrics \<times> Heap) result" where
  "ReplaceMetricsParams m pa h =
     (let h1 = on_ref (M_JDBC m) (\<lambda>a h. replaceJDBCParams a (deref pa h) h) h;
          h2 = on_ref (M_SSH m) (\<lambda>a h. replaceSSHParams a (deref pa h) h) h1;
          h3 = on_ref (M_HTTP m) (\<lambda>a h. replaceHTTPParams a (deref pa h) h) h2;
          h4 = on_ref (M_Redis m) (\<lambda>a h. replaceRedisParams a (deref pa h) h) h3
      in case replaceBasicMetricsParams m pa h4 of
           Inl e \<Rightarrow> Err (''failed to replace basic metrics params: '' @ e)
         | Inr r \<Rightarrow> Ok r)"

fun replace_all_metrics :: "Metrics list \<Rightarrow> addr option \<Rightarrow> Heap \<Rightarrow> (Metrics list \<times> Heap) result" where
  "replace_all_metrics [] pa h = Ok ([], h)"
| "replace_all_metrics (m # ms) pa h =
     (case ReplaceMetricsParams m pa h of
        Inl e \<Rightarrow> Err (''failed to replace params in metrics '' @ M_Name m @ '': '' @ e)
      | Inr (m', h1) \<Rightarrow>
          (case replace_all_metrics ms pa h1 of Inl e \<Rightarrow> Inl e | Inr (ms', h2) \<Rightarrow> Ok (m' # ms', h2)))"

definition ReplaceJobParams :: "Job option \<Rightarrow> Heap \<Rightarrow> (Job \<times> Heap) result" where
  "ReplaceJobParams jo h =
     (case jo of None \<Rightarrow> Err ''job is nil''
      | Some j \<Rightarrow>
          (let (pa, h1) = alloc_map (createParamMapSimple (J_Configmap j)) h in
           case Clone (Some j) h1 of
             (None, h2) \<Rightarrow> Err ''failed to clone job''
           | (Some c, h2) \<Rightarrow>
               (case replace_all_metrics (J_Metrics c) (Some pa) h2 of
                  Inl e \<Rightarrow> Inl e
                | Inr (ms, h3) \<Rightarrow> Ok (c\<lparr>J_Metrics := ms\<rparr>, h3))))"

subsection \<open>Numbers with a unit\<close>

record DoubleAndUnit =
  DU_Value :: float64
  DU_Unit :: string

definition unitSymbols :: "string list" where
  "unitSymbols = [''%'', ''Gi'', ''Mi'', ''Ki'', ''G'', ''g'', ''M'', ''m'', ''K'', ''k'', ''B'', ''b'']"

fun extract_unit :: "string \<Rightarrow> string list \<Rightarrow> DoubleAndUnit option" where
  "extract_unit str [] = None"
| "extract_unit str (u # us) =
     (case Index str u of
        Some 0 \<Rightarrow> Some \<lparr>DU_Value = f_zero False, DU_Unit = TrimSpace str\<rparr>
      | Some (Suc i) \<Rightarrow>
          (case ParseFloat (TrimSpace (take (Suc i) str)) of
             Some v \<Rightarrow> Some \<lparr>DU_Value = v, DU_Unit = TrimSpace (drop (Suc i) str)\<rparr>
           | None \<Rightarrow> extract_unit str us)
      | None \<Rightarrow> extract_unit str us)"

definition ExtractDoubleAndUnitFromStr :: "string \<Rightarrow> DoubleAndUnit option" where
  "ExtractDoubleAndUnitFromStr s =
     (if s = [] then None
      else (let str = TrimSpace s in
        case ParseFloat str of
          Some v \<Rightarrow> Some \<lparr>DU_Value = v, DU_Unit = []\<rparr>
        | None \<Rightarrow> extract_unit str unitSymbols))"

subsection \<open>Templates\<close>

text \<open>
  A template is a literal followed by pairs of a parameter name and a literal; \<open>tprint\<close> is its
  text and \<open>tsubst m\<close> the simultaneous replacement of the names bound in \<open>m\<close>.
\<close>

fun tprint :: "string \<Rightarrow> (string \<times> string) list \<Rightarrow> string" where
  "tprint l [] = l"
| "tprint l ((n, l') # ps) = l @ placeholder n @ tprint l' ps"

fun tsubst :: "(string \<rightharpoonup> string) \<Rightarrow> string \<Rightarrow> (string \<times> string) list \<Rightarrow> string" where
  "tsubst m l [] = l"
| "tsubst m l ((n, l') # ps) =
     l @ (case m n of Some v \<Rightarrow> v | None \<Rightarrow> placeholder n) @ tsubst m l' ps"

text \<open>
  Well-formed for parameter names over the characters \<open>K\<close>: the caret occurs only in
  placeholders, and a literal between two placeholders has a character outside \<open>K\<close> (such as the
  colon in \<open>^_^host^_^:^_^port^_^\<close>).
\<close>

fun template_ok :: "char set \<Rightarrow> string \<Rightarrow> (string \<times> string) list \<Rightarrow> bool" where
  "template_ok K l [] \<longleftrightarrow> CHR ''^'' \<notin> set l"
| "template_ok K l ((n, l') # ps) \<longleftrightarrow>
     CHR ''^'' \<notin> set l \<and> n \<noteq> [] \<and> CHR ''^'' \<notin> set n \<and> (ps = [] \<or> \<not> set l' \<subseteq> K) \<and> template_ok K l' ps"

definition params_ok :: "char set \<Rightarrow> gomap \<Rightarrow> bool" where
  "params_ok K m \<longleftrightarrow> distinct (map fst m) \<and>
     list_all (\<lambda>(k, v). k \<noteq> [] \<and> set k \<subseteq> K \<and> CHR ''^'' \<notin> set k \<and> CHR ''^'' \<notin> set v) m"

text \<open>One round of the loop on the structured template.\<close>

fun treplace :: "string \<Rightarrow> string \<Rightarrow> string \<Rightarrow> (string \<times> string) list \<Rightarrow> string \<times> (string \<times> string) list" where
  "treplace k v l [] = (l, [])"
| "treplace k v l ((n, l') # ps) =
     (let (l2, ps2) = treplace k v l' ps in
      if n = k then (l @ v @ l2, ps2) else (l, (n, l2) # ps2))"

lemma ReplaceAll_step:
  "old \<noteq> [] \<Longrightarrow> ReplaceAll (c # s) old new =
     (if HasPrefix (c # s) old then new @ ReplaceAll (drop (length old) (c # s)) old new
      else c # ReplaceAll s old new)"
  by (subst ReplaceAll.simps, subst (3) ReplaceAll.simps) (simp add: Index_Cons split: option.split)

lemma ReplaceAll_Nil [simp]: "ReplaceAll [] old new = []"
  by (subst ReplaceAll.simps) (simp add: Index_Nil)

lemma ReplaceAll_skip:
  "c \<notin> set a \<Longrightarrow> ReplaceAll (a @ s) (c # old) new = a @ ReplaceAll s (c # old) new"
  by (induction a) (auto simp: ReplaceAll_step)

lemma ReplaceAll_match:
  "old \<noteq> [] \<Longrightarrow> ReplaceAll (old @ s) old new = new @ ReplaceAll s old new"
  using HasPrefix_append [of old s] by (cases old) (simp_all add: ReplaceAll_step del: HasPrefix_append)

text \<open>Two names without a caret before carets.\<close>

lemma caret_free_unique:
  "c \<notin> set a \<Longrightarrow> c \<notin> set b \<Longrightarrow> a @ c # s = b @ c # t \<longleftrightarrow> a = b \<and> s = t"
  by (induction a arbitrary: b) (case_tac b; auto)+

lemma placeholder_Cons: "placeholder k = CHR ''^'' # CHR ''_'' # CHR ''^'' # k @ ''^_^''"
  by (simp add: placeholder_def)

lemma tprint_split:
  "tprint l ps = l \<and> ps = [] \<or> (\<exists>t. ps \<noteq> [] \<and> tprint l ps = l @ CHR ''^'' # CHR ''_'' # CHR ''^'' # t)"
  by (cases ps) (auto simp: placeholder_Cons)

text \<open>No placeholder of a parameter begins inside the end mark of another placeholder.\<close>

lemma no_match_in_end:
  assumes ok: "template_ok K l ps" and sep: "ps = [] \<or> \<not> set l \<subseteq> K"
    and k: "k \<noteq> []" "set k \<subseteq> K" "CHR ''^'' \<notin> set k"
  shows "\<not> HasPrefix (''^_^'' @ tprint l ps) (placeholder k)"
    and "\<not> HasPrefix (CHR ''^'' # tprint l ps) (placeholder k)"
proof -
  have l: "CHR ''^'' \<notin> set l" using ok by (cases ps) auto
  show "\<not> HasPrefix (''^_^'' @ tprint l ps) (placeholder k)"
    using tprint_split [of l ps] l sep k caret_free_unique [of "CHR ''^''" l k]
    by (auto simp: HasPrefix_iff placeholder_Cons)
  show "\<not> HasPrefix (CHR ''^'' # tprint l ps) (placeholder k)"
  proof
    assume "HasPrefix (CHR ''^'' # tprint l ps) (placeholder k)"
    then obtain t where t: "tprint l ps = CHR ''_'' # CHR ''^'' # k @ ''^_^'' @ t"
      by (auto simp: HasPrefix_iff placeholder_Cons)
    from tprint_split [of l ps] show False
    proof
      assume "tprint l ps = l \<and> ps = []"
      with t l show False by auto
    next
      assume "\<exists>u. ps \<noteq> [] \<and> tprint l ps = l @ CHR ''^'' # CHR ''_'' # CHR ''^'' # u"
      then obtain u where u: "ps \<noteq> []" "tprint l ps = l @ CHR ''^'' # CHR ''_'' # CHR ''^'' # u" by blast
      with t have "l @ CHR ''^'' # CHR ''_'' # CHR ''^'' # u = [CHR ''_''] @ CHR ''^'' # k @ ''^_^'' @ t"
        by simp
      then have "l = [CHR ''_'']" and "CHR ''_'' # CHR ''^'' # u = k @ ''^_^'' @ t"
        using caret_free_unique [of "CHR ''^''" l "[CHR ''_'']"] l by auto
      moreover from this(2) have "k = [CHR ''_'']"
        using caret_free_unique [of "CHR ''^''" "[CHR ''_'']" k] k(3) by auto
      ultimately show False using u(1) sep k(2) by simp
    qed
  qed
qed

lemma ReplaceAll_other_placeholder:
  assumes ok: "template_ok K l ps" and sep: "ps = [] \<or> \<not> set l \<subseteq> K"
    and k: "k \<noteq> []" "set k \<subseteq> K" "CHR ''^'' \<notin> set k" and n: "CHR ''^'' \<notin> set n" "n \<noteq> k" "n \<noteq> []"
  shows "ReplaceAll (placeholder n @ tprint l ps) (placeholder k) v =
    placeholder n @ ReplaceAll (tprint l ps) (placeholder k) v"
proof -
  note ends = no_match_in_end [OF ok sep k]
  have ne: "placeholder k \<noteq> []" by (simp add: placeholder_Cons)
  have start: "\<not> HasPrefix (''^_^'' @ n @ ''^_^'' @ tprint l ps) (placeholder k)"
    using caret_free_unique [of "CHR ''^''" n k] k n by (auto simp: HasPrefix_iff placeholder_Cons)
  have mid: "\<not> HasPrefix (CHR ''^'' # n @ ''^_^'' @ tprint l ps) (placeholder k)"
  proof
    assume "HasPrefix (CHR ''^'' # n @ ''^_^'' @ tprint l ps) (placeholder k)"
    then obtain t where
      t: "n @ CHR ''^'' # CHR ''_'' # CHR ''^'' # tprint l ps = [CHR ''_''] @ CHR ''^'' # k @ ''^_^'' @ t"
      by (auto simp: HasPrefix_iff placeholder_Cons)
    then have "n = [CHR ''_'']" and "CHR ''_'' # CHR ''^'' # tprint l ps = k @ ''^_^'' @ t"
      using caret_free_unique [of "CHR ''^''" n "[CHR ''_'']"] n by auto
    moreover from this(2) have "k = [CHR ''_'']"
      using caret_free_unique [of "CHR ''^''" "[CHR ''_'']" k] k(3) by auto
    ultimately show False using n(2) by simp
  qed
  have nskip: "ReplaceAll (n @ s) (placeholder k) v = n @ ReplaceAll s (placeholder k) v" for s
    unfolding placeholder_Cons by (rule ReplaceAll_skip [OF n(1)])
  have us: "\<not> HasPrefix (CHR ''_'' # s) (placeholder k)" for s
    by (simp add: placeholder_Cons)
  show ?thesis
    using start mid ends us ne by (simp add: placeholder_def [of n] ReplaceAll_step nskip)
qed

lemma tprint_prefix: "tprint (a @ l) ps = a @ tprint l ps"
  by (cases ps) auto

lemma treplace_text:
  assumes "template_ok K l ps" and "k \<noteq> []" "set k \<subseteq> K" "CHR ''^'' \<notin> set k"
  shows "ReplaceAll (tprint l ps) (placeholder k) v = (case treplace k v l ps of (l2, ps2) \<Rightarrow> tprint l2 ps2)"
  using assms(1)
proof (induction l ps rule: tprint.induct)
  case (1 l)
  then have "CHR ''^'' \<notin> set l" by simp
  from ReplaceAll_skip [OF this, of "[]"] show ?case by (simp add: placeholder_Cons)
next
  case (2 l n l' ps)
  then have IH: "ReplaceAll (tprint l' ps) (placeholder k) v = (case treplace k v l' ps of (l2, ps2) \<Rightarrow> tprint l2 ps2)"
    and l: "CHR ''^'' \<notin> set l" by auto
  have "ReplaceAll (placeholder n @ tprint l' ps) (placeholder k) v =
      (if n = k then v else placeholder n) @ ReplaceAll (tprint l' ps) (placeholder k) v"
  proof (cases "n = k")
    case True
    then show ?thesis using ReplaceAll_match [of "placeholder k"] by (simp add: placeholder_Cons)
  next
    case False
    with ReplaceAll_other_placeholder [of K l' ps k n v] "2.prems" assms(2-4) show ?thesis by simp
  qed
  moreover have "ReplaceAll (l @ s) (placeholder k) v = l @ ReplaceAll s (placeholder k) v" for s
    unfolding placeholder_Cons by (rule ReplaceAll_skip [OF l])
  ultimately show ?case
    using IH by (cases "treplace k v l' ps") (simp add: tprint_prefix)
qed

lemma treplace_prefix: "set l \<subseteq> set (fst (treplace k v l ps))"
  by (cases ps) (auto split: prod.split)

lemma treplace_ok:
  assumes "template_ok K l ps" and "CHR ''^'' \<notin> set v"
  shows "template_ok K (fst (treplace k v l ps)) (snd (treplace k v l ps))"
  using assms(1)
proof (induction l ps rule: tprint.induct)
  case (2 l n l' ps)
  obtain l2 ps2 where t: "treplace k v l' ps = (l2, ps2)" by fastforce
  with 2 have "template_ok K l2 ps2" by auto
  moreover from this have "CHR ''^'' \<notin> set l2" by (cases ps2) auto
  moreover have "set l' \<subseteq> set l2" using treplace_prefix [of l' k v ps] t by simp
  moreover have "template_ok K (l @ v @ l2) ps2"
    using calculation "2.prems" assms(2) by (cases ps2) auto
  moreover have "ps = [] \<Longrightarrow> ps2 = []" using t by auto
  ultimately show ?case using "2.prems" t by auto
qed simp

lemma tsubst_prefix: "tsubst m (a @ l) ps = a @ tsubst m l ps"
  by (cases ps) auto

lemma tsubst_treplace:
  "tsubst (m(k \<mapsto> v)) l ps = (case treplace k v l ps of (l2, ps2) \<Rightarrow> tsubst (m(k := None)) l2 ps2)"
  by (induction l ps rule: tprint.induct) (auto simp: tsubst_prefix split: prod.splits option.splits)

lemma replace_params_subst:
  "params_ok K m \<Longrightarrow> template_ok K l ps \<Longrightarrow> foldl replace_param (tprint l ps) m = tsubst (map_of m) l ps"
proof (induction m arbitrary: l ps)
  case Nil
  show ?case by (induction l ps rule: tprint.induct) auto
next
  case (Cons kv m)
  obtain k v where kv: "kv = (k, v)" by fastforce
  obtain l2 ps2 where t: "treplace k v l ps = (l2, ps2)" by fastforce
  from Cons.prems kv have k: "k \<noteq> []" "set k \<subseteq> K" "CHR ''^'' \<notin> set k" and v: "CHR ''^'' \<notin> set v"
    and m: "params_ok K m" and fresh: "map_of m k = None"
    by (auto simp: params_ok_def map_of_eq_None_iff)
  have "template_ok K l2 ps2"
    using treplace_ok [OF Cons.prems(2) v, of k] t by simp
  with Cons.IH m have "foldl replace_param (tprint l2 ps2) m = tsubst (map_of m) l2 ps2" by blast
  moreover have "(map_of m)(k := None) = map_of m" using fresh by auto
  moreover have "replace_param (tprint l ps) kv = tprint l2 ps2"
    using k treplace_text [OF Cons.prems(2) k, of v] by (simp add: kv t replace_param_def)
  moreover have "map_of (kv # m) = (map_of m)(k \<mapsto> v)" by (simp add: kv fun_eq_iff)
  ultimately show ?case
    using tsubst_treplace [of "map_of m" k v l ps] by (simp only: foldl.simps t split_conv)
qed

text \<open>C9: on well-formed templates the placeholder loop is simultaneous substitution, provided that neither the names nor the values of the parameters contain \<open>^\<close> and
  no name is empty. The text of a template whose literals contain no \<open>^\<close>, and between placeholders a character that occurs in no parameter
  name, is mapped to the text in which every bound name is replaced by its value and every unbound
  placeholder is kept; the order in which the map is visited does not matter.\<close>

theorem replace_template:
  assumes "params_ok K m" and "template_ok K l ps"
  shows "replaceParamPlaceholders (tprint l ps) m = tsubst (map_of m) l ps"
proof (cases "Contains (tprint l ps) ''^_^''")
  case True
  then have "tprint l ps \<noteq> []" by (auto simp: Contains_iff)
  with True replace_params_subst [OF assms] show ?thesis by (simp add: replaceParamPlaceholders_def)
next
  case False
  then have "ps = []"
    using tprint_split [of l ps] by (auto simp: Contains_iff)
  with False show ?thesis by (simp add: replaceParamPlaceholders_def)
qed

theorem replace_template_witness:
  "params_ok (set ''hostpr'') [(''host'', ''db1''), (''port'', ''3306'')] \<and>
   template_ok (set ''hostpr'') ''jdbc:'' [(''host'', '':''), (''port'', ''/x'')] \<and>
   replaceParamPlaceholders ''jdbc:^_^host^_^:^_^port^_^/x'' [(''host'', ''db1''), (''port'', ''3306'')] =
     ''jdbc:db1:3306/x''"
proof -
  have m: "params_ok (set ''hostpr'') [(''host'', ''db1''), (''port'', ''3306'')]"
    and t: "template_ok (set ''hostpr'') ''jdbc:'' [(''host'', '':''), (''port'', ''/x'')]"
    by (simp_all add: params_ok_def)
  from replace_template [OF m t] m t show ?thesis by (simp add: placeholder_def)
qed

text \<open>without the separator the result depends on the order in which the loop visits the map:
  in the text below the middle name is the value of one placeholder or the name of another.\<close>

theorem replace_order_matters:
  "replaceParamPlaceholders ''^_^a^_^b^_^c^_^'' [(''a'', ''1''), (''b'', ''2'')] = ''1b^_^c^_^'' \<and>
   replaceParamPlaceholders ''^_^a^_^b^_^c^_^'' [(''b'', ''2''), (''a'', ''1'')] = ''^_^a2c^_^''"
  by (simp add: replaceParamPlaceholders_def replace_param_def placeholder_def Contains_def
      Index_Cons Index_Nil ReplaceAll_step)

end
