(* ===== verification/Param_Heap.thy ===== *)
theory Param_Heap
  imports Param_Replacer
begin

text \<open>
  Properties of the parameter replacer beyond templates: what preprocessing does to the password
  entries of a job, and which objects of the heap the replacement of the parameters of a job
  writes. The second part rests on the copy that \<open>Clone\<close> makes (theory \<open>Job_Clone\<close>).
\<close>

subsection \<open>Passwords after preprocessing\<close>

definition is_secret :: "Configmap \<Rightarrow> bool" where
  "is_secret c \<longleftrightarrow> Conf_Type c = 2 \<and> (case Conf_Value c of AStr _ \<Rightarrow> True | _ \<Rightarrow> False)"

lemma decryptPassword_Ok: "\<exists>s. decryptPassword D aes e = Inr s"
  by (auto simp: decryptPassword_def split: sum.split)

lemma preprocess_config_cases:
  "if is_secret c
   then \<exists>e s. Conf_Value c = AStr e \<and> decryptPassword D aes e = Inr s \<and>
        preprocess_config D aes c = c\<lparr>Conf_Value := AStr s, Conf_Type := 1\<rparr>
   else preprocess_config D aes c = c"
proof -
  have "preprocess_config D aes c = (case decryptPassword D aes e of
      Inr s \<Rightarrow> c\<lparr>Conf_Value := AStr s, Conf_Type := 1\<rparr> | Inl _ \<Rightarrow> c)"
    if "Conf_Type c = 2" "Conf_Value c = AStr e" for e
    using that by (simp add: preprocess_config_def)
  moreover have "preprocess_config D aes c = c" if "\<not> is_secret c"
    using that by (auto simp: preprocess_config_def is_secret_def split: any.split)
  moreover obtain s where "decryptPassword D aes (case Conf_Value c of AStr e \<Rightarrow> e | _ \<Rightarrow> []) = Inr s"
    using decryptPassword_Ok by blast
  ultimately show ?thesis
    by (cases "Conf_Value c") (auto simp: is_secret_def)
qed

lemma preprocess_config_idem: "preprocess_config D aes (preprocess_config D' aes' c) = preprocess_config D' aes' c"
  using preprocess_config_cases [of c D' aes']
  by (auto simp: preprocess_config_def is_secret_def split: if_splits any.split)

lemma preprocess_config_not_secret: "\<not> is_secret (preprocess_config D aes c)"
  using preprocess_config_cases [of c D aes] by (auto simp: is_secret_def split: if_splits)

lemma preprocess_config_keeps:
  "Conf_Key (preprocess_config D aes c) = Conf_Key c" "\<not> is_secret c \<Longrightarrow> preprocess_config D aes c = c"
  using preprocess_config_cases [of c D aes] by (auto split: if_splits)

text \<open>preprocessing always succeeds, keeps the keys of the configuration, changes only the
  password entries with a string value, leaves none of them, and a second run changes nothing.\<close>

theorem preprocess_passwords:
  "\<exists>j'. PreprocessJobPasswords D aes (Some j) = (Some j', None) \<and>
     map Conf_Key (J_Configmap j') = map Conf_Key (J_Configmap j) \<and>
     list_all2 (\<lambda>c c'. is_secret c \<or> c' = c) (J_Configmap j) (J_Configmap j') \<and>
     filter is_secret (J_Configmap j') = [] \<and>
     PreprocessJobPasswords D aes (Some j') = (Some j', None)"
  by (auto simp: PreprocessJobPasswords_def preprocess_config_keeps preprocess_config_not_secret
      preprocess_config_idem list_all2_conv_all_nth filter_empty_conv intro: ccontr)

text \<open>a password that the manager encrypted under the shared key of 16 bytes reaches the parameter map in
  clear: whatever the position of the entry in the configuration, its value after preprocessing
  is the plaintext, now as an ordinary string parameter. This relies on the decryption of a block undoing its encryption under that key.\<close>

theorem preprocess_decrypts:
  assumes "length key = 16" and "block_inverse E D key"
    and "i < length (J_Configmap j)" and "Conf_Type (J_Configmap j ! i) = 2"
    and "Conf_Value (J_Configmap j ! i) = AStr (aes_encode E key pt)"
    and "PreprocessJobPasswords D \<lparr>secretKey = key\<rparr> (Some j) = (Some j', e)"
  shows "Conf_Type (J_Configmap j' ! i) = 1 \<and> Conf_Value (J_Configmap j' ! i) = AStr pt \<and>
         param_string (J_Configmap j' ! i) = pt"
proof -
  have "key \<noteq> []" using assms(1) by auto
  then have "decryptPassword D \<lparr>secretKey = key\<rparr> (aes_encode E key pt) = Inr pt"
    using aes_decode_encode [OF assms(1,2), of pt]
    by (simp add: decryptPassword_def AesDecode_def GetSecretKey_def Let_def)
  then show ?thesis
    using assms(3-6) by (auto simp: PreprocessJobPasswords_def preprocess_config_def param_string_def)
qed

theorem preprocess_decrypts_witness:
  "let E = (\<lambda>k b. xor_bytes b k); key = ''tomSun28HaHaHaHa'';
       j = Job0\<lparr>J_Configmap := [\<lparr>Conf_Key = ''password'', Conf_Value = AStr (aes_encode E key ''root''),
             Conf_Type = 2, Conf_Option = []\<rparr>]\<rparr>
   in block_inverse E E key \<and>
      (\<exists>j'. PreprocessJobPasswords E \<lparr>secretKey = key\<rparr> (Some j) = (Some j', None) \<and>
         param_string (J_Configmap j' ! 0) = ''root'')"
proof -
  let ?E = "\<lambda>k b. xor_bytes b k" and ?key = "''tomSun28HaHaHaHa''"
  let ?j = "Job0\<lparr>J_Configmap := [\<lparr>Conf_Key = ''password'', Conf_Value = AStr (aes_encode ?E ?key ''root''),
             Conf_Type = 2, Conf_Option = []\<rparr>]\<rparr>"
  have len: "length ?key = 16" by simp
  then have inv: "block_inverse ?E ?E ?key"
    by (simp add: block_inverse_def xor_bytes_cancel)
  obtain j' where j': "PreprocessJobPasswords ?E \<lparr>secretKey = ?key\<rparr> (Some ?j) = (Some j', None)"
    by (simp add: PreprocessJobPasswords_def)
  have "param_string (J_Configmap j' ! 0) = ''root''"
    using preprocess_decrypts [OF len inv _ _ _ j', of 0 "''root''"] by simp
  with inv j' show ?thesis by (simp only: Let_def) blast
qed

subsection \<open>What replacement changes in the heap\<close>

text \<open>The references that the replacement in a copied metric may write through are fresh.\<close>

definition ptr_from :: "addr \<Rightarrow> addr option \<Rightarrow> bool" where
  "ptr_from b p \<longleftrightarrow> (case p of None \<Rightarrow> True | Some a \<Rightarrow> b \<le> a)"

definition metric_fresh :: "addr \<Rightarrow> Heap \<Rightarrow> Metrics \<Rightarrow> bool" where
  "metric_fresh b h m \<longleftrightarrow> ptr_from b (M_ConfigMap m) \<and> ptr_from b (M_HTTP m) \<and>
     (case Option.bind (M_HTTP m) (https h) of None \<Rightarrow> True | Some q \<Rightarrow> ptr_from b (HTTP_Authorization q))"

text \<open>\<open>writes_above b h h'\<close>: \<open>h'\<close> differs from \<open>h\<close> in maps, HTTP configurations and authorizations
  only at addresses from \<open>b\<close> on, and no HTTP configuration gets another authorization.\<close>

definition writes_above :: "addr \<Rightarrow> Heap \<Rightarrow> Heap \<Rightarrow> bool" where
  "writes_above b h h' \<longleftrightarrow> keeps_copied b h h' \<and>
     (\<forall>a. map_option HTTP_Authorization (https h' a) = map_option HTTP_Authorization (https h a))"

lemma writes_above_refl [simp]: "writes_above b h h"
  by (simp add: writes_above_def)

lemma writes_above_trans: "writes_above b h h1 \<Longrightarrow> writes_above b h1 h2 \<Longrightarrow> writes_above b h h2"
  unfolding writes_above_def by (metis keeps_copied_trans)

lemma writes_above_fresh: "writes_above b h h' \<Longrightarrow> metric_fresh b h m \<Longrightarrow> metric_fresh b h' m"
proof -
  assume w: "writes_above b h h'" and f: "metric_fresh b h m"
  have "\<exists>q0. https h a = Some q0 \<and> HTTP_Authorization q0 = HTTP_Authorization q" if "https h' a = Some q" for a q
  proof -
    have "map_option HTTP_Authorization (https h a) = Some (HTTP_Authorization q)"
      using w that by (metis writes_above_def option.simps(9))
    then show ?thesis by auto
  qed
  with f show ?thesis
    unfolding metric_fresh_def by (cases "M_HTTP m") (fastforce split: option.splits)+
qed

lemma replace_tunnel_ref_writes: "writes_above b h (replace_tunnel_ref pm p h)"
  by (auto simp: replace_tunnel_ref_def writes_above_def keeps_copied_def split: option.split)

lemma writes_above_next: "writes_above b h h' \<Longrightarrow> next_addr h \<le> next_addr h'"
  by (simp add: writes_above_def keeps_copied_def)

lemma writes_above_other:
  "writes_above b h (h\<lparr>jdbcs := js\<rparr>)" "writes_above b h (h\<lparr>rediss := rs\<rparr>)"
  by (simp_all add: writes_above_def keeps_copied_def)

lemma replace_protocols_write:
  "writes_above b h (replaceJDBCParams a pm h)" "writes_above b h (replaceSSHParams a pm h)"
  "writes_above b h (replaceRedisParams a pm h)"
proof -
  show "writes_above b h (replaceSSHParams a pm h)"
    by (simp add: replaceSSHParams_def writes_above_def keeps_copied_def)
qed (auto simp: replaceJDBCParams_def replaceRedisParams_def split: option.split
      intro: writes_above_trans [OF writes_above_other(1) replace_tunnel_ref_writes]
        writes_above_trans [OF writes_above_other(2) replace_tunnel_ref_writes])

lemma replace_map_ref_writes:
  "b \<le> next_addr h \<Longrightarrow> replace_map_ref pm p h = (p', h') \<Longrightarrow>
   writes_above b h h' \<and> https h' = https h \<and> auths h' = auths h \<and> next_addr h \<le> next_addr h'"
  by (auto simp: replace_map_ref_def alloc_map_def writes_above_def keeps_copied_def split: option.splits)

lemma replaceHTTPParams_writes:
  assumes b: "b \<le> next_addr h" and a: "b \<le> a"
    and au: "case https h a of None \<Rightarrow> True | Some q \<Rightarrow> ptr_from b (HTTP_Authorization q)"
  shows "writes_above b h (replaceHTTPParams a pm h)"
proof (cases "https h a")
  case None
  then show ?thesis by (simp add: replaceHTTPParams_def)
next
  case (Some q)
  let ?q1 = "replace_http_strings pm q"
  have auth: "HTTP_Authorization ?q1 = HTTP_Authorization q"
    by (simp add: replace_http_strings_def Let_def)
  obtain hd' h1 where r1: "replace_map_ref pm (HTTP_Headers ?q1) h = (hd', h1)" by fastforce
  obtain pa' h2 where r2: "replace_map_ref pm (HTTP_Params ?q1) h1 = (pa', h2)" by fastforce
  let ?h3 = "h2\<lparr>https := (https h2)(a \<mapsto> ?q1\<lparr>HTTP_Headers := hd', HTTP_Params := pa'\<rparr>)\<rparr>"
  note w1 = replace_map_ref_writes [OF b r1]
  from w1 b have "b \<le> next_addr h1" by simp
  note w2 = replace_map_ref_writes [OF this r2]
  have h2: "https h2 a = Some q" using Some w1 w2 by simp
  have "writes_above b h h2" using w1 w2 writes_above_trans by blast
  moreover have "writes_above b h2 ?h3"
    using a auth h2 by (auto simp: writes_above_def keeps_copied_def)
  moreover have "writes_above b ?h3 (case HTTP_Authorization q of None \<Rightarrow> ?h3
      | Some u \<Rightarrow> ?h3\<lparr>auths := (auths ?h3)(u := map_option (replace_auth pm) (auths ?h3 u))\<rparr>)"
    using au Some by (auto simp: writes_above_def keeps_copied_def ptr_from_def split: option.split)
  ultimately show ?thesis
    using Some r1 r2 auth by (simp add: replaceHTTPParams_def Let_def) (blast intro: writes_above_trans)
qed

lemma replace_config_writes:
  "b \<le> a \<Longrightarrow> writes_above b h (foldl (replace_config_entry pa a) h ks)"
proof (induction ks arbitrary: h)
  case (Cons k ks)
  then have "writes_above b h (replace_config_entry pa a h k)"
    by (auto simp: replace_config_entry_def writes_above_def keeps_copied_def split: option.split)
  with Cons show ?case using writes_above_trans by fastforce
qed simp

lemma ReplaceMetricsParams_Ok: "\<exists>m' h'. ReplaceMetricsParams m pa h = Inr (m', h')"
  by (auto simp: ReplaceMetricsParams_def replaceBasicMetricsParams_def Let_def)

lemma on_ref_writes:
  "(\<And>a. p = Some a \<Longrightarrow> writes_above b h (f a h)) \<Longrightarrow> writes_above b h (on_ref p f h)"
  by (simp add: on_ref_def split: option.split)

lemma ReplaceMetricsParams_writes:
  assumes b: "b \<le> next_addr h" and fr: "metric_fresh b h m" and r: "ReplaceMetricsParams m pa h = Inr (m', h')"
  shows "writes_above b h h'"
proof -
  define h1 where "h1 = on_ref (M_JDBC m) (\<lambda>a h. replaceJDBCParams a (deref pa h) h) h"
  define h2 where "h2 = on_ref (M_SSH m) (\<lambda>a h. replaceSSHParams a (deref pa h) h) h1"
  define h3 where "h3 = on_ref (M_HTTP m) (\<lambda>a h. replaceHTTPParams a (deref pa h) h) h2"
  define h4 where "h4 = on_ref (M_Redis m) (\<lambda>a h. replaceRedisParams a (deref pa h) h) h3"
  have "writes_above b h h1" "writes_above b h1 h2" "writes_above b h3 h4"
    unfolding h1_def h2_def h4_def by (rule on_ref_writes, rule replace_protocols_write)+
  then have w2: "writes_above b h h2" using writes_above_trans by blast
  then have "b \<le> next_addr h2" using b by (auto simp: writes_above_def keeps_copied_def)
  moreover have "metric_fresh b h2 m" using w2 fr by (rule writes_above_fresh)
  ultimately have "writes_above b h2 h3"
    unfolding h3_def
    by (intro on_ref_writes replaceHTTPParams_writes) (auto simp: metric_fresh_def ptr_from_def split: option.splits)
  moreover have "writes_above b h4 h'"
    using r replace_config_writes [of b _ h4] fr
    by (auto simp: ReplaceMetricsParams_def Let_def replaceBasicMetricsParams_def metric_fresh_def ptr_from_def
        simp flip: h1_def h2_def h3_def h4_def split: option.splits)
  ultimately show ?thesis
    using w2 \<open>writes_above b h3 h4\<close> writes_above_trans by blast
qed

lemma replace_all_metrics_writes:
  "b \<le> next_addr h \<Longrightarrow> list_all (metric_fresh b h) ms \<Longrightarrow>
   \<exists>ms' h'. replace_all_metrics ms pa h = Inr (ms', h') \<and> writes_above b h h'"
proof (induction ms arbitrary: h)
  case (Cons m ms)
  obtain m' h1 where r: "ReplaceMetricsParams m pa h = Inr (m', h1)"
    using ReplaceMetricsParams_Ok by blast
  have w: "writes_above b h h1"
    by (rule ReplaceMetricsParams_writes [OF Cons.prems(1) _ r]) (use Cons.prems in simp)
  then have "list_all (metric_fresh b h1) ms" "b \<le> next_addr h1"
    using Cons.prems writes_above_fresh [OF w] writes_above_next [OF w] by (auto simp: list_all_iff)
  with Cons.IH obtain ms' h' where "replace_all_metrics ms pa h1 = Inr (ms', h')" "writes_above b h1 h'"
    by blast
  with r w show ?case using writes_above_trans by auto
qed simp

lemma copied_fresh: "metric_copied b h h' m m' \<Longrightarrow> metric_fresh b h' m'"
  by (auto simp: metric_copied_def metric_fresh_def map_copied_def http_copied_def auth_copied_def
      ptr_from_def split: option.splits)

lemma alloc_map_keeps: "keeps (next_addr h) h (snd (alloc_map m h))"
  by (simp add: alloc_map_def keeps_def)

lemma job_ok_alloc_map: "job_ok h j \<Longrightarrow> job_ok (snd (alloc_map m h)) j"
proof -
  have "ptr_below (next_addr h) p \<Longrightarrow> ptr_below (Suc (next_addr h)) p" for p
    by (auto simp: ptr_below_def split: option.splits)
  then show "job_ok h j \<Longrightarrow> job_ok (snd (alloc_map m h)) j"
    by (auto simp: job_ok_def alloc_map_def metric_below_def http_below_def list_all_iff split: option.splits)
qed

text \<open>C14: replacing the parameters of a job never fails on a well-formed job and never changes an
  existing map, HTTP configuration or authorization: those of the original keep their
  placeholders, whatever the copy of the job shares with it.\<close>

theorem replace_job_isolates:
  assumes ok: "job_ok h j"
  shows "\<exists>j' h'. ReplaceJobParams (Some j) h = Ok (j', h') \<and> keeps_copied (next_addr h) h h'"
proof -
  let ?pm = "createParamMapSimple (J_Configmap j)"
  define h1 where "h1 = snd (alloc_map ?pm h)"
  obtain c h2 where cl: "Clone (Some j) h1 = (Some c, h2)" by (rule Clone_Some)
  have "job_ok h1 j" unfolding h1_def by (rule job_ok_alloc_map [OF ok])
  note sp = Clone_spec [OF this cl]
  have fresh: "list_all (metric_fresh (next_addr h1) h2) (J_Metrics c)"
    using sp copied_fresh by (force simp: list_all2_conv_all_nth list_all_length)
  have "next_addr h1 \<le> next_addr h2" using sp keeps_next by blast
  from replace_all_metrics_writes [OF this fresh, of "Some (next_addr h)"]
  obtain ms h3 where r: "replace_all_metrics (J_Metrics c) (Some (next_addr h)) h2 = Inr (ms, h3)"
    and w: "writes_above (next_addr h1) h2 h3" by blast
  have k1: "keeps_copied (next_addr h) h h1"
    unfolding h1_def by (rule keeps_imp_copied [OF alloc_map_keeps])
  have le: "next_addr h \<le> next_addr h1" by (simp add: h1_def alloc_map_def)
  have "keeps_copied (next_addr h) h1 h2"
    using sp keeps_mono [OF _ le] keeps_imp_copied by blast
  moreover have "keeps_copied (next_addr h) h2 h3"
    using w le by (auto simp: writes_above_def keeps_copied_def)
  ultimately have "keeps_copied (next_addr h) h h3"
    using k1 keeps_copied_trans by blast
  then show ?thesis
    using cl r by (auto simp: ReplaceJobParams_def alloc_map_def h1_def)
qed

theorem replace_job_isolates_witness:
  "job_ok heap_ex job_ex \<and>
   (\<exists>j' h'. ReplaceJobParams (Some job_ex) heap_ex = Ok (j', h') \<and> https h' 2 = https heap_ex 2)"
proof -
  have ok: "job_ok heap_ex job_ex"
    by (simp add: job_ok_def heap_ex_def job_ex_def Job0_def Metrics0_def ptr_below_def
        metric_below_def http_below_def)
  have "next_addr heap_ex = 4" by (simp add: heap_ex_def)
  with replace_job_isolates [OF ok] ok show ?thesis by (fastforce simp: keeps_copied_def)
qed

text \<open>the original is modified all the same. The JDBC configuration is shared with the copy, so
  replacing the parameters of the job below puts the present value of \<open>host\<close> into the
  configuration of the stored job; later runs find no placeholder there any more.\<close>

theorem replace_job_modifies_original:
  "\<exists>j' h'. ReplaceJobParams (Some job_ex) heap_ex = Ok (j', h') \<and>
     map_option JDBC_Host (jdbcs heap_ex 3) = Some ''^_^host^_^'' \<and>
     map_option JDBC_Host (jdbcs h' 3) = Some ''db1''"
  by (simp add: ReplaceJobParams_def job_ex_def heap_ex_def Job0_def Metrics0_def alloc_defs Clone_def
      clone_map_def clone_metric_def clone_http_def clone_auth_def createParamMapSimple_def param_string_def
      ReplaceMetricsParams_def replaceBasicMetricsParams_def on_ref_def deref_def Let_def
      replaceJDBCParams_def replace_jdbc_def replace_tunnel_ref_def replaceHTTPParams_def
      replace_http_strings_def replace_map_ref_def replace_entries_def replaceParamPlaceholders_def
      replace_param_def placeholder_def Contains_def Index_Cons Index_Nil ReplaceAll_step)

end
