(* ===== verification/Unit_Converter.thy ===== *)
theory Unit_Converter
  imports Float64
begin

text \<open>
  \<open>util/unit/converter.go\<close>: unit conversions of the form \<open>field=origin->new\<close>, for byte, bit and time
  units. The conversion tables are those of the source, in the order in which they are tried.
\<close>

record Conversion =
  Cv_Field :: string
  Cv_OriginUnit :: string
  Cv_NewUnit :: string

definition quoted :: "string \<Rightarrow> string" where
  "quoted s = [CHR 0x27] @ s @ [CHR 0x27]"

definition ParseConversion :: "string \<Rightarrow> Conversion result" where
  "ParseConversion unitStr =
     (let parts = Split unitStr ''='' in
      if length parts \<noteq> 2
      then Err (''invalid unit conversion format: '' @ unitStr @ '', expected '' @ quoted ''fieldName=originUnit->newUnit'')
      else (let fieldName = TrimSpace (parts ! 0); conversionPart = TrimSpace (parts ! 1);
                unitParts = Split conversionPart ''->''
            in if length unitParts \<noteq> 2
               then Err (''invalid unit conversion format: '' @ conversionPart @ '', expected '' @ quoted ''originUnit->newUnit'')
               else Ok \<lparr>Cv_Field = fieldName, Cv_OriginUnit = TrimSpace (unitParts ! 0),
                        Cv_NewUnit = TrimSpace (unitParts ! 1)\<rparr>))"

definition byteUnits :: "(string \<times> int) list" where
  "byteUnits = [(''B'', 1), (''KB'', 1024), (''MB'', 1024 * 1024), (''GB'', 1024 * 1024 * 1024),
     (''TB'', 1024 * 1024 * 1024 * 1024), (''PB'', 1024 * 1024 * 1024 * 1024 * 1024),
     (''KIB'', 1024), (''MIB'', 1024 * 1024), (''GIB'', 1024 * 1024 * 1024),
     (''TIB'', 1024 * 1024 * 1024 * 1024), (''PIB'', 1024 * 1024 * 1024 * 1024 * 1024)]"

definition bitUnits :: "(string \<times> int) list" where
  "bitUnits = [(''B'', 1), (''KB'', 1000), (''MB'', 1000 * 1000), (''GB'', 1000 * 1000 * 1000),
     (''TB'', 1000 * 1000 * 1000 * 1000), (''PB'', 1000 * 1000 * 1000 * 1000 * 1000),
     (''KBIT'', 1000), (''MBIT'', 1000 * 1000), (''GBIT'', 1000 * 1000 * 1000),
     (''TBIT'', 1000 * 1000 * 1000 * 1000), (''PBIT'', 1000 * 1000 * 1000 * 1000 * 1000)]"

definition timeUnits :: "(string \<times> int) list" where
  "timeUnits = [(''NS'', 1), (''US'', 1000), (''MS'', 1000000), (''S'', 1000000000), (''MIN'', 60000000000),
     (''H'', 3600000000000), (''D'', 86400000000000)]"

text \<open>The two factors of a conversion, from the first table that has both units.\<close>

fun find_factors :: "(string \<times> int) list list \<Rightarrow> string \<Rightarrow> string \<Rightarrow> (int \<times> int) option" where
  "find_factors [] o_unit n_unit = None"
| "find_factors (t # ts) o_unit n_unit =
     (case (map_of t o_unit, map_of t n_unit) of
        (Some originFactor, Some newFactor) \<Rightarrow> Some (originFactor, newFactor)
      | _ \<Rightarrow> find_factors ts o_unit n_unit)"

definition Convert :: "float64 \<Rightarrow> string \<Rightarrow> string \<Rightarrow> float64 result" where
  "Convert v originUnit0 newUnit0 =
     (let originUnit = ToUpper originUnit0; newUnit = ToUpper newUnit0 in
      if originUnit = newUnit then Ok v
      else (case find_factors [byteUnits, bitUnits, timeUnits] originUnit newUnit of
              Some (originFactor, newFactor) \<Rightarrow> Ok (f_div (f_mul v (f_of_int originFactor)) (f_of_int newFactor))
            | None \<Rightarrow> Err (''unsupported unit conversion from '' @ originUnit @ '' to '' @ newUnit)))"

subsection \<open>Properties\<close>

lemma TrimSpace_no_space: "\<not> list_ex is_space s \<Longrightarrow> TrimSpace s = s"
  by (rule TrimSpace_id) (simp add: list_ex_iff)

lemma Split_two: "c \<notin> set a \<Longrightarrow> c \<notin> set b \<Longrightarrow> Split (a @ (c # sep) @ b) (c # sep) = [a, b]"
  by (simp add: Split_cons Split_single del: append_Cons append.simps)

text \<open>C18: a conversion is read back from its text. For a field name and units without the separators
  and without white space, \<open>ParseConversion\<close> gives them back.\<close>

theorem parse_conversion_print:
  assumes "CHR ''='' \<notin> set f" and "CHR ''='' \<notin> set a" and "CHR ''='' \<notin> set b"
    and "CHR ''-'' \<notin> set a" and "CHR ''-'' \<notin> set b"
    and "\<not> list_ex is_space (f @ a @ b)"
  shows "ParseConversion (f @ ''='' @ a @ ''->'' @ b) = Ok \<lparr>Cv_Field = f, Cv_OriginUnit = a, Cv_NewUnit = b\<rparr>"
proof -
  have s: "\<not> list_ex is_space f" "\<not> list_ex is_space a" "\<not> list_ex is_space b" using assms(6) by simp_all
  have conv: "\<not> list_ex is_space (a @ ''->'' @ b)" using s by (simp add: is_space_def)
  have eq: "CHR ''='' \<notin> set (a @ ''->'' @ b)" using assms by simp
  have 1: "Split (f @ ''='' @ a @ ''->'' @ b) ''='' = [f, a @ ''->'' @ b]"
    using Split_two [OF assms(1) eq, of "[]"] by simp
  have 2: "Split (a @ ''->'' @ b) ''->'' = [a, b]"
    using Split_two [OF assms(4,5), of "''>''"] by simp
  show ?thesis
    unfolding ParseConversion_def Let_def 1 using 2 s conv by (simp add: TrimSpace_no_space)
qed

theorem parse_conversion_print_witness:
  "ParseConversion (''committed'' @ ''='' @ ''B'' @ ''->'' @ ''MB'') =
     Ok \<lparr>Cv_Field = ''committed'', Cv_OriginUnit = ''B'', Cv_NewUnit = ''MB''\<rparr>"
  by (rule parse_conversion_print) (simp_all add: is_space_def)

text \<open>which conversions exist. The result is the unchanged value for equal units up to case, an error
  when no table has both units, and otherwise the value times the factor of the first table that
  has both; so byte factors win over bit factors, and a conversion never mixes tables.\<close>

theorem convert_cases:
  "Convert v a b =
     (if ToUpper a = ToUpper b then Ok v
      else (let scale = (\<lambda>t. Ok (f_div (f_mul v (f_of_int (the (map_of t (ToUpper a))))) (f_of_int (the (map_of t (ToUpper b))))));
                both = (\<lambda>t. {ToUpper a, ToUpper b} \<subseteq> fst ` set t)
            in if both byteUnits then scale byteUnits
               else if both bitUnits then scale bitUnits
               else if both timeUnits then scale timeUnits
               else Err (''unsupported unit conversion from '' @ ToUpper a @ '' to '' @ ToUpper b)))"
proof -
  have mem: "x \<in> fst ` set t \<longleftrightarrow> (\<exists>y. map_of t x = Some y)" for x and t :: "(string \<times> int) list"
    by (metis domIff dom_map_of_conv_image_fst not_None_eq)
  show ?thesis
    by (simp add: Convert_def Let_def mem split: option.split)
qed

end
