(* ===== verification/Metrics_Collector.thy ===== *)
theory Metrics_Collector
  imports Param_Heap Unit_Converter "HOL-Library.Code_Target_Nat"
begin

text \<open>
  \<open>job/collect/dispatch/metrics_collector.go\<close> and \<open>job/collect/strategy/strategy_factory.go\<close>: the
  registry of collectors, the collection of one metric, and the calculation of its fields from the
  collected row by aliases, expressions and unit conversions.

  The expression language (package \<open>expr\<close>) is a parameter: \<open>compile\<close> gives the program of an
  expression or fails, \<open>run\<close> evaluates a program in an environment.
\<close>

subsection \<open>Constants\<close>

definition NullValue :: string where
  "NullValue = ''&nbsp;''"

definition TypeNumber :: int where "TypeNumber = 0"
definition TypeString :: int where "TypeString = 1"

definition CollectSuccess :: int where "CollectSuccess = 0"
definition CollectUnavailable :: int where "CollectUnavailable = 1"
definition CollectUnReachable :: int where "CollectUnReachable = 2"
definition CollectUnConnectable :: int where "CollectUnConnectable = 3"
definition CollectFail :: int where "CollectFail = 4"
definition CollectTimeout :: int where "CollectTimeout = 5"

lemmas code_defs = CollectSuccess_def CollectUnavailable_def CollectUnReachable_def CollectUnConnectable_def
  CollectFail_def CollectTimeout_def

subsection \<open>Calculates and units\<close>

definition splitCalculateString :: "string \<Rightarrow> string list" where
  "splitCalculateString calc = (case Index calc ''='' of None \<Rightarrow> [calc] | Some idx \<Rightarrow> [take idx calc, drop (idx + 1) calc])"

definition isSimpleFieldName :: "string \<Rightarrow> bool" where
  "isSimpleFieldName s \<longleftrightarrow> s \<noteq> [] \<and> list_all (\<lambda>ch.
     (CHR ''a'' \<le> ch \<and> ch \<le> CHR ''z'') \<or> (CHR ''A'' \<le> ch \<and> ch \<le> CHR ''Z'') \<or> (CHR ''0'' \<le> ch \<and> ch \<le> CHR ''9'') \<or> ch = CHR ''_'') s"

text \<open>The two maps a calculates configuration fills: programs and aliases by field.\<close>

type_synonym 'p calc_maps = "(string \<times> 'p) list \<times> gomap"

definition add_calc_string :: "(string \<Rightarrow> 'p option) \<Rightarrow> 'p calc_maps \<Rightarrow> string \<Rightarrow> 'p calc_maps" where
  "add_calc_string compile = (\<lambda>(exprs, aliases) calc.
     (case splitCalculateString calc of
        [field, expression] \<Rightarrow>
          if expression = field \<or> isSimpleFieldName expression then (exprs, map_put field expression aliases)
          else (case compile expression of
                  None \<Rightarrow> (exprs, map_put field expression aliases)
                | Some program \<Rightarrow> (map_put field program exprs, aliases))
      | _ \<Rightarrow> (exprs, aliases)))"

definition parseCalculatesFromStringArray :: "(string \<Rightarrow> 'p option) \<Rightarrow> string list \<Rightarrow> 'p calc_maps \<Rightarrow> 'p calc_maps" where
  "parseCalculatesFromStringArray compile calculates ms = foldl (add_calc_string compile) ms calculates"

definition add_calc_struct :: "(string \<Rightarrow> 'p option) \<Rightarrow> 'p calc_maps \<Rightarrow> Calculate \<Rightarrow> 'p calc_maps" where
  "add_calc_struct compile = (\<lambda>(exprs, aliases) calc.
     (let aliased = (\<lambda>es. (es, if Calc_AliasField calc \<noteq> [] then map_put (Calc_Field calc) (Calc_AliasField calc) aliases else aliases)) in
      if Calc_Script calc \<noteq> [] then
        (case compile (Calc_Script calc) of
           None \<Rightarrow> (exprs, aliases)
         | Some program \<Rightarrow> aliased (map_put (Calc_Field calc) program exprs))
      else aliased exprs))"

definition parseCalculatesFromStructArray :: "(string \<Rightarrow> 'p option) \<Rightarrow> Calculate list \<Rightarrow> 'p calc_maps \<Rightarrow> 'p calc_maps" where
  "parseCalculatesFromStructArray compile calculates ms = foldl (add_calc_struct compile) ms calculates"

text \<open>Reading a string from a decoded JSON object.\<close>

definition obj_string :: "(string \<times> any) list \<Rightarrow> string \<Rightarrow> string" where
  "obj_string kvs k = (case map_of kvs k of Some (AStr s) \<Rightarrow> s | _ \<Rightarrow> [])"

definition add_calc_any :: "(string \<Rightarrow> 'p option) \<Rightarrow> 'p calc_maps \<Rightarrow> any \<Rightarrow> 'p calc_maps" where
  "add_calc_any compile ms item =
     (case item of
        AStr str \<Rightarrow> add_calc_string compile ms str
      | AObj calcMap \<Rightarrow>
          (let calc = \<lparr>Calc_Field = obj_string calcMap ''field'', Calc_Script = obj_string calcMap ''script'',
                       Calc_AliasField = obj_string calcMap ''aliasField''\<rparr>
           in if Calc_Field calc \<noteq> [] then add_calc_struct compile ms calc else ms)
      | _ \<Rightarrow> ms)"

text \<open>
  The last branch of the source converts through JSON to a list of strings or of calculates. No
  value that reaches it gives an entry: scalars and objects are not arrays, and a list of units
  has neither scripts nor aliases.
\<close>

definition parseCalculates :: "(string \<Rightarrow> 'p option) \<Rightarrow> any \<Rightarrow> 'p calc_maps" where
  "parseCalculates compile calculates =
     (case calculates of
        ANil \<Rightarrow> ([], [])
      | AStrings v \<Rightarrow> parseCalculatesFromStringArray compile v ([], [])
      | ACalculates v \<Rightarrow> parseCalculatesFromStructArray compile v ([], [])
      | AArr v \<Rightarrow> foldl (add_calc_any compile) ([], []) v
      | _ \<Rightarrow> ([], []))"

type_synonym unit_map = "(string \<times> Conversion) list"

definition add_conversion :: "unit_map \<Rightarrow> string \<Rightarrow> unit_map" where
  "add_conversion m unitStr = (case ParseConversion unitStr of Inl _ \<Rightarrow> m | Inr c \<Rightarrow> map_put (Cv_Field c) c m)"

definition parseUnitsFromStringArray :: "string list \<Rightarrow> unit_map \<Rightarrow> unit_map" where
  "parseUnitsFromStringArray units m = foldl add_conversion m units"

definition add_unit_struct :: "unit_map \<Rightarrow> Unit \<Rightarrow> unit_map" where
  "add_unit_struct m u = (if Unit_Field u = [] \<or> Unit_Unit u = [] then m
     else add_conversion m (Unit_Field u @ ''='' @ Unit_Unit u))"

definition parseUnitsFromStructArray :: "Unit list \<Rightarrow> unit_map \<Rightarrow> unit_map" where
  "parseUnitsFromStructArray units m = foldl add_unit_struct m units"

definition add_unit_any :: "unit_map \<Rightarrow> any \<Rightarrow> unit_map" where
  "add_unit_any m item =
     (case item of
        AStr str \<Rightarrow> add_conversion m str
      | AObj unitMap \<Rightarrow> add_unit_struct m \<lparr>Unit_Field = obj_string unitMap ''field'', Unit_Unit = obj_string unitMap ''unit''\<rparr>
      | _ \<Rightarrow> m)"

definition parseUnits :: "any \<Rightarrow> unit_map" where
  "parseUnits units =
     (case units of
        ANil \<Rightarrow> []
      | AStrings v \<Rightarrow> parseUnitsFromStringArray v []
      | AUnits v \<Rightarrow> parseUnitsFromStructArray v []
      | AArr v \<Rightarrow> foldl add_unit_any [] v
      | _ \<Rightarrow> [])"

subsection \<open>CalculateFields\<close>

definition formatNumber :: "float64 \<Rightarrow> string" where
  "formatNumber v =
     (let formatted = FormatFloat_prec 4 v in
      if formatted \<noteq> [] \<and> (last formatted = CHR ''0'' \<or> last formatted = CHR ''.'') then FormatFloat_f v else formatted)"

text \<open>The maps built for one row. (The map of alias units of the source is written and never read.)\<close>

record RowMaps =
  aliasFieldValueMap :: gomap
  fieldValueMap :: "(string \<times> any) list"
  stringTypeFieldValueMap :: "(string \<times> any) list"

definition number_or_string :: "string \<Rightarrow> any" where
  "number_or_string v = (case ExtractDoubleAndUnitFromStr v of Some du \<Rightarrow> AFloat (DU_Value du) | None \<Rightarrow> AStr v)"

definition add_alias :: "RowMaps \<Rightarrow> string \<times> string \<Rightarrow> RowMaps" where
  "add_alias rm = (\<lambda>(aliasField, aliasFieldValue).
     if aliasFieldValue = NullValue
     then rm\<lparr>fieldValueMap := map_put aliasField ANil (fieldValueMap rm),
             stringTypeFieldValueMap := map_put aliasField ANil (stringTypeFieldValueMap rm)\<rparr>
     else rm\<lparr>aliasFieldValueMap := map_put aliasField aliasFieldValue (aliasFieldValueMap rm),
             fieldValueMap := map_put aliasField (number_or_string aliasFieldValue) (fieldValueMap rm),
             stringTypeFieldValueMap := map_put aliasField (AStr aliasFieldValue) (stringTypeFieldValueMap rm)\<rparr>)"

definition alias_maps :: "string list \<Rightarrow> ValueRow \<Rightarrow> RowMaps" where
  "alias_maps aliasFields row = foldl add_alias
     \<lparr>aliasFieldValueMap = [], fieldValueMap = [], stringTypeFieldValueMap = []\<rparr> (zip aliasFields (Columns row))"

definition alias_value :: "gomap \<Rightarrow> RowMaps \<Rightarrow> string \<Rightarrow> string" where
  "alias_value aliases rm realField = (let aliasField = map_get realField aliases in
     if aliasField \<noteq> [] then map_get aliasField (aliasFieldValueMap rm) else map_get realField (aliasFieldValueMap rm))"

definition raw_value :: "('p \<Rightarrow> (string \<times> any) list \<Rightarrow> string + any) \<Rightarrow> 'p calc_maps \<Rightarrow> RowMaps \<Rightarrow> Field \<Rightarrow> string" where
  "raw_value run = (\<lambda>(exprs, aliases) rm field.
     (case map_of exprs (Field_Field field) of
        Some program \<Rightarrow>
          (case run program (if Field_Type field = TypeString then stringTypeFieldValueMap rm else fieldValueMap rm) of
             Inl err \<Rightarrow> alias_value aliases rm (Field_Field field)
           | Inr out \<Rightarrow> if out \<noteq> ANil then Sprintv out else [])
      | None \<Rightarrow> alias_value aliases rm (Field_Field field)))"

definition number_value :: "unit_map \<Rightarrow> string \<Rightarrow> string \<Rightarrow> string" where
  "number_value units realField v =
     (case ExtractDoubleAndUnitFromStr v of
        None \<Rightarrow> NullValue
      | Some du \<Rightarrow>
          (case map_of units realField of
             None \<Rightarrow> formatNumber (DU_Value du)
           | Some conversion \<Rightarrow>
               (let originUnit = (if DU_Unit du = [] then Cv_OriginUnit conversion else DU_Unit du) in
                case Convert (DU_Value du) originUnit (Cv_NewUnit conversion) of
                  Inl _ \<Rightarrow> formatNumber (DU_Value du)
                | Inr converted \<Rightarrow> formatNumber converted)))"

definition finish_value :: "unit_map \<Rightarrow> Field \<Rightarrow> string \<Rightarrow> string" where
  "finish_value units field v =
     (let v1 = (if v \<noteq> [] \<and> v \<noteq> NullValue \<and> Field_Type field = TypeNumber
                then number_value units (Field_Field field) v else v)
      in if v1 = [] then NullValue else v1)"

definition field_value :: "('p \<Rightarrow> (string \<times> any) list \<Rightarrow> string + any) \<Rightarrow> 'p calc_maps \<Rightarrow> unit_map \<Rightarrow> RowMaps \<Rightarrow> Field \<Rightarrow> string" where
  "field_value run ms units rm field = finish_value units field (raw_value run ms rm field)"

definition record_value :: "RowMaps \<Rightarrow> string \<Rightarrow> string \<Rightarrow> RowMaps" where
  "record_value rm realField v =
     (if v \<noteq> NullValue
      then rm\<lparr>fieldValueMap := map_put realField (number_or_string v) (fieldValueMap rm),
              stringTypeFieldValueMap := map_put realField (AStr v) (stringTypeFieldValueMap rm)\<rparr>
      else rm\<lparr>fieldValueMap := map_put realField ANil (fieldValueMap rm),
              stringTypeFieldValueMap := map_put realField ANil (stringTypeFieldValueMap rm)\<rparr>)"

fun calc_columns :: "('p \<Rightarrow> (string \<times> any) list \<Rightarrow> string + any) \<Rightarrow> 'p calc_maps \<Rightarrow> unit_map \<Rightarrow> RowMaps \<Rightarrow> Field list \<Rightarrow> string list" where
  "calc_columns run ms units rm [] = []"
| "calc_columns run ms units rm (field # fs) =
     (let v = field_value run ms units rm field
      in v # calc_columns run ms units (record_value rm (Field_Field field) v) fs)"

definition CalculateFields :: "(string \<Rightarrow> 'p option) \<Rightarrow> ('p \<Rightarrow> (string \<times> any) list \<Rightarrow> string + any) \<Rightarrow>
    Metrics option \<Rightarrow> CollectRepMetricsData option \<Rightarrow> CollectRepMetricsData option" where
  "CalculateFields compile run mo ro =
     (case (ro, mo) of
        (Some res, Some metrics) \<Rightarrow>
          (let res1 = res\<lparr>R_Priority := M_Priority metrics, R_Fields := M_Fields metrics\<rparr>;
               aliasRowList = R_Values res
           in if aliasRowList = [] then Some res1
              else if M_AliasFields metrics = [] then Some (res1\<lparr>R_Values := []\<rparr>)
              else (let ms = parseCalculates compile (M_Calculates metrics); units = parseUnits (M_Units metrics)
                    in Some (res1\<lparr>R_Values := map (\<lambda>row. \<lparr>Columns = calc_columns run ms units
                         (alias_maps (M_AliasFields metrics) row) (M_Fields metrics)\<rparr>) aliasRowList\<rparr>)))
      | _ \<Rightarrow> ro)"

subsection \<open>The registry of collectors\<close>

text \<open>A collector: its protocol and what \<open>Collect\<close> returns for a metric, with \<open>None\<close> for a nil
  result; it may panic. A factory makes a collector.\<close>

record Collector =
  Col_Protocol :: string
  Col_Collect :: "Metrics \<Rightarrow> Heap \<Rightarrow> CollectRepMetricsData option outcome"

record CollectorRegistry =
  reg_factories :: "(string \<times> (unit \<Rightarrow> Collector)) list"
  reg_collectors :: "(string \<times> Collector) list"
  reg_initialized :: bool

definition empty_registry :: CollectorRegistry where
  "empty_registry = \<lparr>reg_factories = [], reg_collectors = [], reg_initialized = False\<rparr>"

definition RegisterFactory :: "string \<Rightarrow> (unit \<Rightarrow> Collector) \<Rightarrow> CollectorRegistry \<Rightarrow> CollectorRegistry" where
  "RegisterFactory protocol factory r = r\<lparr>reg_factories := map_put protocol factory (reg_factories r)\<rparr>"

definition InitializeCollectors :: "CollectorRegistry \<Rightarrow> CollectorRegistry" where
  "InitializeCollectors r = (if reg_initialized r then r
     else r\<lparr>reg_collectors := foldl (\<lambda>m (protocol, factory). map_put protocol (factory ()) m) (reg_collectors r) (reg_factories r),
            reg_initialized := True\<rparr>)"

definition Register :: "Collector \<Rightarrow> CollectorRegistry \<Rightarrow> CollectorRegistry" where
  "Register c r = r\<lparr>reg_collectors := map_put (Col_Protocol c) c (reg_collectors r)\<rparr>"

definition CollectorFor :: "CollectorRegistry \<Rightarrow> string \<Rightarrow> Collector result" where
  "CollectorFor r protocol = (case map_of (reg_collectors r) protocol of
     None \<Rightarrow> Err (''no collector found for protocol: '' @ protocol) | Some c \<Rightarrow> Ok c)"

definition SupportedProtocols :: "CollectorRegistry \<Rightarrow> string list" where
  "SupportedProtocols r = map fst (reg_collectors r)"

definition CollectorCount :: "CollectorRegistry \<Rightarrow> nat" where
  "CollectorCount r = length (reg_collectors r)"

subsection \<open>CollectMetrics\<close>

definition createErrorResponse :: "Metrics \<Rightarrow> Job \<Rightarrow> time \<Rightarrow> int \<Rightarrow> string \<Rightarrow> CollectRepMetricsData" where
  "createErrorResponse metrics job now code message = Data0
     \<lparr>R_ID := J_MonitorID job, R_MonitorID := J_MonitorID job, R_TenantID := J_TenantID job, R_App := J_App job,
      R_Metrics := M_Name metrics, R_Priority := M_Priority metrics, R_Time := word_of_int (now div 1000000),
      R_Code := code, R_Msg := message\<rparr>"

text \<open>The parameters of the job are merged into the configuration map of the metric, which is created
  when it is nil.\<close>

definition ensure_map :: "Metrics \<Rightarrow> Heap \<Rightarrow> Metrics \<times> addr \<times> Heap" where
  "ensure_map metrics h = (case M_ConfigMap metrics of
     Some a \<Rightarrow> (metrics, a, h)
   | None \<Rightarrow> (let (a, h') = alloc_map [] h in (metrics\<lparr>M_ConfigMap := Some a\<rparr>, a, h')))"

definition merge_config :: "Configmap list \<Rightarrow> gomap \<Rightarrow> gomap" where
  "merge_config configmap m = foldl (\<lambda>m param. map_put (Conf_Key param)
     (if Conf_Value param = ANil then [] else Sprintv (Conf_Value param)) m) m configmap"

definition enrich :: "Job \<Rightarrow> Heap \<Rightarrow> CollectRepMetricsData \<Rightarrow> CollectRepMetricsData" where
  "enrich job h res = res
     \<lparr>R_ID := J_MonitorID job, R_MonitorID := J_MonitorID job, R_App := J_App job, R_TenantID := J_TenantID job,
      R_Labels := foldl (\<lambda>m (k, v). map_put k v m) (R_Labels res) (deref (J_Labels job) h),
      R_Metadata := foldl (\<lambda>m (k, v). map_put k v m) (R_Metadata res) (deref (J_Metadata job) h)\<rparr>"

text \<open>The goroutine of \<open>CollectMetrics\<close>: the value sent on the channel, the metric and the heap as it
  leaves them. A nil result is dereferenced when the failure is logged.\<close>

definition CollectMetrics :: "(string \<Rightarrow> 'p option) \<Rightarrow> ('p \<Rightarrow> (string \<times> any) list \<Rightarrow> string + any) \<Rightarrow> CollectorRegistry \<Rightarrow>
    time \<Rightarrow> Metrics \<Rightarrow> Job \<Rightarrow> Heap \<Rightarrow> (CollectRepMetricsData \<times> Metrics \<times> Heap) outcome" where
  "CollectMetrics compile run reg now metrics0 job h0 =
     (let (metrics1, a, h1) = ensure_map metrics0 h0;
          h2 = h1\<lparr>maps := (maps h1)(a := Some (merge_config (J_Configmap job) (deref (Some a) h1)))\<rparr>
      in case ReplaceMetricsParams metrics1 (M_ConfigMap metrics1) h2 of
           Inl err \<Rightarrow> Inr (createErrorResponse metrics1 job now CollectFail (''Param replacement error: '' @ err), metrics1, h2)
         | Inr (metrics2, h3) \<Rightarrow>
             (case CollectorFor reg (M_Protocol metrics2) of
                Inl err \<Rightarrow> Inr (createErrorResponse metrics2 job now CollectUnavailable (''Collector not found: '' @ err), metrics2, h3)
              | Inr collector \<Rightarrow>
                  (case Col_Collect collector metrics2 h3 of
                     Inl p \<Rightarrow> Inl p
                   | Inr None \<Rightarrow> Inl NilDereference
                   | Inr (Some res) \<Rightarrow>
                       (let res1 = (if R_Code res = CollectSuccess
                                    then the (CalculateFields compile run (Some metrics2) (Some res)) else res)
                        in Inr (enrich job h3 res1, metrics2, h3)))))"


subsection \<open>The shape of calculated data\<close>

lemma finish_value_not_empty: "finish_value units field v \<noteq> []"
  by (simp add: finish_value_def Let_def NullValue_def)

lemma length_calc_columns [simp]: "length (calc_columns run ms units rm fs) = length fs"
  by (induction fs arbitrary: rm) (simp_all add: Let_def)

lemma calc_columns_not_empty: "[] \<notin> set (calc_columns run ms units rm fs)"
  using finish_value_not_empty by (induction fs arbitrary: rm) (auto simp: Let_def field_value_def dest: sym)

lemma CalculateFields_total: "\<exists>out. CalculateFields compile run (Some metrics) (Some res) = Some out"
  by (simp add: CalculateFields_def Let_def)

text \<open>C17: after \<open>CalculateFields\<close> the data carries the fields and the priority of its metric, every row
  has exactly one column per field, no column is empty (a missing value is \<open>&nbsp;\<close>), and there are as
  many rows as were collected, unless the metric has no alias fields, when no row is left. Everything
  else of the data is kept.\<close>

theorem calculate_shape:
  assumes "CalculateFields compile run (Some metrics) (Some res) = Some out"
  shows "R_Fields out = M_Fields metrics \<and> R_Priority out = M_Priority metrics \<and>
    length (R_Values out) = (if M_AliasFields metrics = [] then 0 else length (R_Values res)) \<and>
    (\<forall>row \<in> set (R_Values out). length (Columns row) = length (M_Fields metrics) \<and> [] \<notin> set (Columns row)) \<and>
    out\<lparr>R_Fields := R_Fields res, R_Priority := R_Priority res, R_Values := R_Values res\<rparr> = res"
  using assms by (auto simp: CalculateFields_def Let_def calc_columns_not_empty split: if_splits)

subsection \<open>Aliases\<close>

text \<open>Without programs the columns of a row do not depend on each other.\<close>

lemma record_value_aliases [simp]: "aliasFieldValueMap (record_value rm f v) = aliasFieldValueMap rm"
  by (simp add: record_value_def)

lemma calc_columns_no_programs:
  "calc_columns run ([], al) units rm fs = map (\<lambda>f. finish_value units f (alias_value al rm (Field_Field f))) fs"
proof (induction fs arbitrary: rm)
  case (Cons f fs)
  have "alias_value al (record_value rm g v) = alias_value al rm" for g v
    by (simp add: alias_value_def fun_eq_iff Let_def)
  then show ?case by (simp add: Cons Let_def field_value_def raw_value_def)
qed simp

text \<open>The collected value of an alias field: the last column of that name in the row that is not null.\<close>

definition collected :: "string list \<Rightarrow> ValueRow \<Rightarrow> string \<Rightarrow> string" where
  "collected aliasFields row k =
     (case map_of (rev (filter (\<lambda>(_, v). v \<noteq> NullValue) (zip aliasFields (Columns row)))) k of None \<Rightarrow> [] | Some v \<Rightarrow> v)"

lemma alias_maps_fold:
  "map_of (aliasFieldValueMap (foldl add_alias rm ps)) k =
    (case map_of (rev (filter (\<lambda>(_, v). v \<noteq> NullValue) ps)) k of None \<Rightarrow> map_of (aliasFieldValueMap rm) k | Some v \<Rightarrow> Some v)"
  by (induction ps arbitrary: rm) (auto simp: add_alias_def map_add_def split: option.splits)

lemma alias_maps_collected: "map_get k (aliasFieldValueMap (alias_maps aliasFields row)) = collected aliasFields row k"
  by (simp add: map_get_def alias_maps_def alias_maps_fold collected_def split: option.splits)

text \<open>when no calculation is an expression that compiles, the column of a text field is the value
  collected under its alias, or under its own name when it has no alias, and \<open>&nbsp;\<close> when
  nothing was collected there.\<close>

theorem calculate_aliases:
  assumes "parseCalculates compile (M_Calculates metrics) = ([], al)"
    and "M_AliasFields metrics \<noteq> []" and "i < length (R_Values res)" and "j < length (M_Fields metrics)"
    and "f = M_Fields metrics ! j" and "Field_Type f \<noteq> TypeNumber"
    and "v = collected (M_AliasFields metrics) (R_Values res ! i)
               (if map_get (Field_Field f) al = [] then Field_Field f else map_get (Field_Field f) al)"
  shows "Columns (R_Values (the (CalculateFields compile run (Some metrics) (Some res))) ! i) ! j =
    (if v = [] then NullValue else v)"
  using assms by (auto simp: CalculateFields_def Let_def calc_columns_no_programs finish_value_def alias_value_def
    alias_maps_collected)


text \<open>An expression language with only variables, for the concrete instances: \<open>$x\<close> is the value of \<open>x\<close>.\<close>

definition compile_ex :: "string \<Rightarrow> string option" where
  "compile_ex e = (case e of c # x \<Rightarrow> if c = CHR ''$'' then Some x else None | [] \<Rightarrow> None)"

definition run_ex :: "string \<Rightarrow> (string \<times> any) list \<Rightarrow> string + any" where
  "run_ex x env = (case map_of env x of Some v \<Rightarrow> Inr v | None \<Rightarrow> Inl ''unknown name'')"

definition metrics_ex :: Metrics where
  "metrics_ex = Metrics0\<lparr>M_Name := ''cpu'', M_Protocol := ''ssh'', M_AliasFields := [''Name'', ''Load''],
     M_Fields := [Field0\<lparr>Field_Field := ''name'', Field_Type := 1\<rparr>, Field0\<lparr>Field_Field := ''copy'', Field_Type := 1\<rparr>],
     M_Calculates := AStrings [''name=Name'']\<rparr>"

definition data_ex :: CollectRepMetricsData where
  "data_ex = Data0\<lparr>R_Values := [\<lparr>Columns = [''core0'', ''7'']\<rparr>]\<rparr>"

lemma metrics_ex_sel [simp]:
  "M_AliasFields metrics_ex = [''Name'', ''Load'']"
  "M_Fields metrics_ex = [Field0\<lparr>Field_Field := ''name'', Field_Type := 1\<rparr>, Field0\<lparr>Field_Field := ''copy'', Field_Type := 1\<rparr>]"
  "M_Calculates metrics_ex = AStrings [''name=Name'']"
  "R_Values data_ex = [\<lparr>Columns = [''core0'', ''7'']\<rparr>]"
  by (simp_all add: metrics_ex_def data_ex_def)

lemma calculates_ex: "parseCalculates compile_ex (M_Calculates metrics_ex) = ([], [(''name'', ''Name'')])"
proof -
  have "splitCalculateString ''name=Name'' = [''name'', ''Name'']" "isSimpleFieldName ''Name''" by code_simp+
  then show ?thesis by (simp add: parseCalculates_def parseCalculatesFromStringArray_def add_calc_string_def)
qed

lemma collected_ex:
  "collected [''Name'', ''Load''] \<lparr>Columns = [''core0'', ''7'']\<rparr> ''Name'' = ''core0''"
  "collected [''Name'', ''Load''] \<lparr>Columns = [''core0'', ''7'']\<rparr> ''copy'' = []"
  by (simp_all add: collected_def NullValue_def)

theorem calculate_aliases_witness:
  "Columns (R_Values (the (CalculateFields compile_ex run_ex (Some metrics_ex) (Some data_ex))) ! 0) ! 0 = ''core0'' \<and>
   Columns (R_Values (the (CalculateFields compile_ex run_ex (Some metrics_ex) (Some data_ex))) ! 0) ! 1 = NullValue"
proof
  show "Columns (R_Values (the (CalculateFields compile_ex run_ex (Some metrics_ex) (Some data_ex))) ! 0) ! 0 = ''core0''"
    by (subst calculate_aliases [OF calculates_ex _ _ _ refl _ refl]) (simp_all add: map_get_def collected_ex TypeNumber_def)
  show "Columns (R_Values (the (CalculateFields compile_ex run_ex (Some metrics_ex) (Some data_ex))) ! 0) ! 1 = NullValue"
    by (subst calculate_aliases [OF calculates_ex _ _ _ refl _ refl]) (simp_all add: map_get_def collected_ex TypeNumber_def)
qed

theorem calculate_shape_witness:
  "map (\<lambda>row. length (Columns row)) (R_Values (the (CalculateFields compile_ex run_ex (Some metrics_ex) (Some data_ex)))) = [2]"
proof -
  obtain out where out: "CalculateFields compile_ex run_ex (Some metrics_ex) (Some data_ex) = Some out"
    using CalculateFields_total by blast
  from calculate_shape [OF this] have "length (R_Values out) = 1" "\<forall>row \<in> set (R_Values out). length (Columns row) = 2"
    by simp_all
  then show ?thesis using out by (auto simp: length_Suc_conv)
qed

subsection \<open>Expressions\<close>

text \<open>What an environment holds for a column.\<close>

definition cell :: "bool \<Rightarrow> string \<Rightarrow> any" where
  "cell text c = (if c = NullValue then ANil else if text then AStr c else number_or_string c)"

definition env_of :: "bool \<Rightarrow> RowMaps \<Rightarrow> (string \<times> any) list" where
  "env_of text rm = (if text then stringTypeFieldValueMap rm else fieldValueMap rm)"

lemma env_of_record: "map_of (env_of text (record_value rm f v)) = (map_of (env_of text rm))(f \<mapsto> cell text v)"
  by (simp add: env_of_def record_value_def cell_def)

lemma calc_columns_env:
  assumes "j < length fs"
  shows "\<exists>rm'. aliasFieldValueMap rm' = aliasFieldValueMap rm \<and>
    calc_columns run ms units rm fs ! j = field_value run ms units rm' (fs ! j) \<and>
    (\<forall>text. map_of (env_of text rm') = map_of (env_of text rm) ++
       map_of (rev (zip (map Field_Field (take j fs)) (map (cell text) (calc_columns run ms units rm fs)))))"
  using assms
proof (induction fs arbitrary: rm j)
  case (Cons f fs)
  show ?case
  proof (cases j)
    case 0
    then show ?thesis by (auto simp: Let_def intro!: exI [of _ rm])
  next
    case (Suc k)
    let ?v = "field_value run ms units rm f"
    from Cons.IH [of k "record_value rm (Field_Field f) ?v"] Cons.prems Suc
    obtain rm' where "aliasFieldValueMap rm' = aliasFieldValueMap (record_value rm (Field_Field f) ?v)"
      "calc_columns run ms units (record_value rm (Field_Field f) ?v) fs ! k = field_value run ms units rm' (fs ! k)"
      "\<forall>text. map_of (env_of text rm') = map_of (env_of text (record_value rm (Field_Field f) ?v)) ++
         map_of (rev (zip (map Field_Field (take k fs)) (map (cell text) (calc_columns run ms units (record_value rm (Field_Field f) ?v) fs))))"
      by auto
    then show ?thesis using Suc
      by (intro exI [of _ rm']) (simp add: Let_def env_of_record)
  qed
qed simp


text \<open>C12: an expression is evaluated in the collected values of the row extended by the fields calculated
  before it, a field that is null being nil; the column is the printed result, completed by the unit
  conversion for numbers, and the value of the alias when the evaluation fails.\<close>

theorem expressions_see_earlier_fields:
  assumes "parseCalculates compile (M_Calculates metrics) = (exprs, al)"
    and "M_AliasFields metrics \<noteq> []" and "i < length (R_Values res)" and "j < length (M_Fields metrics)"
    and f: "f = M_Fields metrics ! j" and "map_of exprs (Field_Field f) = Some program"
    and "cols = Columns (R_Values (the (CalculateFields compile run (Some metrics) (Some res))) ! i)"
    and "rm = alias_maps (M_AliasFields metrics) (R_Values res ! i)" and "text = (Field_Type f = TypeString)"
  shows "\<exists>env. map_of env = map_of (env_of text rm) ++ map_of (rev (zip (map Field_Field (take j (M_Fields metrics))) (map (cell text) cols))) \<and>
    cols ! j = finish_value (parseUnits (M_Units metrics)) f
      (case run program env of Inl e \<Rightarrow> alias_value al rm (Field_Field f) | Inr ANil \<Rightarrow> [] | Inr out \<Rightarrow> Sprintv out)"
proof -
  let ?units = "parseUnits (M_Units metrics)"
  have cols: "cols = calc_columns run (exprs, al) ?units rm (M_Fields metrics)"
    using assms by (auto simp: CalculateFields_def Let_def)
  from calc_columns_env [OF assms(4), of rm run "(exprs, al)" ?units] obtain rm' where
    rm': "aliasFieldValueMap rm' = aliasFieldValueMap rm" "cols ! j = field_value run (exprs, al) ?units rm' f"
      "map_of (env_of text rm') = map_of (env_of text rm) ++ map_of (rev (zip (map Field_Field (take j (M_Fields metrics))) (map (cell text) cols)))"
    unfolding cols f by blast
  have "alias_value al rm' = alias_value al rm" using rm'(1) by (simp add: alias_value_def fun_eq_iff Let_def)
  then have "field_value run (exprs, al) ?units rm' f = finish_value ?units f
      (case run program (env_of text rm') of Inl e \<Rightarrow> alias_value al rm (Field_Field f) | Inr ANil \<Rightarrow> [] | Inr out \<Rightarrow> Sprintv out)"
    using assms(6,9) by (simp add: field_value_def raw_value_def env_of_def split: sum.splits any.splits)
  with rm'(2,3) show ?thesis by auto
qed

definition metrics_expr_ex :: Metrics where
  "metrics_expr_ex = metrics_ex\<lparr>M_Calculates := AStrings [''name=Name'', ''copy=$name'']\<rparr>"

lemma metrics_expr_ex_sel [simp]:
  "M_AliasFields metrics_expr_ex = M_AliasFields metrics_ex" "M_Fields metrics_expr_ex = M_Fields metrics_ex"
  "M_Calculates metrics_expr_ex = AStrings [''name=Name'', ''copy=$name'']" "M_Units metrics_expr_ex = ANil"
  by (simp_all add: metrics_expr_ex_def metrics_ex_def Metrics0_def)

lemma calculates_expr_ex:
  "parseCalculates compile_ex (M_Calculates metrics_expr_ex) = ([(''copy'', ''name'')], [(''name'', ''Name'')])"
proof -
  have "splitCalculateString ''name=Name'' = [''name'', ''Name'']" "isSimpleFieldName ''Name''"
    "splitCalculateString ''copy=$name'' = [''copy'', ''$name'']" "\<not> isSimpleFieldName ''$name''" "compile_ex ''$name'' = Some ''name''"
    by code_simp+
  then show ?thesis by (simp add: parseCalculates_def parseCalculatesFromStringArray_def add_calc_string_def)
qed

lemma columns_expr_ex:
  "Columns (R_Values (the (CalculateFields compile_ex run_ex (Some metrics_expr_ex) (Some data_ex))) ! 0) ! 0 = ''core0''"
  by (simp add: CalculateFields_def Let_def calculates_expr_ex [simplified] field_value_def raw_value_def alias_value_def map_get_def
    alias_maps_def add_alias_def finish_value_def TypeNumber_def NullValue_def)

theorem expressions_see_earlier_fields_witness:
  "Columns (R_Values (the (CalculateFields compile_ex run_ex (Some metrics_expr_ex) (Some data_ex))) ! 0) ! 1 = ''core0''"
proof -
  let ?cols = "Columns (R_Values (the (CalculateFields compile_ex run_ex (Some metrics_expr_ex) (Some data_ex))) ! 0)"
  let ?f = "M_Fields metrics_expr_ex ! 1"
  have "length ?cols = 2" by (simp add: CalculateFields_def Let_def)
  then obtain b where cols: "?cols = [''core0'', b]"
    using columns_expr_ex by (auto simp: length_Suc_conv numeral_2_eq_2)
  have "\<exists>env. map_of env = map_of (env_of True (alias_maps (M_AliasFields metrics_expr_ex) (R_Values data_ex ! 0))) ++
      map_of (rev (zip (map Field_Field (take 1 (M_Fields metrics_expr_ex))) (map (cell True) ?cols))) \<and>
    ?cols ! 1 = finish_value (parseUnits (M_Units metrics_expr_ex)) ?f
      (case run_ex ''name'' env of Inl e \<Rightarrow> alias_value [(''name'', ''Name'')] (alias_maps (M_AliasFields metrics_expr_ex) (R_Values data_ex ! 0)) (Field_Field ?f)
       | Inr ANil \<Rightarrow> [] | Inr out \<Rightarrow> Sprintv out)"
    by (rule expressions_see_earlier_fields [OF calculates_expr_ex _ _ _ refl _ refl refl]) (simp_all add: TypeString_def)
  then obtain env where env: "map_of env = map_of (env_of True (alias_maps (M_AliasFields metrics_expr_ex) (R_Values data_ex ! 0))) ++
      map_of (rev (zip (map Field_Field (take 1 (M_Fields metrics_expr_ex))) (map (cell True) ?cols)))" and
    col: "?cols ! 1 = finish_value (parseUnits (M_Units metrics_expr_ex)) ?f (case run_ex ''name'' env of
      Inl e \<Rightarrow> alias_value [(''name'', ''Name'')] (alias_maps (M_AliasFields metrics_expr_ex) (R_Values data_ex ! 0)) (Field_Field ?f)
      | Inr ANil \<Rightarrow> [] | Inr out \<Rightarrow> Sprintv out)"
    by blast
  from env have "map_of env ''name'' = Some (AStr ''core0'')" unfolding cols by (simp add: cell_def NullValue_def)
  then show ?thesis unfolding col by (simp add: run_ex_def finish_value_def TypeNumber_def)
qed

subsection \<open>Collection\<close>

lemma replace_keeps: "ReplaceMetricsParams m pa h = Inr (m', h') \<Longrightarrow> M_Protocol m' = M_Protocol m \<and> M_Name m' = M_Name m"
  by (auto simp: ReplaceMetricsParams_def replaceBasicMetricsParams_def Let_def)

lemma ensure_map_keeps: "ensure_map m h = (m', a, h') \<Longrightarrow> M_Protocol m' = M_Protocol m \<and> M_Name m' = M_Name m"
  by (auto simp: ensure_map_def Let_def split: option.splits prod.splits)

lemma CalculateFields_code:
  "R_Code (the (CalculateFields compile run (Some m) (Some r))) = R_Code r \<and> R_Msg (the (CalculateFields compile run (Some m) (Some r))) = R_Msg r"
  by (simp add: CalculateFields_def Let_def)

text \<open>Replacing the parameters never fails, so a metric is always handed to the collector of its protocol.\<close>

lemma CollectMetrics_unfold:
  "\<exists>m' h'. M_Name m' = M_Name metrics \<and> CollectMetrics compile run reg now metrics job h =
    (case map_of (reg_collectors reg) (M_Protocol metrics) of
       None \<Rightarrow> Inr (createErrorResponse m' job now CollectUnavailable
          (''Collector not found: no collector found for protocol: '' @ M_Protocol metrics), m', h')
     | Some c \<Rightarrow> (case Col_Collect c m' h' of Inl p \<Rightarrow> Inl p | Inr None \<Rightarrow> Inl NilDereference
         | Inr (Some r) \<Rightarrow> Inr (enrich job h' (if R_Code r = CollectSuccess then the (CalculateFields compile run (Some m') (Some r)) else r), m', h')))"
proof -
  obtain m1 a h1 where e: "ensure_map metrics h = (m1, a, h1)" by (cases "ensure_map metrics h")
  let ?h2 = "h1\<lparr>maps := (maps h1)(a := Some (merge_config (J_Configmap job) (deref (Some a) h1)))\<rparr>"
  obtain m2 h3 where r: "ReplaceMetricsParams m1 (M_ConfigMap m1) ?h2 = Inr (m2, h3)"
    using ReplaceMetricsParams_Ok by blast
  have "M_Protocol m2 = M_Protocol metrics" "M_Name m2 = M_Name metrics"
    using replace_keeps [OF r] ensure_map_keeps [OF e] by simp_all
  then show ?thesis
    by (intro exI [of _ m2] exI [of _ h3])
      (simp add: CollectMetrics_def e r CollectorFor_def Let_def split: option.splits sum.splits)
qed

text \<open>when the collectors of its protocol always return data, collecting a metric gives data that carries
  the monitor, tenant and application of the job: the unavailable code when no collector is registered
  for the protocol, and otherwise the code and message of what the collector returned.\<close>

theorem collect_metrics_result:
  assumes "\<forall>c m h. map_of (reg_collectors reg) (M_Protocol metrics) = Some c \<longrightarrow> (\<exists>r. Col_Collect c m h = Inr (Some r))"
  shows "\<exists>res m' h'. CollectMetrics compile run reg now metrics job h = Inr (res, m', h') \<and>
    R_ID res = J_MonitorID job \<and> R_MonitorID res = J_MonitorID job \<and> R_TenantID res = J_TenantID job \<and> R_App res = J_App job \<and>
    (case map_of (reg_collectors reg) (M_Protocol metrics) of
       None \<Rightarrow> R_Code res = CollectUnavailable
     | Some c \<Rightarrow> (\<exists>r. Col_Collect c m' h' = Inr (Some r) \<and> R_Code res = R_Code r \<and> R_Msg res = R_Msg r))"
proof -
  obtain m' h' where e: "CollectMetrics compile run reg now metrics job h =
    (case map_of (reg_collectors reg) (M_Protocol metrics) of
       None \<Rightarrow> Inr (createErrorResponse m' job now CollectUnavailable
          (''Collector not found: no collector found for protocol: '' @ M_Protocol metrics), m', h')
     | Some c \<Rightarrow> (case Col_Collect c m' h' of Inl p \<Rightarrow> Inl p | Inr None \<Rightarrow> Inl NilDereference
         | Inr (Some r) \<Rightarrow> Inr (enrich job h' (if R_Code r = CollectSuccess then the (CalculateFields compile run (Some m') (Some r)) else r), m', h')))"
    using CollectMetrics_unfold by blast
  show ?thesis
  proof (cases "map_of (reg_collectors reg) (M_Protocol metrics)")
    case None
    then show ?thesis by (simp add: e createErrorResponse_def)
  next
    case (Some c)
    with assms obtain r where "Col_Collect c m' h' = Inr (Some r)" by blast
    with Some show ?thesis by (simp add: e enrich_def CalculateFields_code)
  qed
qed

text \<open>a collector that returns nil makes the collection panic, since the failure is logged with the code
  of the result.\<close>

theorem nil_result_panics:
  assumes "map_of (reg_collectors reg) (M_Protocol metrics) = Some c" and "\<forall>m h. Col_Collect c m h = Inr None"
  shows "CollectMetrics compile run reg now metrics job h = Inl NilDereference"
  using CollectMetrics_unfold [of metrics compile run reg now job h] assms by auto

definition reg_ex :: "CollectRepMetricsData option \<Rightarrow> CollectorRegistry" where
  "reg_ex d = Register \<lparr>Col_Protocol = ''ssh'', Col_Collect = (\<lambda>m h. Inr d)\<rparr> empty_registry"

lemma reg_ex_get: "map_of (reg_collectors (reg_ex d)) ''ssh'' = Some \<lparr>Col_Protocol = ''ssh'', Col_Collect = (\<lambda>m h. Inr d)\<rparr>"
  by (simp add: reg_ex_def Register_def empty_registry_def)

lemma metrics_ex_protocol: "M_Protocol metrics_ex = ''ssh''"
  by (simp add: metrics_ex_def)

theorem collect_metrics_result_witness:
  "\<exists>res m' h'. CollectMetrics compile_ex run_ex (reg_ex (Some data_ex)) 0 metrics_ex (Job0\<lparr>J_MonitorID := 7\<rparr>) heap_ex = Inr (res, m', h') \<and>
     R_ID res = 7 \<and> R_Code res = CollectSuccess"
  using collect_metrics_result [of "reg_ex (Some data_ex)" metrics_ex compile_ex run_ex 0 "Job0\<lparr>J_MonitorID := 7\<rparr>" heap_ex]
  by (fastforce simp: metrics_ex_protocol reg_ex_get data_ex_def Data0_def CollectSuccess_def)

theorem nil_result_panics_witness:
  "CollectMetrics compile_ex run_ex (reg_ex None) 0 metrics_ex Job0 heap_ex = Inl NilDereference"
  by (rule nil_result_panics [of "reg_ex None" metrics_ex]) (simp add: metrics_ex_protocol reg_ex_get, simp)

subsection \<open>Number formatting\<close>

text \<open>\<open>formatNumber\<close> announces up to four decimal places. When the fourth is a zero, which is also the case
  for a number that rounds to it, all digits are printed: here those of the float nearest to \<open>10 ^ - 5\<close>.\<close>

theorem format_number_decimals: "formatNumber 4532020583610935537 = ''0.00001''"
  by code_simp

end
