(* ===== verification/Common_Dispatcher.thy ===== *)
theory Common_Dispatcher
  imports Metrics_Collector
begin

text \<open>
  \<open>job/dispatcher/common_dispatcher.go\<close> and \<open>job/collect/result_handler.go\<close>: one run of a job is
  broken into the collection of its metrics, and the results go to the message router.

  The metrics collector, the result handler and the router are interfaces: the operations take
  the called method as an argument, over a state \<open>'w\<close> of the other side. Every metric is collected by
  a goroutine of its own; the goroutines are executed here in the order in which they are started.
  Which results arrive before the deadline of the collection is up to the environment: \<open>arrives i\<close>
  says so for the metric of index \<open>i\<close>. A panic in a goroutine ends the program.
\<close>

subsection \<open>The result handler\<close>

definition HandleCollectData :: "(CollectRepMetricsData \<Rightarrow> Job \<Rightarrow> 'w \<Rightarrow> string option \<times> 'w) option \<Rightarrow>
    CollectRepMetricsData option \<Rightarrow> Job \<Rightarrow> 'w \<Rightarrow> string option \<times> 'w" where
  "HandleCollectData messageRouter dat job w =
     (case dat of None \<Rightarrow> (Some ''collect data is nil'', w)
      | Some d \<Rightarrow>
          (case messageRouter of None \<Rightarrow> (Some ''messageRouter is nil'', w)
           | Some SendResult \<Rightarrow>
               (case SendResult d job w of
                  (Some err, w') \<Rightarrow> (Some (''failed to send result to Manager: '' @ err), w')
                | (None, w') \<Rightarrow> (None, w'))))"

subsection \<open>The dispatcher\<close>

definition getCollectionTimeout :: "Job \<Rightarrow> duration" where
  "getCollectionTimeout job =
     (let defaultTimeout = 30 * Second in
      if 0 < sint (J_DefaultInterval job)
      then (let jobTimeout = go_div (J_DefaultInterval job * Second * 80) 100 in
            if sint defaultTimeout < sint jobTimeout then jobTimeout else defaultTimeout)
      else defaultTimeout)"

fun find_metric :: "string \<Rightarrow> nat \<Rightarrow> Metrics list \<Rightarrow> nat option" where
  "find_metric name j [] = None"
| "find_metric name j (m # ms) = (if M_Name m = name then Some j else find_metric name (Suc j) ms)"

text \<open>The collections of the named metrics on the processed job: for each the value on its channel, or \<open>None\<close>
  for a nil channel.\<close>

fun collect_all :: "(Metrics \<Rightarrow> Job \<Rightarrow> Heap \<Rightarrow> (CollectRepMetricsData \<times> Metrics \<times> Heap) outcome) \<Rightarrow> string list \<Rightarrow>
    Job \<Rightarrow> Heap \<Rightarrow> (CollectRepMetricsData option list \<times> Job \<times> Heap) outcome" where
  "collect_all collectMetrics [] job h = Inr ([], job, h)"
| "collect_all collectMetrics (name # names) job h =
     (case find_metric name 0 (J_Metrics job) of
        None \<Rightarrow> (case collect_all collectMetrics names job h of Inl p \<Rightarrow> Inl p | Inr (cs, job', h') \<Rightarrow> Inr (None # cs, job', h'))
      | Some j \<Rightarrow>
          (case collectMetrics (J_Metrics job ! j) job h of
             Inl p \<Rightarrow> Inl p
           | Inr (d, m', h1) \<Rightarrow>
               (case collect_all collectMetrics names (job\<lparr>J_Metrics := (J_Metrics job)[j := m']\<rparr>) h1 of
                  Inl p \<Rightarrow> Inl p
                | Inr (cs, job', h') \<Rightarrow> Inr (Some d # cs, job', h'))))"

text \<open>Waiting for the channels: the results received and the errors.\<close>

fun await :: "(nat \<Rightarrow> bool) \<Rightarrow> nat \<Rightarrow> (string \<times> CollectRepMetricsData option) list \<Rightarrow> CollectRepMetricsData list \<times> string list" where
  "await arrives i [] = ([], [])"
| "await arrives i ((name, c) # cs) =
     (let (results, errors) = await arrives (Suc i) cs in
      case c of
        Some d \<Rightarrow> if arrives i then (d # results, errors) else (results, (''timeout collecting metrics: '' @ name) # errors)
      | None \<Rightarrow> (results, (''timeout collecting metrics: '' @ name) # errors))"

definition hasNextLevelMetrics :: "Job \<Rightarrow> CollectRepMetricsData list \<Rightarrow> bool" where
  "hasNextLevelMetrics job results = False"

text \<open>\<open>evaluateNextActions\<close> and \<open>sendToDataQueue\<close> only log; the lines they write at the information level:\<close>

datatype queue_log = Sending (ql_job: int64) (ql_count: nat) | Ready (ql_job: int64) (ql_metrics: string) (ql_code: int) (ql_values: nat)

definition sendToDataQueue :: "CollectRepMetricsData list \<Rightarrow> Job \<Rightarrow> queue_log list" where
  "sendToDataQueue results job = Sending (J_ID job) (length results) #
     map (\<lambda>r. Ready (J_ID job) (R_Metrics r) (R_Code r) (length (R_Values r))) results"

definition evaluateNextActions :: "Job \<Rightarrow> CollectRepMetricsData list \<Rightarrow> string list \<Rightarrow> queue_log list" where
  "evaluateNextActions job results errors = sendToDataQueue results job"

text \<open>A failing handler does not stop the loop, and the error returned is always nil.\<close>

definition handleResults :: "(CollectRepMetricsData option \<Rightarrow> Job \<Rightarrow> 'w \<Rightarrow> string option \<times> 'w) \<Rightarrow>
    CollectRepMetricsData list \<Rightarrow> Job \<Rightarrow> string list \<Rightarrow> 'w \<Rightarrow> string option \<times> queue_log list \<times> 'w" where
  "handleResults handleCollectData results job errors w =
     (None, evaluateNextActions job results errors, foldl (\<lambda>w d. snd (handleCollectData (Some d) job w)) w results)"

definition DispatchMetricsTask :: "(Metrics \<Rightarrow> Job \<Rightarrow> Heap \<Rightarrow> (CollectRepMetricsData \<times> Metrics \<times> Heap) outcome) \<Rightarrow>
    (CollectRepMetricsData option \<Rightarrow> Job \<Rightarrow> 'w \<Rightarrow> string option \<times> 'w) \<Rightarrow> (nat \<Rightarrow> bool) \<Rightarrow> int64 \<Rightarrow>
    Job option \<Rightarrow> Heap \<Rightarrow> 'w \<Rightarrow> (string option \<times> Job option \<times> Heap \<times> 'w) outcome" where
  "DispatchMetricsTask collectMetrics handleCollectData arrives nowMilli jo h w =
     (case jo of None \<Rightarrow> Inr (Some ''job cannot be nil'', None, h, w)
      | Some job0 \<Rightarrow>
          (let job = ConstructPriorMetrics nowMilli job0;
               metricsToCollect = map (\<lambda>p. J_Metrics job ! mptr_idx p) (NextCollectMetrics job)
           in if metricsToCollect = [] then Inr (None, Some job, h, w)
              else (case ReplaceJobParams (Some job) h of
                      Inl err \<Rightarrow> Inr (Some (''parameter replacement failed: '' @ err), Some job, h, w)
                    | Inr (processedJob, h1) \<Rightarrow>
                        (case collect_all collectMetrics (map M_Name metricsToCollect) processedJob h1 of
                           Inl p \<Rightarrow> Inl p
                         | Inr (resultChannels, _, h2) \<Rightarrow>
                             (let (results, errors) = await arrives 0 (zip (map M_Name metricsToCollect) resultChannels);
                                  (err, _, w') = handleResults handleCollectData results job errors w
                              in Inr (err, Some job, h2, w'))))))"

subsection \<open>The deadline of a collection\<close>

text \<open>a collection has at least 30 seconds, and four fifths of the interval of the job when that is
  longer, for every interval up to 115292150 seconds (3.6 years), where the product begins to overflow.\<close>

theorem collection_timeout:
  "30000000000 \<le> sint (getCollectionTimeout job) \<and>
   (sint (J_DefaultInterval job) \<le> 115292150 \<longrightarrow>
      sint (getCollectionTimeout job) = max 30000000000 (sint (J_DefaultInterval job) * 800000000))"
proof (cases "0 < sint (J_DefaultInterval job)")
  case True
  let ?n = "sint (J_DefaultInterval job)"
  have d: "sint (30 * Second) = 30000000000" by (simp add: Second_def)
  show ?thesis
  proof (cases "?n \<le> 115292150")
    case le: True
    have s1: "sint (J_DefaultInterval job * Second) = ?n * 1000000000"
      using True le by (subst sint_mult64) (simp_all add: Second_def in_int64_def)
    have "sint (J_DefaultInterval job * Second * 80) = ?n * 1000000000 * 80"
      using True le by (subst sint_mult64) (simp_all add: s1 in_int64_def)
    then have "sint (J_DefaultInterval job * Second * 80) sdiv sint (100 :: int64) = ?n * 800000000"
      using True by (simp add: signed_divide_int_def)
    then have "sint (go_div (J_DefaultInterval job * Second * 80) 100) = ?n * 800000000"
      using True le by (simp only: go_div_def) (rule sint_word_of_int64, simp add: in_int64_def)
    then show ?thesis using True d by (simp add: getCollectionTimeout_def Let_def max_def)
  qed (simp add: getCollectionTimeout_def Let_def d)
qed (simp add: getCollectionTimeout_def Second_def)

subsection \<open>Every result is sent\<close>

lemma find_metric_Some:
  assumes "name \<in> M_Name ` set ms"
  obtains j where "find_metric name i ms = Some (i + j)" "j < length ms" "M_Name (ms ! j) = name"
  using assms
proof (induction ms arbitrary: i thesis)
  case (Cons m ms)
  show ?case
  proof (cases "M_Name m = name")
    case True
    then show ?thesis using Cons.prems(1) [of 0] by simp
  next
    case False
    with Cons.prems(2) have "name \<in> M_Name ` set ms" by auto
    then obtain j where "find_metric name (Suc i) ms = Some (Suc i + j)" "j < length ms" "M_Name (ms ! j) = name"
      by (rule Cons.IH [rotated])
    then show ?thesis using Cons.prems(1) [of "Suc j"] False by simp
  qed
qed simp

lemma await_results:
  "length names = length ds \<Longrightarrow>
   fst (await arrives i (zip names (map Some ds))) = map snd (filter (\<lambda>(k, d). arrives k) (enumerate i ds))"
proof (induction ds arbitrary: i names)
  case (Cons d ds)
  then obtain n ns where "names = n # ns" "length ns = length ds" by (cases names) auto
  then show ?case
    using Cons.IH [of ns "Suc i"] by (cases "await arrives (Suc i) (zip ns (map Some ds))") simp
qed simp

lemma arrived_indices:
  "map snd (filter (\<lambda>(k, d). arrives k) (enumerate 0 ds)) = map ((!) ds) (filter arrives [0..<length ds])"
proof -
  have "map snd (filter (\<lambda>(k, d). arrives k) (enumerate i ds)) = map (\<lambda>k. ds ! (k - i)) (filter arrives [i..<i + length ds])" for i
  proof (induction ds arbitrary: i)
    case (Cons d ds)
    have "map (\<lambda>k. ds ! (k - Suc i)) (filter arrives [Suc i..<Suc i + length ds]) = map (\<lambda>k. (d # ds) ! (k - i)) (filter arrives [Suc i..<Suc i + length ds])"
      by (rule map_cong) (auto simp: nth_Cons')
    then show ?case using Cons.IH [of "Suc i"] by (simp add: upt_conv_Cons del: upt_Suc)
  qed simp
  from this [of 0] show ?thesis by simp
qed

lemma arrived_count:
  assumes "list_all2 P (filter arrives [0..<n]) rs"
  shows "length rs = card {i. i < n \<and> arrives i}"
proof -
  have "length rs = length (filter arrives [0..<n])" using assms by (simp add: list_all2_lengthD)
  also have "\<dots> = card (set (filter arrives [0..<n]))" by (simp add: distinct_card del: set_filter)
  also have "set (filter arrives [0..<n]) = {i. i < n \<and> arrives i}" by auto
  finally show ?thesis .
qed

lemma replace_all_metrics_total:
  "\<exists>ms' h'. replace_all_metrics ms pa h = Inr (ms', h') \<and> map M_Name ms' = map M_Name ms"
proof (induction ms arbitrary: h)
  case (Cons m ms)
  obtain m' h1 where r: "ReplaceMetricsParams m pa h = Inr (m', h1)" using ReplaceMetricsParams_Ok by blast
  with Cons.IH [of h1] replace_keeps [OF r] show ?case by auto
qed simp

lemma clone_metrics_names: "clone_metrics ms h = (ms', h') \<Longrightarrow> map M_Name ms' = map M_Name ms"
  by (induction ms h arbitrary: ms' h' rule: clone_metrics.induct) (auto simp: clone_metric_def Let_def split: prod.splits)

text \<open>Replacing the parameters of a job always succeeds and keeps its identity and the names of its metrics.\<close>

definition same_identity :: "Job \<Rightarrow> Job \<Rightarrow> bool" where
  "same_identity j j' \<longleftrightarrow> J_MonitorID j' = J_MonitorID j \<and> J_TenantID j' = J_TenantID j \<and> J_App j' = J_App j"

lemma ReplaceJobParams_total:
  "\<exists>j' h'. ReplaceJobParams (Some j) h = Inr (j', h') \<and> map M_Name (J_Metrics j') = map M_Name (J_Metrics j) \<and> same_identity j j'"
proof -
  let ?pa = "fst (alloc_map (createParamMapSimple (J_Configmap j)) h)"
  let ?h1 = "snd (alloc_map (createParamMapSimple (J_Configmap j)) h)"
  obtain c h2 where c: "Clone (Some j) ?h1 = (Some c, h2)" by (rule Clone_Some)
  then have n: "map M_Name (J_Metrics c) = map M_Name (J_Metrics j) \<and> same_identity j c"
    by (auto simp: Clone_def Let_def same_identity_def dest: clone_metrics_names split: prod.splits)
  obtain ms h3 where r: "replace_all_metrics (J_Metrics c) (Some ?pa) h2 = Inr (ms, h3) \<and> map M_Name ms = map M_Name (J_Metrics c)"
    using replace_all_metrics_total by blast
  show ?thesis
    using c n r by (auto simp: ReplaceJobParams_def same_identity_def split: prod.splits)
qed

lemma ConstructPrior_keeps:
  "length (J_Metrics (ConstructPriorMetrics now j)) = length (J_Metrics j)" "same_identity j (ConstructPriorMetrics now j)"
  "J_ID (ConstructPriorMetrics now j) = J_ID j" "J_IsCyclic (ConstructPriorMetrics now j) = J_IsCyclic j"
  "J_DefaultInterval (ConstructPriorMetrics now j) = J_DefaultInterval j"
  by (auto simp: ConstructPriorMetrics_def collect_due_eq same_identity_def Let_def split: option.splits prod.splits)

lemma ConstructPrior_names: "map M_Name (J_Metrics (ConstructPriorMetrics now j)) = map M_Name (J_Metrics j)"
proof -
  have n: "M_Name (metric_touch t m) = M_Name m" for t m by (simp add: metric_touch_def Let_def)
  have u: "map M_Name (ms[i := (ms ! i)\<lparr>M_CollectTime := now\<rparr>]) = map M_Name ms" for ms :: "Metrics list" and i
    by (cases "i < length ms") (simp_all add: map_update list_update_same_conv list_update_beyond)
  show ?thesis unfolding construct_prior_stamps by (auto simp: n u split: option.split)
qed

text \<open>Collectors that always return data.\<close>

definition collectors_total :: "CollectorRegistry \<Rightarrow> bool" where
  "collectors_total reg \<longleftrightarrow> (\<forall>p c m h. map_of (reg_collectors reg) p = Some c \<longrightarrow> (\<exists>r. Col_Collect c m h = Inr (Some r)))"

text \<open>The data carries the identity of the job.\<close>

definition of_job :: "Job \<Rightarrow> CollectRepMetricsData \<Rightarrow> bool" where
  "of_job job d \<longleftrightarrow> R_ID d = J_MonitorID job \<and> R_MonitorID d = J_MonitorID job \<and> R_TenantID d = J_TenantID job \<and> R_App d = J_App job"

lemma of_job_identity: "same_identity j j' \<Longrightarrow> of_job j' d \<longleftrightarrow> of_job j d"
  by (auto simp: same_identity_def of_job_def)

lemma CollectMetrics_total:
  assumes "collectors_total reg"
  shows "\<exists>d m' h'. CollectMetrics compile run reg now m job h = Inr (d, m', h') \<and> M_Name m' = M_Name m \<and> of_job job d"
proof -
  obtain m' h' where n: "M_Name m' = M_Name m" and e: "CollectMetrics compile run reg now m job h =
    (case map_of (reg_collectors reg) (M_Protocol m) of
       None \<Rightarrow> Inr (createErrorResponse m' job now CollectUnavailable
          (''Collector not found: no collector found for protocol: '' @ M_Protocol m), m', h')
     | Some c \<Rightarrow> (case Col_Collect c m' h' of Inl p \<Rightarrow> Inl p | Inr None \<Rightarrow> Inl NilDereference
         | Inr (Some r) \<Rightarrow> Inr (enrich job h' (if R_Code r = CollectSuccess then the (CalculateFields compile run (Some m') (Some r)) else r), m', h')))"
    using CollectMetrics_unfold [of m compile run reg now job h] by blast
  show ?thesis
  proof (cases "map_of (reg_collectors reg) (M_Protocol m)")
    case None
    then show ?thesis using n by (simp add: e createErrorResponse_def of_job_def)
  next
    case (Some c)
    with assms obtain r where "Col_Collect c m' h' = Inr (Some r)" unfolding collectors_total_def by blast
    with Some n show ?thesis by (simp add: e enrich_def of_job_def)
  qed
qed

text \<open>
  What the dispatcher relies on: a collection that is ready for a job returns data for each of its metrics, keeps
  their names and stays ready; \<open>origin\<close> says of data that it comes from the metric of a name and of a job with the same identity; the preparation of a run keeps it ready, and all of them only let the heap grow, which keeps
  every job ready.
\<close>

locale metric_source =
  fixes collect :: "Metrics \<Rightarrow> Job \<Rightarrow> Heap \<Rightarrow> (CollectRepMetricsData \<times> Metrics \<times> Heap) outcome"
    and ready :: "Job \<Rightarrow> Heap \<Rightarrow> bool"
    and grows :: "Heap \<Rightarrow> Heap \<Rightarrow> bool"
    and origin :: "string \<Rightarrow> Job \<Rightarrow> CollectRepMetricsData \<Rightarrow> bool"
  assumes collects: "ready j h \<Longrightarrow> i < length (J_Metrics j) \<Longrightarrow>
      \<exists>d m' h'. collect (J_Metrics j ! i) j h = Inr (d, m', h') \<and> M_Name m' = M_Name (J_Metrics j ! i) \<and> origin (M_Name (J_Metrics j ! i)) j d \<and>
        ready (j\<lparr>J_Metrics := (J_Metrics j)[i := m']\<rparr>) h' \<and> grows h h'"
    and stamped: "ready j h \<Longrightarrow> ready (ConstructPriorMetrics t j) h"
    and prepared: "ready j h \<Longrightarrow> ReplaceJobParams (Some j) h = Inr (j', h') \<Longrightarrow> ready j' h' \<and> grows h h'"
    and grown: "ready j h \<Longrightarrow> grows h h' \<Longrightarrow> ready j h'"
    and same_origin: "same_identity j j' \<Longrightarrow> origin n j' d = origin n j d"
    and grows_refl: "grows h h"
    and grows_trans: "grows h h1 \<Longrightarrow> grows h1 h2 \<Longrightarrow> grows h h2"
begin

lemma collect_all_total:
  "ready job h \<Longrightarrow> set names \<subseteq> M_Name ` set (J_Metrics job) \<Longrightarrow>
    \<exists>ds job' h'. collect_all collect names job h = Inr (map Some ds, job', h') \<and> list_all2 (\<lambda>n d. origin n job d) names ds \<and> grows h h'"
proof (induction names arbitrary: job h)
  case (Cons name names)
  from Cons.prems(2) have "name \<in> M_Name ` set (J_Metrics job)" by simp
  then obtain j where j: "find_metric name 0 (J_Metrics job) = Some (0 + j)" "j < length (J_Metrics job)" "M_Name (J_Metrics job ! j) = name"
    by (rule find_metric_Some)
  from collects [OF Cons.prems(1) j(2)] obtain d m' h1 where
    c: "collect (J_Metrics job ! j) job h = Inr (d, m', h1)" and n: "M_Name m' = M_Name (J_Metrics job ! j)" and o: "origin name job d"
    and r: "ready (job\<lparr>J_Metrics := (J_Metrics job)[j := m']\<rparr>) h1" and g: "grows h h1"
    unfolding j(3) by blast
  let ?job = "job\<lparr>J_Metrics := (J_Metrics job)[j := m']\<rparr>"
  have "map M_Name ((J_Metrics job)[j := m']) = map M_Name (J_Metrics job)"
    using n j(2) by (simp add: map_update list_update_same_conv)
  then have "set (map M_Name (J_Metrics ?job)) = set (map M_Name (J_Metrics job))" by simp
  then have "set names \<subseteq> M_Name ` set (J_Metrics ?job)" using Cons.prems(2) by simp
  moreover have q: "origin n ?job d = origin n job d" for n d by (rule same_origin) (simp add: same_identity_def)
  ultimately obtain ds job' h' where
    "collect_all collect names ?job h1 = Inr (map Some ds, job', h')" "list_all2 (\<lambda>n d. origin n job d) names ds" "grows h1 h'"
    using Cons.IH [OF r] unfolding q by blast
  then show ?case
    using j(1) c o grows_trans [OF g] by (intro exI [of _ "d # ds"] exI [of _ job'] exI [of _ h']) simp
qed (simp add: grows_refl)

text \<open>A run hands the results that arrive to the handler, in the order of the metrics, each with the data of its metric.\<close>

lemma dispatch_results:
  fixes job :: Job and nowMilli :: int64 and handle :: "CollectRepMetricsData option \<Rightarrow> Job \<Rightarrow> 'w \<Rightarrow> string option \<times> 'w"
  assumes "ready job h"
  defines "job' \<equiv> ConstructPriorMetrics nowMilli job"
  shows "\<exists>h' rs. DispatchMetricsTask collect handle arrives nowMilli (Some job) h w =
      Inr (None, Some job', h', foldl (\<lambda>w d. snd (handle (Some d) job' w)) w rs) \<and>
    list_all2 (\<lambda>i d. origin (M_Name (J_Metrics job ! i)) job d) (filter arrives [0..<length (J_Metrics job)]) rs \<and> ready job' h'"
proof -
  have ms: "map (\<lambda>p. J_Metrics job' ! mptr_idx p) (NextCollectMetrics job') = J_Metrics job'"
    by (simp add: NextCollectMetrics_def comp_def map_nth)
  obtain pj h1 where r: "ReplaceJobParams (Some job') h = Inr (pj, h1)"
    and n: "map M_Name (J_Metrics pj) = map M_Name (J_Metrics job')" and i: "same_identity job' pj"
    using ReplaceJobParams_total by blast
  have q: "origin n pj d = origin n job d" for n d
    using same_origin [OF i] same_origin [OF ConstructPrior_keeps(2)] unfolding job'_def by simp
  have "set (map M_Name (J_Metrics job')) \<subseteq> M_Name ` set (J_Metrics pj)"
    unfolding n [symmetric] by simp
  have rd: "ready job' h" unfolding job'_def by (rule stamped [OF assms(1)])
  note pr = prepared [OF rd r]
  from collect_all_total [OF conjunct1 [OF pr] \<open>set _ \<subseteq> _\<close>] q
  obtain ds j2 h2 where c: "collect_all collect (map M_Name (J_Metrics job')) pj h1 = Inr (map Some ds, j2, h2)"
    and o: "list_all2 (\<lambda>n d. origin n job d) (map M_Name (J_Metrics job')) ds" and g: "grows h1 h2" by auto
  have l: "length ds = length (J_Metrics job')" using list_all2_lengthD [OF o] by simp
  have rd2: "ready job' h2" using grown [OF rd grows_trans [OF conjunct2 [OF pr] g]] .
  obtain rs es where a: "await arrives 0 (zip (map M_Name (J_Metrics job')) (map Some ds)) = (rs, es)" by fastforce
  then have rs: "rs = map snd (filter (\<lambda>(k, d). arrives k) (enumerate 0 ds))"
    using await_results [of "map M_Name (J_Metrics job')" ds arrives 0] l by simp
  have lj: "length ds = length (J_Metrics job)" using l by (simp add: job'_def ConstructPrior_keeps)
  have "list_all2 (\<lambda>i d. origin (M_Name (J_Metrics job ! i)) job d) (filter arrives [0..<length (J_Metrics job)]) rs"
    unfolding rs arrived_indices lj
    by (rule list_all2_all_nthI) (use o lj in \<open>auto simp: job'_def ConstructPrior_names list_all2_conv_all_nth dest: nth_mem\<close>)
  moreover have "\<exists>h'. DispatchMetricsTask collect handle arrives nowMilli (Some job) h w =
      Inr (None, Some job', h', foldl (\<lambda>w d. snd (handle (Some d) job' w)) w rs) \<and> ready job' h'"
  proof (cases "J_Metrics job' = []")
    case True
    then show ?thesis using l rd by (simp add: DispatchMetricsTask_def Let_def NextCollectMetrics_def rs flip: job'_def)
  next
    case False
    then have "NextCollectMetrics job' \<noteq> []" by (simp add: NextCollectMetrics_def)
    then show ?thesis using rd2 by (simp add: DispatchMetricsTask_def Let_def ms r c a handleResults_def flip: job'_def)
  qed
  ultimately show ?thesis by blast
qed

end

text \<open>With collectors that always return data every job is ready.\<close>

interpretation total: metric_source "CollectMetrics compile run reg now" "\<lambda>j h. collectors_total reg" "\<lambda>h h'. True" "\<lambda>n. of_job"
  for compile run reg now
  by unfold_locales (use CollectMetrics_total of_job_identity in blast)+

text \<open>with collectors that always return data, a run of a job never fails and never panics, whatever the job
  is: one result for every metric whose collection ends before the deadline is sent to the router, in
  the order of the metrics, and every result carries the monitor, tenant and application of the job.
  The run does not change what the scheduler reads of the job.\<close>

theorem dispatch_sends_every_result:
  assumes "collectors_total reg"
  shows "\<exists>job' h' rs. DispatchMetricsTask (CollectMetrics compile run reg now)
      (HandleCollectData (Some (\<lambda>d j w. (None, w @ [d])))) arrives nowMilli (Some job) h w = Inr (None, Some job', h', w @ rs) \<and>
    length rs = card {i. i < length (J_Metrics job) \<and> arrives i} \<and> (\<forall>d \<in> set rs. of_job job d) \<and>
    J_ID job' = J_ID job \<and> J_IsCyclic job' = J_IsCyclic job \<and> J_DefaultInterval job' = J_DefaultInterval job"
proof -
  let ?handle = "HandleCollectData (Some (\<lambda>d j w. (None, w @ [d])))"
  have "foldl (\<lambda>w d. snd (?handle (Some d) j w)) w xs = w @ xs" for j w xs
    by (induction xs arbitrary: w) (simp_all add: HandleCollectData_def)
  with total.dispatch_results [OF assms, of compile run now ?handle arrives nowMilli job h w] obtain h' rs where
    "DispatchMetricsTask (CollectMetrics compile run reg now) ?handle arrives nowMilli (Some job) h w = Inr (None, Some (ConstructPriorMetrics nowMilli job), h', w @ rs)"
    and rs: "list_all2 (\<lambda>i. of_job job) (filter arrives [0..<length (J_Metrics job)]) rs" by auto
  moreover have "\<forall>d \<in> set rs. of_job job d" using rs by (auto simp: list_all2_conv_all_nth in_set_conv_nth)
  ultimately show ?thesis using arrived_count [OF rs] by (auto simp: ConstructPrior_keeps)
qed

theorem dispatch_sends_every_result_witness:
  "\<exists>job' h' d. DispatchMetricsTask (CollectMetrics compile_ex run_ex (reg_ex (Some data_ex)) 0)
      (HandleCollectData (Some (\<lambda>d j w. (None, w @ [d])))) (\<lambda>i. True) 0
      (Some (Job0\<lparr>J_MonitorID := 7, J_Metrics := [metrics_ex]\<rparr>)) heap_ex [] = Inr (None, Some job', h', [d]) \<and> R_MonitorID d = 7"
proof -
  have "collectors_total (reg_ex (Some data_ex))"
    by (simp add: collectors_total_def reg_ex_def Register_def empty_registry_def)
  from dispatch_sends_every_result [OF this, of compile_ex run_ex 0 "\<lambda>i. True" 0
      "Job0\<lparr>J_MonitorID := 7, J_Metrics := [metrics_ex]\<rparr>" heap_ex "[]"]
  show ?thesis by (auto simp: length_Suc_conv of_job_def)
qed

text \<open>a router that fails, or is missing, loses results but never fails the run: its errors are only
  logged, and the following results are sent all the same.\<close>

theorem router_errors_are_ignored:
  assumes "collectors_total reg"
  shows "\<exists>job' h' rs. DispatchMetricsTask (CollectMetrics compile run reg now) (HandleCollectData router) arrives nowMilli (Some job) h w =
      Inr (None, Some job', h', (case router of None \<Rightarrow> w | Some SendResult \<Rightarrow> foldl (\<lambda>w d. snd (SendResult d job' w)) w rs)) \<and>
    length rs = card {i. i < length (J_Metrics job) \<and> arrives i}"
proof -
  have "foldl (\<lambda>w d. snd (HandleCollectData router (Some d) j w)) w xs =
      (case router of None \<Rightarrow> w | Some SendResult \<Rightarrow> foldl (\<lambda>w d. snd (SendResult d j w)) w xs)" for j w xs
    by (induction xs arbitrary: w) (auto simp: HandleCollectData_def split: option.splits prod.splits)
  with total.dispatch_results [OF assms, of compile run now "HandleCollectData router" arrives nowMilli job h w] obtain h' rs where
    "DispatchMetricsTask (CollectMetrics compile run reg now) (HandleCollectData router) arrives nowMilli (Some job) h w =
      Inr (None, Some (ConstructPriorMetrics nowMilli job), h',
        (case router of None \<Rightarrow> w | Some SendResult \<Rightarrow> foldl (\<lambda>w d. snd (SendResult d (ConstructPriorMetrics nowMilli job) w)) w rs))"
    and rs: "list_all2 (\<lambda>i. of_job job) (filter arrives [0..<length (J_Metrics job)]) rs" by auto
  with arrived_count [OF rs] show ?thesis by blast
qed

theorem router_errors_are_ignored_witness:
  "\<exists>job' h'. DispatchMetricsTask (CollectMetrics compile_ex run_ex (reg_ex (Some data_ex)) 0)
      (HandleCollectData (Some (\<lambda>d j w. (Some ''closed'', Suc w)))) (\<lambda>i. True) 0
      (Some (Job0\<lparr>J_MonitorID := 7, J_Metrics := [metrics_ex]\<rparr>)) heap_ex 0 = Inr (None, Some job', h', 1)"
proof -
  have "collectors_total (reg_ex (Some data_ex))"
    by (simp add: collectors_total_def reg_ex_def Register_def empty_registry_def)
  from router_errors_are_ignored [OF this, of compile_ex run_ex 0 "Some (\<lambda>d j w. (Some ''closed'', Suc w))" "\<lambda>i. True" 0
      "Job0\<lparr>J_MonitorID := 7, J_Metrics := [metrics_ex]\<rparr>" heap_ex 0]
  show ?thesis by (auto simp: length_Suc_conv)
qed

end
