(* ===== verification/Job_Server.thy ===== *)
theory Job_Server
  imports Scheduler Common_Dispatcher
begin

text \<open>
  \<open>job/server/job_server.go\<close>: the runner that the transport calls to add and to remove jobs. Its time
  dispatcher is an interface: the operations take the called methods as arguments, over the type
  \<open>'td\<close> of the implementation. The laws the runner relies on are the locale \<open>time_dispatcher\<close>, which the
  scheduler satisfies. Jobs are pointers, as in the scheduler.
\<close>

subsection \<open>The runner\<close>

record 'td Runner =
  rn_TimeDispatch :: "'td option"
  rn_runningJobs :: "(int64 \<times> nat) list"

definition AddAsyncCollectJob :: "(nat option \<Rightarrow> 'td \<Rightarrow> (string option \<times> 'td) outcome) \<Rightarrow> (nat \<Rightarrow> int64) \<Rightarrow>
    nat option \<Rightarrow> 'td Runner \<Rightarrow> (string option \<times> 'td Runner) outcome" where
  "AddAsyncCollectJob addJob jobID jp r =
     (case jp of None \<Rightarrow> Inr (Some ''job cannot be nil'', r)
      | Some p \<Rightarrow>
          (let r1 = r\<lparr>rn_runningJobs := map_put (jobID p) p (rn_runningJobs r)\<rparr> in
           case rn_TimeDispatch r of None \<Rightarrow> Inl NilDereference
           | Some td \<Rightarrow>
               (case addJob (Some p) td of
                  Inl e \<Rightarrow> Inl e
                | Inr (Some err, td') \<Rightarrow>
                    Inr (Some (''failed to add job to time dispatcher: '' @ err),
                         r1\<lparr>rn_TimeDispatch := Some td', rn_runningJobs := map_del (jobID p) (rn_runningJobs r1)\<rparr>)
                | Inr (None, td') \<Rightarrow> Inr (None, r1\<lparr>rn_TimeDispatch := Some td'\<rparr>))))"

definition RemoveAsyncCollectJob :: "(int64 \<Rightarrow> 'td \<Rightarrow> (string option \<times> 'td) outcome) \<Rightarrow>
    int64 \<Rightarrow> 'td Runner \<Rightarrow> (string option \<times> 'td Runner) outcome" where
  "RemoveAsyncCollectJob removeJob jobID r =
     (let r1 = r\<lparr>rn_runningJobs := map_del jobID (rn_runningJobs r)\<rparr> in
      case rn_TimeDispatch r of None \<Rightarrow> Inl NilDereference
      | Some td \<Rightarrow>
          (case removeJob jobID td of
             Inl e \<Rightarrow> Inl e
           | Inr (Some err, td') \<Rightarrow>
               Inr (Some (''failed to remove job from time dispatcher: '' @ err), r1\<lparr>rn_TimeDispatch := Some td'\<rparr>)
           | Inr (None, td') \<Rightarrow> Inr (None, r1\<lparr>rn_TimeDispatch := Some td'\<rparr>)))"

definition RunningJobs :: "'td Runner \<Rightarrow> (int64 \<times> nat) list" where
  "RunningJobs r = foldl (\<lambda>m (k, p). map_put k p m) [] (rn_runningJobs r)"

definition New_Runner :: "time \<Rightarrow> TimeDispatch Runner" where
  "New_Runner now = \<lparr>rn_TimeDispatch = Some (NewTimeDispatch now), rn_runningJobs = []\<rparr>"

text \<open>\<open>Start\<close> up to the point where it waits for the end of its context, and what it does then.\<close>

definition Runner_Start :: "('td \<Rightarrow> string option \<times> 'td) \<Rightarrow> CollectorRegistry \<Rightarrow> 'td Runner \<Rightarrow>
    string option \<times> CollectorRegistry \<times> 'td Runner" where
  "Runner_Start start reg r =
     (let reg' = InitializeCollectors reg in
      case rn_TimeDispatch r of None \<Rightarrow> (Some ''time dispatcher is not initialized'', reg', r)
      | Some td \<Rightarrow>
          (case start td of
             (Some err, td') \<Rightarrow> (Some (''failed to start time dispatcher: '' @ err), reg', r\<lparr>rn_TimeDispatch := Some td'\<rparr>)
           | (None, td') \<Rightarrow> (None, reg', r\<lparr>rn_TimeDispatch := Some td'\<rparr>)))"

definition Runner_ctx_done :: "('td \<Rightarrow> 'td outcome) \<Rightarrow> 'td Runner \<Rightarrow> 'td Runner outcome" where
  "Runner_ctx_done stop r =
     (case rn_TimeDispatch r of None \<Rightarrow> Inr r
      | Some td \<Rightarrow> (case stop td of Inl e \<Rightarrow> Inl e | Inr td' \<Rightarrow> Inr (r\<lparr>rn_TimeDispatch := Some td'\<rparr>)))"

definition Runner_Close :: "('td \<Rightarrow> 'td outcome) \<Rightarrow> 'td Runner \<Rightarrow> 'td Runner outcome" where
  "Runner_Close stop r =
     (case Runner_ctx_done stop r of Inl e \<Rightarrow> Inl e | Inr r' \<Rightarrow> Inr (r'\<lparr>rn_runningJobs := []\<rparr>))"

lemmas runner_defs = AddAsyncCollectJob_def RemoveAsyncCollectJob_def

subsection \<open>The interface of the time dispatcher\<close>

text \<open>\<open>scheduled td\<close>: the jobs the dispatcher has an entry for.\<close>

locale time_dispatcher =
  fixes scheduled :: "'td \<Rightarrow> int64 set"
    and addJob :: "nat option \<Rightarrow> 'td \<Rightarrow> (string option \<times> 'td) outcome"
    and removeJob :: "int64 \<Rightarrow> 'td \<Rightarrow> (string option \<times> 'td) outcome"
    and jobID :: "nat \<Rightarrow> int64"
  assumes add_scheduled: "addJob (Some p) td = Inr (err, td') \<Longrightarrow> err = None \<and> scheduled td' = insert (jobID p) (scheduled td)"
    and remove_scheduled: "removeJob k td = Inr (err, td') \<Longrightarrow> scheduled td - {k} \<subseteq> scheduled td' \<and> scheduled td' \<subseteq> scheduled td"
    and remove_error: "removeJob k td = Inr (err, td') \<Longrightarrow> err = None \<longleftrightarrow> k \<in> scheduled td"
begin

text \<open>Every running job is scheduled.\<close>

definition running_ok :: "'td Runner \<Rightarrow> bool" where
  "running_ok r \<longleftrightarrow> (\<exists>td. rn_TimeDispatch r = Some td \<and> dom (map_of (rn_runningJobs r)) \<subseteq> scheduled td)"

lemma add_running:
  assumes "AddAsyncCollectJob addJob jobID (Some p) r = Inr (err, r')" and "running_ok r"
  shows "err = None \<and> running_ok r' \<and> map_of (rn_runningJobs r') = (map_of (rn_runningJobs r))(jobID p \<mapsto> p)"
  using assms add_scheduled
  by (fastforce simp: runner_defs running_ok_def Let_def split: option.splits sum.splits prod.splits)

lemma remove_running:
  assumes "RemoveAsyncCollectJob removeJob k r = Inr (err, r')" and "running_ok r"
  shows "running_ok r' \<and> map_of (rn_runningJobs r') = (map_of (rn_runningJobs r))(k := None) \<and>
    (k \<in> dom (map_of (rn_runningJobs r)) \<longrightarrow> err = None)"
proof -
  from assms obtain td td' e where td: "rn_TimeDispatch r = Some td" "removeJob k td = Inr (e, td')"
    "r' = r\<lparr>rn_runningJobs := map_del k (rn_runningJobs r), rn_TimeDispatch := Some td'\<rparr>"
    "err = map_option (\<lambda>x. ''failed to remove job from time dispatcher: '' @ x) e"
    by (auto simp: RemoveAsyncCollectJob_def running_ok_def Let_def split: option.splits sum.splits)
  with assms(2) remove_scheduled [OF td(2)] remove_error [OF td(2)] show ?thesis
    by (auto simp: running_ok_def)
qed

end

subsection \<open>The scheduler implements the interface\<close>

definition scheduled :: "TimeDispatch \<Rightarrow> int64 set" where
  "scheduled td = dom (map_of (td_cyclicTasks td)) \<union> dom (map_of (td_tempTasks td))"

lemma RemoveJob_scheduled:
  assumes "RemoveJob k td = Inr (err, td')"
  shows "scheduled td - {k} \<subseteq> scheduled td' \<and> scheduled td' \<subseteq> scheduled td \<and> (err = None \<longleftrightarrow> k \<in> scheduled td)"
  using assms by (auto simp: RemoveJob_def Let_def scheduled_def split: option.splits sum.splits if_splits)

interpretation td: time_dispatcher scheduled "AddJob jobs now" RemoveJob "\<lambda>p. J_ID (job_at jobs p)"
  for jobs now
proof
  show "err = None \<and> scheduled td' = insert (J_ID (job_at jobs p)) (scheduled td)"
    if "AddJob jobs now (Some p) td = Inr (err, td')" for p td err td'
    using that by (auto simp: AddJob_def Let_def scheduled_def split: sum.splits if_splits)
qed (use RemoveJob_scheduled in blast)+

lemma RescheduleJob_scheduled:
  "RescheduleJob jobs now p td = Inr (err, td') \<Longrightarrow> scheduled td \<subseteq> scheduled td'"
  by (auto simp: RescheduleJob_def Let_def scheduled_def split: if_splits sum.splits)

subsection \<open>Running jobs\<close>

text \<open>The life of a started runner: jobs are received, added and removed by the transport, and cyclic jobs are
  rescheduled by their executions.\<close>

inductive runner_step :: "Job list \<times> TimeDispatch Runner \<Rightarrow> Job list \<times> TimeDispatch Runner \<Rightarrow> bool" where
  rs_receive: "runner_step (jobs, r) (jobs @ [job], r)"
| rs_add: "AddAsyncCollectJob (AddJob jobs now) (\<lambda>p. J_ID (job_at jobs p)) jp r = Inr (err, r') \<Longrightarrow> runner_step (jobs, r) (jobs, r')"
| rs_remove: "RemoveAsyncCollectJob RemoveJob k r = Inr (err, r') \<Longrightarrow> runner_step (jobs, r) (jobs, r')"
| rs_repeat: "rn_TimeDispatch r = Some td \<Longrightarrow> RescheduleJob jobs now p td = Inr (err, td') \<Longrightarrow>
    runner_step (jobs, r) (jobs, r\<lparr>rn_TimeDispatch := Some td'\<rparr>)"

inductive_cases runner_stepE: "runner_step s s'"

lemma runner_step_ok:
  assumes "runner_step s s'" and "td.running_ok (snd s)"
  shows "td.running_ok (snd s')"
  using assms
proof (cases rule: runner_step.cases)
  case (rs_add jobs now jp r err r')
  then show ?thesis
    using assms(2) td.add_running [of jobs now _ r err r']
    by (cases jp) (auto simp: AddAsyncCollectJob_def)
next
  case (rs_remove k r err r' jobs)
  then show ?thesis using assms(2) td.remove_running by auto
next
  case (rs_repeat r td jobs now p err td')
  then show ?thesis using assms(2) RescheduleJob_scheduled by (fastforce simp: td.running_ok_def)
qed auto

lemma dom_RunningJobs: "dom (map_of (RunningJobs r)) = dom (map_of (rn_runningJobs r))"
proof -
  have "dom (map_of (foldl (\<lambda>m (k, p). map_put k p m) m ps)) = dom (map_of m) \<union> fst ` set ps" for m and ps :: "(int64 \<times> nat) list"
    by (induction ps arbitrary: m) auto
  then show ?thesis by (simp add: RunningJobs_def dom_map_of_conv_image_fst)
qed

text \<open>C19: every job the runner reports as running has an entry in its scheduler, after any sequence of additions
  and removals by the transport and of repetitions by the timer.\<close>

theorem running_jobs_scheduled:
  assumes "runner_step\<^sup>*\<^sup>* ([], New_Runner now) (jobs, r)"
  shows "\<exists>td. rn_TimeDispatch r = Some td \<and> dom (map_of (RunningJobs r)) \<subseteq> scheduled td"
proof -
  have "td.running_ok (snd (jobs, r))"
    using assms
  proof (induction rule: rtranclp_induct)
    case base
    then show ?case by (simp add: td.running_ok_def New_Runner_def)
  qed (rule runner_step_ok)
  then show ?thesis by (simp add: td.running_ok_def dom_RunningJobs)
qed

text \<open>adding a job makes it run and removing a running job succeeds: the job is reported and scheduled after
  the addition, and not reported any more after the removal.\<close>

theorem add_then_remove:
  assumes "rn_TimeDispatch r = Some td0" and "dom (map_of (RunningJobs r)) \<subseteq> scheduled td0"
    and "AddAsyncCollectJob (AddJob jobs now) (\<lambda>p. J_ID (job_at jobs p)) (Some p) r = Inr (err, r1)"
    and "RemoveAsyncCollectJob RemoveJob (J_ID (job_at jobs p)) r1 = Inr (err', r2)"
  shows "err = None \<and> J_ID (job_at jobs p) \<in> dom (map_of (RunningJobs r1)) \<and>
    err' = None \<and> dom (map_of (RunningJobs r2)) = dom (map_of (RunningJobs r)) - {J_ID (job_at jobs p)}"
proof -
  have "td.running_ok r" using assms(1,2) by (simp add: td.running_ok_def dom_RunningJobs)
  note a = td.add_running [OF assms(3) this]
  with td.remove_running [OF assms(4)] show ?thesis by (auto simp: dom_RunningJobs)
qed

lemma runner_add_ex:
  obtains r1 where "AddAsyncCollectJob (AddJob [cyclic_ex] 5) (\<lambda>p. J_ID (job_at [cyclic_ex] p)) (Some 0) (New_Runner 0) = Inr (None, r1)"
    "\<exists>r2. RemoveAsyncCollectJob RemoveJob 7 r1 = Inr (None, r2)" "RunningJobs r1 = [(7, 0)]"
proof -
  obtain td where td: "AddJob [cyclic_ex] 5 (Some 0) (NewTimeDispatch 0) = Inr (None, td)"
    "map_of (td_cyclicTasks td) 7 = Some (Some 0)" using add_ex by blast
  show thesis
    by (rule that [of "\<lparr>rn_TimeDispatch = Some td, rn_runningJobs = [(7, 0)]\<rparr>"])
      (use td in \<open>simp_all add: AddAsyncCollectJob_def RemoveAsyncCollectJob_def New_Runner_def RemoveJob_def RunningJobs_def cancel_ptr_def Let_def\<close>)
qed

theorem running_jobs_scheduled_witness:
  "\<exists>r td. runner_step\<^sup>*\<^sup>* ([], New_Runner 0) ([cyclic_ex], r) \<and> RunningJobs r = [(7, 0)] \<and> rn_TimeDispatch r = Some td \<and> 7 \<in> scheduled td"
proof -
  obtain r1 where r1: "AddAsyncCollectJob (AddJob [cyclic_ex] 5) (\<lambda>p. J_ID (job_at [cyclic_ex] p)) (Some 0) (New_Runner 0) = Inr (None, r1)"
    "RunningJobs r1 = [(7, 0)]" using runner_add_ex by blast
  have "runner_step\<^sup>*\<^sup>* ([], New_Runner 0) ([cyclic_ex], r1)"
    using rs_receive [of "[]" "New_Runner 0" cyclic_ex] rs_add [OF r1(1)] by (auto intro: rtranclp_trans)
  with running_jobs_scheduled [OF this] r1(2) show ?thesis by auto
qed

theorem add_then_remove_witness:
  "\<exists>r1 r2. AddAsyncCollectJob (AddJob [cyclic_ex] 5) (\<lambda>p. J_ID (job_at [cyclic_ex] p)) (Some 0) (New_Runner 0) = Inr (None, r1) \<and>
     RemoveAsyncCollectJob RemoveJob 7 r1 = Inr (None, r2) \<and> dom (map_of (RunningJobs r2)) = {}"
proof -
  obtain r1 r2 where r: "AddAsyncCollectJob (AddJob [cyclic_ex] 5) (\<lambda>p. J_ID (job_at [cyclic_ex] p)) (Some 0) (New_Runner 0) = Inr (None, r1)"
    "RemoveAsyncCollectJob RemoveJob 7 r1 = Inr (None, r2)" using runner_add_ex by blast
  with add_then_remove [OF _ _ r(1), of "NewTimeDispatch 0" None r2] show ?thesis
    by (simp add: New_Runner_def RunningJobs_def)
qed

end
