(* ===== verification/Netty_Codec.thy ===== *)
theory Netty_Codec
  imports Prelude
begin

text \<open>
  The framing of messages in \<open>transport/netty_client.go\<close> (\<open>writeMessage\<close>, \<open>readMessage\<close>): a message is
  marshalled, preceded by its length as a variable-length integer, and compressed. The
  functions of \<open>encoding/binary\<close> are concrete; protocol buffers and gzip are parameters.
\<close>

unbundle bit_operations_syntax

subsection \<open>Variable-length integers\<close>

text \<open>\<open>binary.PutUvarint\<close>, as the bytes it puts into the buffer.\<close>

function PutUvarint :: "64 word \<Rightarrow> byte list" where
  "PutUvarint x = (if x < 128 then [ucast x] else (ucast x OR 128) # PutUvarint (drop_bit 7 x))"
  by pat_completeness auto

lemma drop_bit_7_less: "\<not> (x :: 64 word) < 128 \<Longrightarrow> unat (drop_bit 7 x) < unat x"
  by (simp add: unat_drop_bit_eq drop_bit_eq_div [of _ "unat x"] word_less_nat_alt del: drop_bit_nat_eq)

termination PutUvarint
  by (relation "measure unat") (simp_all add: drop_bit_7_less)

declare PutUvarint.simps [simp del]

text \<open>\<open>binary.Uvarint\<close>: the value and the number of bytes read, 0 when the buffer is too small and
  negative on overflow.\<close>

fun uvarint_loop :: "nat \<Rightarrow> 64 word \<Rightarrow> nat \<Rightarrow> byte list \<Rightarrow> 64 word \<times> int" where
  "uvarint_loop i x s [] = (0, 0)"
| "uvarint_loop i x s (b # buf) =
     (if i = 10 then (0, - (int i + 1))
      else if b < 128 then
        (if i = 9 \<and> 1 < b then (0, - (int i + 1)) else (x OR push_bit s (ucast b), int i + 1))
      else uvarint_loop (i + 1) (x OR push_bit s (ucast (b AND 127))) (s + 7) buf)"

definition Uvarint :: "byte list \<Rightarrow> 64 word \<times> int" where
  "Uvarint buf = uvarint_loop 0 0 0 buf"

subsection \<open>Frames\<close>

definition MaxVarintLen32 :: nat where
  "MaxVarintLen32 = 5"

text \<open>The bytes that \<open>writeMessage\<close> compresses for a marshalled message.\<close>

definition frame :: "byte list \<Rightarrow> byte list" where
  "frame payload = PutUvarint (ucast (word_of_nat (length payload) :: 32 word)) @ payload"

text \<open>
  The decompressed stream of a connection: whether the gzip reader exists, the error of creating it, the bytes that are left, the error that reading gives
  at their end, and whether that error comes together with the last byte, as \<open>io.Reader\<close> allows.
\<close>

record Stream =
  sm_reader :: bool
  sm_header :: "string option"
  sm_bytes :: "byte list"
  sm_error :: string
  sm_with_last :: bool

text \<open>\<open>io.ReadFull\<close> of \<open>n\<close> bytes when \<open>st\<close> is left; an error that comes with the last byte it needs is dropped.\<close>

definition ReadFull :: "string \<Rightarrow> nat \<Rightarrow> byte list \<Rightarrow> string + (byte list \<times> byte list)" where
  "ReadFull e n st = (if n \<le> length st then Inr (take n st, drop n st)
     else Inl (if st \<noteq> [] \<and> e = ''EOF'' then ''unexpected EOF'' else e))"

text \<open>The loop of \<open>readMessage\<close>; \<open>lengthBuf\<close> holds the bytes read so far. A byte that comes with an error is dropped.\<close>

fun read_frame :: "string \<Rightarrow> bool \<Rightarrow> byte list \<Rightarrow> byte list \<Rightarrow> string + (byte list \<times> byte list)" where
  "read_frame e with_last lengthBuf [] = Inl (''failed to read length prefix: '' @ e)"
| "read_frame e with_last lengthBuf (b # st) =
     (if with_last \<and> st = [] then Inl (''failed to read length prefix: '' @ e)
      else (let buf = lengthBuf @ [b]; (len, n) = Uvarint buf in
            if 0 < n then
              (case ReadFull e (unat len) st of
                 Inl err \<Rightarrow> Inl (''failed to read protobuf data: '' @ err)
               | Inr r \<Rightarrow> Inr r)
            else if n < 0 then Inl ''invalid length encoding''
            else if MaxVarintLen32 \<le> length buf then Inl ''length prefix too long''
            else read_frame e with_last buf st))"

text \<open>The gzip reader is created by the first read.\<close>

definition readMessage :: "(byte list \<Rightarrow> string + 'm) \<Rightarrow> Stream \<Rightarrow> string + ('m \<times> Stream)" where
  "readMessage unmarshal s =
     (case (if sm_reader s then None else sm_header s) of
        Some err \<Rightarrow> Inl (''failed to create gzip reader: '' @ err)
      | None \<Rightarrow>
          (case read_frame (sm_error s) (sm_with_last s) [] (sm_bytes s) of
             Inl err \<Rightarrow> Inl err
           | Inr (protobufData, st) \<Rightarrow>
               (case unmarshal protobufData of
                  Inl err \<Rightarrow> Inl (''failed to unmarshal message: '' @ err)
                | Inr msg \<Rightarrow> Inr (msg, s\<lparr>sm_reader := True, sm_bytes := st\<rparr>))))"

text \<open>What the connection answers to the calls of \<open>writeMessage\<close>: the error of each, \<open>None\<close> for nil.\<close>

record NetEnv =
  env_deadline :: "string option"
  env_write :: "string option"
  env_flush :: "string option"

text \<open>\<open>writeMessage\<close> returns its error and the bytes on the wire afterwards. (What reaches the wire when
  writing or flushing fails is not known; the model then leaves it as it was.)\<close>

definition writeMessage :: "('m \<Rightarrow> string + byte list) \<Rightarrow> (byte list \<Rightarrow> byte list) \<Rightarrow> NetEnv \<Rightarrow> 'm \<Rightarrow> byte list \<Rightarrow>
    string option \<times> byte list" where
  "writeMessage marshal compress env msg wire =
     (case env_deadline env of Some err \<Rightarrow> (Some (''failed to set write deadline: '' @ err), wire)
      | None \<Rightarrow>
          (case marshal msg of Inl err \<Rightarrow> (Some (''failed to marshal message: '' @ err), wire)
           | Inr payload \<Rightarrow>
               (let compressedData = compress (frame payload) in
                case env_write env of Some err \<Rightarrow> (Some (''failed to write compressed message: '' @ err), wire)
                | None \<Rightarrow>
                    (case env_flush env of Some err \<Rightarrow> (Some (''failed to flush: '' @ err), wire)
                     | None \<Rightarrow> (None, wire @ compressedData)))))"

subsection \<open>The read loop\<close>

lemma read_frame_shorter: "read_frame e l buf st = Inr (p, st') \<Longrightarrow> length st' < length st"
proof (induction st arbitrary: buf)
  case (Cons b st)
  then show ?case
    using Cons.IH [of "buf @ [b]"]
    by (auto simp: Let_def ReadFull_def intro: less_SucI split: prod.splits if_splits sum.splits)
qed simp

lemma readMessage_shorter: "readMessage unmarshal s = Inr (m, s') \<Longrightarrow> length (sm_bytes s') < length (sm_bytes s)"
  using read_frame_shorter by (auto simp: readMessage_def split: option.splits sum.splits)

text \<open>The messages that \<open>readLoop\<close> reads from a connection of a client that stays started, and the error that
  ends the loop.\<close>

function readLoop :: "(byte list \<Rightarrow> string + 'm) \<Rightarrow> Stream \<Rightarrow> 'm list \<times> string" where
  "readLoop unmarshal s =
     (case readMessage unmarshal s of
        Inl err \<Rightarrow> ([], err)
      | Inr (m, s') \<Rightarrow> (let (ms, err) = readLoop unmarshal s' in (m # ms, err)))"
  by pat_completeness auto

termination readLoop
  by (relation "measure (\<lambda>(_, s). length (sm_bytes s))") (auto dest: readMessage_shorter)

declare readLoop.simps [simp del]

subsection \<open>Reading back a length\<close>

lemma bit127: "bit (127 :: int) n \<longleftrightarrow> n < 7"
proof -
  have "bit (mask 7 :: int) n \<longleftrightarrow> n < 7" by (simp only: bit_mask_iff) simp
  then show ?thesis by (simp add: mask_eq_exp_minus_1)
qed

lemma bit128: "bit (128 :: int) n \<longleftrightarrow> n = 7"
proof -
  have "bit (2 ^ 7 :: int) n \<longleftrightarrow> n = 7" by (simp only: bit_exp_iff) auto
  then show ?thesis by simp
qed

lemma less128: "(b :: byte) < 128 \<longleftrightarrow> \<not> bit b 7"
proof -
  have "bit b 7 = bit (unat b) 7" by (simp add: bit_unsigned_iff)
  also have "\<dots> = odd (unat b div 128)" by (simp add: bit_iff_odd)
  finally have "bit b 7 = odd (unat b div 128)" .
  moreover have "unat b < 256" using unsigned_less [of b, where ?'a = nat] by simp
  then have "unat b div 128 = (if unat b < 128 then 0 else 1)"
    using div_nat_eqI [of 128 1 "unat b"] by simp
  ultimately show ?thesis unfolding word_less_nat_alt by simp
qed

lemma join7: "push_bit s (ucast ((ucast y OR 128 :: byte) AND 127)) OR push_bit (s + 7) (drop_bit 7 y) = (push_bit s y :: 64 word)"
proof (rule bit_word_eqI)
  fix n
  show "bit (push_bit s (ucast ((ucast y OR 128 :: byte) AND 127)) OR push_bit (s + 7) (drop_bit 7 y)) n = bit (push_bit s y :: 64 word) n"
  proof (cases "s + 7 \<le> n")
    case True
    then obtain k where "n = s + 7 + k" using le_Suc_ex by blast
    then show ?thesis by (auto simp: bit_simps bit127 bit128)
  qed (auto simp: bit_simps bit127 bit128)
qed

lemma bit7_unat: "bit (x :: 64 word) 7 = odd (unat x div 128)"
proof -
  have "bit x 7 = bit (unat x) 7" by (simp add: bit_unsigned_iff)
  then show ?thesis by (simp add: bit_iff_odd)
qed

lemma PutUvarint_split:
  "\<exists>bs b. PutUvarint x = bs @ [b] \<and> b < 128 \<and> (\<forall>c \<in> set bs. \<not> c < 128)"
proof (induction x rule: PutUvarint.induct)
  case (1 x)
  show ?case
  proof (cases "x < 128")
    case True
    then have "\<not> bit x 7" by (simp add: bit7_unat word_less_nat_alt)
    then have "ucast x < (128 :: byte)" by (simp add: less128 bit_simps)
    then show ?thesis using True by (subst PutUvarint.simps) auto
  next
    case False
    have "\<not> (ucast x OR 128 :: byte) < 128" by (simp add: less128 bit_simps bit128)
    with 1 [OF False] obtain bs b where "PutUvarint (drop_bit 7 x) = bs @ [b]" "b < 128"
      "\<forall>c \<in> set ((ucast x OR 128) # bs). \<not> c < 128" by auto
    then show ?thesis using False by (subst PutUvarint.simps) (auto intro!: exI [of _ "(ucast x OR 128) # bs"])
  qed
qed

lemma uvarint_loop_incomplete:
  "(\<forall>c \<in> set bs. \<not> c < 128) \<Longrightarrow> i + length bs \<le> 10 \<Longrightarrow> uvarint_loop i x s bs = (0, 0)"
  by (induction i x s bs rule: uvarint_loop.induct) auto

lemma length_PutUvarint: "unat x < 128 ^ k \<Longrightarrow> 0 < k \<Longrightarrow> length (PutUvarint x) \<le> k"
proof (induction k arbitrary: x)
  case (Suc k)
  show ?case
  proof (cases "x < 128")
    case True
    then show ?thesis by (subst PutUvarint.simps) simp
  next
    case False
    have "unat (drop_bit 7 x) = unat x div 128" by (simp add: drop_bit_eq_div unat_div)
    then have "unat (drop_bit 7 x) < 128 ^ k" using Suc.prems(1) by (simp add: less_mult_imp_div_less mult.commute)
    moreover have "0 < k" using False Suc.prems(1) by (cases k) (simp_all add: word_less_nat_alt)
    ultimately show ?thesis using Suc.IH False by (subst PutUvarint.simps) simp
  qed
qed simp

lemma uvarint_loop_Put:
  "length (PutUvarint y) + i < 10 \<Longrightarrow> uvarint_loop i x s (PutUvarint y) = (x OR push_bit s y, int (i + length (PutUvarint y)))"
proof (induction y arbitrary: i x s rule: PutUvarint.induct)
  case (1 y)
  show ?case
  proof (cases "y < 128")
    case True
    then have "\<not> bit y 7" by (simp add: bit7_unat word_less_nat_alt)
    then have "ucast y < (128 :: byte)" by (simp add: less128 bit_simps)
    moreover have "ucast (ucast y :: byte) = y"
      using True by (simp add: word_unat_eq_iff unsigned_ucast_eq unsigned_take_bit_eq take_bit_nat_eq_self word_less_nat_alt)
    moreover have "PutUvarint y = [ucast y]" using True by (subst PutUvarint.simps) simp
    ultimately show ?thesis using 1(2) by simp
  next
    case False
    then have p: "PutUvarint y = (ucast y OR 128) # PutUvarint (drop_bit 7 y)" by (subst PutUvarint.simps) simp
    have "\<not> (ucast y OR 128 :: byte) < 128" by (simp add: less128 bit_simps bit128)
    moreover have "length (PutUvarint (drop_bit 7 y)) + (i + 1) < 10" using 1(2) by (simp add: p)
    ultimately show ?thesis
      using 1(1) [OF False] 1(2) join7 [of s y] by (simp add: p or.assoc)
  qed
qed

subsection \<open>Messages survive the wire\<close>

lemma read_frame_prefix:
  assumes "PutUvarint y = buf @ rest" and "rest \<noteq> []" and "length (PutUvarint y) \<le> 5" and "\<not> l \<or> st \<noteq> []"
  shows "read_frame e l buf (rest @ st) =
    (case ReadFull e (unat y) st of Inl err \<Rightarrow> Inl (''failed to read protobuf data: '' @ err) | Inr r \<Rightarrow> Inr r)"
  using assms
proof (induction rest arbitrary: buf)
  case (Cons c rest)
  show ?case
  proof (cases rest)
    case Nil
    then have "Uvarint (buf @ [c]) = (y, int (length (PutUvarint y)))"
      using uvarint_loop_Put [of y 0 0 0] Cons.prems by (simp add: Uvarint_def)
    moreover have "0 < length (PutUvarint y)" using Cons.prems(1) by simp
    ultimately show ?thesis using Nil Cons.prems(4) by auto
  next
    case (Cons d ds)
    obtain bs b where "PutUvarint y = bs @ [b]" and h: "\<forall>c \<in> set bs. \<not> c < 128" using PutUvarint_split by blast
    then have "bs = (buf @ [c]) @ butlast rest"
      using Cons.prems(1) Cons by (metis append_butlast_last_id append_eq_append_conv2 append_assoc append_same_eq butlast_append list.distinct(1) snoc_eq_iff_butlast append_Cons append_Nil)
    with h have "\<forall>x \<in> set (buf @ [c]). \<not> x < 128" by simp
    moreover have "length (buf @ [c]) < 5" using Cons.prems Cons by simp
    ultimately have "Uvarint (buf @ [c]) = (0, 0)" unfolding Uvarint_def by (intro uvarint_loop_incomplete) simp_all
    then show ?thesis
      using Cons.IH [of "buf @ [c]"] Cons.prems Cons \<open>length (buf @ [c]) < 5\<close> by (simp add: MaxVarintLen32_def)
  qed
qed simp

lemma unat_length_word: "n < 2 ^ 32 \<Longrightarrow> unat (ucast (word_of_nat n :: 32 word) :: 64 word) = n"
  by (simp add: unsigned_ucast_eq unsigned_of_nat unsigned_take_bit_eq take_bit_nat_eq_self)

lemma read_frame_frame:
  assumes "length p < 2 ^ 32" and "\<not> l \<or> p @ st \<noteq> []"
  shows "read_frame e l [] (frame p @ st) = Inr (p, st)"
proof -
  let ?y = "ucast (word_of_nat (length p) :: 32 word) :: 64 word"
  have y: "unat ?y = length p" using assms(1) by (rule unat_length_word)
  have "length (PutUvarint ?y) \<le> 5" using assms(1) by (intro length_PutUvarint) (simp_all add: y)
  moreover obtain bs b where "PutUvarint ?y = bs @ [b]" using PutUvarint_split by blast
  ultimately show ?thesis
    using read_frame_prefix [of ?y "[]" "PutUvarint ?y" l "p @ st" e] assms(2) by (simp add: frame_def y ReadFull_def)
qed

lemma frame_empty: "frame [] = [0]"
  by (simp add: frame_def PutUvarint.simps)

text \<open>What the readers of protocol buffers and gzip promise: a message is unmarshalled from its bytes; decompressing concatenated members gives the
  concatenation of their contents, and there is no header in an empty stream.\<close>

definition codec_ok :: "('m \<Rightarrow> string + byte list) \<Rightarrow> (byte list \<Rightarrow> string + 'm) \<Rightarrow> 'm \<Rightarrow> bool" where
  "codec_ok marshal unmarshal m \<longleftrightarrow> (\<exists>p. marshal m = Inr p \<and> unmarshal p = Inr m \<and> length p < 2 ^ 32)"

definition gzip_ok :: "(byte list \<Rightarrow> byte list) \<Rightarrow> (byte list \<Rightarrow> Stream) \<Rightarrow> bool" where
  "gzip_ok compress decompress \<longleftrightarrow> (\<forall>xs. let s = decompress (concat (map compress xs)) in
     \<not> sm_reader s \<and> sm_bytes s = concat xs \<and> sm_header s = (if xs = [] then Some ''EOF'' else None))"

definition net_ok :: NetEnv where
  "net_ok = \<lparr>env_deadline = None, env_write = None, env_flush = None\<rparr>"

definition carries :: "('m \<Rightarrow> string + byte list) \<Rightarrow> (byte list \<Rightarrow> string + 'm) \<Rightarrow> 'm \<Rightarrow> byte list \<Rightarrow> bool" where
  "carries marshal unmarshal m p \<longleftrightarrow> marshal m = Inr p \<and> unmarshal p = Inr m \<and> length p < 2 ^ 32"

lemma write_messages:
  assumes "\<forall>m \<in> set ms. codec_ok marshal unmarshal m"
  shows "\<exists>ps. list_all2 (carries marshal unmarshal) ms ps \<and>
    foldl (\<lambda>w m. snd (writeMessage marshal compress net_ok m w)) w ms = w @ concat (map compress (map frame ps))"
  using assms
proof (induction ms arbitrary: w)
  case (Cons m ms)
  then obtain p where p: "carries marshal unmarshal m p" by (auto simp: codec_ok_def carries_def)
  have w: "snd (writeMessage marshal compress net_ok m w) = w @ compress (frame p)"
    using p by (simp add: writeMessage_def net_ok_def carries_def)
  from Cons.IH [of "w @ compress (frame p)"] Cons.prems obtain ps where
    "list_all2 (carries marshal unmarshal) ms ps"
    "foldl (\<lambda>w m. snd (writeMessage marshal compress net_ok m w)) (w @ compress (frame p)) ms =
      (w @ compress (frame p)) @ concat (map compress (map frame ps))" by auto
  then show ?case using p w by (intro exI [of _ "p # ps"]) simp
qed simp

lemma readLoop_frames:
  assumes "list_all2 (carries marshal unmarshal) ms ps" and "sm_reader s" and "sm_bytes s = concat (map frame ps)"
  shows "readLoop unmarshal s = (if ms \<noteq> [] \<and> sm_with_last s \<and> last ps = [] then butlast ms else ms, ''failed to read length prefix: '' @ sm_error s)"
  using assms
proof (induction ms ps arbitrary: s rule: list_all2_induct)
  case Nil
  then show ?case by (subst readLoop.simps) (simp add: readMessage_def)
next
  case (Cons m ms p ps)
  let ?st = "concat (map frame ps)" and ?s = "s\<lparr>sm_reader := True, sm_bytes := concat (map frame ps)\<rparr>"
  have f: "frame q \<noteq> []" for q by (subst frame_def, subst PutUvarint.simps) simp
  have l: "ms = [] \<longleftrightarrow> ps = []" using list_all2_lengthD [OF Cons.hyps(2)] by auto
  show ?case
  proof (cases "sm_with_last s \<and> p = [] \<and> ps = []")
    case True
    then show ?thesis using Cons.prems l by (subst readLoop.simps) (simp add: readMessage_def frame_empty)
  next
    case False
    then have "\<not> sm_with_last s \<or> p @ ?st \<noteq> []" using f by (cases ps) auto
    then have "readMessage unmarshal s = Inr (m, ?s)"
      using Cons.hyps(1) Cons.prems by (simp add: readMessage_def read_frame_frame carries_def)
    then show ?thesis using Cons.IH [of ?s] False l by (subst readLoop.simps) auto
  qed
qed

lemma readLoop_create:
  assumes "sm_header s = None"
  shows "readLoop unmarshal s = readLoop unmarshal (s\<lparr>sm_reader := True\<rparr>)"
proof -
  have "readMessage unmarshal s = readMessage unmarshal (s\<lparr>sm_reader := True\<rparr>)"
    using assms by (cases s) (simp add: readMessage_def split: sum.split prod.split)
  then show ?thesis by (subst (1 2) readLoop.simps) simp
qed

text \<open>C20: messages survive the wire. Whatever a client writes on a connection that does not fail, a reader of the same format gets exactly those messages in the
  same order, with one exception: a last message whose encoding is empty is lost when the decompressor hands out the last byte of the stream, which is then its
  length, together with the end of the stream. The loop ends with the error of reading the next length, or with that of creating the gzip reader when nothing was
  written. This relies on the two libraries: protocol buffers give back a message from its bytes, fewer than \<open>2 ^ 32\<close>, and gzip the concatenation of the
  compressed members.\<close>

theorem netty_round_trip:
  assumes "\<forall>m \<in> set ms. codec_ok marshal unmarshal m" and "gzip_ok compress decompress"
    and "wire = foldl (\<lambda>w m. snd (writeMessage marshal compress net_ok m w)) [] ms"
  shows "readLoop unmarshal (decompress wire) =
    (if ms = [] then ([], ''failed to create gzip reader: EOF'')
     else (if sm_with_last (decompress wire) \<and> marshal (last ms) = Inr [] then butlast ms else ms,
           ''failed to read length prefix: '' @ sm_error (decompress wire)))"
proof -
  from write_messages [OF assms(1), of compress "[]"] obtain ps where
    ps: "list_all2 (carries marshal unmarshal) ms ps" and w: "wire = concat (map compress (map frame ps))" unfolding assms(3) by auto
  let ?s = "decompress wire"
  have s: "\<not> sm_reader ?s" "sm_bytes ?s = concat (map frame ps)" "sm_header ?s = (if ps = [] then Some ''EOF'' else None)"
    using assms(2) [unfolded gzip_ok_def, rule_format, of "map frame ps"] unfolding w by (simp_all add: Let_def del: map_map)
  have l: "length ms = length ps" using list_all2_lengthD [OF ps] .
  show ?thesis
  proof (cases "ms = []")
    case True
    then show ?thesis using l s by (subst readLoop.simps) (simp add: readMessage_def)
  next
    case False
    then have "carries marshal unmarshal (last ms) (last ps)" using ps l by (cases ms rule: rev_cases; cases ps rule: rev_cases) (simp_all add: list_all2_append)
    then have "last ps = [] \<longleftrightarrow> marshal (last ms) = Inr []" by (auto simp: carries_def)
    moreover have "readLoop unmarshal ?s = readLoop unmarshal (?s\<lparr>sm_reader := True\<rparr>)" by (rule readLoop_create) (use False l s(3) in auto)
    ultimately show ?thesis using readLoop_frames [OF ps, of "?s\<lparr>sm_reader := True\<rparr>"] False s(2) by simp
  qed
qed

text \<open>A compression that only marks the bytes and the end of a member, and a reader that reports the end of the stream with the last byte.\<close>

definition stored_ex :: "byte list \<Rightarrow> byte list" where
  "stored_ex x = concat (map (\<lambda>b. [1, b]) x) @ [0]"

fun unstored_ex :: "byte list \<Rightarrow> byte list" where
  "unstored_ex [] = []"
| "unstored_ex [c] = []"
| "unstored_ex (c # b # w) = (if c = 0 then unstored_ex (b # w) else b # unstored_ex w)"

definition stream_ex :: "byte list \<Rightarrow> Stream" where
  "stream_ex w = \<lparr>sm_reader = False, sm_header = (if w = [] then Some ''EOF'' else None), sm_bytes = unstored_ex w, sm_error = ''EOF'', sm_with_last = True\<rparr>"

lemma unstored_stored: "unstored_ex (stored_ex x @ w) = x @ unstored_ex w"
  by (induction x) (cases w, simp_all add: stored_ex_def)

lemma gzip_ok_ex: "gzip_ok stored_ex stream_ex"
proof -
  have "unstored_ex (concat (map stored_ex xs)) = concat xs" for xs by (induction xs) (simp_all add: unstored_stored)
  moreover have "concat (map stored_ex xs) = [] \<longleftrightarrow> xs = []" for xs by (cases xs) (simp_all add: stored_ex_def)
  ultimately show ?thesis by (simp add: gzip_ok_def stream_ex_def)
qed

theorem netty_round_trip_witness:
  "readLoop (\<lambda>p. Inr p) (stream_ex (foldl (\<lambda>w m. snd (writeMessage (\<lambda>m. Inr m) stored_ex net_ok m w)) [] [[1, 2], [], [3]])) =
    ([[1, 2], [], [3]], ''failed to read length prefix: EOF'') \<and>
   readLoop (\<lambda>p. Inr p) (stream_ex (foldl (\<lambda>w m. snd (writeMessage (\<lambda>m. Inr m) stored_ex net_ok m w)) [] [[1, 2], []])) =
    ([[1, 2]], ''failed to read length prefix: EOF'')"
proof -
  have e: "sm_with_last (stream_ex w)" "sm_error (stream_ex w) = ''EOF''" for w by (simp_all add: stream_ex_def)
  have c: "\<forall>m \<in> set [[1, 2], [], [3]]. codec_ok (\<lambda>m. Inr m) (\<lambda>p. Inr p) m" "\<forall>m \<in> set [[1, 2], []]. codec_ok (\<lambda>m. Inr m) (\<lambda>p. Inr p) m"
    by (simp_all add: codec_ok_def)
  show ?thesis using netty_round_trip [OF c(1) gzip_ok_ex refl] netty_round_trip [OF c(2) gzip_ok_ex refl] by (simp add: e)
qed

text \<open>the length prefix of a message below four gigabytes takes at most five bytes, and reading it back gives
  the length and the number of bytes.\<close>

theorem uvarint_round_trip:
  assumes "n < 2 ^ 32"
  shows "length (PutUvarint (word_of_nat n)) \<le> MaxVarintLen32 \<and>
    Uvarint (PutUvarint (word_of_nat n)) = (word_of_nat n, int (length (PutUvarint (word_of_nat n))))"
proof -
  have "unat (word_of_nat n :: 64 word) = n" using assms by (simp add: unsigned_of_nat take_bit_nat_eq_self)
  then have "length (PutUvarint (word_of_nat n)) \<le> 5" using assms by (intro length_PutUvarint) simp_all
  then show ?thesis using uvarint_loop_Put [of "word_of_nat n" 0 0 0] by (simp add: Uvarint_def MaxVarintLen32_def)
qed

theorem uvarint_round_trip_witness: "Uvarint (PutUvarint 300) = (300, 2)"
proof -
  have "PutUvarint 300 = [172, 2]" by code_simp
  then show ?thesis using uvarint_round_trip [of 300] by simp
qed

end
