(* ===== verification/Transport_Client.thy ===== *)
theory Transport_Client
  imports Netty_Codec Job_Types
begin

text \<open>
  \<open>transport/registry.go\<close>, \<open>transport/netty_client.go\<close> and \<open>transport/grpc_client.go\<close>: the registry of message
  processors and the two clients.

  A processor works on a state \<open>'w\<close> of the rest of the program and may ask for the shutdown of the client. A
  response of type \<open>interface{}\<close> is \<open>None\<close> when it is nil and \<open>Some None\<close> when it holds a nil message.
  The network is a parameter: every operation takes the errors its calls return. The events of a client
  are recorded in the order in which its handler is called. Background loops are given by one
  iteration of their body.
\<close>

subsection \<open>Messages and the registry\<close>

record Message =
  Msg_Identity :: string
  Msg_Direction :: int32
  Msg_Type :: int32
  Msg_Msg :: string

definition Direction_REQUEST :: int32 where "Direction_REQUEST = 0"
definition Direction_RESPONSE :: int32 where "Direction_RESPONSE = 1"

definition MessageTypeHeartbeat :: int32 where "MessageTypeHeartbeat = 0"
definition MessageTypeGoOnline :: int32 where "MessageTypeGoOnline = 1"
definition MessageTypeGoOffline :: int32 where "MessageTypeGoOffline = 2"
definition MessageTypeGoClose :: int32 where "MessageTypeGoClose = 3"
definition MessageTypeIssueCyclicTask :: int32 where "MessageTypeIssueCyclicTask = 4"
definition MessageTypeDeleteCyclicTask :: int32 where "MessageTypeDeleteCyclicTask = 5"
definition MessageTypeIssueOneTimeTask :: int32 where "MessageTypeIssueOneTimeTask = 6"
definition MessageTypeResponseOneTimeTaskData :: int32 where "MessageTypeResponseOneTimeTaskData = 7"
definition MessageTypeResponseCyclicTaskData :: int32 where "MessageTypeResponseCyclicTaskData = 8"
definition MessageTypeResponseCyclicTaskSdData :: int32 where "MessageTypeResponseCyclicTaskSdData = 9"

lemmas message_types = MessageTypeHeartbeat_def MessageTypeGoOnline_def MessageTypeGoOffline_def MessageTypeGoClose_def
  MessageTypeIssueCyclicTask_def MessageTypeDeleteCyclicTask_def MessageTypeIssueOneTimeTask_def
  MessageTypeResponseOneTimeTaskData_def MessageTypeResponseCyclicTaskData_def MessageTypeResponseCyclicTaskSdData_def

datatype client_action = ShutdownNow | ShutdownAfter duration

record 'w ProcResult =
  pr_response :: "string + Message option option"
  pr_actions :: "client_action list"
  pr_world :: 'w

type_synonym 'w ProcessorFunc = "Message \<Rightarrow> 'w \<Rightarrow> 'w ProcResult"

type_synonym 'w ProcessorRegistry = "(int32 \<times> 'w ProcessorFunc) list"

definition NewProcessorRegistry :: "'w ProcessorRegistry" where
  "NewProcessorRegistry = []"

definition registry_Register :: "int32 \<Rightarrow> 'w ProcessorFunc \<Rightarrow> 'w ProcessorRegistry \<Rightarrow> 'w ProcessorRegistry" where
  "registry_Register msgType processor r = map_put msgType processor r"

definition registry_Get :: "int32 \<Rightarrow> 'w ProcessorRegistry \<Rightarrow> 'w ProcessorFunc option" where
  "registry_Get msgType r = map_of r msgType"

subsection \<open>Futures and events\<close>

text \<open>The two channels of a future have room for one element; putting into a full one blocks, which is \<open>None\<close>.\<close>

record ResponseFuture =
  rf_response :: "Message option"
  rf_error :: "string option"

definition NewResponseFuture :: ResponseFuture where
  "NewResponseFuture = \<lparr>rf_response = None, rf_error = None\<rparr>"

definition PutResponse :: "Message \<Rightarrow> ResponseFuture \<Rightarrow> ResponseFuture option" where
  "PutResponse resp f = (if rf_response f = None then Some (f\<lparr>rf_response := Some resp\<rparr>) else None)"

definition PutError :: "string \<Rightarrow> ResponseFuture \<Rightarrow> ResponseFuture option" where
  "PutError err f = (if rf_error f = None then Some (f\<lparr>rf_error := Some err\<rparr>) else None)"

text \<open>The result of \<open>Wait\<close> for what the future holds when the wait ends.\<close>

definition Wait :: "ResponseFuture \<Rightarrow> Message result" where
  "Wait f = (case rf_response f of Some resp \<Rightarrow> Ok resp
     | None \<Rightarrow> (case rf_error f of Some err \<Rightarrow> Err err | None \<Rightarrow> Err ''context deadline exceeded''))"

datatype EventType = EventConnected | EventDisconnected | EventConnectFailed

record Event =
  Ev_Type :: EventType
  Ev_Address :: string
  Ev_Error :: "string option"

datatype conn = Open | Closed

subsection \<open>The Netty client\<close>

record 'w NettyClient =
  nc_addr :: string
  nc_conn :: "conn option"
  nc_started :: bool
  nc_registry :: "'w ProcessorRegistry"
  nc_responseTable :: "(string \<times> ResponseFuture) list"
  nc_eventHandler :: bool
  nc_gzipReader :: bool
  nc_identity :: string
  nc_events :: "Event list"
  nc_wire :: "byte list"
  nc_loops :: nat
  nc_readLoops :: nat

definition NewNettyClient :: "string \<Rightarrow> 'w NettyClient" where
  "NewNettyClient addr = \<lparr>nc_addr = addr, nc_conn = None, nc_started = False, nc_registry = NewProcessorRegistry,
     nc_responseTable = [], nc_eventHandler = True, nc_gzipReader = False, nc_identity = [], nc_events = [], nc_wire = [], nc_loops = 0, nc_readLoops = 0\<rparr>"

definition SetIdentity :: "string \<Rightarrow> 'w NettyClient \<Rightarrow> 'w NettyClient" where
  "SetIdentity identity c = c\<lparr>nc_identity := identity\<rparr>"

definition GetIdentity :: "'w NettyClient \<Rightarrow> string" where
  "GetIdentity c = nc_identity c"

definition IsStarted :: "'w NettyClient \<Rightarrow> bool" where
  "IsStarted c = nc_started c"

definition SetEventHandler :: "bool \<Rightarrow> 'w NettyClient \<Rightarrow> 'w NettyClient" where
  "SetEventHandler present c = c\<lparr>nc_eventHandler := present\<rparr>"

definition triggerEvent :: "EventType \<Rightarrow> string option \<Rightarrow> 'w NettyClient \<Rightarrow> 'w NettyClient" where
  "triggerEvent eventType err c =
     (if nc_eventHandler c then c\<lparr>nc_events := nc_events c @ [\<lparr>Ev_Type = eventType, Ev_Address = nc_addr c, Ev_Error = err\<rparr>]\<rparr> else c)"

definition RegisterProcessor :: "int32 \<Rightarrow> 'w ProcessorFunc \<Rightarrow> 'w NettyClient \<Rightarrow> 'w NettyClient" where
  "RegisterProcessor msgType processor c = c\<lparr>nc_registry := registry_Register msgType processor (nc_registry c)\<rparr>"

text \<open>\<open>dial\<close> is the error of the connection attempt; a successful start leaves three background loops running, one of them the read loop.\<close>

definition netty_Start :: "string option \<Rightarrow> 'w NettyClient \<Rightarrow> string option \<times> 'w NettyClient" where
  "netty_Start dial c =
     (if nc_started c then (None, c)
      else (case dial of
              Some err \<Rightarrow> (Some err, triggerEvent EventConnectFailed (Some err) c)
            | None \<Rightarrow>
                (let c1 = c\<lparr>nc_conn := Some Open, nc_gzipReader := False, nc_started := True\<rparr>;
                     c2 = triggerEvent EventConnected None c1
                 in (None, c2\<lparr>nc_loops := nc_loops c2 + 3, nc_readLoops := nc_readLoops c2 + 1\<rparr>))))"

definition netty_Shutdown :: "'w NettyClient \<Rightarrow> string option \<times> 'w NettyClient" where
  "netty_Shutdown c =
     (None, triggerEvent EventDisconnected None
        (c\<lparr>nc_gzipReader := False, nc_conn := map_option (\<lambda>_. Closed) (nc_conn c), nc_started := False\<rparr>))"

text \<open>The message argument has type \<open>interface{}\<close>: \<open>None\<close> is a value of another type.\<close>

definition netty_SendMsg :: "(Message \<Rightarrow> string + byte list) \<Rightarrow> (byte list \<Rightarrow> byte list) \<Rightarrow> NetEnv \<Rightarrow> Message option \<Rightarrow>
    'w NettyClient \<Rightarrow> string option \<times> 'w NettyClient" where
  "netty_SendMsg marshal compress env msg c =
     (if \<not> nc_started c \<or> nc_conn c = None then (Some ''client not started'', c)
      else (case msg of None \<Rightarrow> (Some ''invalid message type'', c)
            | Some pbMsg \<Rightarrow> (case writeMessage marshal compress env pbMsg (nc_wire c) of (err, wire) \<Rightarrow> (err, c\<lparr>nc_wire := wire\<rparr>))))"

text \<open>A correlation identifier: the formatted time of the call, and eight characters for the nanoseconds that the clock shows at eight readings.\<close>

definition charset :: string where
  "charset = ''abcdefghijklmnopqrstuvwxyzABCDEFGHIJKLMNOPQRSTUVWXYZ0123456789''"

definition randomString :: "nat list \<Rightarrow> string" where
  "randomString readings = map (\<lambda>n. charset ! (n mod length charset)) readings"

definition generateCorrelationID :: "string \<Rightarrow> nat list \<Rightarrow> string" where
  "generateCorrelationID stamp readings = stamp @ ''-'' @ randomString readings"

lemma randomString_charset: "set (randomString readings) \<subseteq> set charset"
proof -
  have "0 < length charset" by (simp add: charset_def)
  then have "charset ! (n mod length charset) \<in> set charset" for n by (intro nth_mem mod_less_divisor)
  then show ?thesis by (auto simp: randomString_def)
qed

text \<open>
  \<open>SendMsgSync\<close> until it waits, and after the wait. The first part returns the result when the
  call ends there, and otherwise the identity under which the future is stored; \<open>fresh\<close> is the
  generated correlation identifier. The deferred deletion is part of both ends.
\<close>

definition SendMsgSync_begin :: "(Message \<Rightarrow> string + byte list) \<Rightarrow> (byte list \<Rightarrow> byte list) \<Rightarrow> NetEnv \<Rightarrow> string \<Rightarrow> Message option \<Rightarrow>
    'w NettyClient \<Rightarrow> (string + string) \<times> 'w NettyClient" where
  "SendMsgSync_begin marshal compress env fresh msg c =
     (if \<not> nc_started c \<or> nc_conn c = None then (Inl ''client not started'', c)
      else (case msg of None \<Rightarrow> (Inl ''invalid message type'', c)
            | Some m \<Rightarrow>
                (let pbMsg = (if Msg_Identity m = [] then m\<lparr>Msg_Identity := fresh\<rparr> else m);
                     c1 = c\<lparr>nc_responseTable := map_put (Msg_Identity pbMsg) NewResponseFuture (nc_responseTable c)\<rparr>
                 in case writeMessage marshal compress env pbMsg (nc_wire c1) of
                      (Some err, wire) \<Rightarrow>
                        (Inl err, c1\<lparr>nc_wire := wire, nc_responseTable := map_del (Msg_Identity pbMsg) (nc_responseTable c1)\<rparr>)
                    | (None, wire) \<Rightarrow> (Inr (Msg_Identity pbMsg), c1\<lparr>nc_wire := wire\<rparr>))))"

definition SendMsgSync_end :: "string \<Rightarrow> ResponseFuture \<Rightarrow> 'w NettyClient \<Rightarrow> Message result \<times> 'w NettyClient" where
  "SendMsgSync_end ident future c = (Wait future, c\<lparr>nc_responseTable := map_del ident (nc_responseTable c)\<rparr>)"

text \<open>
  A received message. A response goes to the future waiting for its identity; blocking there stops the read
  loop for ever, which is the result \<open>None\<close>. Other messages go to their processor, and what it returns for a request
  is sent back.
\<close>

definition netty_processReceivedMessage :: "(Message \<Rightarrow> string + byte list) \<Rightarrow> (byte list \<Rightarrow> byte list) \<Rightarrow> NetEnv \<Rightarrow> Message \<Rightarrow>
    'w NettyClient \<Rightarrow> 'w \<Rightarrow> ('w NettyClient \<times> client_action list \<times> 'w) option" where
  "netty_processReceivedMessage marshal compress env msg c w =
     (case (if Msg_Direction msg = Direction_RESPONSE then map_of (nc_responseTable c) (Msg_Identity msg) else None) of
        Some future \<Rightarrow>
          (case PutResponse msg future of None \<Rightarrow> None
           | Some future' \<Rightarrow> Some (c\<lparr>nc_responseTable := map_put (Msg_Identity msg) future' (nc_responseTable c)\<rparr>, [], w))
      | None \<Rightarrow>
          (case registry_Get (Msg_Type msg) (nc_registry c) of
             None \<Rightarrow> Some (c, [], w)
           | Some fn \<Rightarrow>
               (let r = fn msg w in
                if Msg_Direction msg = Direction_REQUEST then
                  (case pr_response r of
                     Inr (Some (Some pbResponse)) \<Rightarrow>
                       Some (snd (netty_SendMsg marshal compress env (Some pbResponse) c), pr_actions r, pr_world r)
                   | _ \<Rightarrow> Some (c, pr_actions r, pr_world r))
                else Some (c, pr_actions r, pr_world r))))"

text \<open>The end of the read loop on an error; \<open>closed\<close> says that it is the error of a closed connection. The loop is
  not started again.\<close>

definition readLoop_error :: "bool \<Rightarrow> 'w NettyClient \<Rightarrow> 'w NettyClient" where
  "readLoop_error closed c =
     (if closed then c else triggerEvent EventDisconnected None c)\<lparr>nc_loops := nc_loops c - 1, nc_readLoops := nc_readLoops c - 1\<rparr>"

text \<open>One iteration of the monitor; \<open>dials\<close> are the errors of the connection attempts to come.\<close>

fun reconnect_loop :: "string option list \<Rightarrow> 'w NettyClient \<Rightarrow> 'w NettyClient" where
  "reconnect_loop [] c = c"
| "reconnect_loop (d # ds) c =
     (if \<not> IsStarted c then c
      else (case netty_Start d c of
              (None, c') \<Rightarrow> c'
            | (Some err, c') \<Rightarrow> reconnect_loop ds (triggerEvent EventConnectFailed (Some err) c')))"

definition netty_connectionMonitor :: "string option list \<Rightarrow> 'w NettyClient \<Rightarrow> 'w NettyClient" where
  "netty_connectionMonitor dials c =
     (if IsStarted c \<and> nc_conn c = None
      then reconnect_loop dials (snd (netty_Shutdown (triggerEvent EventDisconnected None c))) else c)"

definition netty_heartbeatLoop :: "(Message \<Rightarrow> string + byte list) \<Rightarrow> (byte list \<Rightarrow> byte list) \<Rightarrow> NetEnv \<Rightarrow> 'w NettyClient \<Rightarrow>
    string option \<times> 'w NettyClient" where
  "netty_heartbeatLoop marshal compress env c =
     (let identity = (if GetIdentity c = [] then ''collector-go'' else GetIdentity c);
          heartbeat = \<lparr>Msg_Identity = identity, Msg_Direction = Direction_REQUEST, Msg_Type = MessageTypeHeartbeat, Msg_Msg = []\<rparr>
      in netty_SendMsg marshal compress env (Some heartbeat) c)"

subsection \<open>The gRPC client\<close>

record 'w GrpcClient =
  gc_conn :: "conn option"
  gc_client :: bool
  gc_addr :: string
  gc_started :: bool
  gc_registry :: "'w ProcessorRegistry"
  gc_responseTable :: "(string \<times> ResponseFuture) list"
  gc_eventHandler :: bool
  gc_events :: "Event list"
  gc_loops :: nat

definition NewGrpcClient :: "string \<Rightarrow> 'w GrpcClient" where
  "NewGrpcClient addr = \<lparr>gc_conn = None, gc_client = False, gc_addr = addr, gc_started = False, gc_registry = NewProcessorRegistry,
     gc_responseTable = [], gc_eventHandler = True, gc_events = [], gc_loops = 0\<rparr>"

definition grpc_triggerEvent :: "EventType \<Rightarrow> string option \<Rightarrow> 'w GrpcClient \<Rightarrow> 'w GrpcClient" where
  "grpc_triggerEvent eventType err c =
     (if gc_eventHandler c then c\<lparr>gc_events := gc_events c @ [\<lparr>Ev_Type = eventType, Ev_Address = gc_addr c, Ev_Error = err\<rparr>]\<rparr> else c)"

definition grpc_RegisterProcessor :: "int32 \<Rightarrow> 'w ProcessorFunc \<Rightarrow> 'w GrpcClient \<Rightarrow> 'w GrpcClient" where
  "grpc_RegisterProcessor msgType processor c = c\<lparr>gc_registry := registry_Register msgType processor (gc_registry c)\<rparr>"

definition grpc_Start :: "string option \<Rightarrow> 'w GrpcClient \<Rightarrow> string option \<times> 'w GrpcClient" where
  "grpc_Start dial c =
     (if gc_started c then (None, c)
      else (case dial of
              Some err \<Rightarrow> (Some err, grpc_triggerEvent EventConnectFailed (Some err) c)
            | None \<Rightarrow>
                (let c1 = grpc_triggerEvent EventConnected None (c\<lparr>gc_conn := Some Open, gc_client := True, gc_started := True\<rparr>)
                 in (None, c1\<lparr>gc_loops := gc_loops c1 + 3\<rparr>))))"

definition grpc_Shutdown :: "'w GrpcClient \<Rightarrow> string option \<times> 'w GrpcClient" where
  "grpc_Shutdown c =
     (None, grpc_triggerEvent EventDisconnected None (c\<lparr>gc_conn := map_option (\<lambda>_. Closed) (gc_conn c), gc_started := False\<rparr>))"

text \<open>The stub exists once the client has been started; calling it before panics. \<open>rpc\<close> is what the remote call gives.\<close>

definition grpc_SendMsg :: "string + Message \<Rightarrow> Message option \<Rightarrow> 'w GrpcClient \<Rightarrow> string option outcome" where
  "grpc_SendMsg rpc msg c =
     (case msg of None \<Rightarrow> Inr None
      | Some pbMsg \<Rightarrow> if \<not> gc_client c then Inl NilDereference else Inr (case rpc of Inl err \<Rightarrow> Some err | Inr _ \<Rightarrow> None))"

text \<open>\<open>waited\<close> is what the future holds at the end of the wait, when the call has to wait.\<close>

definition grpc_SendMsgSync :: "string + Message \<Rightarrow> string \<Rightarrow> ResponseFuture \<Rightarrow> Message option \<Rightarrow> 'w GrpcClient \<Rightarrow>
    (Message option result \<times> 'w GrpcClient) outcome" where
  "grpc_SendMsgSync rpc fresh waited msg c =
     (case msg of None \<Rightarrow> Inr (Ok None, c)
      | Some m \<Rightarrow>
          (let pbMsg = (if Msg_Identity m = [] then m\<lparr>Msg_Identity := fresh\<rparr> else m);
               c1 = c\<lparr>gc_responseTable := map_put (Msg_Identity pbMsg) NewResponseFuture (gc_responseTable c)\<rparr>;
               done = c1\<lparr>gc_responseTable := map_del (Msg_Identity pbMsg) (gc_responseTable c1)\<rparr>
           in if \<not> gc_client c1 then Inl NilDereference
              else (case rpc of
                      Inl err \<Rightarrow> Inr (Err err, done)
                    | Inr resp \<Rightarrow> if Msg_Identity resp = Msg_Identity pbMsg then Inr (Ok (Some resp), done)
                                   else Inr (map_sum id Some (Wait waited), done))))"

definition grpc_processReceivedMessage :: "Message \<Rightarrow> 'w GrpcClient \<Rightarrow> 'w \<Rightarrow> ('w GrpcClient \<times> client_action list \<times> 'w) option" where
  "grpc_processReceivedMessage msg c w =
     (case (if Msg_Direction msg = Direction_RESPONSE then map_of (gc_responseTable c) (Msg_Identity msg) else None) of
        Some future \<Rightarrow>
          (case PutResponse msg future of None \<Rightarrow> None
           | Some future' \<Rightarrow> Some (c\<lparr>gc_responseTable := map_put (Msg_Identity msg) future' (gc_responseTable c)\<rparr>, [], w))
      | None \<Rightarrow>
          (case registry_Get (Msg_Type msg) (gc_registry c) of
             None \<Rightarrow> Some (c, [], w)
           | Some fn \<Rightarrow> (let r = fn msg w in Some (c, pr_actions r, pr_world r))))"

definition grpc_connectionMonitor :: "bool \<Rightarrow> string option \<Rightarrow> 'w GrpcClient \<Rightarrow> 'w GrpcClient" where
  "grpc_connectionMonitor ready dial c =
     (if gc_started c \<and> gc_conn c \<noteq> None \<and> \<not> ready then
        (let c1 = snd (grpc_Shutdown (grpc_triggerEvent EventDisconnected None c)) in
         case grpc_Start dial c1 of
           (None, c2) \<Rightarrow> c2
         | (Some err, c2) \<Rightarrow> grpc_triggerEvent EventConnectFailed (Some err) c2)
      else c)"

definition grpc_heartbeatLoop :: "string + Message \<Rightarrow> ResponseFuture \<Rightarrow> 'w GrpcClient \<Rightarrow> 'w GrpcClient outcome" where
  "grpc_heartbeatLoop rpc waited c =
     (case grpc_SendMsgSync rpc [] waited
         (Some \<lparr>Msg_Identity = ''collector-go'', Msg_Direction = Direction_REQUEST, Msg_Type = MessageTypeHeartbeat, Msg_Msg = []\<rparr>) c of
        Inl p \<Rightarrow> Inl p | Inr (_, c') \<Rightarrow> Inr c')"

text \<open>The receiving loop of the stream for the messages it gives.\<close>

fun streamMsgLoop :: "Message list \<Rightarrow> 'w GrpcClient \<Rightarrow> 'w \<Rightarrow> ('w GrpcClient \<times> client_action list \<times> 'w) option" where
  "streamMsgLoop [] c w = Some (c, [], w)"
| "streamMsgLoop (m # ms) c w =
     (if \<not> gc_started c then Some (c, [], w)
      else (case grpc_processReceivedMessage m c w of None \<Rightarrow> None
            | Some (c', as, w') \<Rightarrow> map_option (\<lambda>(c2, bs, w2). (c2, as @ bs, w2)) (streamMsgLoop ms c' w')))"

subsection \<open>Creating a client\<close>

datatype 'w TransportClient = Grpc "'w GrpcClient" | Netty "'w NettyClient"

definition CreateClient :: "string \<Rightarrow> string \<Rightarrow> 'w TransportClient result" where
  "CreateClient protocol addr =
     (if protocol = ''grpc'' then Ok (Grpc (NewGrpcClient addr))
      else if protocol = ''netty'' then Ok (Netty (NewNettyClient addr))
      else Err (''unsupported protocol: '' @ protocol))"

subsection \<open>Life of a Netty client\<close>

text \<open>
  The operations that others call on a client and the iterations of its loops. A message is received, and a read fails, only in a read loop that has not
  ended; a read loop also ends when it finds the client not started.
\<close>

datatype client_step = Step_Start | Step_Shutdown | Step_SetIdentity | Step_Register | Step_SetEventHandler | Step_Send | Step_SendSync | Step_SyncEnds
  | Step_Received Message | Step_ReadError | Step_ReadEnds | Step_Monitor | Step_Heartbeat

inductive netty_step :: "(Message \<Rightarrow> string + byte list) \<Rightarrow> (byte list \<Rightarrow> byte list) \<Rightarrow> client_step \<Rightarrow> 'w NettyClient \<Rightarrow> 'w NettyClient \<Rightarrow> bool"
  for marshal compress where
  ns_start: "netty_step marshal compress Step_Start c (snd (netty_Start dial c))"
| ns_shutdown: "netty_step marshal compress Step_Shutdown c (snd (netty_Shutdown c))"
| ns_identity: "netty_step marshal compress Step_SetIdentity c (SetIdentity i c)"
| ns_register: "netty_step marshal compress Step_Register c (RegisterProcessor ty f c)"
| ns_handler: "netty_step marshal compress Step_SetEventHandler c (SetEventHandler b c)"
| ns_send: "netty_step marshal compress Step_Send c (snd (netty_SendMsg marshal compress env msg c))"
| ns_sync: "netty_step marshal compress Step_SendSync c (snd (SendMsgSync_begin marshal compress env fresh msg c))"
| ns_synced: "netty_step marshal compress Step_SyncEnds c (snd (SendMsgSync_end i future c))"
| ns_received: "0 < nc_readLoops c \<Longrightarrow> netty_processReceivedMessage marshal compress env msg c w = Some (c', as, w') \<Longrightarrow>
    netty_step marshal compress (Step_Received msg) c c'"
| ns_read_error: "0 < nc_readLoops c \<Longrightarrow> netty_step marshal compress Step_ReadError c (readLoop_error closed c)"
| ns_read_ends: "0 < nc_readLoops c \<Longrightarrow> \<not> nc_started c \<Longrightarrow>
    netty_step marshal compress Step_ReadEnds c (c\<lparr>nc_loops := nc_loops c - 1, nc_readLoops := nc_readLoops c - 1\<rparr>)"
| ns_monitor: "netty_step marshal compress Step_Monitor c (netty_connectionMonitor dials c)"
| ns_heartbeat: "netty_step marshal compress Step_Heartbeat c (snd (netty_heartbeatLoop marshal compress env c))"

inductive netty_run :: "(Message \<Rightarrow> string + byte list) \<Rightarrow> (byte list \<Rightarrow> byte list) \<Rightarrow> client_step list \<Rightarrow> 'w NettyClient \<Rightarrow> 'w NettyClient \<Rightarrow> bool"
  for marshal compress where
  nr_nil: "netty_run marshal compress [] c c"
| nr_step: "netty_run marshal compress as c c1 \<Longrightarrow> netty_step marshal compress a c1 c2 \<Longrightarrow> netty_run marshal compress (as @ [a]) c c2"

text \<open>A started client has an open connection.\<close>

definition netty_ok :: "'w NettyClient \<Rightarrow> bool" where
  "netty_ok c \<longleftrightarrow> (nc_started c \<longrightarrow> nc_conn c = Some Open)"

lemma triggerEvent_keeps [simp]:
  "nc_started (triggerEvent t e c) = nc_started c" "nc_conn (triggerEvent t e c) = nc_conn c" "nc_loops (triggerEvent t e c) = nc_loops c"
  "nc_readLoops (triggerEvent t e c) = nc_readLoops c"
  by (simp_all add: triggerEvent_def)

lemma SendMsg_keeps [simp]:
  "nc_started (snd (netty_SendMsg marshal compress env msg c)) = nc_started c" "nc_conn (snd (netty_SendMsg marshal compress env msg c)) = nc_conn c"
  "nc_readLoops (snd (netty_SendMsg marshal compress env msg c)) = nc_readLoops c"
  by (simp_all add: netty_SendMsg_def split: option.split prod.split)

lemma SendMsgSync_keeps [simp]:
  "nc_started (snd (SendMsgSync_begin marshal compress env fresh msg c)) = nc_started c"
  "nc_conn (snd (SendMsgSync_begin marshal compress env fresh msg c)) = nc_conn c"
  "nc_readLoops (snd (SendMsgSync_begin marshal compress env fresh msg c)) = nc_readLoops c"
  by (simp_all add: SendMsgSync_begin_def Let_def split: option.split prod.split)

lemma loops_keep [simp]:
  "nc_started (readLoop_error closed c) = nc_started c" "nc_conn (readLoop_error closed c) = nc_conn c"
  "nc_started (snd (netty_heartbeatLoop marshal compress env c)) = nc_started c" "nc_conn (snd (netty_heartbeatLoop marshal compress env c)) = nc_conn c"
  "nc_readLoops (readLoop_error closed c) = nc_readLoops c - 1" "nc_readLoops (snd (netty_heartbeatLoop marshal compress env c)) = nc_readLoops c"
  by (simp_all add: readLoop_error_def netty_heartbeatLoop_def Let_def)

lemma received_keeps:
  "netty_processReceivedMessage marshal compress env msg c w = Some (c', as, w') \<Longrightarrow> nc_started c' = nc_started c \<and> nc_conn c' = nc_conn c"
  by (auto simp: netty_processReceivedMessage_def Let_def split: option.splits sum.splits if_splits)

lemma netty_ok_same: "nc_started c' = nc_started c \<Longrightarrow> nc_conn c' = nc_conn c \<Longrightarrow> netty_ok c \<Longrightarrow> netty_ok c'"
  by (simp add: netty_ok_def)

lemma Start_ok: "netty_ok c \<Longrightarrow> netty_ok (snd (netty_Start dial c))"
  by (cases dial) (simp_all add: netty_ok_def netty_Start_def Let_def)

lemma monitor_ok: "netty_ok c \<Longrightarrow> netty_connectionMonitor dials c = c"
  by (auto simp: netty_ok_def netty_connectionMonitor_def IsStarted_def)

lemma netty_step_ok:
  assumes "netty_step marshal compress a c c'" and "netty_ok c"
  shows "netty_ok c'"
  using assms(1)
proof cases
  case (ns_start dial)
  then show ?thesis using Start_ok [OF assms(2)] by simp
next
  case ns_shutdown
  then show ?thesis by (simp add: netty_ok_def netty_Shutdown_def)
next
  case (ns_received env msg w as w')
  from received_keeps [OF this(3)] show ?thesis by (intro netty_ok_same [OF _ _ assms(2)]) simp_all
next
  case ns_monitor
  then show ?thesis using assms(2) monitor_ok [OF assms(2)] by simp
qed (auto intro!: netty_ok_same [OF _ _ assms(2)] simp: SetIdentity_def RegisterProcessor_def SetEventHandler_def SendMsgSync_end_def)

lemma netty_run_ok: "netty_run marshal compress as c c' \<Longrightarrow> netty_ok c \<Longrightarrow> netty_ok c'"
  by (induction rule: netty_run.induct) (auto dest: netty_step_ok)

lemma netty_reachable_ok: "netty_run marshal compress as (NewNettyClient addr) c \<Longrightarrow> netty_ok c"
  by (erule netty_run_ok) (simp add: netty_ok_def NewNettyClient_def)

text \<open>A started client whose read loops have ended.\<close>

definition deaf :: "'w NettyClient \<Rightarrow> bool" where
  "deaf c \<longleftrightarrow> IsStarted c \<and> nc_readLoops c = 0 \<and> netty_ok c"

lemma deaf_step:
  assumes "netty_step marshal compress a c c'" and "deaf c" and "a \<noteq> Step_Shutdown"
  shows "deaf c' \<and> (\<forall>msg. a \<noteq> Step_Received msg)"
proof -
  have ok: "netty_ok c'" using netty_step_ok [OF assms(1)] assms(2) by (simp add: deaf_def)
  have m: "netty_connectionMonitor dials c = c" for dials using monitor_ok [of c] assms(2) by (simp add: deaf_def)
  from assms(1,2,3) have "IsStarted c' \<and> nc_readLoops c' = 0 \<and> (\<forall>msg. a \<noteq> Step_Received msg)"
    by cases (auto simp: deaf_def IsStarted_def netty_Start_def m SetIdentity_def RegisterProcessor_def SetEventHandler_def SendMsgSync_end_def)
  with ok show ?thesis by (simp add: deaf_def)
qed

lemma deaf_run:
  "netty_run marshal compress as c c' \<Longrightarrow> deaf c \<Longrightarrow> Step_Shutdown \<notin> set as \<Longrightarrow> deaf c' \<and> (\<forall>msg. Step_Received msg \<notin> set as)"
proof (induction rule: netty_run.induct)
  case (nr_step as c c1 a c2)
  then show ?case using deaf_step [OF nr_step.hyps(2)] by auto
qed simp

text \<open>C23: a lost connection is not replaced by the client itself. When the only read loop of a started client ends with a read error, in any reachable state, then
  as long as nobody calls \<open>Shutdown\<close>, and whatever else happens, the client stays started and no message is received; in every state that is reached the monitor does
  nothing, whatever connection attempts would succeed, and starting the client again does nothing either.\<close>

theorem lost_connection_not_replaced:
  assumes "netty_run marshal compress before (NewNettyClient addr) c" and "IsStarted c" and "nc_readLoops c = 1" and "c' = readLoop_error False c"
    and "netty_run marshal compress after c' c''" and "Step_Shutdown \<notin> set after"
  shows "IsStarted c'' \<and> (\<forall>msg. Step_Received msg \<notin> set after) \<and> netty_connectionMonitor dials c'' = c'' \<and> netty_Start dial c'' = (None, c'')"
proof -
  have "netty_ok c" by (rule netty_reachable_ok [OF assms(1)])
  then have "netty_ok c'" using assms(4) by (simp add: netty_ok_def)
  then have "deaf c'" using assms(2,3,4) by (simp add: deaf_def IsStarted_def)
  from deaf_run [OF assms(5) this assms(6)] have "deaf c''" "\<forall>msg. Step_Received msg \<notin> set after" by simp_all
  then show ?thesis using monitor_ok [of c''] by (simp add: deaf_def netty_Start_def IsStarted_def)
qed

definition marshal_ex :: "Message \<Rightarrow> string + byte list" where
  "marshal_ex m = Inr [7]"

theorem lost_connection_not_replaced_witness:
  "let c' = readLoop_error False (snd (netty_Start None (NewNettyClient ''manager:1158'' :: unit NettyClient)))
   in IsStarted c' \<and> netty_connectionMonitor [None, None] c' = c'"
proof -
  let ?new = "NewNettyClient ''manager:1158'' :: unit NettyClient"
  define c where "c = snd (netty_Start None ?new)"
  have b: "netty_run marshal_ex id ([] @ [Step_Start]) ?new c" unfolding c_def by (rule nr_step [OF nr_nil]) (rule ns_start)
  have s: "IsStarted c" "nc_readLoops c = 1" by (simp_all add: c_def IsStarted_def netty_Start_def NewNettyClient_def triggerEvent_def)
  have "netty_run marshal_ex id [] (readLoop_error False c) (readLoop_error False c)" by (rule nr_nil)
  from lost_connection_not_replaced [OF b s refl this, of "[None, None]"] show ?thesis unfolding c_def Let_def by simp
qed

subsection \<open>Requests and responses\<close>

text \<open>C24: a synchronous call gets its answer. When a call has sent its request and waits, the next response with its
  identity is handed to it and to no processor, the call returns it, and its entry is removed from the table.\<close>

theorem sync_call_answered:
  assumes "SendMsgSync_begin marshal compress env fresh msg c = (Inr ident, c1)"
    and "Msg_Direction resp = Direction_RESPONSE" and "Msg_Identity resp = ident"
  shows "\<exists>c2 future. netty_processReceivedMessage marshal compress env' resp c1 w = Some (c2, [], w) \<and>
    map_of (nc_responseTable c2) ident = Some future \<and> fst (SendMsgSync_end ident future c2) = Ok resp \<and>
    map_of (nc_responseTable (snd (SendMsgSync_end ident future c2))) = (map_of (nc_responseTable c))(ident := None)"
proof -
  from assms(1) have "map_of (nc_responseTable c1) = (map_of (nc_responseTable c))(ident \<mapsto> NewResponseFuture)"
    by (auto simp: SendMsgSync_begin_def Let_def split: option.splits if_splits prod.splits)
  with assms(2,3) show ?thesis
    by (simp add: netty_processReceivedMessage_def PutResponse_def NewResponseFuture_def SendMsgSync_end_def Wait_def)
qed

text \<open>two synchronous calls with the same identity disturb each other. When both wait, as calls with the identity of
  the collector do, the end of the first removes the entry of the second: its response goes
  to a processor instead.\<close>

theorem sync_calls_collide:
  assumes "SendMsgSync_begin marshal compress env fresh msg c = (Inr ident, c1)"
    and "SendMsgSync_begin marshal compress env fresh' msg' c1 = (Inr ident, c2)"
    and "c3 = snd (SendMsgSync_end ident future c2)" and "Msg_Identity resp = ident" and "Msg_Type resp = ty"
    and "registry_Get ty (nc_registry c) = None"
  shows "map_of (nc_responseTable c3) ident = None \<and> netty_processReceivedMessage marshal compress env' resp c3 w = Some (c3, [], w)"
proof -
  have "nc_registry c3 = nc_registry c"
    using assms(1-3) by (auto simp: SendMsgSync_begin_def SendMsgSync_end_def Let_def split: option.splits if_splits prod.splits)
  with assms show ?thesis by (simp add: SendMsgSync_end_def netty_processReceivedMessage_def)
qed

definition client_ex :: "unit NettyClient" where
  "client_ex = snd (netty_Start None (NewNettyClient ''manager:1158''))"

definition msg_ex :: Message where
  "msg_ex = \<lparr>Msg_Identity = ''collector-go'', Msg_Direction = 0, Msg_Type = 0, Msg_Msg = []\<rparr>"

lemma begin_ex:
  "nc_started c \<Longrightarrow> nc_conn c = Some Open \<Longrightarrow>
   \<exists>c1. SendMsgSync_begin marshal_ex id net_ok [] (Some msg_ex) c = (Inr ''collector-go'', c1) \<and> nc_started c1 \<and> nc_conn c1 = Some Open"
  by (simp add: SendMsgSync_begin_def msg_ex_def marshal_ex_def writeMessage_def net_ok_def Let_def)

lemma client_ex_started: "nc_started client_ex" "nc_conn client_ex = Some Open" "nc_registry client_ex = []"
  by (simp_all add: client_ex_def netty_Start_def NewNettyClient_def NewProcessorRegistry_def triggerEvent_def)

theorem sync_call_answered_witness:
  "\<exists>c1 c2 future. SendMsgSync_begin marshal_ex id net_ok [] (Some msg_ex) client_ex = (Inr ''collector-go'', c1) \<and>
     netty_processReceivedMessage marshal_ex id net_ok (msg_ex\<lparr>Msg_Direction := 1\<rparr>) c1 () = Some (c2, [], ()) \<and>
     fst (SendMsgSync_end ''collector-go'' future c2) = Ok (msg_ex\<lparr>Msg_Direction := 1\<rparr>)"
proof -
  obtain c1 where c1: "SendMsgSync_begin marshal_ex id net_ok [] (Some msg_ex) client_ex = (Inr ''collector-go'', c1)"
    using begin_ex client_ex_started by blast
  with sync_call_answered [OF this, of "msg_ex\<lparr>Msg_Direction := 1\<rparr>" net_ok "()"] show ?thesis
    by (auto simp: Direction_RESPONSE_def msg_ex_def)
qed

theorem sync_calls_collide_witness:
  "\<exists>c1 c2 c3. SendMsgSync_begin marshal_ex id net_ok [] (Some msg_ex) client_ex = (Inr ''collector-go'', c1) \<and>
     SendMsgSync_begin marshal_ex id net_ok [] (Some msg_ex) c1 = (Inr ''collector-go'', c2) \<and>
     c3 = snd (SendMsgSync_end ''collector-go'' NewResponseFuture c2) \<and> map_of (nc_responseTable c3) ''collector-go'' = None"
proof -
  obtain c1 where c1: "SendMsgSync_begin marshal_ex id net_ok [] (Some msg_ex) client_ex = (Inr ''collector-go'', c1)"
    "nc_started c1" "nc_conn c1 = Some Open" using begin_ex client_ex_started by blast
  then obtain c2 where c2: "SendMsgSync_begin marshal_ex id net_ok [] (Some msg_ex) c1 = (Inr ''collector-go'', c2)" using begin_ex by blast
  have "map_of (nc_responseTable (snd (SendMsgSync_end ''collector-go'' NewResponseFuture c2))) ''collector-go'' = None"
    using sync_calls_collide [OF c1(1) c2 refl, of msg_ex 0 NewResponseFuture net_ok "()"] by (simp add: msg_ex_def registry_Get_def client_ex_started)
  with c1 c2 show ?thesis by blast
qed

text \<open>a started gRPC client whose connection is lost tries once to connect again. When that attempt fails the client
  stays stopped, so that its monitor ends; when it succeeds the client is started again.\<close>

theorem grpc_reconnects_once:
  assumes "gc_started c" and "gc_conn c \<noteq> None" and "c' = grpc_connectionMonitor False dial c"
  shows "(gc_started c' \<longleftrightarrow> dial = None) \<and> (dial \<noteq> None \<longrightarrow> (\<forall>ready dial'. grpc_connectionMonitor ready dial' c' = c'))"
proof -
  have t: "gc_started (grpc_triggerEvent ty e x) = gc_started x" for ty e and x :: "'a GrpcClient"
    by (simp add: grpc_triggerEvent_def)
  have "gc_started c' \<longleftrightarrow> dial = None"
    using assms by (cases dial) (simp_all add: grpc_connectionMonitor_def grpc_Start_def grpc_Shutdown_def t Let_def)
  then show ?thesis by (cases dial) (simp_all add: grpc_connectionMonitor_def)
qed

theorem grpc_reconnects_once_witness:
  "let c = snd (grpc_Start None (NewGrpcClient ''manager:1158'' :: unit GrpcClient)) in
   gc_started c \<and> \<not> gc_started (grpc_connectionMonitor False (Some ''refused'') c)"
proof -
  let ?c = "snd (grpc_Start None (NewGrpcClient ''manager:1158'' :: unit GrpcClient))"
  have "gc_started ?c" "gc_conn ?c \<noteq> None"
    by (simp_all add: grpc_Start_def NewGrpcClient_def grpc_triggerEvent_def Let_def)
  with grpc_reconnects_once [OF this refl, of "Some ''refused''"] show ?thesis by (simp add: Let_def)
qed

end
