(* ===== verification/Go_JSON.thy ===== *)
theory Go_JSON
  imports Float64 "HOL-Library.Code_Target_Nat"
begin

text \<open>
  The JSON of \<open>encoding/json\<close> as far as the collector uses it: parsing of a document into a tree and
  decoding of the trees the code asks for, and printing of strings and of objects with string values.
  A document is a string of bytes, taken to be valid UTF-8 (the library replaces other bytes).
  The errors of the library are only told apart from success.
\<close>

datatype json = JNull | JBool bool | JNum string | JStr string | JArr "json list" | JObj "(string \<times> json) list"

subsection \<open>Lexical elements\<close>

definition json_space :: "char \<Rightarrow> bool" where
  "json_space c \<longleftrightarrow> c = CHR '' '' \<or> c = CHR 0x09 \<or> c = CHR 0x0A \<or> c = CHR 0x0D"

definition skip_ws :: "string \<Rightarrow> string" where
  "skip_ws s = dropWhile json_space s"

text \<open>UTF-8 bytes of a code point.\<close>

definition utf8 :: "nat \<Rightarrow> string" where
  "utf8 n =
     (if n < 128 then [char_of n]
      else if n < 2048 then [char_of (192 + n div 64), char_of (128 + n mod 64)]
      else if n < 65536 then [char_of (224 + n div 4096), char_of (128 + n div 64 mod 64), char_of (128 + n mod 64)]
      else [char_of (240 + n div 262144), char_of (128 + n div 4096 mod 64), char_of (128 + n div 64 mod 64), char_of (128 + n mod 64)])"

definition hex_val :: "char \<Rightarrow> nat option" where
  "hex_val c = (let n = of_char c :: nat in
     if 48 \<le> n \<and> n \<le> 57 then Some (n - 48) else if 97 \<le> n \<and> n \<le> 102 then Some (n - 87)
     else if 65 \<le> n \<and> n \<le> 70 then Some (n - 55) else None)"

fun hex4 :: "string \<Rightarrow> (nat \<times> string) option" where
  "hex4 (a # b # c # d # s) =
     (case (hex_val a, hex_val b, hex_val c, hex_val d) of
        (Some w, Some x, Some y, Some z) \<Rightarrow> Some (((w * 16 + x) * 16 + y) * 16 + z, s)
      | _ \<Rightarrow> None)"
| "hex4 _ = None"

text \<open>A \<open>\u\<close> escape after its \<open>u\<close>: a surrogate pair is one code point, a lone surrogate the replacement
  character.\<close>

definition u_escape :: "string \<Rightarrow> (string \<times> string) option" where
  "u_escape s =
     (case hex4 s of None \<Rightarrow> None
      | Some (n, r) \<Rightarrow>
          if n < 55296 \<or> 57343 < n then Some (utf8 n, r)
          else (case r of
             c # d # r' \<Rightarrow>
               if c = CHR 0x5C \<and> d = CHR ''u'' then
                 (case hex4 r' of
                    Some (m, r'') \<Rightarrow>
                      if n < 56320 \<and> 56320 \<le> m \<and> m \<le> 57343 then Some (utf8 (65536 + (n - 55296) * 1024 + (m - 56320)), r'')
                      else Some (utf8 65533, r)
                  | None \<Rightarrow> Some (utf8 65533, r))
               else Some (utf8 65533, r)
           | _ \<Rightarrow> Some (utf8 65533, r)))"

lemma hex4_shorter: "hex4 s = Some (n, r) \<Longrightarrow> length r < length s"
  by (induction s rule: hex4.induct) (auto split: option.splits)

lemma u_escape_shorter: "u_escape s = Some (u, r) \<Longrightarrow> length r < length s"
  unfolding u_escape_def
  by (auto split: option.splits if_splits list.splits dest!: hex4_shorter)

text \<open>The rest of a string literal, after its opening quote.\<close>

function json_string :: "string \<Rightarrow> (string \<times> string) option" where
  "json_string s =
     (case s of [] \<Rightarrow> None
      | c # r \<Rightarrow>
          if c = CHR 0x22 then Some ([], r)
          else if (of_char c :: nat) < 32 then None
          else if c = CHR 0x5C then
            (case r of [] \<Rightarrow> None
             | e # r' \<Rightarrow>
                 if e = CHR ''u'' then
                   (case u_escape r' of None \<Rightarrow> None
                    | Some (u, r'') \<Rightarrow> map_option (\<lambda>(v, q). (u @ v, q)) (json_string r''))
                 else (case map_of [(CHR 0x22, CHR 0x22), (CHR 0x5C, CHR 0x5C), (CHR ''/'', CHR ''/''), (CHR ''b'', CHR 0x08),
                                    (CHR ''f'', CHR 0x0C), (CHR ''n'', CHR 0x0A), (CHR ''r'', CHR 0x0D), (CHR ''t'', CHR 0x09)] e of
                         None \<Rightarrow> None
                       | Some x \<Rightarrow> map_option (\<lambda>(v, q). (x # v, q)) (json_string r')))
          else map_option (\<lambda>(v, q). (c # v, q)) (json_string r))"
  by pat_completeness auto

termination json_string
  by (relation "measure length") (auto dest: u_escape_shorter)

declare json_string.simps [simp del]

text \<open>A number literal: optional sign, integer part without leading zero, fraction, exponent.\<close>

definition digits1 :: "string \<Rightarrow> (string \<times> string) option" where
  "digits1 s = (let d = takeWhile is_digit s in if d = [] then None else Some (d, dropWhile is_digit s))"

definition num_frac :: "string \<Rightarrow> (string \<times> string) option" where
  "num_frac s = (case s of
     c # r \<Rightarrow> if c = CHR ''.'' then map_option (\<lambda>(d, q). (c # d, q)) (digits1 r) else Some ([], s)
   | [] \<Rightarrow> Some ([], s))"

definition num_exp :: "string \<Rightarrow> (string \<times> string) option" where
  "num_exp s = (case s of
     c # r \<Rightarrow>
       if c = CHR ''e'' \<or> c = CHR ''E'' then
         (case r of
            g # r' \<Rightarrow> if g = CHR ''+'' \<or> g = CHR ''-'' then map_option (\<lambda>(d, q). (c # g # d, q)) (digits1 r')
                      else map_option (\<lambda>(d, q). (c # d, q)) (digits1 r)
          | [] \<Rightarrow> None)
       else Some ([], s)
   | [] \<Rightarrow> Some ([], s))"

definition num_int :: "string \<Rightarrow> (string \<times> string) option" where
  "num_int s = (case s of [] \<Rightarrow> None
     | c # r \<Rightarrow> if c = CHR ''0'' then Some ([c], r) else digits1 s)"

definition json_number :: "string \<Rightarrow> (string \<times> string) option" where
  "json_number s =
     (let (sign, s1) = (case s of c # r \<Rightarrow> if c = CHR ''-'' then ([c], r) else ([], s) | [] \<Rightarrow> ([], s)) in
      case num_int s1 of None \<Rightarrow> None
      | Some (i, s2) \<Rightarrow>
          (case num_frac s2 of None \<Rightarrow> None
           | Some (f, s3) \<Rightarrow>
               (case num_exp s3 of None \<Rightarrow> None | Some (e, s4) \<Rightarrow> Some (sign @ i @ f @ e, s4))))"

subsection \<open>Documents\<close>

text \<open>The fuel bounds the nesting and the number of elements; for a document of \<open>n\<close> bytes \<open>2 * n + 2\<close> is enough
  (\<open>json_parse_fuel\<close> below), since every second step consumes a byte.\<close>

fun json_value :: "nat \<Rightarrow> string \<Rightarrow> (json \<times> string) option"
  and json_elems :: "nat \<Rightarrow> string \<Rightarrow> (json list \<times> string) option"
  and json_members :: "nat \<Rightarrow> string \<Rightarrow> ((string \<times> json) list \<times> string) option" where
  "json_value 0 s = None"
| "json_value (Suc n) s0 =
     (let s = skip_ws s0 in
      case s of [] \<Rightarrow> None
      | c # r \<Rightarrow>
          if c = CHR ''{'' then
            (case skip_ws r of
               d # r' \<Rightarrow> if d = CHR ''}'' then Some (JObj [], r') else map_option (\<lambda>(ms, q). (JObj ms, q)) (json_members n r)
             | [] \<Rightarrow> None)
          else if c = CHR ''['' then
            (case skip_ws r of
               d # r' \<Rightarrow> if d = CHR '']'' then Some (JArr [], r') else map_option (\<lambda>(es, q). (JArr es, q)) (json_elems n r)
             | [] \<Rightarrow> None)
          else if c = CHR 0x22 then map_option (\<lambda>(v, q). (JStr v, q)) (json_string r)
          else if HasPrefix s ''null'' then Some (JNull, drop 4 s)
          else if HasPrefix s ''true'' then Some (JBool True, drop 4 s)
          else if HasPrefix s ''false'' then Some (JBool False, drop 5 s)
          else map_option (\<lambda>(v, q). (JNum v, q)) (json_number s))"
| "json_elems 0 s = None"
| "json_elems (Suc n) s =
     (case json_value n s of None \<Rightarrow> None
      | Some (v, r) \<Rightarrow>
          (case skip_ws r of [] \<Rightarrow> None
           | c # r' \<Rightarrow> if c = CHR '']'' then Some ([v], r')
                       else if c = CHR '','' then map_option (\<lambda>(vs, q). (v # vs, q)) (json_elems n r') else None))"
| "json_members 0 s = None"
| "json_members (Suc n) s =
     (case skip_ws s of [] \<Rightarrow> None
      | q # r0 \<Rightarrow>
          if q \<noteq> CHR 0x22 then None
          else (case json_string r0 of None \<Rightarrow> None
             | Some (k, r1) \<Rightarrow>
                 (case skip_ws r1 of [] \<Rightarrow> None
                  | c # r2 \<Rightarrow>
                      if c \<noteq> CHR '':'' then None
                      else (case json_value n r2 of None \<Rightarrow> None
                         | Some (v, r) \<Rightarrow>
                             (case skip_ws r of [] \<Rightarrow> None
                              | d # r' \<Rightarrow> if d = CHR ''}'' then Some ([(k, v)], r')
                                          else if d = CHR '','' then map_option (\<lambda>(ms, z). ((k, v) # ms, z)) (json_members n r')
                                          else None)))))"

declare json_members.simps [simp del] json_value.simps [simp del] json_elems.simps [simp del]

definition json_parse :: "string \<Rightarrow> json option" where
  "json_parse s = (case json_value (2 * length s + 2) s of
     Some (v, r) \<Rightarrow> if skip_ws r = [] then Some v else None | None \<Rightarrow> None)"

subsection \<open>The fuel is enough\<close>

lemma skip_ws_length: "skip_ws s = t \<Longrightarrow> length t \<le> length s"
  by (auto simp: skip_ws_def length_dropWhile_le)

lemma json_string_shorter: "json_string s = Some (v, r) \<Longrightarrow> length r < length s"
proof (induction s arbitrary: v r rule: length_induct)
  case (1 s)
  have ih: "length r' < length t" if "length t < length s" "json_string t = Some (v', r')" for t v' r'
    using 1(1) that by blast
  from 1(2) show ?case
    by (subst (asm) json_string.simps)
      (auto split: list.splits if_splits option.splits dest!: u_escape_shorter ih [rotated])
qed

lemma digits1_shorter: "digits1 s = Some (d, r) \<Longrightarrow> length r < length s"
  by (cases s) (auto simp: digits1_def Let_def less_Suc_eq_le length_dropWhile_le split: if_splits)

lemma json_number_shorter: "json_number s = Some (v, r) \<Longrightarrow> length r < length s"
proof -
  have i: "length r < length s" if "num_int s = Some (v, r)" for s v r
    using that by (auto simp: num_int_def split: list.splits if_splits dest: digits1_shorter)
  have f: "length r \<le> length s" if "num_frac s = Some (v, r)" for s v r
    using that by (auto simp: num_frac_def split: list.splits if_splits dest: digits1_shorter)
  have e: "length r \<le> length s" if "num_exp s = Some (v, r)" for s v r
    using that by (auto simp: num_exp_def split: list.splits if_splits dest: digits1_shorter)
  assume "json_number s = Some (v, r)"
  then show ?thesis
    by (auto simp: json_number_def Let_def split: list.splits if_splits option.splits dest!: i f e)
qed

text \<open>Every part of a document takes at least a byte, so two units of fuel for a byte are enough.\<close>

lemma json_shorter:
  "(\<forall>s v r. json_value n s = Some (v, r) \<longrightarrow> length r < length s) \<and> (\<forall>s vs r. json_elems n s = Some (vs, r) \<longrightarrow> length r < length s) \<and>
   (\<forall>s ms r. json_members n s = Some (ms, r) \<longrightarrow> length r < length s)"
proof (induction n)
  case (Suc n)
  then have ih: "\<And>s v r. json_value n s = Some (v, r) \<Longrightarrow> length r < length s" "\<And>s vs r. json_elems n s = Some (vs, r) \<Longrightarrow> length r < length s"
    "\<And>s ms r. json_members n s = Some (ms, r) \<Longrightarrow> length r < length s" by blast+
  have "length r < length s0" if j: "json_value (Suc n) s0 = Some (v, r)" for s0 v r
  proof -
    obtain c t where s: "skip_ws s0 = c # t" using j by (auto simp: json_value.simps Let_def split: list.splits)
    have "length r < length (c # t)"
      using j s
      by (auto simp: json_value.simps Let_def split: list.splits if_splits
          dest!: json_string_shorter json_number_shorter skip_ws_length ih)
    then show ?thesis using skip_ws_length [OF s] by simp
  qed
  moreover have "length r < length s" if "json_elems (Suc n) s = Some (vs, r)" for s vs r
    using that by (auto simp: json_elems.simps split: option.splits list.splits if_splits dest!: skip_ws_length ih)
  moreover have "length r < length s" if "json_members (Suc n) s = Some (ms, r)" for s ms r
    using that by (auto simp: json_members.simps split: option.splits list.splits if_splits dest!: skip_ws_length json_string_shorter ih)
  ultimately show ?case by blast
qed (simp add: json_value.simps json_elems.simps json_members.simps)

lemma json_fuel:
  "(\<forall>s g. 2 * length s + 1 \<le> f \<longrightarrow> f \<le> g \<longrightarrow> json_value g s = json_value f s) \<and>
   (\<forall>s g. 2 * length s + 2 \<le> f \<longrightarrow> f \<le> g \<longrightarrow> json_elems g s = json_elems f s \<and> json_members g s = json_members f s)"
proof (induction f)
  case (Suc f)
  have v: "json_value g s = json_value f s" if "2 * length s + 1 \<le> f" "f \<le> g" for g s
    by (rule conjunct1 [OF Suc, rule_format, OF that])
  have e: "json_elems g s = json_elems f s" "json_members g s = json_members f s" if "2 * length s + 2 \<le> f" "f \<le> g" for g s
    using conjunct2 [OF Suc, rule_format, OF that] by simp_all
  have "json_value (Suc g) s = json_value (Suc f) s" if "2 * length s + 1 \<le> Suc f" "f \<le> g" for s g
  proof (cases "skip_ws s")
    case (Cons c t)
    then have "2 * length t + 2 \<le> f" using skip_ws_length [OF Cons] that(1) by simp
    then show ?thesis using e [OF _ that(2), of t] Cons by (simp add: json_value.simps Let_def split: list.splits)
  qed (simp add: json_value.simps)
  moreover have "json_elems (Suc g) s = json_elems (Suc f) s" if "2 * length s + 2 \<le> Suc f" "f \<le> g" for s g
  proof (cases "json_value f s")
    case (Some p)
    then have "length (snd p) < length s" using conjunct1 [OF json_shorter [of f]] by (cases p) simp
    then have "2 * length t + 2 \<le> f" if "skip_ws (snd p) = c # t" for c t
      using skip_ws_length [OF that] \<open>2 * length s + 2 \<le> Suc f\<close> by simp
    then show ?thesis using v [OF _ that(2), of s] e(1) [OF _ that(2)] that(1) Some
      by (cases p) (auto simp: json_elems.simps split: list.splits)
  qed (use v [OF _ that(2), of s] that(1) in \<open>simp add: json_elems.simps\<close>)
  moreover have "json_members (Suc g) s = json_members (Suc f) s" if le: "2 * length s + 2 \<le> Suc f" "f \<le> g" for s g
  proof -
    have "json_value g r2 = json_value f r2 \<and> (\<forall>v r d r'. json_value f r2 = Some (v, r) \<longrightarrow> skip_ws r = d # r' \<longrightarrow> json_members g r' = json_members f r')"
      if "skip_ws s = q # r0" "json_string r0 = Some (k, r1)" "skip_ws r1 = c # r2" for q r0 k r1 c r2
    proof -
      have l: "length r2 + 3 \<le> length s"
        using skip_ws_length [OF that(1)] json_string_shorter [OF that(2)] skip_ws_length [OF that(3)] by simp
      have "json_members g r' = json_members f r'" if "json_value f r2 = Some (v, r)" "skip_ws r = d # r'" for v r d r'
      proof -
        have "length r < length r2" using conjunct1 [OF json_shorter [of f]] that(1) by blast
        then show ?thesis using skip_ws_length [OF that(2)] l le by (intro e(2)) auto
      qed
      moreover have "json_value g r2 = json_value f r2" using l le by (intro v) auto
      ultimately show ?thesis by blast
    qed
    then show ?thesis by (auto simp: json_members.simps split: list.splits option.splits)
  qed
  ultimately have step: "2 * length s + 1 \<le> Suc f \<Longrightarrow> f \<le> g \<Longrightarrow> json_value (Suc g) s = json_value (Suc f) s"
    "2 * length s + 2 \<le> Suc f \<Longrightarrow> f \<le> g \<Longrightarrow> json_elems (Suc g) s = json_elems (Suc f) s \<and> json_members (Suc g) s = json_members (Suc f) s" for s g
    by blast+
  show ?case
  proof (intro conjI allI impI)
    fix s :: string and g assume "2 * length s + 1 \<le> Suc f" "Suc f \<le> g"
    then show "json_value g s = json_value (Suc f) s" using step(1) [of s "g - 1"] by (cases g) auto
  next
    fix s :: string and g assume "2 * length s + 2 \<le> Suc f" "Suc f \<le> g"
    then show "json_elems g s = json_elems (Suc f) s" "json_members g s = json_members (Suc f) s" using step(2) [of s "g - 1"] by (cases g; simp)+
  qed
qed simp

lemma json_parse_fuel: "2 * length s + 2 \<le> n \<Longrightarrow> json_value n s = json_value (2 * length s + 2) s"
  by (rule conjunct1 [OF json_fuel, rule_format]) simp_all

subsection \<open>Decoding\<close>

text \<open>Into an \<open>int64\<close>, starting from 0: null leaves it unchanged.\<close>

definition decode_int64 :: "json \<Rightarrow> int64 option" where
  "decode_int64 j = (case j of JNull \<Rightarrow> Some 0
     | JNum s \<Rightarrow> map_option word_of_int (Atoi s) | _ \<Rightarrow> None)"

definition decode_int64s :: "json \<Rightarrow> int64 list option" where
  "decode_int64s j = (case j of JNull \<Rightarrow> Some []
     | JArr xs \<Rightarrow> if list_all (\<lambda>x. decode_int64 x \<noteq> None) xs then Some (map (\<lambda>x. the (decode_int64 x)) xs) else None
     | _ \<Rightarrow> None)"

text \<open>Into a struct with one string field: names are compared ignoring case, null leaves the field
  unchanged, and of several members with the name the last one counts.\<close>

fun decode_field :: "string \<Rightarrow> string \<Rightarrow> (string \<times> json) list \<Rightarrow> string option" where
  "decode_field name v [] = Some v"
| "decode_field name v ((k, j) # ms) =
     (if EqualFold k name then
        (case j of JStr s \<Rightarrow> decode_field name s ms | JNull \<Rightarrow> decode_field name v ms | _ \<Rightarrow> None)
      else decode_field name v ms)"

definition decode_string_field :: "string \<Rightarrow> json \<Rightarrow> string option" where
  "decode_string_field name j = (case j of JNull \<Rightarrow> Some [] | JObj ms \<Rightarrow> decode_field name [] ms | _ \<Rightarrow> None)"

subsection \<open>Printing\<close>

definition hex_digit :: "nat \<Rightarrow> char" where
  "hex_digit n = (if n < 10 then char_of (48 + n) else char_of (87 + n))"

text \<open>\<open>json.Marshal\<close> escapes quotes, backslashes, control characters and \<open><\<close>, \<open>>\<close>, \<open>&\<close>. (It also escapes the code
  points U+2028 and U+2029, which are left alone here.)\<close>

definition quote_char :: "char \<Rightarrow> string" where
  "quote_char c = (let n = of_char c :: nat in
     if c = CHR 0x22 \<or> c = CHR 0x5C then [CHR 0x5C, c]
     else if n = 8 then [CHR 0x5C, CHR ''b''] else if n = 12 then [CHR 0x5C, CHR ''f'']
     else if n = 10 then [CHR 0x5C, CHR ''n''] else if n = 13 then [CHR 0x5C, CHR ''r''] else if n = 9 then [CHR 0x5C, CHR ''t'']
     else if n < 32 \<or> c = CHR ''<'' \<or> c = CHR ''>'' \<or> c = CHR ''&''
       then [CHR 0x5C, CHR ''u'', CHR ''0'', CHR ''0'', hex_digit (n div 16), hex_digit (n mod 16)]
     else [c])"

definition json_quote :: "string \<Rightarrow> string" where
  "json_quote s = [CHR 0x22] @ concat (map quote_char s) @ [CHR 0x22]"

text \<open>An object with string values; \<open>json.Marshal\<close> prints a map in the order of its keys.\<close>

definition json_print_obj :: "(string \<times> string) list \<Rightarrow> string" where
  "json_print_obj kvs = ''{'' @ Join (map (\<lambda>(k, v). json_quote k @ '':'' @ json_quote v) kvs) '','' @ ''}''"

subsection \<open>Printed objects are read back\<close>

lemma hex_val_digit: "n < 16 \<Longrightarrow> hex_val (hex_digit n) = Some n"
  by (auto simp: hex_val_def hex_digit_def Let_def)

lemma json_string_plain:
  "c \<noteq> CHR 0x22 \<Longrightarrow> c \<noteq> CHR 0x5C \<Longrightarrow> 32 \<le> (of_char c :: nat) \<Longrightarrow> json_string (c # t) = map_option (\<lambda>(v, q). (c # v, q)) (json_string t)"
  by (subst json_string.simps) simp

lemma u_escape_byte:
  assumes "n < 128"
  shows "u_escape (CHR ''0'' # CHR ''0'' # hex_digit (n div 16) # hex_digit (n mod 16) # t) = Some ([char_of n], t)"
proof -
  have "hex_val CHR ''0'' = Some 0" by code_simp
  moreover have "n div 16 < 16" using assms by simp
  ultimately have "hex4 (CHR ''0'' # CHR ''0'' # hex_digit (n div 16) # hex_digit (n mod 16) # t) = Some (n, t)"
    by (simp add: hex_val_digit)
  with assms show ?thesis by (simp add: u_escape_def utf8_def)
qed

lemma json_string_u:
  assumes "n < 128"
  shows "json_string (CHR 0x5C # CHR ''u'' # CHR ''0'' # CHR ''0'' # hex_digit (n div 16) # hex_digit (n mod 16) # t) =
    map_option (\<lambda>(v, q). (char_of n # v, q)) (json_string t)"
  by (subst json_string.simps) (simp add: u_escape_byte [OF assms])

lemma json_string_esc:
  "json_string (CHR 0x5C # CHR 0x22 # t) = map_option (\<lambda>(v, q). (CHR 0x22 # v, q)) (json_string t)"
  "json_string (CHR 0x5C # CHR 0x5C # t) = map_option (\<lambda>(v, q). (CHR 0x5C # v, q)) (json_string t)"
  "json_string (CHR 0x5C # CHR ''b'' # t) = map_option (\<lambda>(v, q). (CHR 0x08 # v, q)) (json_string t)"
  "json_string (CHR 0x5C # CHR ''f'' # t) = map_option (\<lambda>(v, q). (CHR 0x0C # v, q)) (json_string t)"
  "json_string (CHR 0x5C # CHR ''n'' # t) = map_option (\<lambda>(v, q). (CHR 0x0A # v, q)) (json_string t)"
  "json_string (CHR 0x5C # CHR ''r'' # t) = map_option (\<lambda>(v, q). (CHR 0x0D # v, q)) (json_string t)"
  "json_string (CHR 0x5C # CHR ''t'' # t) = map_option (\<lambda>(v, q). (CHR 0x09 # v, q)) (json_string t)"
  by (subst json_string.simps, simp)+

lemma json_string_quote: "json_string (quote_char c @ t) = map_option (\<lambda>(v, q). (c # v, q)) (json_string t)"
proof -
  let ?n = "of_char c :: nat"
  have n: "?n = of_char d \<longleftrightarrow> c = d" for d by simp
  consider "c = CHR 0x22 \<or> c = CHR 0x5C" | "c \<in> {CHR 0x08, CHR 0x09, CHR 0x0A, CHR 0x0C, CHR 0x0D}"
    | "c \<notin> {CHR 0x22, CHR 0x5C, CHR 0x08, CHR 0x09, CHR 0x0A, CHR 0x0C, CHR 0x0D}" by blast
  then show ?thesis
  proof cases
    case 1
    then show ?thesis by (elim disjE) (simp_all add: quote_char_def json_string_esc)
  next
    case 2
    then show ?thesis by (elim insertE emptyE) (simp_all add: quote_char_def json_string_esc)
  next
    case 3
    then have q: "quote_char c = (if ?n < 32 \<or> c = CHR ''<'' \<or> c = CHR ''>'' \<or> c = CHR ''&''
        then [CHR 0x5C, CHR ''u'', CHR ''0'', CHR ''0'', hex_digit (?n div 16), hex_digit (?n mod 16)] else [c])"
      using n [of "CHR 0x08"] n [of "CHR 0x09"] n [of "CHR 0x0A"] n [of "CHR 0x0C"] n [of "CHR 0x0D"]
      by (simp add: quote_char_def Let_def)
    show ?thesis
    proof (cases "?n < 32 \<or> c = CHR ''<'' \<or> c = CHR ''>'' \<or> c = CHR ''&''")
      case True
      then have "?n < 128" by (elim disjE) simp_all
      from json_string_u [OF this, of t] True show ?thesis unfolding q by simp
    next
      case False
      then have "32 \<le> ?n" by simp
      with 3 False json_string_plain [of c t] show ?thesis unfolding q by simp
    qed
  qed
qed

lemma json_string_print: "json_string (concat (map quote_char s) @ CHR 0x22 # r) = Some (s, r)"
proof (induction s)
  case Nil
  show ?case by (subst json_string.simps) simp
qed (simp add: json_string_quote)

lemma json_quote_Cons: "json_quote s @ r = CHR 0x22 # (concat (map quote_char s) @ CHR 0x22 # r)"
  by (simp add: json_quote_def)

lemma skip_ws_Cons: "\<not> json_space c \<Longrightarrow> skip_ws (c # s) = c # s"
  by (simp add: skip_ws_def)

lemma not_space [simp]: "\<not> json_space CHR 0x22" "\<not> json_space CHR '':''" "\<not> json_space CHR '',''" "\<not> json_space CHR ''{''" "\<not> json_space CHR ''}''"
  by (simp_all add: json_space_def)

lemma json_value_quote: "json_value (Suc n) (json_quote v @ r) = Some (JStr v, r)"
  by (subst json_value.simps(2)) (simp add: json_quote_Cons skip_ws_Cons json_string_print)

definition print_member :: "string \<times> string \<Rightarrow> string" where
  "print_member = (\<lambda>(k, v). json_quote k @ '':'' @ json_quote v)"

lemma json_members_step:
  assumes "\<not> json_space d"
  shows "json_members (Suc (Suc m)) (print_member (k, v) @ d # t) =
    (if d = CHR ''}'' then Some ([(k, JStr v)], t)
     else if d = CHR '','' then map_option (\<lambda>(ms, z). ((k, JStr v) # ms, z)) (json_members (Suc m) t) else None)"
  using assms
  by (subst json_members.simps(2)) (simp add: print_member_def json_quote_Cons [of k] skip_ws_Cons json_string_print json_value_quote)

lemma json_members_print:
  "kvs \<noteq> [] \<Longrightarrow> json_members (Suc (length kvs + j)) (Join (map print_member kvs) '','' @ ''}'' @ r) = Some (map (\<lambda>(k, v). (k, JStr v)) kvs, r)"
proof (induction kvs)
  case (Cons kv kvs)
  obtain k v where kv: "kv = (k, v)" by (cases kv)
  show ?case
  proof (cases "kvs = []")
    case True
    then show ?thesis using json_members_step [of "CHR ''}''" j k v r] by (simp add: kv)
  next
    case False
    let ?rest = "Join (map print_member kvs) '','' @ ''}'' @ r"
    have "Join (map print_member (kv # kvs)) '','' @ ''}'' @ r = print_member (k, v) @ CHR '','' # ?rest"
      using False by (simp add: kv Join_Cons)
    then show ?thesis
      using json_members_step [of "CHR '',''" "length kvs + j" k v ?rest] Cons.IH [OF False] by (simp add: kv)
  qed
qed simp

lemma Join_length: "length xs \<le> length (Join xs '','') + 1"
  by (induction xs "'',''" rule: Join.induct) auto

lemma json_parse_print_obj:
  "json_parse (json_print_obj kvs) = Some (JObj (map (\<lambda>(k, v). (k, JStr v)) kvs))"
proof (cases kvs)
  case Nil
  have "json_value (Suc (Suc (2 * 2))) ''{}'' = Some (JObj [], [])" by (subst json_value.simps(2)) (simp add: skip_ws_Cons)
  then show ?thesis by (simp add: Nil json_parse_def json_print_obj_def skip_ws_def)
next
  case (Cons kv kvs')
  let ?body = "Join (map print_member kvs) '','' @ ''}''" and ?n = "2 * length (json_print_obj kvs)"
  have p: "json_print_obj kvs = CHR ''{'' # ?body" by (simp add: json_print_obj_def print_member_def)
  have "length kvs \<le> ?n" using Join_length [of "map print_member kvs"] by (simp add: p)
  then obtain j where j: "?n = length kvs + j" using le_Suc_ex by blast
  have "\<exists>t. ?body = CHR 0x22 # t"
    using Cons by (cases kv; cases "kvs' = []") (simp_all add: print_member_def Join_Cons json_quote_def)
  then obtain t where t: "?body = CHR 0x22 # t" by blast
  have "json_members (Suc ?n) ?body = Some (map (\<lambda>(k, v). (k, JStr v)) kvs, [])"
    unfolding j using json_members_print [of kvs j "[]"] Cons by simp
  then have "json_value (Suc (Suc ?n)) (json_print_obj kvs) = Some (JObj (map (\<lambda>(k, v). (k, JStr v)) kvs), [])"
    unfolding p t by (subst json_value.simps(2)) (simp add: skip_ws_Cons)
  then show ?thesis by (simp add: json_parse_def skip_ws_def)
qed

end
