(* ===== verification/Processors.thy ===== *)
theory Processors
  imports Transport_Client Go_JSON Param_Heap
begin

text \<open>
  \<open>transport/processors.go\<close>: what the collector does for the messages of the manager. The processors act on the
  default AES utility, the heap and the state \<open>'s\<close> of the job scheduler, which is an interface. Decoding a
  job from JSON (which also allocates its objects) and the texts of JSON errors are parameters.
\<close>

subsection \<open>State and interface\<close>

record 's World =
  wd_aes :: AESUtil
  wd_heap :: Heap
  wd_sched :: 's

record 's JobScheduler =
  js_AddAsyncCollectJob :: "Job \<Rightarrow> 's \<Rightarrow> string option \<times> 's"
  js_RemoveAsyncCollectJob :: "int64 \<Rightarrow> 's \<Rightarrow> string option \<times> 's"

type_synonym job_decoder = "string \<Rightarrow> Heap \<Rightarrow> string + (Job \<times> Heap)"

definition reply :: "int32 \<Rightarrow> Message \<Rightarrow> string \<Rightarrow> string + Message option option" where
  "reply ty msg txt = Inr (Some (Some \<lparr>Msg_Identity = Msg_Identity msg, Msg_Direction = Direction_RESPONSE, Msg_Type = ty, Msg_Msg = txt\<rparr>))"

subsection \<open>Processors\<close>

text \<open>The processor returns a nil message, which the registered function wraps into a non-nil interface.\<close>

definition Heartbeat_Process :: "'w ProcessorFunc" where
  "Heartbeat_Process msg w = \<lparr>pr_response = Inr (Some None), pr_actions = [], pr_world = w\<rparr>"

definition GoOnline_Process :: "'s World ProcessorFunc" where
  "GoOnline_Process msg w =
     (let w' = (if Msg_Msg msg = [] then w
                else (case Option.bind (json_parse (Msg_Msg msg)) (decode_string_field ''aesSecret'') of
                        None \<Rightarrow> w
                      | Some secret \<Rightarrow> if secret = [] then w else w\<lparr>wd_aes := SetSecretKey secret (wd_aes w)\<rparr>))
      in \<lparr>pr_response = reply MessageTypeGoOnline msg ''online ack'', pr_actions = [], pr_world = w'\<rparr>)"

text \<open>\<open>hasClient\<close>: the processor was made with a client to shut down.\<close>

definition GoOffline_Process :: "bool \<Rightarrow> 'w ProcessorFunc" where
  "GoOffline_Process hasClient msg w =
     \<lparr>pr_response = reply MessageTypeGoOffline msg ''offline ack'',
      pr_actions = (if hasClient then [ShutdownAfter (100 * Millisecond)] else []), pr_world = w\<rparr>"

definition GoClose_Process :: "bool \<Rightarrow> 'w ProcessorFunc" where
  "GoClose_Process hasClient msg w =
     \<lparr>pr_response = reply MessageTypeGoClose msg ''close ack'', pr_actions = (if hasClient then [ShutdownNow] else []), pr_world = w\<rparr>"

definition preprocessJobPasswords :: "(string \<Rightarrow> string \<Rightarrow> string) \<Rightarrow> AESUtil \<Rightarrow> Job \<Rightarrow> Job" where
  "preprocessJobPasswords D aes job = (case PreprocessJobPasswords D aes (Some job) of (Some job', _) \<Rightarrow> job' | (None, _) \<Rightarrow> job)"

definition CollectCyclicData_Process :: "(string \<Rightarrow> string \<Rightarrow> string) \<Rightarrow> job_decoder \<Rightarrow> 's JobScheduler option \<Rightarrow> 's World ProcessorFunc" where
  "CollectCyclicData_Process D decodeJob scheduler msg w =
     (let answer = (\<lambda>txt w. \<lparr>pr_response = reply MessageTypeIssueCyclicTask msg txt, pr_actions = [], pr_world = w\<rparr>) in
      case scheduler of None \<Rightarrow> answer ''no job scheduler available'' w
      | Some js \<Rightarrow>
          (case decodeJob (Msg_Msg msg) (wd_heap w) of
             Inl err \<Rightarrow> answer (''failed to parse job: '' @ err) w
           | Inr (job0, h) \<Rightarrow>
               (let job = (preprocessJobPasswords D (wd_aes w) job0)\<lparr>J_IsCyclic := True\<rparr> in
                case js_AddAsyncCollectJob js job (wd_sched w) of
                  (Some err, s) \<Rightarrow> answer (''failed to schedule job: '' @ err) (w\<lparr>wd_heap := h, wd_sched := s\<rparr>)
                | (None, s) \<Rightarrow> answer ''cyclic task scheduled successfully'' (w\<lparr>wd_heap := h, wd_sched := s\<rparr>))))"

definition CollectOneTimeData_Process :: "(string \<Rightarrow> string \<Rightarrow> string) \<Rightarrow> job_decoder \<Rightarrow> 's JobScheduler option \<Rightarrow> 's World ProcessorFunc" where
  "CollectOneTimeData_Process D decodeJob scheduler msg w =
     (let answer = (\<lambda>txt w. \<lparr>pr_response = reply MessageTypeIssueOneTimeTask msg txt, pr_actions = [], pr_world = w\<rparr>) in
      case scheduler of None \<Rightarrow> answer ''no job scheduler available'' w
      | Some js \<Rightarrow>
          (case decodeJob (Msg_Msg msg) (wd_heap w) of
             Inl err \<Rightarrow> answer (''failed to parse job: '' @ err) w
           | Inr (job0, h) \<Rightarrow>
               (let job = (preprocessJobPasswords D (wd_aes w) job0)\<lparr>J_IsCyclic := False\<rparr> in
                case js_AddAsyncCollectJob js job (wd_sched w) of
                  (Some err, s) \<Rightarrow> answer (''failed to schedule job: '' @ err) (w\<lparr>wd_heap := h, wd_sched := s\<rparr>)
                | (None, s) \<Rightarrow> answer ''one-time task scheduled successfully'' (w\<lparr>wd_heap := h, wd_sched := s\<rparr>))))"

text \<open>The job IDs of a delete message: an array or a single number.\<close>

definition delete_ids :: "string \<Rightarrow> int64 list option" where
  "delete_ids txt =
     (case Option.bind (json_parse txt) decode_int64s of
        Some ids \<Rightarrow> Some ids
      | None \<Rightarrow> map_option (\<lambda>i. [i]) (Option.bind (json_parse txt) decode_int64))"

fun remove_jobs :: "(int64 \<Rightarrow> 's \<Rightarrow> string option \<times> 's) \<Rightarrow> int64 list \<Rightarrow> 's \<Rightarrow> string list \<times> 's" where
  "remove_jobs remove [] s = ([], s)"
| "remove_jobs remove (jobID # ids) s =
     (case remove jobID s of
        (Some err, s') \<Rightarrow> (let (errs, s'') = remove_jobs remove ids s' in ((''job '' @ FormatInt (sint jobID) @ '': '' @ err) # errs, s''))
      | (None, s') \<Rightarrow> remove_jobs remove ids s')"

definition DeleteCyclicTask_Process :: "(string \<Rightarrow> string) \<Rightarrow> 's JobScheduler option \<Rightarrow> 's World ProcessorFunc" where
  "DeleteCyclicTask_Process jsonError scheduler msg w =
     (let answer = (\<lambda>txt w. \<lparr>pr_response = reply MessageTypeDeleteCyclicTask msg txt, pr_actions = [], pr_world = w\<rparr>) in
      case scheduler of None \<Rightarrow> answer ''no job scheduler available'' w
      | Some js \<Rightarrow>
          (case delete_ids (Msg_Msg msg) of
             None \<Rightarrow> answer (''failed to parse job IDs: '' @ jsonError (Msg_Msg msg)) w
           | Some jobIDs \<Rightarrow>
               (let (errors, s) = remove_jobs (js_RemoveAsyncCollectJob js) jobIDs (wd_sched w) in
                answer (if errors \<noteq> [] then ''partially completed, errors: '' @ Sprintv (AStrings errors)
                        else ''all cyclic tasks removed successfully'') (w\<lparr>wd_sched := s\<rparr>))))"

subsection \<open>Registration\<close>

definition RegisterDefaultNettyProcessors :: "(string \<Rightarrow> string \<Rightarrow> string) \<Rightarrow> job_decoder \<Rightarrow> (string \<Rightarrow> string) \<Rightarrow> 's JobScheduler option \<Rightarrow>
    's World NettyClient \<Rightarrow> 's World NettyClient" where
  "RegisterDefaultNettyProcessors D decodeJob jsonError scheduler c =
     RegisterProcessor MessageTypeIssueOneTimeTask (CollectOneTimeData_Process D decodeJob scheduler)
     (RegisterProcessor MessageTypeDeleteCyclicTask (DeleteCyclicTask_Process jsonError scheduler)
     (RegisterProcessor MessageTypeIssueCyclicTask (CollectCyclicData_Process D decodeJob scheduler)
     (RegisterProcessor MessageTypeGoClose (GoClose_Process False)
     (RegisterProcessor MessageTypeGoOffline (GoOffline_Process True)
     (RegisterProcessor MessageTypeGoOnline GoOnline_Process
     (RegisterProcessor MessageTypeHeartbeat Heartbeat_Process c))))))"

definition RegisterDefaultProcessors :: "(string \<Rightarrow> string \<Rightarrow> string) \<Rightarrow> job_decoder \<Rightarrow> (string \<Rightarrow> string) \<Rightarrow> 's JobScheduler option \<Rightarrow>
    's World GrpcClient \<Rightarrow> 's World GrpcClient" where
  "RegisterDefaultProcessors D decodeJob jsonError scheduler c =
     grpc_RegisterProcessor MessageTypeIssueOneTimeTask (CollectOneTimeData_Process D decodeJob scheduler)
     (grpc_RegisterProcessor MessageTypeDeleteCyclicTask (DeleteCyclicTask_Process jsonError scheduler)
     (grpc_RegisterProcessor MessageTypeIssueCyclicTask (CollectCyclicData_Process D decodeJob scheduler)
     (grpc_RegisterProcessor MessageTypeGoClose (GoClose_Process True)
     (grpc_RegisterProcessor MessageTypeGoOffline (GoOffline_Process False)
     (grpc_RegisterProcessor MessageTypeGoOnline GoOnline_Process
     (grpc_RegisterProcessor MessageTypeHeartbeat Heartbeat_Process c))))))"

subsection \<open>Properties\<close>

lemma preprocess_eq: "preprocessJobPasswords D aes job = job\<lparr>J_Configmap := map (preprocess_config D aes) (J_Configmap job)\<rparr>"
  by (simp add: preprocessJobPasswords_def PreprocessJobPasswords_def)

text \<open>What a processor returns for every message: a message answered under the identity of the request, or the nil
  message of the heartbeat.\<close>

definition answers :: "int32 \<Rightarrow> 'w ProcessorFunc \<Rightarrow> bool" where
  "answers ty f \<longleftrightarrow> (\<forall>msg w. \<exists>txt. pr_response (f msg w) = reply ty msg txt)"

lemma processors_answer:
  "answers MessageTypeGoOnline GoOnline_Process" "answers MessageTypeGoOffline (GoOffline_Process b)" "answers MessageTypeGoClose (GoClose_Process b)"
  "answers MessageTypeIssueCyclicTask (CollectCyclicData_Process D decodeJob scheduler)"
  "answers MessageTypeIssueOneTimeTask (CollectOneTimeData_Process D decodeJob scheduler)"
  "answers MessageTypeDeleteCyclicTask (DeleteCyclicTask_Process jsonError scheduler)"
  by (auto simp: answers_def GoOnline_Process_def GoOffline_Process_def GoClose_Process_def CollectCyclicData_Process_def
    CollectOneTimeData_Process_def DeleteCyclicTask_Process_def Let_def split: option.split sum.split prod.split)

lemma netty_registry:
  assumes "c = RegisterDefaultNettyProcessors D decodeJob jsonError scheduler c0"
  shows "registry_Get 0 (nc_registry c) = Some Heartbeat_Process"
    "registry_Get 1 (nc_registry c) = Some GoOnline_Process"
    "registry_Get 2 (nc_registry c) = Some (GoOffline_Process True)"
    "registry_Get 3 (nc_registry c) = Some (GoClose_Process False)"
    "registry_Get 4 (nc_registry c) = Some (CollectCyclicData_Process D decodeJob scheduler)"
    "registry_Get 5 (nc_registry c) = Some (DeleteCyclicTask_Process jsonError scheduler)"
    "registry_Get 6 (nc_registry c) = Some (CollectOneTimeData_Process D decodeJob scheduler)"
  by (simp_all add: assms RegisterDefaultNettyProcessors_def RegisterProcessor_def registry_Register_def registry_Get_def message_types)

lemma request_answered:
  assumes "registry_Get (Msg_Type msg) (nc_registry c) = Some f" and "answers (Msg_Type msg) f"
    and "Msg_Direction msg = Direction_REQUEST" and "nc_started c" and "nc_conn c \<noteq> None"
  shows "\<exists>txt resp as w'. resp = \<lparr>Msg_Identity = Msg_Identity msg, Msg_Direction = Direction_RESPONSE, Msg_Type = Msg_Type msg, Msg_Msg = txt\<rparr> \<and>
    netty_processReceivedMessage marshal compress env msg c w =
      Some (c\<lparr>nc_wire := snd (writeMessage marshal compress env resp (nc_wire c))\<rparr>, as, w')"
proof -
  obtain t where "pr_response (f msg w) = reply (Msg_Type msg) msg t" using assms(2) by (auto simp: answers_def)
  then have "netty_processReceivedMessage marshal compress env msg c w = Some (c\<lparr>nc_wire := snd (writeMessage marshal compress env
      \<lparr>Msg_Identity = Msg_Identity msg, Msg_Direction = Direction_RESPONSE, Msg_Type = Msg_Type msg, Msg_Msg = t\<rparr> (nc_wire c))\<rparr>,
      pr_actions (f msg w), pr_world (f msg w))"
    using assms
    by (auto simp: netty_processReceivedMessage_def Direction_REQUEST_def Direction_RESPONSE_def Let_def reply_def netty_SendMsg_def case_prod_beta)
  then show ?thesis by blast
qed

text \<open>C25: every request of the manager but the heartbeat is answered: a started Netty client with the default processors writes one
  response to the connection, with the type and the identity of the request.\<close>

theorem requests_are_answered:
  assumes "c = RegisterDefaultNettyProcessors D decodeJob jsonError scheduler c0" and "nc_started c" and "nc_conn c \<noteq> None"
    and "Msg_Direction msg = Direction_REQUEST" and "Msg_Type msg \<in> {1, 2, 3, 4, 5, 6}"
  shows "\<exists>txt resp as w'. resp = \<lparr>Msg_Identity = Msg_Identity msg, Msg_Direction = Direction_RESPONSE, Msg_Type = Msg_Type msg, Msg_Msg = txt\<rparr> \<and>
    netty_processReceivedMessage marshal compress env msg c w =
      Some (c\<lparr>nc_wire := snd (writeMessage marshal compress env resp (nc_wire c))\<rparr>, as, w')"
proof -
  have "\<exists>f. registry_Get (Msg_Type msg) (nc_registry c) = Some f \<and> answers (Msg_Type msg) f"
    using assms(5) netty_registry [OF assms(1)] processors_answer [unfolded message_types] by auto
  then show ?thesis using request_answered [OF _ _ assms(4,2,3)] by blast
qed

text \<open>a task of the manager reaches the scheduler with its kind fixed by the type of the message and without encrypted
  passwords: the job that is added is the decoded job, marked as cyclic or not, whose password parameters have
  been replaced.\<close>

theorem tasks_reach_scheduler:
  assumes "decodeJob (Msg_Msg msg) (wd_heap w) = Inr (job0, h)" and "js_AddAsyncCollectJob js = (\<lambda>j s. (None, s @ [j]))"
  shows "\<exists>jobs. wd_sched (pr_world (CollectCyclicData_Process D decodeJob (Some js) msg w)) = wd_sched w @ jobs \<and>
    jobs = [job0\<lparr>J_Configmap := map (preprocess_config D (wd_aes w)) (J_Configmap job0), J_IsCyclic := True\<rparr>] \<and>
    wd_sched (pr_world (CollectOneTimeData_Process D decodeJob (Some js) msg w)) = wd_sched w @ map (J_IsCyclic_update (\<lambda>_. False)) jobs \<and>
    (\<forall>c \<in> set (J_Configmap (hd jobs)). \<not> is_secret c)"
  using assms by (simp add: CollectCyclicData_Process_def CollectOneTimeData_Process_def preprocess_eq Let_def preprocess_config_not_secret)

text \<open>C26: a password that the manager encrypts with the key it has announced reaches the scheduler in clear. After the online message
  with the key, the parameter of a cyclic task that holds the encrypted text is scheduled as
  the plain text.\<close>

theorem announced_key_decrypts:
  assumes "length key = 16" and "block_inverse E D key" and "Msg_Msg online = json_print_obj [(''aesSecret'', key)]"
    and "w1 = pr_world (GoOnline_Process online w)"
    and "decodeJob (Msg_Msg msg) (wd_heap w) = Inr (job0, h)" and "i < length (J_Configmap job0)"
    and "Conf_Type (J_Configmap job0 ! i) = 2" and "Conf_Value (J_Configmap job0 ! i) = AStr (aes_encode E key pt)"
    and "js_AddAsyncCollectJob js = (\<lambda>j s. (None, s @ [j]))"
  shows "\<exists>job. wd_sched (pr_world (CollectCyclicData_Process D decodeJob (Some js) msg w1)) = wd_sched w @ [job] \<and>
    Conf_Value (J_Configmap job ! i) = AStr pt \<and> Conf_Type (J_Configmap job ! i) = 1"
proof -
  have k: "key \<noteq> []" using assms(1) by auto
  have "EqualFold ''aesSecret'' ''aesSecret''" by (simp add: EqualFold_def)
  then have "decode_string_field ''aesSecret'' (JObj [(''aesSecret'', JStr key)]) = Some key"
    by (simp add: decode_string_field_def)
  moreover have "Msg_Msg online \<noteq> []" by (simp add: assms(3) json_print_obj_def)
  ultimately have w1: "w1 = w\<lparr>wd_aes := \<lparr>secretKey = key\<rparr>\<rparr>"
    using k by (simp add: assms(3,4) GoOnline_Process_def json_parse_print_obj SetSecretKey_def Let_def)
  have "decryptPassword D \<lparr>secretKey = key\<rparr> (aes_encode E key pt) = Inr pt"
    using aes_decode_encode [OF assms(1,2), of pt] k by (simp add: decryptPassword_def AesDecode_def GetSecretKey_def Let_def)
  then have "preprocess_config D \<lparr>secretKey = key\<rparr> (J_Configmap job0 ! i) = (J_Configmap job0 ! i)\<lparr>Conf_Value := AStr pt, Conf_Type := 1\<rparr>"
    using assms(7,8) by (simp add: preprocess_config_def)
  with assms(5,6,9) show ?thesis by (simp add: w1 CollectCyclicData_Process_def preprocess_eq Let_def)
qed

text \<open>a delete message removes every job it lists, in the order of the list, whether or not removing one of them fails; the answer is
  a success exactly when no removal failed.\<close>

theorem delete_removes_all:
  assumes "delete_ids (Msg_Msg msg) = Some ids"
    and "r = DeleteCyclicTask_Process jsonError (Some js) msg w"
  shows "wd_sched (pr_world r) = foldl (\<lambda>s jobID. snd (js_RemoveAsyncCollectJob js jobID s)) (wd_sched w) ids \<and>
    (pr_response r = reply MessageTypeDeleteCyclicTask msg ''all cyclic tasks removed successfully'' \<longleftrightarrow>
     fst (remove_jobs (js_RemoveAsyncCollectJob js) ids (wd_sched w)) = [])"
proof -
  have s: "snd (remove_jobs rm ids s) = foldl (\<lambda>s jobID. snd (rm jobID s)) s ids" for rm ids and s :: 'a
    by (induction rm ids s rule: remove_jobs.induct) (auto simp: Let_def split: prod.splits option.splits)
  obtain errs s' where "remove_jobs (js_RemoveAsyncCollectJob js) ids (wd_sched w) = (errs, s')" by fastforce
  with s [of "js_RemoveAsyncCollectJob js" ids "wd_sched w"] assms show ?thesis
    by (simp add: DeleteCyclicTask_Process_def Let_def reply_def)
qed

subsection \<open>Concrete instances\<close>

definition world_ex :: "Job list World" where
  "world_ex = \<lparr>wd_aes = \<lparr>secretKey = []\<rparr>, wd_heap = heap_ex, wd_sched = []\<rparr>"

definition sched_ex :: "Job list JobScheduler" where
  "sched_ex = \<lparr>js_AddAsyncCollectJob = (\<lambda>j s. (None, s @ [j])),
     js_RemoveAsyncCollectJob = (\<lambda>k s. if k \<in> J_ID ` set s then (None, filter (\<lambda>j. J_ID j \<noteq> k) s) else (Some ''job not found'', s))\<rparr>"

theorem requests_are_answered_witness:
  "let c0 = snd (netty_Start None (NewNettyClient ''m:1158'')); c = RegisterDefaultNettyProcessors (\<lambda>k b. b) (\<lambda>s h. Inl ''syntax'') (\<lambda>s. []) (Some sched_ex) c0
   in \<exists>txt as w'. netty_processReceivedMessage marshal_ex id net_ok (msg_ex\<lparr>Msg_Type := 4\<rparr>) c world_ex =
     Some (c\<lparr>nc_wire := snd (writeMessage marshal_ex id net_ok
       \<lparr>Msg_Identity = ''collector-go'', Msg_Direction = Direction_RESPONSE, Msg_Type = 4, Msg_Msg = txt\<rparr> (nc_wire c))\<rparr>, as, w')"
proof -
  let ?c0 = "snd (netty_Start None (NewNettyClient ''m:1158'')) :: Job list World NettyClient"
  let ?c = "RegisterDefaultNettyProcessors (\<lambda>k b. b) (\<lambda>s h. Inl ''syntax'') (\<lambda>s. []) (Some sched_ex) ?c0"
  have "nc_started ?c" "nc_conn ?c \<noteq> None"
    by (simp_all add: RegisterDefaultNettyProcessors_def RegisterProcessor_def netty_Start_def NewNettyClient_def Let_def)
  from requests_are_answered [OF refl this, of "msg_ex\<lparr>Msg_Type := 4\<rparr>" marshal_ex id net_ok world_ex]
  show ?thesis unfolding Let_def by (simp add: msg_ex_def Direction_REQUEST_def)
qed

theorem tasks_reach_scheduler_witness:
  "wd_sched (pr_world (CollectCyclicData_Process (\<lambda>k b. b) (\<lambda>s h. Inr (Job0, h)) (Some sched_ex) msg_ex world_ex)) =
     [Job0\<lparr>J_IsCyclic := True\<rparr>]"
  using tasks_reach_scheduler [of "\<lambda>s h. Inr (Job0, h)" msg_ex world_ex Job0 heap_ex sched_ex "\<lambda>k b. b"]
  by (simp add: world_ex_def sched_ex_def Job0_def)

theorem announced_key_decrypts_witness:
  "let E = (\<lambda>k b. xor_bytes b k); key = ''tomSun28HaHaHaHa'';
       j = Job0\<lparr>J_Configmap := [\<lparr>Conf_Key = ''password'', Conf_Value = AStr (aes_encode E key ''root''), Conf_Type = 2, Conf_Option = []\<rparr>]\<rparr>;
       w1 = pr_world (GoOnline_Process (msg_ex\<lparr>Msg_Msg := json_print_obj [(''aesSecret'', key)]\<rparr>) world_ex)
   in \<exists>job. wd_sched (pr_world (CollectCyclicData_Process E (\<lambda>s h. Inr (j, h)) (Some sched_ex) msg_ex w1)) = [job] \<and>
        Conf_Value (J_Configmap job ! 0) = AStr ''root''"
proof -
  let ?E = "\<lambda>k b. xor_bytes b k" and ?key = "''tomSun28HaHaHaHa''"
  let ?j = "Job0\<lparr>J_Configmap := [\<lparr>Conf_Key = ''password'', Conf_Value = AStr (aes_encode ?E ?key ''root''), Conf_Type = 2, Conf_Option = []\<rparr>]\<rparr>"
  have len: "length ?key = 16" by simp
  then have inv: "block_inverse ?E ?E ?key" by (simp add: block_inverse_def xor_bytes_cancel)
  show ?thesis
    using announced_key_decrypts [OF len inv _ refl, of "msg_ex\<lparr>Msg_Msg := json_print_obj [(''aesSecret'', ?key)]\<rparr>"
        "\<lambda>s h. Inr (?j, h)" msg_ex world_ex ?j heap_ex 0 "''root''" sched_ex]
    unfolding Let_def by (simp add: world_ex_def sched_ex_def msg_ex_def) blast
qed

theorem delete_removes_all_witness:
  "wd_sched (pr_world (DeleteCyclicTask_Process (\<lambda>s. []) (Some sched_ex) (msg_ex\<lparr>Msg_Msg := ''[7,8]''\<rparr>)
     (world_ex\<lparr>wd_sched := [Job0\<lparr>J_ID := 7\<rparr>, Job0\<lparr>J_ID := 9\<rparr>]\<rparr>))) = [Job0\<lparr>J_ID := 9\<rparr>]"
proof -
  have "delete_ids ''[7,8]'' = Some [7, 8]" by code_simp
  then show ?thesis
    using delete_removes_all [of "msg_ex\<lparr>Msg_Msg := ''[7,8]''\<rparr>" "[7, 8]" _ "\<lambda>s. []" sched_ex "world_ex\<lparr>wd_sched := [Job0\<lparr>J_ID := 7\<rparr>, Job0\<lparr>J_ID := 9\<rparr>]\<rparr>"]
    by (simp add: sched_ex_def msg_ex_def Job0_def)
qed

end
