(* ===== verification/Logging.thy ===== *)
theory Logging
  imports Job_Types
begin

text \<open>
  \<open>types/logger/logging_types.go\<close> and \<open>util/logger/logger.go\<close>: the level a logger is created with. The output of a logger and its zap core are not
  represented: a logger is its configuration, the level that zap is asked to parse, and its name.
\<close>

subsection \<open>Levels\<close>

definition LogLevelTrace :: string where "LogLevelTrace = ''trace''"
definition LogLevelDebug :: string where "LogLevelDebug = ''debug''"
definition LogLevelInfo :: string where "LogLevelInfo = ''info''"
definition LogLevelWarn :: string where "LogLevelWarn = ''warn''"
definition LogLevelError :: string where "LogLevelError = ''error''"

definition LogComponentHertzbeatDefault :: string where
  "LogComponentHertzbeatDefault = ''default''"

text \<open>The map may be nil, which reads as an empty map.\<close>

record HertzBeatLogging =
  lg_Level :: "gomap option"

definition level_at :: "HertzBeatLogging \<Rightarrow> string \<Rightarrow> string" where
  "level_at logging component = (case lg_Level logging of None \<Rightarrow> [] | Some m \<Rightarrow> map_get component m)"

definition DefaultHertzbeatLogging :: HertzBeatLogging where
  "DefaultHertzbeatLogging = \<lparr>lg_Level = Some [(LogComponentHertzbeatDefault, LogLevelInfo)]\<rparr>"

definition DefaultHertzBeatLoggingLevel :: "HertzBeatLogging \<Rightarrow> string \<Rightarrow> string" where
  "DefaultHertzBeatLoggingLevel logging level =
     (if level \<noteq> [] then level
      else if level_at logging LogComponentHertzbeatDefault \<noteq> [] then level_at logging LogComponentHertzbeatDefault
      else LogLevelInfo)"

definition SetHertzBeatLoggingDefaults :: "HertzBeatLogging option \<Rightarrow> HertzBeatLogging option" where
  "SetHertzBeatLoggingDefaults lo =
     (case lo of None \<Rightarrow> None
      | Some logging \<Rightarrow>
          (case lg_Level logging of None \<Rightarrow> Some logging
           | Some m \<Rightarrow> if map_get LogComponentHertzbeatDefault m = []
                       then Some (logging\<lparr>lg_Level := Some (map_put LogComponentHertzbeatDefault LogLevelInfo m)\<rparr>) else Some logging))"

subsection \<open>Loggers\<close>

record Logger =
  lo_logging :: HertzBeatLogging
  lo_level :: string
  lo_name :: string

definition initZapLogger :: "HertzBeatLogging \<Rightarrow> string \<Rightarrow> string" where
  "initZapLogger logging level = DefaultHertzBeatLoggingLevel logging level"

definition NewLogger :: "HertzBeatLogging \<Rightarrow> Logger" where
  "NewLogger logging =
     \<lparr>lo_logging = logging, lo_level = initZapLogger logging (level_at logging LogComponentHertzbeatDefault), lo_name = []\<rparr>"

text \<open>\<open>FileLogger\<close> panics with the error of opening the file.\<close>

definition FileLogger :: "string option \<Rightarrow> string \<Rightarrow> string \<Rightarrow> string + Logger" where
  "FileLogger openError name level =
     (case openError of Some err \<Rightarrow> Inl err
      | None \<Rightarrow> Inr \<lparr>lo_logging = DefaultHertzbeatLogging, lo_level = initZapLogger DefaultHertzbeatLogging level, lo_name = name\<rparr>)"

definition DefaultLogger :: "string \<Rightarrow> Logger" where
  "DefaultLogger level = \<lparr>lo_logging = DefaultHertzbeatLogging, lo_level = initZapLogger DefaultHertzbeatLogging level, lo_name = []\<rparr>"

definition WithName :: "string \<Rightarrow> Logger \<Rightarrow> Logger" where
  "WithName name l =
     (let logLevel = level_at (lo_logging l) name
      in l\<lparr>lo_level := initZapLogger (lo_logging l) logLevel, lo_name := name\<rparr>)"

subsection \<open>Properties\<close>

lemmas level_defs = DefaultHertzBeatLoggingLevel_def initZapLogger_def DefaultHertzbeatLogging_def level_at_def LogComponentHertzbeatDefault_def

text \<open>Setting the defaults makes explicit the level that is used without them.\<close>

lemma defaults_same_level:
  "SetHertzBeatLoggingDefaults (Some logging) = Some logging' \<Longrightarrow> DefaultHertzBeatLoggingLevel logging' level = DefaultHertzBeatLoggingLevel logging level"
  by (auto simp: SetHertzBeatLoggingDefaults_def level_defs map_get_def LogLevelInfo_def split: option.splits if_splits)

text \<open>The level given to \<open>DefaultLogger\<close> does not survive \<open>WithName\<close>, which looks the level up under the new name.\<close>

lemma named_logger_level: "lo_level (WithName name (DefaultLogger level)) = LogLevelInfo"
  by (simp add: WithName_def DefaultLogger_def level_defs map_get_def LogLevelInfo_def Let_def)

end
