(* ===== verification/Config.thy ===== *)
theory Config
  imports Go_Strings Logging
begin

text \<open>
  The configuration (\<open>types/config/config_types.go\<close>, \<open>config/config.go\<close>): loading, defaults, validation and the
  reload after a change of the file. The file system, the YAML library and the file watcher are
  parameters; the present time is an argument.
\<close>

subsection \<open>Data\<close>

record CollectorInfo =
  Info_IP :: string
  Info_Name :: string
  Info_Port :: string

record ManagerConfig =
  Mgr_Host :: string
  Mgr_Port :: string
  Mgr_Protocol :: string

record CollectorConfig =
  Cfg_Info :: CollectorInfo
  Cfg_LogLevel :: string
  Cfg_Manager :: ManagerConfig
  Cfg_Identity :: string
  Cfg_Mode :: string
  Cfg_MetricsPort :: int

definition DefaultHertzBeatCollectorName :: string where
  "DefaultHertzBeatCollectorName = ''hertzbeat-collector''"

subsection \<open>Paths\<close>

text \<open>\<open>filepath.Clean\<close>, \<open>Dir\<close> and \<open>Base\<close> on a system with slashes.\<close>

definition clean_elem :: "bool \<Rightarrow> string list \<Rightarrow> string \<Rightarrow> string list" where
  "clean_elem rooted st x =
     (if x = [] \<or> x = ''.'' then st
      else if x = ''..'' then
        (if st \<noteq> [] \<and> last st \<noteq> ''..'' then butlast st else if rooted then st else st @ [x])
      else st @ [x])"

definition path_Clean :: "string \<Rightarrow> string" where
  "path_Clean p =
     (let rooted = HasPrefix p ''/''; st = foldl (clean_elem rooted) [] (Split p ''/'');
          out = (if rooted then ''/'' else []) @ Join st ''/''
      in if out = [] then ''.'' else out)"

definition path_Dir :: "string \<Rightarrow> string" where
  "path_Dir p = path_Clean (rev (dropWhile (\<lambda>c. c \<noteq> CHR ''/'') (rev p)))"

definition path_Base :: "string \<Rightarrow> string" where
  "path_Base p =
     (if p = [] then ''.''
      else (let q = rev (dropWhile (\<lambda>c. c = CHR ''/'') (rev p))
            in if q = [] then ''/'' else rev (takeWhile (\<lambda>c. c \<noteq> CHR ''/'') (rev q))))"

subsection \<open>Loading\<close>

text \<open>What the operating system answers: the target of symbolic links, the error for a missing file and the
  contents or the error of reading.\<close>

record FileSystem =
  fs_EvalSymlinks :: "string \<Rightarrow> string option"
  fs_NotExist :: "string \<Rightarrow> string option"
  fs_ReadFile :: "string \<Rightarrow> string result"

definition applyDefaults :: "CollectorConfig \<Rightarrow> CollectorConfig" where
  "applyDefaults cfg =
     (let cfg1 = (if Info_Name (Cfg_Info cfg) = [] then cfg\<lparr>Cfg_Info := (Cfg_Info cfg)\<lparr>Info_Name := DefaultHertzBeatCollectorName\<rparr>\<rparr> else cfg);
          cfg2 = (if Cfg_LogLevel cfg1 = [] then cfg1\<lparr>Cfg_LogLevel := LogLevelInfo\<rparr> else cfg1)
      in if Mgr_Protocol (Cfg_Manager cfg2) = [] then cfg2\<lparr>Cfg_Manager := (Cfg_Manager cfg2)\<lparr>Mgr_Protocol := ''http''\<rparr>\<rparr> else cfg2)"

definition parseConfigFile :: "FileSystem \<Rightarrow> (string \<Rightarrow> CollectorConfig result) \<Rightarrow> string \<Rightarrow> CollectorConfig result" where
  "parseConfigFile fs yaml path =
     (let resolved = (case fs_EvalSymlinks fs path of None \<Rightarrow> path | Some r \<Rightarrow> r) in
      case fs_NotExist fs resolved of Some err \<Rightarrow> Err err
      | None \<Rightarrow>
          (case fs_ReadFile fs resolved of Inl err \<Rightarrow> Err err
           | Inr content \<Rightarrow> (case yaml content of Inl err \<Rightarrow> Err err | Inr cfg \<Rightarrow> Ok (applyDefaults cfg))))"

definition LoadConfig :: "FileSystem \<Rightarrow> (string \<Rightarrow> CollectorConfig result) \<Rightarrow> string \<Rightarrow> CollectorConfig result" where
  "LoadConfig fs yaml cfgPath =
     (if cfgPath = [] then Err ''config path is required'' else parseConfigFile fs yaml cfgPath)"

text \<open>The error and the configuration, whose name may be filled in.\<close>

definition ValidateConfig :: "CollectorConfig option \<Rightarrow> string option \<times> CollectorConfig option" where
  "ValidateConfig co =
     (case co of None \<Rightarrow> (Some ''config is nil'', None)
      | Some cfg \<Rightarrow>
          if Info_IP (Cfg_Info cfg) = [] then (Some ''collector ip is empty'', Some cfg)
          else if Info_Port (Cfg_Info cfg) = [] then (Some ''collector port is empty'', Some cfg)
          else if Info_Name (Cfg_Info cfg) = []
          then (None, Some (cfg\<lparr>Cfg_Info := (Cfg_Info cfg)\<lparr>Info_Name := DefaultHertzBeatCollectorName\<rparr>\<rparr>))
          else (None, Some cfg))"

definition GetManagerAddress :: "CollectorConfig option \<Rightarrow> string" where
  "GetManagerAddress co =
     (case co of None \<Rightarrow> []
      | Some cfg \<Rightarrow>
          if Mgr_Host (Cfg_Manager cfg) = [] then []
          else (let protocol = (if Mgr_Protocol (Cfg_Manager cfg) = [] then ''http'' else Mgr_Protocol (Cfg_Manager cfg))
                in protocol @ ''://'' @ Mgr_Host (Cfg_Manager cfg) @ '':'' @ Mgr_Port (Cfg_Manager cfg)))"

text \<open>What \<open>PrintConfig\<close> logs: a message and its keys with their values.\<close>

definition PrintConfig :: "CollectorConfig option \<Rightarrow> string \<times> gomap" where
  "PrintConfig co =
     (case co of None \<Rightarrow> (''config is nil'', [])
      | Some cfg \<Rightarrow> (''current configuration'',
          [(''name'', Info_Name (Cfg_Info cfg)), (''ip'', Info_IP (Cfg_Info cfg)), (''port'', Info_Port (Cfg_Info cfg)),
           (''log_level'', Cfg_LogLevel cfg), (''manager'', GetManagerAddress co)]))"

text \<open>The start of the program reads and validates the configuration (\<open>cmd/server.go\<close>).\<close>

definition getConfigByPath :: "FileSystem \<Rightarrow> (string \<Rightarrow> CollectorConfig result) \<Rightarrow> string \<Rightarrow> CollectorConfig result" where
  "getConfigByPath fs yaml cfgPath =
     (case LoadConfig fs yaml cfgPath of Inl err \<Rightarrow> Err err
      | Inr cfg \<Rightarrow> (case ValidateConfig (Some cfg) of (Some err, _) \<Rightarrow> Err err
                  | (None, Some cfg') \<Rightarrow> Ok cfg' | (None, None) \<Rightarrow> Ok cfg))"

subsection \<open>Reloading\<close>

record Watcher =
  w_pending :: bool
  w_last :: "time option"
  w_reloads :: "time list"
  w_global :: "CollectorConfig option"
  w_logger :: Logger

definition reloadLogging :: "CollectorConfig option \<Rightarrow> Watcher \<Rightarrow> string option \<times> Watcher" where
  "reloadLogging co w =
     (case co of None \<Rightarrow> (Some ''config is nil'', w)
      | Some cfg \<Rightarrow> (None, w\<lparr>w_logger := WithName ''config-loader'' (DefaultLogger (if Cfg_LogLevel cfg = [] then LogLevelInfo else Cfg_LogLevel cfg))\<rparr>))"

definition SetGlobalConfig :: "CollectorConfig option \<Rightarrow> Watcher \<Rightarrow> Watcher" where
  "SetGlobalConfig cfg w = w\<lparr>w_global := cfg\<rparr>"

definition GetGlobalConfig :: "Watcher \<Rightarrow> CollectorConfig option" where
  "GetGlobalConfig w = w_global w"

definition reload :: "FileSystem \<Rightarrow> (string \<Rightarrow> CollectorConfig result) \<Rightarrow> string \<Rightarrow> Watcher \<Rightarrow> Watcher" where
  "reload fs yaml cfgFile w =
     (case parseConfigFile fs yaml cfgFile of Inl err \<Rightarrow> w
      | Inr newCfg \<Rightarrow>
          (case ValidateConfig (Some newCfg) of (Some err, _) \<Rightarrow> w
           | (None, newCfg') \<Rightarrow> snd (reloadLogging newCfg' (SetGlobalConfig newCfg' w))))"

text \<open>An event of the watcher: the operations it reports as bits (create, write, remove, rename, chmod) and
  the name of the file.\<close>

definition relevant :: "string \<Rightarrow> 32 word \<Rightarrow> string \<Rightarrow> bool" where
  "relevant cfgFile op name \<longleftrightarrow> and op 31 \<noteq> 0 \<and>
     (path_Base name = path_Base cfgFile \<or> path_Dir name = path_Dir cfgFile)"

text \<open>An accepted event schedules a reload after 300 milliseconds; \<open>None\<close> is the zero time.\<close>

definition watch_event :: "string \<Rightarrow> time \<Rightarrow> 32 word \<Rightarrow> string \<Rightarrow> Watcher \<Rightarrow> Watcher" where
  "watch_event cfgFile now op name w =
     (if relevant cfgFile op name \<and> (\<not> w_pending w \<or> (case w_last w of None \<Rightarrow> True | Some t \<Rightarrow> 250000000 < now - t))
      then w\<lparr>w_pending := True, w_last := Some now, w_reloads := w_reloads w @ [now + 300000000]\<rparr>
      else w)"

definition watch_fire :: "FileSystem \<Rightarrow> (string \<Rightarrow> CollectorConfig result) \<Rightarrow> string \<Rightarrow> time \<Rightarrow> Watcher \<Rightarrow> Watcher" where
  "watch_fire fs yaml cfgFile due w = (reload fs yaml cfgFile (w\<lparr>w_reloads := remove1 due (w_reloads w)\<rparr>))\<lparr>w_pending := False\<rparr>"


text \<open>
  The loop of \<open>WatchConfigAndReload\<close>: what its \<open>select\<close> receives next, or a reload that has slept its time and now runs
  beside the loop. The loop ends when the context does or when a channel of the watcher is closed; until then it goes on for ever.
\<close>

datatype occurrence = ContextEnds string | EventsClosed | FileEvent time "32 word" string | ErrorsClosed | WatcherError string
  | ReloadDue FileSystem time

fun watch_ends :: "occurrence \<Rightarrow> string option option" where
  "watch_ends (ContextEnds err) = Some (Some err)"
| "watch_ends EventsClosed = Some None"
| "watch_ends ErrorsClosed = Some None"
| "watch_ends _ = None"

fun watch_step :: "string \<Rightarrow> (string \<Rightarrow> CollectorConfig result) \<Rightarrow> Watcher \<Rightarrow> occurrence \<Rightarrow> Watcher" where
  "watch_step cfgFile yaml w (FileEvent now op name) = watch_event cfgFile now op name w"
| "watch_step cfgFile yaml w (ReloadDue fs due) = watch_fire fs yaml cfgFile due w"
| "watch_step cfgFile yaml w _ = w"

partial_function (option) watch_loop :: "string \<Rightarrow> (string \<Rightarrow> CollectorConfig result) \<Rightarrow> (nat \<Rightarrow> occurrence) \<Rightarrow> nat \<Rightarrow> Watcher \<Rightarrow>
    (string option \<times> Watcher) option" where
  "watch_loop cfgFile yaml occ i w =
     (case watch_ends (occ i) of Some err \<Rightarrow> Some (err, w)
      | None \<Rightarrow> watch_loop cfgFile yaml occ (Suc i) (watch_step cfgFile yaml w (occ i)))"

text \<open>\<open>New\<close> gives the loader its logger; the global configuration is there already.\<close>

definition New_Loader :: "CollectorConfig option \<Rightarrow> Watcher" where
  "New_Loader g = \<lparr>w_pending = False, w_last = None, w_reloads = [], w_global = g,
     w_logger = WithName ''config-loader'' (DefaultLogger LogLevelInfo)\<rparr>"

text \<open>\<open>newWatcher\<close> and \<open>add\<close> are the errors of creating the watcher and of watching a path. Watching the file itself may
  fail.\<close>

definition WatchConfigAndReload :: "string option \<Rightarrow> (string \<Rightarrow> string option) \<Rightarrow> string \<Rightarrow> (string \<Rightarrow> CollectorConfig result) \<Rightarrow>
    (nat \<Rightarrow> occurrence) \<Rightarrow> Watcher \<Rightarrow> (string option \<times> Watcher) option" where
  "WatchConfigAndReload newWatcher add cfgFile yaml occ w =
     (case newWatcher of Some err \<Rightarrow> Some (Some err, w)
      | None \<Rightarrow>
          (case add (path_Dir cfgFile) of Some err \<Rightarrow> Some (Some err, w)
           | None \<Rightarrow> watch_loop cfgFile yaml occ 0 (w\<lparr>w_pending := False, w_last := None\<rparr>)))"

subsection \<open>Properties\<close>

text \<open>C21: the program starts with a configuration exactly if the configuration file, behind its symbolic links, exists, can be read and parsed, and sets an
  address and a port. The configuration is then what the file sets, in every field, with defaults for three of them: the name when it is empty, the log level when
  it is empty, and the protocol, \<open>http\<close>, when it is empty.\<close>

theorem config_complete:
  "getConfigByPath fs yaml path = Ok cfg \<longleftrightarrow>
     path \<noteq> [] \<and> (\<exists>file content raw. file = (case fs_EvalSymlinks fs path of None \<Rightarrow> path | Some target \<Rightarrow> target) \<and>
       fs_NotExist fs file = None \<and> fs_ReadFile fs file = Ok content \<and> yaml content = Ok raw \<and>
       Info_IP (Cfg_Info raw) \<noteq> [] \<and> Info_Port (Cfg_Info raw) \<noteq> [] \<and>
       cfg = \<lparr>Cfg_Info = \<lparr>Info_IP = Info_IP (Cfg_Info raw),
                Info_Name = (if Info_Name (Cfg_Info raw) = [] then DefaultHertzBeatCollectorName else Info_Name (Cfg_Info raw)),
                Info_Port = Info_Port (Cfg_Info raw)\<rparr>,
              Cfg_LogLevel = (if Cfg_LogLevel raw = [] then LogLevelInfo else Cfg_LogLevel raw),
              Cfg_Manager = \<lparr>Mgr_Host = Mgr_Host (Cfg_Manager raw), Mgr_Port = Mgr_Port (Cfg_Manager raw),
                Mgr_Protocol = (if Mgr_Protocol (Cfg_Manager raw) = [] then ''http'' else Mgr_Protocol (Cfg_Manager raw))\<rparr>,
              Cfg_Identity = Cfg_Identity raw, Cfg_Mode = Cfg_Mode raw, Cfg_MetricsPort = Cfg_MetricsPort raw\<rparr>)"
  (is "_ \<longleftrightarrow> _ \<and> (\<exists>file content raw. _ file \<and> _ file \<and> _ file content \<and> _ content raw \<and> ?ip raw \<and> ?port raw \<and> cfg = ?filled raw)")
proof -
  have d: "applyDefaults raw = ?filled raw" for raw
    by (cases raw, cases "Cfg_Info raw", cases "Cfg_Manager raw") (simp add: applyDefaults_def Let_def)
  define filled where "filled = (\<lambda>raw. ?filled raw)"
  have "Info_Name (Cfg_Info (?filled raw)) \<noteq> []" for raw by (simp add: DefaultHertzBeatCollectorName_def)
  then have v: "ValidateConfig (Some (applyDefaults raw)) = ((if Info_IP (Cfg_Info raw) = [] then Some ''collector ip is empty''
      else if Info_Port (Cfg_Info raw) = [] then Some ''collector port is empty'' else None), Some (filled raw))" for raw
    unfolding d filled_def by (simp add: ValidateConfig_def)
  let ?file = "case fs_EvalSymlinks fs path of None \<Rightarrow> path | Some target \<Rightarrow> target"
  have "getConfigByPath fs yaml path = Ok cfg \<longleftrightarrow> path \<noteq> [] \<and> fs_NotExist fs ?file = None \<and>
      (\<exists>content raw. fs_ReadFile fs ?file = Ok content \<and> yaml content = Ok raw \<and> ?ip raw \<and> ?port raw \<and> cfg = filled raw)"
    unfolding getConfigByPath_def LoadConfig_def parseConfigFile_def Let_def
    by (cases "path = []"; cases "fs_NotExist fs ?file"; cases "fs_ReadFile fs ?file") (auto simp: v split: sum.splits)
  then show ?thesis unfolding filled_def by blast
qed


lemma reload_fields [simp]:
  "w_pending (reload fs yaml cfgFile w) = w_pending w" "w_last (reload fs yaml cfgFile w) = w_last w" "w_reloads (reload fs yaml cfgFile w) = w_reloads w"
  by (auto simp: reload_def reloadLogging_def SetGlobalConfig_def split: sum.splits option.splits prod.splits)



text \<open>a reload that fails keeps the configuration in force, and one that succeeds installs a valid one; the level of
  the logger is then \<open>info\<close>, whatever level the file asks for.\<close>

theorem reload_installs_valid:
  "w_global (reload fs yaml cfgFile w) = w_global w \<or>
   (\<exists>cfg. w_global (reload fs yaml cfgFile w) = Some cfg \<and> ValidateConfig (Some cfg) = (None, Some cfg) \<and>
          parseConfigFile fs yaml cfgFile = Ok cfg \<and> lo_level (w_logger (reload fs yaml cfgFile w)) = LogLevelInfo)"
proof (cases "parseConfigFile fs yaml cfgFile")
  case (Inr cfg)
  then obtain raw where "cfg = applyDefaults raw"
    by (auto simp: parseConfigFile_def Let_def split: sum.splits option.splits)
  then have "Info_Name (Cfg_Info cfg) \<noteq> []" "Cfg_LogLevel cfg \<noteq> []"
    by (simp_all add: applyDefaults_def Let_def DefaultHertzBeatCollectorName_def LogLevelInfo_def)
  with Inr show ?thesis by (auto simp: reload_def ValidateConfig_def reloadLogging_def SetGlobalConfig_def named_logger_level)
qed (simp add: reload_def)

text \<open>When the watch ends: it returns at the first occurrence that ends it, and only then.\<close>

lemma watch_loop_returns:
  "watch_ends (occ (i + n)) = Some err \<Longrightarrow> \<forall>k < n. watch_ends (occ (i + k)) = None \<Longrightarrow>
   watch_loop cfgFile yaml occ i w = Some (err, foldl (watch_step cfgFile yaml) w (map occ [i..<i + n]))"
proof (induction n arbitrary: i w)
  case (Suc n)
  have "watch_ends (occ i) = None" using Suc.prems(2) [rule_format, of 0] by simp
  moreover have "\<forall>k < n. watch_ends (occ (Suc i + k)) = None" using Suc.prems(2) by auto
  ultimately show ?case
    using Suc.IH [of "Suc i" "watch_step cfgFile yaml w (occ i)"] Suc.prems(1)
    by (subst watch_loop.simps) (simp add: upt_conv_Cons del: upt_Suc)
qed (subst watch_loop.simps, simp)

lemma watch_loop_runs_on:
  assumes "watch_loop cfgFile yaml occ i w = Some r"
  shows "\<exists>n. watch_ends (occ (i + n)) \<noteq> None"
  using _ assms
proof (rule watch_loop.raw_induct [of "\<lambda>c y occ i w r. \<exists>n. watch_ends (occ (i + n)) \<noteq> None"])
  fix f and cfgFile :: string and yaml :: "string \<Rightarrow> CollectorConfig result" and occ i w r
  assume IH: "\<And>c y occ i w r. f c y occ i w = Some r \<Longrightarrow> \<exists>n. watch_ends (occ (i + n)) \<noteq> None"
    and e: "(case watch_ends (occ i) of None \<Rightarrow> f cfgFile yaml occ (Suc i) (watch_step cfgFile yaml w (occ i)) | Some err \<Rightarrow> Some (err, w)) = Some r"
  show "\<exists>n. watch_ends (occ (i + n)) \<noteq> None"
  proof (cases "watch_ends (occ i)")
    case None
    with e have "f cfgFile yaml occ (Suc i) (watch_step cfgFile yaml w (occ i)) = Some r" by simp
    then obtain n where "watch_ends (occ (Suc i + n)) \<noteq> None" using IH by blast
    then show ?thesis by (intro exI [of _ "Suc n"]) simp
  qed (intro exI [of _ 0], simp)
qed

lemma ValidateConfig_valid:
  assumes "ValidateConfig (Some cfg) = (None, c)"
  shows "\<exists>cfg'. c = Some cfg' \<and> ValidateConfig (Some cfg') = (None, Some cfg')"
proof -
  have "c = Some (if Info_Name (Cfg_Info cfg) = [] then cfg\<lparr>Cfg_Info := (Cfg_Info cfg)\<lparr>Info_Name := DefaultHertzBeatCollectorName\<rparr>\<rparr> else cfg)"
    "Info_IP (Cfg_Info cfg) \<noteq> []" "Info_Port (Cfg_Info cfg) \<noteq> []"
    using assms by (simp_all add: ValidateConfig_def split: if_splits)
  then show ?thesis by (simp add: ValidateConfig_def DefaultHertzBeatCollectorName_def)
qed

lemma watch_step_global:
  "w_global (watch_step cfgFile yaml w x) = w_global w \<or>
   (\<exists>cfg. w_global (watch_step cfgFile yaml w x) = Some cfg \<and> ValidateConfig (Some cfg) = (None, Some cfg))"
proof (cases x)
  case (ReloadDue fs due)
  show ?thesis
  proof (cases "parseConfigFile fs yaml cfgFile")
    case (Inr cfg)
    obtain e c where v: "ValidateConfig (Some cfg) = (e, c)" by fastforce
    show ?thesis
    proof (cases e)
      case None
      then obtain cfg' where "c = Some cfg'" "ValidateConfig (Some cfg') = (None, Some cfg')" using ValidateConfig_valid v by blast
      with Inr v None ReloadDue show ?thesis by (simp add: watch_fire_def reload_def reloadLogging_def SetGlobalConfig_def)
    qed (use Inr v ReloadDue in \<open>simp add: watch_fire_def reload_def\<close>)
  qed (use ReloadDue in \<open>simp add: watch_fire_def reload_def\<close>)
qed (simp_all add: watch_event_def)

lemma watch_steps_global:
  "w_global (foldl (watch_step cfgFile yaml) w xs) = w_global w \<or>
   (\<exists>cfg. w_global (foldl (watch_step cfgFile yaml) w xs) = Some cfg \<and> ValidateConfig (Some cfg) = (None, Some cfg))"
proof (induction xs arbitrary: w)
  case (Cons x xs)
  show ?case using watch_step_global [of cfgFile yaml w x] Cons.IH [of "watch_step cfgFile yaml w x"] unfolding foldl_Cons by (elim disjE) simp_all
qed simp

text \<open>What ends the watch, and what the steps before do.\<close>

lemma watch_returns:
  "case WatchConfigAndReload newWatcher add cfgFile yaml occ w of
     None \<Rightarrow> newWatcher = None \<and> add (path_Dir cfgFile) = None \<and> (\<forall>n. watch_ends (occ n) = None)
   | Some (err, w') \<Rightarrow>
       (w' = w \<and> err \<noteq> None \<and> (newWatcher = err \<or> newWatcher = None \<and> add (path_Dir cfgFile) = err) \<or>
        (\<exists>n. newWatcher = None \<and> add (path_Dir cfgFile) = None \<and> watch_ends (occ n) = Some err \<and> (\<forall>k < n. watch_ends (occ k) = None) \<and>
           w' = foldl (watch_step cfgFile yaml) (w\<lparr>w_pending := False, w_last := None\<rparr>) (map occ [0..<n]))) \<and>
       (GetGlobalConfig w' = GetGlobalConfig w \<or> (\<exists>cfg. GetGlobalConfig w' = Some cfg \<and> ValidateConfig (Some cfg) = (None, Some cfg)))"
proof (cases "newWatcher = None \<and> add (path_Dir cfgFile) = None")
  case started: True
  let ?w = "w\<lparr>w_pending := False, w_last := None\<rparr>"
  show ?thesis
  proof (cases "\<exists>n. watch_ends (occ n) \<noteq> None")
    case True
    define n where "n = (LEAST n. watch_ends (occ n) \<noteq> None)"
    have "watch_ends (occ n) \<noteq> None" unfolding n_def using True by (rule LeastI_ex)
    then obtain err where e: "watch_ends (occ n) = Some err" by blast
    have "\<forall>k < n. watch_ends (occ k) = None" unfolding n_def using not_less_Least by blast
    with e watch_loop_returns [of occ 0 n err cfgFile yaml ?w] watch_steps_global [of cfgFile yaml ?w "map occ [0..<n]"] started show ?thesis
      by (simp add: WatchConfigAndReload_def GetGlobalConfig_def) blast
  next
    case False
    then have "watch_loop cfgFile yaml occ 0 ?w = None" using watch_loop_runs_on [of cfgFile yaml occ 0 ?w] by (cases "watch_loop cfgFile yaml occ 0 ?w") auto
    with started False show ?thesis by (simp add: WatchConfigAndReload_def)
  qed
qed (auto simp: WatchConfigAndReload_def split: option.split)

lemma watch_ends_iff:
  "watch_ends x = Some err \<longleftrightarrow> (\<exists>cause. x = ContextEnds cause \<and> err = Some cause) \<or> (x = EventsClosed \<or> x = ErrorsClosed) \<and> err = None"
  "watch_ends x = None \<longleftrightarrow> (\<forall>cause. x \<noteq> ContextEnds cause) \<and> x \<noteq> EventsClosed \<and> x \<noteq> ErrorsClosed"
  by (cases x, auto)+

lemma watch_step_cases:
  "watch_step cfgFile yaml = (\<lambda>w x. case x of FileEvent now op name \<Rightarrow> watch_event cfgFile now op name w
     | ReloadDue fs due \<Rightarrow> watch_fire fs yaml cfgFile due w | _ \<Rightarrow> w)"
  by (rule ext, rule ext) (simp split: occurrence.split)

lemmas watch_told = watch_returns [unfolded watch_ends_iff watch_step_cases]

text \<open>C22: the watch of the configuration file ends when it is told to, and only then. It returns at once with the error when the watcher cannot be
  created or the directory cannot be watched. Otherwise it returns exactly if the context ends, or the channel of the events or that of the errors of the
  watcher is closed, at some time: at the first such occurrence, with the error of the context or, for a closed channel, none. Before it, every file event and
  every due reload has been handled, in order, and errors of the watcher change nothing. The configuration in force is then the one from before, or a valid
  one.\<close>

theorem watch_ends_when_told:
  "case WatchConfigAndReload newWatcher add cfgFile yaml occ w of
     None \<Rightarrow> newWatcher = None \<and> add (path_Dir cfgFile) = None \<and>
       (\<forall>n. (\<forall>cause. occ n \<noteq> ContextEnds cause) \<and> occ n \<noteq> EventsClosed \<and> occ n \<noteq> ErrorsClosed)
   | Some (err, w') \<Rightarrow>
       (w' = w \<and> err \<noteq> None \<and> (newWatcher = err \<or> newWatcher = None \<and> add (path_Dir cfgFile) = err) \<or>
        (\<exists>n. newWatcher = None \<and> add (path_Dir cfgFile) = None \<and>
           ((\<exists>cause. occ n = ContextEnds cause \<and> err = Some cause) \<or> (occ n = EventsClosed \<or> occ n = ErrorsClosed) \<and> err = None) \<and>
           (\<forall>k < n. (\<forall>cause. occ k \<noteq> ContextEnds cause) \<and> occ k \<noteq> EventsClosed \<and> occ k \<noteq> ErrorsClosed) \<and>
           w' = foldl (\<lambda>w x. case x of FileEvent now op name \<Rightarrow> watch_event cfgFile now op name w
                  | ReloadDue fs due \<Rightarrow> watch_fire fs yaml cfgFile due w | _ \<Rightarrow> w) (w\<lparr>w_pending := False, w_last := None\<rparr>) (map occ [0..<n]))) \<and>
       (GetGlobalConfig w' = GetGlobalConfig w \<or> (\<exists>cfg. GetGlobalConfig w' = Some cfg \<and> ValidateConfig (Some cfg) = (None, Some cfg)))"
  by (rule watch_told)

definition cfg_ex :: CollectorConfig where
  "cfg_ex = \<lparr>Cfg_Info = \<lparr>Info_IP = ''10.0.0.1'', Info_Name = [], Info_Port = ''1159''\<rparr>, Cfg_LogLevel = [],
     Cfg_Manager = \<lparr>Mgr_Host = ''manager'', Mgr_Port = ''1158'', Mgr_Protocol = []\<rparr>, Cfg_Identity = [], Cfg_Mode = [], Cfg_MetricsPort = 0\<rparr>"

definition fs_ex :: FileSystem where
  "fs_ex = \<lparr>fs_EvalSymlinks = (\<lambda>p. None), fs_NotExist = (\<lambda>p. None), fs_ReadFile = (\<lambda>p. Ok ''yaml'')\<rparr>"

lemma get_config_ex: "getConfigByPath fs_ex (\<lambda>_. Ok cfg_ex) ''c.yml'' = Ok (applyDefaults cfg_ex)"
  by (simp add: getConfigByPath_def LoadConfig_def parseConfigFile_def fs_ex_def ValidateConfig_def applyDefaults_def cfg_ex_def
    Let_def DefaultHertzBeatCollectorName_def)

theorem config_complete_witness:
  "getConfigByPath fs_ex (\<lambda>_. Ok cfg_ex) ''c.yml'' = Ok (applyDefaults cfg_ex) \<and>
   Info_IP (Cfg_Info (applyDefaults cfg_ex)) = ''10.0.0.1'' \<and> Mgr_Protocol (Cfg_Manager (applyDefaults cfg_ex)) = ''http''"
  using config_complete [THEN iffD1, OF get_config_ex] get_config_ex by (auto simp: cfg_ex_def)


definition occurrences_ex :: "nat \<Rightarrow> occurrence" where
  "occurrences_ex n = (if n = 2 then ContextEnds ''context canceled'' else FileEvent 0 2 ''/etc/c.yml'')"

theorem watch_ends_when_told_witness:
  "\<exists>w'. WatchConfigAndReload None (\<lambda>_. None) ''/etc/c.yml'' (\<lambda>_. Ok cfg_ex) occurrences_ex (New_Loader None) = Some (Some ''context canceled'', w')"
proof -
  let ?r = "WatchConfigAndReload None (\<lambda>_. None) ''/etc/c.yml'' (\<lambda>_. Ok cfg_ex) occurrences_ex (New_Loader None)"
  note t = watch_ends_when_told [where newWatcher = None and add = "\<lambda>_. None" and cfgFile = "''/etc/c.yml''" and yaml = "\<lambda>_. Ok cfg_ex"
      and occ = occurrences_ex and w = "New_Loader None"]
  have e: "occurrences_ex n = ContextEnds cause \<longleftrightarrow> n = 2 \<and> cause = ''context canceled''" "occurrences_ex n \<noteq> EventsClosed" "occurrences_ex n \<noteq> ErrorsClosed"
    for n cause by (auto simp: occurrences_ex_def)
  show ?thesis
  proof (cases ?r)
    case None
    with t have "\<forall>cause. occurrences_ex 2 \<noteq> ContextEnds cause" by simp
    then show ?thesis by (simp add: e)
  next
    case (Some p)
    obtain err w' where p: "p = (err, w')" by fastforce
    with t Some obtain n cause where "occurrences_ex n = ContextEnds cause" "err = Some cause" by (auto simp: e)
    with Some p show ?thesis by (simp add: e)
  qed
qed

end
