(* ===== verification/Transport.thy ===== *)
theory Transport
  imports Processors Config
begin

text \<open>
  \<open>transport/transport.go\<close>: the runner that creates the client of the configured protocol, connects it, and connects it again
  until it succeeds. The environment variables, the results of the connection attempts and the end of the context are
  arguments.
\<close>

subsection \<open>Configuration of the connection\<close>

definition DefaultManagerAddr :: string where "DefaultManagerAddr = ''127.0.0.1:1158''"
definition DefaultProtocol :: string where "DefaultProtocol = ''netty''"
definition DefaultMode :: string where "DefaultMode = ''public''"
definition DefaultIdentity :: string where "DefaultIdentity = ''collector-go''"

definition manager_addr :: "(string \<Rightarrow> string) \<Rightarrow> CollectorConfig \<Rightarrow> string" where
  "manager_addr getenv cfg =
     (let addr = Mgr_Host (Cfg_Manager cfg) @ '':'' @ Mgr_Port (Cfg_Manager cfg) in
      if addr = '':'' then (if getenv ''MANAGER_ADDR'' \<noteq> [] then getenv ''MANAGER_ADDR'' else DefaultManagerAddr) else addr)"

definition manager_protocol :: "(string \<Rightarrow> string) \<Rightarrow> CollectorConfig \<Rightarrow> string" where
  "manager_protocol getenv cfg =
     (if Mgr_Protocol (Cfg_Manager cfg) = []
      then (if getenv ''MANAGER_PROTOCOL'' \<noteq> [] then getenv ''MANAGER_PROTOCOL'' else DefaultProtocol)
      else Mgr_Protocol (Cfg_Manager cfg))"

definition collector_identity :: "CollectorConfig \<Rightarrow> string" where
  "collector_identity cfg = (if Cfg_Identity cfg = [] then DefaultIdentity else Cfg_Identity cfg)"

subsection \<open>The runner\<close>

record 's TransportRunner =
  tr_client :: "'s World TransportClient option"
  tr_jobScheduler :: "'s JobScheduler option"
  tr_cfg :: CollectorConfig

definition New_Transport :: "CollectorConfig \<Rightarrow> 's TransportRunner" where
  "New_Transport cfg = \<lparr>tr_client = None, tr_jobScheduler = None, tr_cfg = cfg\<rparr>"

definition SetJobScheduler :: "'s JobScheduler option \<Rightarrow> 's TransportRunner \<Rightarrow> 's TransportRunner" where
  "SetJobScheduler scheduler r = r\<lparr>tr_jobScheduler := scheduler\<rparr>"

fun client_Start :: "string option \<Rightarrow> 's World TransportClient \<Rightarrow> string option \<times> 's World TransportClient" where
  "client_Start dial (Grpc c) = map_prod id Grpc (grpc_Start dial c)"
| "client_Start dial (Netty c) = map_prod id Netty (netty_Start dial c)"

fun client_IsStarted :: "'s World TransportClient \<Rightarrow> bool" where
  "client_IsStarted (Grpc c) = gc_started c"
| "client_IsStarted (Netty c) = IsStarted c"

fun client_Shutdown :: "'s World TransportClient \<Rightarrow> 's World TransportClient" where
  "client_Shutdown (Grpc c) = Grpc (snd (grpc_Shutdown c))"
| "client_Shutdown (Netty c) = Netty (snd (netty_Shutdown c))"

text \<open>The client with its identity, event handler and processors, before it is started.\<close>

definition prepare_client :: "(string \<Rightarrow> string \<Rightarrow> string) \<Rightarrow> job_decoder \<Rightarrow> (string \<Rightarrow> string) \<Rightarrow> (string \<Rightarrow> string) \<Rightarrow> 's TransportRunner \<Rightarrow>
    's World TransportClient result" where
  "prepare_client D decodeJob jsonError getenv r =
     (case CreateClient (manager_protocol getenv (tr_cfg r)) (manager_addr getenv (tr_cfg r)) of
        Inl err \<Rightarrow> Err err
      | Inr (Grpc c) \<Rightarrow> Ok (Grpc (RegisterDefaultProcessors D decodeJob jsonError (tr_jobScheduler r) (c\<lparr>gc_eventHandler := True\<rparr>)))
      | Inr (Netty c) \<Rightarrow> Ok (Netty (RegisterDefaultNettyProcessors D decodeJob jsonError (tr_jobScheduler r)
            (SetEventHandler True (SetIdentity (collector_identity (tr_cfg r)) c)))))"

text \<open>The retry loop: every attempt, after three seconds, finds out whether the context is done and the result of connecting.
  The loop of the program has no end but these two; with the attempts of the list used up the client is as they left it.\<close>

fun retry_loop :: "(bool \<times> string option) list \<Rightarrow> 's World TransportClient \<Rightarrow> 's World TransportClient" where
  "retry_loop [] c = c"
| "retry_loop ((ctxDone, dial) # attempts) c =
     (if ctxDone then c
      else (case client_Start dial c of (None, c') \<Rightarrow> c' | (Some err, c') \<Rightarrow> retry_loop attempts c'))"

definition Transport_Start :: "(string \<Rightarrow> string \<Rightarrow> string) \<Rightarrow> job_decoder \<Rightarrow> (string \<Rightarrow> string) \<Rightarrow> (string \<Rightarrow> string) \<Rightarrow> string option \<Rightarrow>
    (bool \<times> string option) list \<Rightarrow> 's TransportRunner \<Rightarrow> 's TransportRunner" where
  "Transport_Start D decodeJob jsonError getenv dial attempts r =
     (case prepare_client D decodeJob jsonError getenv r of
        Inl err \<Rightarrow> r
      | Inr client \<Rightarrow>
          (case client_Start dial client of
             (None, c') \<Rightarrow> r\<lparr>tr_client := Some c'\<rparr>
           | (Some err, c') \<Rightarrow> r\<lparr>tr_client := Some (retry_loop attempts c')\<rparr>))"

definition Transport_Close :: "'s TransportRunner \<Rightarrow> string option \<times> 's TransportRunner" where
  "Transport_Close r = (None, r\<lparr>tr_client := map_option client_Shutdown (tr_client r)\<rparr>)"

definition IsConnected :: "'s TransportRunner \<Rightarrow> bool" where
  "IsConnected r = (case tr_client r of None \<Rightarrow> False | Some c \<Rightarrow> client_IsStarted c)"

text \<open>The message that \<open>sendOnlineMessage\<close> sends when the client is started.\<close>

definition online_message :: "CollectorConfig \<Rightarrow> Message" where
  "online_message cfg =
     (let identity = collector_identity cfg; mode = (if Cfg_Mode cfg = [] then DefaultMode else Cfg_Mode cfg) in
      \<lparr>Msg_Identity = identity, Msg_Direction = Direction_REQUEST, Msg_Type = MessageTypeGoOnline,
       Msg_Msg = json_print_obj [(''ip'', []), (''mode'', mode), (''name'', identity), (''version'', ''1.0.0'')]\<rparr>)"

definition sendOnlineMessage :: "'s TransportRunner \<Rightarrow> Message option" where
  "sendOnlineMessage r = (if IsConnected r then Some (online_message (tr_cfg r)) else None)"

subsection \<open>Properties\<close>

lemma client_Start_ok: "client_Start dial c = (None, c') \<Longrightarrow> client_IsStarted c'"
  by (cases c) (auto simp: grpc_Start_def netty_Start_def grpc_triggerEvent_def IsStarted_def Let_def split: if_splits option.splits)

lemma client_Start_ok': "client_Start None c = (e, c') \<Longrightarrow> e = None"
  by (cases c) (auto simp: grpc_Start_def netty_Start_def Let_def split: if_splits)

lemma retry_loop_connects:
  "(\<forall>a \<in> set as. \<not> fst a) \<Longrightarrow> client_IsStarted (retry_loop (as @ (False, None) # bs) c)"
proof (induction as arbitrary: c)
  case Nil
  obtain e c' where c: "client_Start None c = (e, c')" by fastforce
  from client_Start_ok' [OF c] c have "client_Start None c = (None, c')" by simp
  with client_Start_ok [OF this] show ?case by simp
next
  case (Cons a as)
  obtain x d where a: "a = (x, d)" by (cases a)
  obtain e c' where c: "client_Start d c = (e, c')" by fastforce
  show ?case
  proof (cases e)
    case None
    with c Cons.prems client_Start_ok [of d c c'] show ?thesis by (simp add: a)
  next
    case (Some err)
    with c Cons show ?thesis by (simp add: a)
  qed
qed

text \<open>C27: the transport connects in the end. With a supported protocol, whatever the number of failed attempts before, the first attempt that
  succeeds while the context is not done leaves a started client, and from then on the online message can be sent.\<close>

theorem transport_connects:
  assumes "manager_protocol getenv (tr_cfg r) \<in> {''grpc'', ''netty''}" and "\<forall>a \<in> set as. \<not> fst a"
  shows "IsConnected (Transport_Start D decodeJob jsonError getenv dial (as @ (False, None) # bs) r) \<and>
    sendOnlineMessage (Transport_Start D decodeJob jsonError getenv dial (as @ (False, None) # bs) r) = Some (online_message (tr_cfg r))"
proof -
  obtain client where p: "prepare_client D decodeJob jsonError getenv r = Ok client"
    using assms(1) by (auto simp: prepare_client_def CreateClient_def)
  obtain e c' where c: "client_Start dial client = (e, c')" by fastforce
  have "IsConnected (Transport_Start D decodeJob jsonError getenv dial (as @ (False, None) # bs) r)"
  proof (cases e)
    case None
    with p c client_Start_ok [of dial client c'] show ?thesis by (simp add: Transport_Start_def IsConnected_def)
  next
    case (Some err)
    with p c retry_loop_connects [OF assms(2), of bs c'] show ?thesis by (simp add: Transport_Start_def IsConnected_def)
  qed
  moreover have "tr_cfg (Transport_Start D decodeJob jsonError getenv dial (as @ (False, None) # bs) r) = tr_cfg r"
    by (simp add: Transport_Start_def split: sum.split prod.split option.split)
  ultimately show ?thesis by (simp add: sendOnlineMessage_def)
qed

text \<open>C28: a configuration file without a protocol gives a collector that never connects. When the program starts with the configuration of a file that sets no
  protocol, and no client exists yet, the defaults of the loader have set it to \<open>http\<close>, for which no client exists; so neither the environment variable nor the default of the
  transport is used, and no client is ever created.\<close>

theorem default_protocol_never_connects:
  assumes "getConfigByPath fs yaml path = Ok cfg"
    and "fs_ReadFile fs (case fs_EvalSymlinks fs path of None \<Rightarrow> path | Some target \<Rightarrow> target) = Ok content"
    and "yaml content = Ok raw" and "Mgr_Protocol (Cfg_Manager raw) = []" and "tr_cfg r = cfg" and "tr_client r = None"
  shows "manager_protocol getenv cfg = ''http'' \<and> \<not> IsConnected (Transport_Start D decodeJob jsonError getenv dial attempts r)"
proof -
  from assms(1-4) have "Mgr_Protocol (Cfg_Manager cfg) = ''http''"
    by (auto simp: getConfigByPath_def LoadConfig_def parseConfigFile_def ValidateConfig_def applyDefaults_def Let_def
        split: if_splits sum.splits option.splits)
  then have "manager_protocol getenv cfg = ''http''" by (simp add: manager_protocol_def)
  with assms(5,6) show ?thesis
    by (simp add: Transport_Start_def prepare_client_def CreateClient_def IsConnected_def)
qed

text \<open>the online message is understood by a JSON reader: it holds the identity, the mode and the version of the collector,
  whatever characters the configuration contains.\<close>

theorem online_message_readable:
  "json_parse (Msg_Msg (online_message cfg)) =
     Some (JObj [(''ip'', JStr []), (''mode'', JStr (if Cfg_Mode cfg = [] then DefaultMode else Cfg_Mode cfg)),
                 (''name'', JStr (collector_identity cfg)), (''version'', JStr ''1.0.0'')]) \<and>
   Msg_Identity (online_message cfg) = collector_identity cfg \<and> collector_identity cfg \<noteq> []"
  by (simp add: online_message_def json_parse_print_obj collector_identity_def DefaultIdentity_def Let_def)

theorem transport_connects_witness:
  "IsConnected (Transport_Start (\<lambda>k b. b) (\<lambda>s h. Inl []) (\<lambda>s. []) (\<lambda>v. []) (Some ''refused'') [(False, Some ''refused''), (False, None)]
     (New_Transport (cfg_ex\<lparr>Cfg_Manager := \<lparr>Mgr_Host = ''m'', Mgr_Port = ''1158'', Mgr_Protocol = ''netty''\<rparr>\<rparr>) :: unit TransportRunner))"
  using transport_connects [of "\<lambda>v. []" "New_Transport (cfg_ex\<lparr>Cfg_Manager := \<lparr>Mgr_Host = ''m'', Mgr_Port = ''1158'', Mgr_Protocol = ''netty''\<rparr>\<rparr>) :: unit TransportRunner"
      "[(False, Some ''refused'')]" "\<lambda>k b. b" "\<lambda>s h. Inl []" "\<lambda>s. []" "Some ''refused''" "[]"]
  by (simp add: manager_protocol_def New_Transport_def)

theorem default_protocol_never_connects_witness:
  "\<not> IsConnected (Transport_Start (\<lambda>k b. b) (\<lambda>s h. Inl []) (\<lambda>s. []) (\<lambda>v. ''netty'') None [(False, None)]
     (New_Transport (applyDefaults cfg_ex) :: unit TransportRunner))"
  using default_protocol_never_connects [OF get_config_ex, of "''yaml''" cfg_ex "New_Transport (applyDefaults cfg_ex) :: unit TransportRunner" "\<lambda>v. ''netty''"]
  by (simp add: New_Transport_def cfg_ex_def fs_ex_def)

end
