(* ===== verification/Message_Routers.thy ===== *)
theory Message_Routers
  imports Transport Common_Dispatcher
begin

text \<open>
  The routers that send results to the manager: \<open>job/collect/lazy_message_router.go\<close>, which the program uses, and
  \<open>job/router/message_router.go\<close>, together with the older \<open>util/arrow/arrow_serializer.go\<close>. The Arrow library is a
  parameter: it turns a record (schema, metadata and columns of strings) into the bytes of a stream.
\<close>

subsection \<open>Arrow records\<close>

record ArrowField =
  af_Name :: string
  af_Nullable :: bool
  af_Metadata :: gomap

record ArrowRecord =
  ar_Fields :: "ArrowField list"
  ar_Metadata :: gomap
  ar_Columns :: "string list list"
  ar_Rows :: nat

definition arrow_field :: "Field \<Rightarrow> ArrowField" where
  "arrow_field field = \<lparr>af_Name = Field_Field field, af_Nullable = True,
     af_Metadata = [(''type'', FormatInt (Field_Type field)), (''label'', if Field_Label field then ''true'' else ''false''), (''unit'', Field_Unit field)]\<rparr>"

text \<open>The value appended to the builder of column \<open>i\<close> for row \<open>r\<close>.\<close>

definition arrow_cell :: "CollectRepMetricsData \<Rightarrow> nat \<Rightarrow> nat \<Rightarrow> string" where
  "arrow_cell d i r =
     (if r < length (R_Values d) then
        (let cols = Columns (R_Values d ! r) in if i < length cols then cols ! i else [])
      else [])"

definition createArrowRecordBatch :: "CollectRepMetricsData \<Rightarrow> ArrowRecord" where
  "createArrowRecordBatch d =
     (let rowCount = (if R_Values d = [] then 1 else length (R_Values d)) in
      \<lparr>ar_Fields = map arrow_field (R_Fields d),
       ar_Metadata = [(''id'', FormatInt (sint (R_ID d))), (''tenantId'', FormatInt (sint (R_TenantID d))), (''app'', R_App d),
         (''metrics'', R_Metrics d), (''priority'', FormatInt (sint (R_Priority d))), (''time'', FormatInt (sint (R_Time d))),
         (''labels'', []), (''annotations'', [])],
       ar_Columns = map (\<lambda>i. map (arrow_cell d i) [0..<rowCount]) [0..<length (R_Fields d)],
       ar_Rows = rowCount\<rparr>)"

text \<open>\<open>binary.Write\<close> of an \<open>int32\<close>, big endian.\<close>

definition big_endian :: "int32 \<Rightarrow> string" where
  "big_endian n = map (\<lambda>k. char_of (unat (drop_bit k n) mod 256)) [24, 16, 8, 0]"

text \<open>Writing the record and closing the writer fail separately.\<close>

datatype ipc_error = WriteFailed string | CloseFailed string

type_synonym ipc_encoder = "ArrowRecord \<Rightarrow> ipc_error + string"

fun write_streams :: "ipc_encoder \<Rightarrow> nat \<Rightarrow> CollectRepMetricsData list \<Rightarrow> string result" where
  "write_streams encode i [] = Ok []"
| "write_streams encode i (d # ds) =
     (case encode (createArrowRecordBatch d) of
        Inl (WriteFailed err) \<Rightarrow> Err (''failed to write record batch '' @ show_nat i @ '': '' @ err)
      | Inl (CloseFailed err) \<Rightarrow> Err (''failed to close writer for batch '' @ show_nat i @ '': '' @ err)
      | Inr stream \<Rightarrow> (case write_streams encode (Suc i) ds of Inl err \<Rightarrow> Inl err | Inr rest \<Rightarrow> Ok (stream @ rest)))"

definition serializeToArrow :: "ipc_encoder \<Rightarrow> CollectRepMetricsData list \<Rightarrow> string result" where
  "serializeToArrow encode dataList =
     (case write_streams encode 0 dataList of Inl err \<Rightarrow> Inl err
      | Inr streams \<Rightarrow> Ok (big_endian (word_of_nat (length dataList)) @ streams))"

subsection \<open>The lazy router\<close>

text \<open>The network of a client: the libraries, and the answers to the calls of this operation.\<close>

record Network =
  nw_marshal :: "Message \<Rightarrow> string + byte list"
  nw_compress :: "byte list \<Rightarrow> byte list"
  nw_env :: NetEnv
  nw_rpc :: "string + Message"

fun client_SendMsg :: "Network \<Rightarrow> Message \<Rightarrow> 's World TransportClient \<Rightarrow> (string option \<times> 's World TransportClient) outcome" where
  "client_SendMsg nw msg (Netty c) = Inr (map_prod id Netty (netty_SendMsg (nw_marshal nw) (nw_compress nw) (nw_env nw) (Some msg) c))"
| "client_SendMsg nw msg (Grpc c) = (case grpc_SendMsg (nw_rpc nw) (Some msg) c of Inl p \<Rightarrow> Inl p | Inr err \<Rightarrow> Inr (err, Grpc c))"

definition NewLazyMessageRouter :: "string \<Rightarrow> string" where
  "NewLazyMessageRouter identity = (if identity = [] then ''collector-go'' else identity)"

definition result_message :: "string \<Rightarrow> Job \<Rightarrow> string \<Rightarrow> Message" where
  "result_message identity job dataBytes =
     \<lparr>Msg_Identity = identity, Msg_Direction = Direction_RESPONSE,
      Msg_Type = (if J_IsCyclic job then MessageTypeResponseCyclicTaskData else MessageTypeResponseOneTimeTaskData), Msg_Msg = dataBytes\<rparr>"

definition sendResultDirectly :: "ipc_encoder \<Rightarrow> Network \<Rightarrow> string \<Rightarrow> CollectRepMetricsData \<Rightarrow> Job \<Rightarrow>
    's World TransportClient \<Rightarrow> (string option \<times> 's World TransportClient) outcome" where
  "sendResultDirectly encode nw identity d job client =
     (case serializeToArrow encode [d] of
        Inl err \<Rightarrow> Inr (Some (''failed to create arrow format: '' @ err), client)
      | Inr dataBytes \<Rightarrow>
          (case client_SendMsg nw (result_message identity job dataBytes) client of
             Inl p \<Rightarrow> Inl p
           | Inr (Some err, client') \<Rightarrow> Inr (Some (''failed to send metrics data: '' @ err), client')
           | Inr (None, client') \<Rightarrow> Inr (None, client')))"

definition lazy_SendResult :: "ipc_encoder \<Rightarrow> Network \<Rightarrow> string \<Rightarrow> CollectRepMetricsData \<Rightarrow> Job \<Rightarrow>
    's TransportRunner \<Rightarrow> (string option \<times> 's TransportRunner) outcome" where
  "lazy_SendResult encode nw identity d job r =
     (case tr_client r of
        None \<Rightarrow> Inr (Some ''transport client not ready'', r)
      | Some client \<Rightarrow>
          if \<not> client_IsStarted client then Inr (Some ''transport client not ready'', r)
          else (case sendResultDirectly encode nw identity d job client of
                  Inl p \<Rightarrow> Inl p | Inr (err, client') \<Rightarrow> Inr (err, r\<lparr>tr_client := Some client'\<rparr>)))"

subsection \<open>The message router\<close>

text \<open>The other router, which registers processors of its own and sends JSON.\<close>

definition handleIssueCyclicTask :: "job_decoder \<Rightarrow> string \<Rightarrow> 's JobScheduler \<Rightarrow> 's World ProcessorFunc" where
  "handleIssueCyclicTask decodeJob identity jobRunner msg w =
     (let answer = (\<lambda>txt w. \<lparr>pr_response = reply MessageTypeIssueCyclicTask (msg\<lparr>Msg_Identity := identity\<rparr>) txt, pr_actions = [], pr_world = w\<rparr>) in
      case decodeJob (Msg_Msg msg) (wd_heap w) of
        Inl err \<Rightarrow> answer ''failed to unmarshal job'' w
      | Inr (job, h) \<Rightarrow>
          (case js_AddAsyncCollectJob jobRunner job (wd_sched w) of
             (Some err, s) \<Rightarrow> answer (''failed to add job: '' @ err) (w\<lparr>wd_heap := h, wd_sched := s\<rparr>)
           | (None, s) \<Rightarrow> answer ''job added successfully'' (w\<lparr>wd_heap := h, wd_sched := s\<rparr>)))"

definition handleDeleteCyclicTask :: "string \<Rightarrow> 's JobScheduler \<Rightarrow> 's World ProcessorFunc" where
  "handleDeleteCyclicTask identity jobRunner msg w =
     (let answer = (\<lambda>txt w. \<lparr>pr_response = reply MessageTypeDeleteCyclicTask (msg\<lparr>Msg_Identity := identity\<rparr>) txt, pr_actions = [], pr_world = w\<rparr>) in
      case Option.bind (json_parse (Msg_Msg msg)) decode_int64s of
        None \<Rightarrow> answer ''failed to unmarshal job IDs'' w
      | Some jobIDs \<Rightarrow>
          answer ''jobs removed successfully''
            (w\<lparr>wd_sched := foldl (\<lambda>s jobID. snd (js_RemoveAsyncCollectJob jobRunner jobID s)) (wd_sched w) jobIDs\<rparr>))"

definition handleIssueOneTimeTask :: "job_decoder \<Rightarrow> string \<Rightarrow> 's JobScheduler \<Rightarrow> 's World ProcessorFunc" where
  "handleIssueOneTimeTask decodeJob identity jobRunner msg w =
     (let answer = (\<lambda>txt w. \<lparr>pr_response = reply MessageTypeIssueOneTimeTask (msg\<lparr>Msg_Identity := identity\<rparr>) txt, pr_actions = [], pr_world = w\<rparr>) in
      case decodeJob (Msg_Msg msg) (wd_heap w) of
        Inl err \<Rightarrow> answer ''failed to unmarshal job'' w
      | Inr (job, h) \<Rightarrow>
          (case js_AddAsyncCollectJob jobRunner (job\<lparr>J_IsCyclic := False\<rparr>) (wd_sched w) of
             (Some err, s) \<Rightarrow> answer (''failed to add one-time job: '' @ err) (w\<lparr>wd_heap := h, wd_sched := s\<rparr>)
           | (None, s) \<Rightarrow> answer ''one-time job added successfully'' (w\<lparr>wd_heap := h, wd_sched := s\<rparr>)))"

definition RegisterProcessors :: "job_decoder \<Rightarrow> string \<Rightarrow> 's JobScheduler \<Rightarrow> 's World TransportClient option \<Rightarrow> 's World TransportClient option" where
  "RegisterProcessors decodeJob identity jobRunner client =
     (let regs = [(MessageTypeIssueCyclicTask, handleIssueCyclicTask decodeJob identity jobRunner),
                  (MessageTypeDeleteCyclicTask, handleDeleteCyclicTask identity jobRunner),
                  (MessageTypeIssueOneTimeTask, handleIssueOneTimeTask decodeJob identity jobRunner)]
      in case client of None \<Rightarrow> None
         | Some (Netty c) \<Rightarrow> Some (Netty (foldl (\<lambda>c (ty, f). RegisterProcessor ty f c) c regs))
         | Some (Grpc c) \<Rightarrow> Some (Grpc (foldl (\<lambda>c (ty, f). grpc_RegisterProcessor ty f c) c regs)))"

text \<open>\<open>marshalData\<close> is the JSON text of the list with the data.\<close>

definition router_SendResult :: "(CollectRepMetricsData \<Rightarrow> string result) \<Rightarrow> Network \<Rightarrow> string \<Rightarrow> CollectRepMetricsData \<Rightarrow> Job \<Rightarrow>
    's World TransportClient option \<Rightarrow> (string option \<times> 's World TransportClient option) outcome" where
  "router_SendResult marshalData nw identity d job client =
     (case client of None \<Rightarrow> Inr (Some ''transport client not started'', client)
      | Some c \<Rightarrow>
          if \<not> client_IsStarted c then Inr (Some ''transport client not started'', client)
          else (case marshalData d of
                  Inl err \<Rightarrow> Inr (Some (''failed to marshal metrics data: '' @ err), client)
                | Inr dataBytes \<Rightarrow>
                    (case client_SendMsg nw (result_message identity job dataBytes) c of
                       Inl p \<Rightarrow> Inl p
                     | Inr (Some err, c') \<Rightarrow> Inr (Some (''failed to send metrics data: '' @ err), Some c')
                     | Inr (None, c') \<Rightarrow> Inr (None, Some c'))))"

subsection \<open>The older serializer\<close>

record ArrowData =
  ad_id :: int64
  ad_tenantId :: int64
  ad_app :: string
  ad_metrics :: string
  ad_priority :: int64
  ad_time :: int64
  ad_code :: int
  ad_msg :: string
  ad_columns :: "((string \<times> string list) list \<times> nat) option"

definition add_column_value :: "Field list \<Rightarrow> (string \<times> string list) list \<Rightarrow> nat \<times> string \<Rightarrow> (string \<times> string list) list" where
  "add_column_value fs m = (\<lambda>(i, v). if i < length fs then
     map_put (Field_Field (fs ! i)) ((case map_of m (Field_Field (fs ! i)) of None \<Rightarrow> [] | Some vs \<Rightarrow> vs) @ [v]) m else m)"

definition arrow_data :: "CollectRepMetricsData \<Rightarrow> ArrowData" where
  "arrow_data d = \<lparr>ad_id = R_ID d, ad_tenantId = R_TenantID d, ad_app = R_App d, ad_metrics = R_Metrics d, ad_priority = R_Priority d,
     ad_time = R_Time d, ad_code = R_Code d, ad_msg = R_Msg d,
     ad_columns = (if R_Values d = [] then None
       else Some (foldl (\<lambda>m row. foldl (add_column_value (R_Fields d)) m (enumerate 0 (Columns row))) [] (R_Values d), length (R_Values d)))\<rparr>"

definition little_endian :: "32 word \<Rightarrow> string" where
  "little_endian n = map (\<lambda>k. char_of (unat (drop_bit k n) mod 256)) [0, 8, 16, 24]"

definition createArrowLikeBinary :: "string \<Rightarrow> string" where
  "createArrowLikeBinary jsonData =
     ''ARROW1'' @ [CHR 0x00, CHR 0x00] @ little_endian 0 @ little_endian (word_of_nat (length jsonData)) @ jsonData"

definition SerializeMetricsData :: "(ArrowData list \<Rightarrow> string result) \<Rightarrow> CollectRepMetricsData list \<Rightarrow> string result" where
  "SerializeMetricsData marshal dataList =
     (if dataList = [] then Err ''empty data list''
      else (case marshal (map arrow_data dataList) of
              Inl err \<Rightarrow> Err (''failed to serialize arrow-compatible data: '' @ err)
            | Inr jsonBytes \<Rightarrow> Ok (createArrowLikeBinary jsonBytes)))"

definition FallbackToJSON :: "(CollectRepMetricsData list \<Rightarrow> string result) \<Rightarrow> CollectRepMetricsData list \<Rightarrow> string result" where
  "FallbackToJSON marshal dataList =
     (case marshal dataList of Inl err \<Rightarrow> Err (''failed to serialize to JSON: '' @ err) | Inr jsonBytes \<Rightarrow> Ok jsonBytes)"

subsection \<open>Properties\<close>

text \<open>C29: the Arrow record of calculated data is the table of the data. It has one column per field of the metric, in their order and
  with their names, every column has one entry per row, and the entries are the calculated values; data without rows gives one row, in which every
  entry is empty.\<close>

theorem arrow_record_is_table:
  assumes "CalculateFields compile run (Some metrics) (Some res) = Some d" and "rec = createArrowRecordBatch d"
  shows "map af_Name (ar_Fields rec) = map Field_Field (M_Fields metrics) \<and> length (ar_Columns rec) = length (M_Fields metrics) \<and>
    (\<forall>col \<in> set (ar_Columns rec). length col = ar_Rows rec) \<and> ar_Rows rec = max 1 (length (R_Values d)) \<and>
    (\<forall>r < length (R_Values d). \<forall>i < length (M_Fields metrics). ar_Columns rec ! i ! r = Columns (R_Values d ! r) ! i) \<and>
    (R_Values d = [] \<longrightarrow> ar_Columns rec = replicate (length (M_Fields metrics)) [[]])"
proof -
  have f: "R_Fields d = M_Fields metrics"
    using assms(1) by (auto simp: CalculateFields_def Let_def split: if_splits)
  have c: "length (Columns row) = length (M_Fields metrics)" if "row \<in> set (R_Values d)" for row
    using assms(1) that by (auto simp: CalculateFields_def Let_def split: if_splits)
  have "R_Values d = [] \<longrightarrow> ar_Columns rec = replicate (length (M_Fields metrics)) [[]]"
    by (simp add: assms(2) createArrowRecordBatch_def f arrow_cell_def map_replicate_trivial)
  then show ?thesis
    using c by (auto simp: assms(2) createArrowRecordBatch_def f arrow_field_def arrow_cell_def Let_def max_def Suc_le_eq)
qed

text \<open>a result is sent exactly when the client is started and encoding and writing succeed; then one message, of the type that belongs to
  the kind of the job and under the identity of the collector, is appended to what the Netty client has written. In all other cases the
  error is reported and nothing is written.\<close>

theorem lazy_router_sends:
  assumes "tr_client r = Some (Netty c)" and "nc_started c \<longrightarrow> nc_conn c \<noteq> None" and "nw_env nw = net_ok"
    and "lazy_SendResult encode nw identity d job r = Inr (err, r')"
  shows "\<exists>c'. tr_client r' = Some (Netty c') \<and>
    (if err = None
     then \<exists>s p. serializeToArrow encode [d] = Ok s \<and> nw_marshal nw (result_message identity job s) = Inr p \<and>
            nc_wire c' = nc_wire c @ nw_compress nw (frame p)
     else nc_wire c' = nc_wire c)"
  using assms
  by (auto simp: lazy_SendResult_def sendResultDirectly_def netty_SendMsg_def writeMessage_def net_ok_def IsStarted_def Let_def
      split: if_splits sum.splits option.splits)

theorem arrow_record_is_table_witness:
  "let rec = createArrowRecordBatch (the (CalculateFields compile_ex run_ex (Some metrics_ex) (Some data_ex)))
   in length (ar_Columns rec) = 2 \<and> map af_Name (ar_Fields rec) = map Field_Field (M_Fields metrics_ex)"
proof -
  obtain d where d: "CalculateFields compile_ex run_ex (Some metrics_ex) (Some data_ex) = Some d"
    using CalculateFields_total by blast
  from arrow_record_is_table [OF this refl] show ?thesis by (simp add: d Let_def)
qed

definition network_ex :: Network where
  "network_ex = \<lparr>nw_marshal = marshal_ex, nw_compress = id, nw_env = net_ok, nw_rpc = Inl []\<rparr>"

definition runner_ex :: "unit TransportRunner" where
  "runner_ex = \<lparr>tr_client = Some (Netty (snd (netty_Start None (NewNettyClient ''manager:1158'')))), tr_jobScheduler = None, tr_cfg = cfg_ex\<rparr>"

theorem lazy_router_sends_witness:
  "\<exists>r' c'. lazy_SendResult (\<lambda>rec. Inr ''stream'') network_ex ''collector-go'' data_ex Job0 runner_ex = Inr (None, r') \<and>
     tr_client r' = Some (Netty c') \<and> nc_wire c' = frame [7]"
proof -
  let ?c = "snd (netty_Start None (NewNettyClient ''manager:1158'')) :: unit World NettyClient"
  have c: "nc_started ?c" "nc_conn ?c = Some Open" "nc_wire ?c = []"
    by (simp_all add: netty_Start_def NewNettyClient_def triggerEvent_def)
  obtain r' where r': "lazy_SendResult (\<lambda>rec. Inr ''stream'') network_ex ''collector-go'' data_ex Job0 runner_ex = Inr (None, r')"
    using c by (auto simp: lazy_SendResult_def runner_ex_def sendResultDirectly_def serializeToArrow_def network_ex_def netty_SendMsg_def
        writeMessage_def net_ok_def marshal_ex_def IsStarted_def)
  from lazy_router_sends [OF _ _ _ this, of ?c] c obtain c' where "tr_client r' = Some (Netty c')" "nc_wire c' = frame [7]"
    by (auto simp: runner_ex_def network_ex_def marshal_ex_def)
  with r' show ?thesis by blast
qed

end
