(* ===== verification/Collector_Base.thy ===== *)
theory Collector_Base
  imports Metrics_Collector
begin

text \<open>
  What the protocol collectors share: the parsers of the standard library they call for booleans and durations
  (\<open>strconv.ParseBool\<close>, \<open>time.ParseDuration\<close>), addresses, the reading of timeouts and the answers they build.
  Case mappings are those of ASCII letters, as in the theory of strings.
\<close>

subsection \<open>Standard library\<close>

definition ParseBool :: "string \<Rightarrow> bool option" where
  "ParseBool s = (if s \<in> {''1'', ''t'', ''T'', ''true'', ''TRUE'', ''True''} then Some True
     else if s \<in> {''0'', ''f'', ''F'', ''false'', ''FALSE'', ''False''} then Some False else None)"

definition JoinHostPort :: "string \<Rightarrow> string \<Rightarrow> string" where
  "JoinHostPort host port = (if CHR '':'' \<in> set host then ''['' @ host @ '']:'' @ port else host @ '':'' @ port)"

text \<open>\<open>unitMap\<close> of the package \<open>time\<close>; the two micro signs are written in UTF-8.\<close>

definition duration_units :: "(string \<times> nat) list" where
  "duration_units = [(''ns'', 1), (''us'', 1000), ([CHR 0xC2, CHR 0xB5, CHR ''s''], 1000), ([CHR 0xCE, CHR 0xBC, CHR ''s''], 1000),
     (''ms'', 1000000), (''s'', 1000000000), (''m'', 60000000000), (''h'', 3600000000000)]"

definition digits_nat :: "string \<Rightarrow> nat" where
  "digits_nat ds = foldl (\<lambda>x c. x * 10 + nat (digit_val c)) 0 ds"

text \<open>\<open>leadingFraction\<close>: digits that no longer fit are skipped.\<close>

fun fraction :: "nat \<Rightarrow> float64 \<Rightarrow> bool \<Rightarrow> string \<Rightarrow> nat \<times> float64" where
  "fraction x scale overflow [] = (x, scale)"
| "fraction x scale overflow (c # cs) =
     (if overflow \<or> (2 ^ 63 - 1) div 10 < x \<or> 2 ^ 63 < x * 10 + nat (digit_val c) then fraction x scale True cs
      else fraction (x * 10 + nat (digit_val c)) (f_mul scale (f_of_int 10)) False cs)"

definition f_trunc :: "float64 \<Rightarrow> nat" where
  "f_trunc x = nat (f_num x div f_den x)"

text \<open>One number with its unit: the value in nanoseconds and the rest.\<close>

definition duration_part :: "string \<Rightarrow> (nat \<times> string) option" where
  "duration_part s =
     (let ds = takeWhile is_digit s; s1 = dropWhile is_digit s; v = digits_nat ds;
          (fs, s2) = (case s1 of c # r \<Rightarrow> if c = CHR ''.'' then (takeWhile is_digit r, dropWhile is_digit r) else ([], s1) | [] \<Rightarrow> ([], s1));
          (f, scale) = fraction 0 (f_of_int 1) False fs;
          u = takeWhile (\<lambda>c. c \<noteq> CHR ''.'' \<and> \<not> is_digit c) s2; r = dropWhile (\<lambda>c. c \<noteq> CHR ''.'' \<and> \<not> is_digit c) s2
      in if (ds = [] \<and> fs = []) \<or> 2 ^ 63 < v then None
         else (case map_of duration_units u of None \<Rightarrow> None
           | Some unit \<Rightarrow>
               if 2 ^ 63 div unit < v then None
               else (let w = v * unit + (if 0 < f then f_trunc (f_mul (f_of_int (int f)) (f_div (f_of_int (int unit)) scale)) else 0)
                     in if 2 ^ 63 < w then None else Some (w, r))))"

lemma map_of_units_Nil: "map_of duration_units [] = None"
  by (simp add: duration_units_def)

lemma duration_part_shorter: "duration_part s = Some (w, r) \<Longrightarrow> length r < length s"
proof -
  assume a: "duration_part s = Some (w, r)"
  define s1 where "s1 = dropWhile is_digit s"
  define fs where "fs = (case s1 of c # r \<Rightarrow> if c = CHR ''.'' then takeWhile is_digit r else [] | [] \<Rightarrow> [])"
  define s2 where "s2 = (case s1 of c # r \<Rightarrow> if c = CHR ''.'' then dropWhile is_digit r else s1 | [] \<Rightarrow> s1)"
  define u where "u = takeWhile (\<lambda>c. c \<noteq> CHR ''.'' \<and> \<not> is_digit c) s2"
  have p: "(case s1 of c # r \<Rightarrow> if c = CHR ''.'' then (takeWhile is_digit r, dropWhile is_digit r) else ([], s1) | [] \<Rightarrow> ([], s1)) = (fs, s2)"
    by (simp add: fs_def s2_def split: list.splits)
  from a have "map_of duration_units u \<noteq> None" and r: "r = dropWhile (\<lambda>c. c \<noteq> CHR ''.'' \<and> \<not> is_digit c) s2"
    unfolding duration_part_def Let_def s1_def [symmetric] p u_def [symmetric] prod.case
    by (auto simp: u_def split: prod.splits if_splits option.splits)
  then have "u \<noteq> []" using map_of_units_Nil by metis
  moreover have "length s2 = length u + length r" unfolding u_def r by (metis length_append takeWhile_dropWhile_id)
  moreover have "length s2 \<le> length s1" by (auto simp: s2_def length_dropWhile_le intro: le_SucI split: list.splits)
  moreover have "length s1 \<le> length s" by (simp add: s1_def length_dropWhile_le)
  ultimately show ?thesis by (cases u) auto
qed

function duration_loop :: "nat \<Rightarrow> string \<Rightarrow> nat option" where
  "duration_loop d s =
     (if s = [] then Some d
      else (case duration_part s of None \<Rightarrow> None
        | Some (v, r) \<Rightarrow> (let d' = (d + v) mod 2 ^ 64 in if 2 ^ 63 < d' then None else duration_loop d' r)))"
  by pat_completeness auto

termination duration_loop
  by (relation "measure (\<lambda>(d, s). length s)") (auto dest: duration_part_shorter)

declare duration_loop.simps [simp del]

definition ParseDuration :: "string \<Rightarrow> duration option" where
  "ParseDuration s0 =
     (let (neg, s) = (case s0 of [] \<Rightarrow> (False, s0)
            | c # r \<Rightarrow> if c = CHR ''-'' then (True, r) else if c = CHR ''+'' then (False, r) else (False, s0))
      in if s = ''0'' then Some 0
         else if s = [] then None
         else (case duration_loop 0 s of None \<Rightarrow> None
           | Some d \<Rightarrow> if neg then Some (- word_of_nat d) else if 2 ^ 63 - 1 < d then None else Some (word_of_nat d)))"

subsection \<open>Timeouts\<close>

text \<open>The JDBC and the SSH collector have the same function.\<close>

definition getTimeout :: "string \<Rightarrow> duration" where
  "getTimeout timeoutStr =
     (if timeoutStr = [] then 30 * Second
      else (case ParseDuration timeoutStr of Some duration \<Rightarrow> duration
        | None \<Rightarrow> (case Atoi timeoutStr of Some timeout \<Rightarrow> word_of_int timeout * Millisecond | None \<Rightarrow> 30 * Second)))"

subsection \<open>Answers\<close>

definition ResponseTime :: string where "ResponseTime = ''responseTime''"
definition StatusCode :: string where "StatusCode = ''statusCode''"

text \<open>The collectors build their answers with the name of the metric, the time, a code and a message.\<close>

definition response :: "Metrics \<Rightarrow> int64 \<Rightarrow> int \<Rightarrow> string \<Rightarrow> CollectRepMetricsData" where
  "response metrics nowMilli code txt = Data0\<lparr>R_Metrics := M_Name metrics, R_Time := nowMilli, R_Code := code, R_Msg := txt\<rparr>"

lemma response_sel [simp]:
  "R_Metrics (response m t c txt) = M_Name m" "R_Time (response m t c txt) = t" "R_Code (response m t c txt) = c"
  "R_Msg (response m t c txt) = txt" "R_Fields (response m t c txt) = []" "R_Values (response m t c txt) = []"
  by (simp_all add: response_def Data0_def)

subsection \<open>Reading timeouts\<close>

lemma digit_show_nat: "c \<in> set (show_nat n) \<Longrightarrow> is_digit c"
  using show_nat_digits [of c n] by (simp add: is_digit_def less_eq_char_def)

lemma digits_nat_read: "\<forall>c \<in> set ds. is_digit c \<Longrightarrow> read_digits acc ds = Some (foldl (\<lambda>x c. x * 10 + nat (digit_val c)) acc ds)"
proof (induction ds arbitrary: acc)
  case (Cons c ds)
  then have "48 \<le> (of_char c :: nat)" "(of_char c :: nat) \<le> 57" "is_digit c"
    by (auto simp: is_digit_def less_eq_char_def)
  moreover have "(of_char c :: int) = int (of_char c)" by (simp only: of_nat_of_char)
  with calculation have "nat (digit_val c) = of_char c - 48" by (simp only: digit_val_def if_True)
  ultimately show ?case using Cons by (simp add: Let_def)
qed simp

lemma digits_nat_show: "digits_nat (show_nat n) = n"
  using digits_nat_read [of "show_nat n" 0] digit_show_nat read_digits_show_nat [of n] by (simp add: digits_nat_def)

lemma span_show_nat:
  assumes "u = [] \<or> \<not> is_digit (hd u)"
  shows "takeWhile is_digit (show_nat n @ u) = show_nat n" and "dropWhile is_digit (show_nat n @ u) = u"
  using assms digit_show_nat by (cases u; simp add: takeWhile_append dropWhile_append)+

lemma duration_part_show:
  assumes "map_of duration_units u = Some unit" and "n * unit \<le> 2 ^ 63" and "\<forall>c \<in> set u. c \<noteq> CHR ''.'' \<and> \<not> is_digit c"
  shows "duration_part (show_nat n @ u) = Some (n * unit, [])"
proof -
  from assms(1) have "u \<noteq> []" and "0 < unit"
    by (auto simp: duration_units_def split: if_splits)
  with assms(3) obtain c r where u: "u = c # r" "c \<noteq> CHR ''.''" "\<not> is_digit c" by (cases u) auto
  have "n \<le> 2 ^ 63 div unit" using assms(2) \<open>0 < unit\<close> by (simp add: less_eq_div_iff_mult_less_eq)
  moreover from this have "n \<le> 2 ^ 63" using div_le_dividend le_trans by blast
  moreover have e: "takeWhile (\<lambda>c. c \<noteq> CHR ''.'' \<and> \<not> is_digit c) u = u" "dropWhile (\<lambda>c. c \<noteq> CHR ''.'' \<and> \<not> is_digit c) u = []"
    "takeWhile is_digit (show_nat n @ u) = show_nat n" "dropWhile is_digit (show_nat n @ u) = u"
    using assms(3) u by (simp_all add: span_show_nat)
  moreover have p: "(case u of c # r \<Rightarrow> if c = CHR ''.'' then (takeWhile is_digit r, dropWhile is_digit r) else ([], u) | [] \<Rightarrow> ([], u)) = ([], u)"
    using u by simp
  ultimately show ?thesis
    unfolding duration_part_def Let_def e p prod.case fraction.simps digits_nat_show using assms(1,2) by simp
qed

lemma duration_part_bare: "duration_part (show_nat n) = None"
proof -
  have e: "takeWhile is_digit (show_nat n) = show_nat n" "dropWhile is_digit (show_nat n) = []"
    using span_show_nat [of "[]" n] by (simp_all only: append_Nil2 simp_thms)
  show ?thesis unfolding duration_part_def Let_def e by (simp add: map_of_units_Nil)
qed

lemma show_nat_start: "\<exists>c cs. show_nat n = c # cs \<and> c \<noteq> CHR ''-'' \<and> c \<noteq> CHR ''+''"
proof -
  obtain c cs where c: "show_nat n = c # cs" by (cases "show_nat n") auto
  then have "48 \<le> (of_char c :: nat)" using show_nat_digits [of c n] by simp
  then show ?thesis using c by auto
qed

lemma ParseDuration_show:
  assumes "u \<noteq> []"
  shows "ParseDuration (show_nat n @ u) = (case duration_loop 0 (show_nat n @ u) of None \<Rightarrow> None
     | Some d \<Rightarrow> if 2 ^ 63 - 1 < d then None else Some (word_of_nat d))"
proof -
  obtain c cs where c: "show_nat n = c # cs" "c \<noteq> CHR ''-''" "c \<noteq> CHR ''+''" using show_nat_start by blast
  have "c # cs @ u \<noteq> ''0''" using assms by auto
  with c show ?thesis by (auto simp: ParseDuration_def split: option.split)
qed

lemma show_nat_eq_0: "show_nat n = ''0'' \<longleftrightarrow> n = 0"
proof
  assume "show_nat n = ''0''"
  then have "read_digits 0 (show_nat n) = Some 0" by simp
  then show "n = 0" by (simp add: read_digits_show_nat)
next
  have "show_nat 0 = ''0''" by code_simp
  moreover assume "n = 0"
  ultimately show "show_nat n = ''0''" by simp
qed

lemma ParseDuration_bare: "ParseDuration (show_nat n) = (if n = 0 then Some 0 else None)"
proof -
  obtain c cs where c: "show_nat n = c # cs" "c \<noteq> CHR ''-''" "c \<noteq> CHR ''+''" using show_nat_start by blast
  have "duration_loop 0 (show_nat n) = None" by (subst duration_loop.simps) (simp add: duration_part_bare)
  then show ?thesis using c show_nat_eq_0 [of n] by (simp add: ParseDuration_def)
qed

text \<open>C38: a timeout is read in either of two ways. A number alone is milliseconds and a number with a unit the duration it says, as
  long as it is below 2^63 nanoseconds (292 years); an empty text is 30 seconds.\<close>

theorem timeout_is_read:
  "getTimeout [] = 30 * Second \<and>
   (int n < 2 ^ 63 \<longrightarrow> getTimeout (show_nat n) = word_of_nat n * Millisecond) \<and>
   (map_of duration_units u = Some unit \<longrightarrow> n * unit < 2 ^ 63 \<longrightarrow> getTimeout (show_nat n @ u) = word_of_nat (n * unit))"
proof (intro conjI impI)
  show "getTimeout [] = 30 * Second" by (simp add: getTimeout_def)
  show "getTimeout (show_nat n) = word_of_nat n * Millisecond" if "int n < 2 ^ 63"
    using that Atoi_show_nat [of n] by (simp add: getTimeout_def ParseDuration_bare in_int64_def)
  assume u: "map_of duration_units u = Some unit" and n: "n * unit < 2 ^ 63"
  then have "u \<noteq> []" "\<forall>c \<in> set u. c \<noteq> CHR ''.'' \<and> \<not> is_digit c"
    by (auto simp: duration_units_def is_digit_def less_eq_char_def split: if_splits)
  moreover from this u n have "duration_part (show_nat n @ u) = Some (n * unit, [])" by (simp add: duration_part_show)
  then have "duration_loop 0 (show_nat n @ u) = Some (n * unit)"
    using n by (subst duration_loop.simps) (simp add: Let_def duration_loop.simps [of _ "[]"])
  ultimately show "getTimeout (show_nat n @ u) = word_of_nat (n * unit)"
    using n by (simp add: getTimeout_def ParseDuration_show)
qed

theorem timeout_is_read_witness: "getTimeout (show_nat 10 @ ''s'') = 10000000000 \<and> getTimeout (show_nat 500) = 500 * Millisecond"
  using timeout_is_read [of 10 "''s''" 1000000000] timeout_is_read [of 500 "''s''" 1000000000] by (simp add: duration_units_def)

end
