(* ===== verification/SSH_Collector.thy ===== *)
theory SSH_Collector
  imports Collector_Base
begin

text \<open>
  The SSH collector (\<open>protocol/basic/ssh/ssh_collector.go\<close>) and the connection helpers it shares with the Redis
  collector (\<open>util/ssh/ssh_helper.go\<close>). The key formats, the network and the remote shell are parameters; which
  connections are open is part of the state.
\<close>

subsection \<open>Authentication\<close>

datatype 'k AuthMethod = PublicKeys 'k | PasswordAuth string

record 'k ClientConfig =
  cc_User :: string
  cc_Auth :: "'k AuthMethod"
  cc_Timeout :: duration

text \<open>The libraries for keys: decoding of a PEM block into its type and bytes, the formats, and signers.\<close>

record ('r, 'k) KeyLib =
  kl_Decode :: "string \<Rightarrow> (string \<times> string) option"
  kl_ParsePKCS1PrivateKey :: "string \<Rightarrow> 'r result"
  kl_ParsePKCS8PrivateKey :: "string \<Rightarrow> 'r result"
  kl_ParseECPrivateKey :: "string \<Rightarrow> 'r result"
  kl_ParseRawPrivateKey :: "string \<Rightarrow> 'r result"
  kl_NewSignerFromKey :: "'r \<Rightarrow> 'k result"

definition ParsePrivateKey :: "('r, 'k) KeyLib \<Rightarrow> string \<Rightarrow> 'k result" where
  "ParsePrivateKey lib privateKeyStr =
     (case kl_Decode lib privateKeyStr of
        None \<Rightarrow> Err ''failed to decode PEM block from private key''
      | Some (ty, bytes) \<Rightarrow>
          (let parsed = (if ty = ''RSA PRIVATE KEY'' then Some (kl_ParsePKCS1PrivateKey lib bytes)
                 else if ty = ''PRIVATE KEY'' then Some (kl_ParsePKCS8PrivateKey lib bytes)
                 else if ty = ''EC PRIVATE KEY'' then Some (kl_ParseECPrivateKey lib bytes)
                 else if ty = ''OPENSSH PRIVATE KEY'' then Some (kl_ParseRawPrivateKey lib privateKeyStr) else None)
           in case parsed of
                None \<Rightarrow> Err (''unsupported private key type: '' @ ty)
              | Some (Inl err) \<Rightarrow> Err (''failed to parse private key: '' @ err)
              | Some (Inr key) \<Rightarrow>
                  (case kl_NewSignerFromKey lib key of
                     Inl err \<Rightarrow> Err (''failed to create signer from private key: '' @ err) | Inr signer \<Rightarrow> Ok signer)))"

definition CreateSSHClientConfig :: "('r, 'k) KeyLib \<Rightarrow> SSHProtocol \<Rightarrow> 'k ClientConfig result" where
  "CreateSSHClientConfig lib config =
     (if SSH_PrivateKey config \<noteq> [] \<and> TrimSpace (SSH_PrivateKey config) \<noteq> [] then
        (case ParsePrivateKey lib (SSH_PrivateKey config) of
           Inl err \<Rightarrow> Err (''failed to parse private key: '' @ err)
         | Inr signer \<Rightarrow> Ok \<lparr>cc_User = SSH_Username config, cc_Auth = PublicKeys signer, cc_Timeout = 0\<rparr>)
      else if SSH_Password config \<noteq> [] then
        Ok \<lparr>cc_User = SSH_Username config, cc_Auth = PasswordAuth (SSH_Password config), cc_Timeout = 0\<rparr>
      else Err ''either password or private key must be provided'')"

definition createProxyClientConfig :: "('r, 'k) KeyLib \<Rightarrow> SSHProtocol \<Rightarrow> 'k ClientConfig result" where
  "createProxyClientConfig lib config =
     (if SSH_ProxyPrivateKey config \<noteq> [] \<and> TrimSpace (SSH_ProxyPrivateKey config) \<noteq> [] then
        (case ParsePrivateKey lib (SSH_ProxyPrivateKey config) of
           Inl err \<Rightarrow> Err (''failed to parse proxy private key: '' @ err)
         | Inr signer \<Rightarrow> Ok \<lparr>cc_User = SSH_ProxyUsername config, cc_Auth = PublicKeys signer, cc_Timeout = 0\<rparr>)
      else if SSH_ProxyPassword config \<noteq> [] then
        Ok \<lparr>cc_User = SSH_ProxyUsername config, cc_Auth = PasswordAuth (SSH_ProxyPassword config), cc_Timeout = 0\<rparr>
      else Err ''either proxy password or proxy private key must be provided'')"

subsection \<open>Connections\<close>

text \<open>A connection goes to an address directly or from one address to another. What the network answers: the errors of
  dialling, of the handshake, of dialling through a client and of opening a session, and the run of a script, with its output, its
  error output and its error.\<close>

datatype link = Tcp string | Through string string

record 'k SshNet =
  sn_Dial :: "string \<Rightarrow> string option"
  sn_Handshake :: "string \<Rightarrow> 'k ClientConfig \<Rightarrow> string option"
  sn_DialThrough :: "string \<Rightarrow> string \<Rightarrow> string option"
  sn_NewSession :: "string option"
  sn_Run :: "string \<Rightarrow> string \<times> string \<times> string option"

definition DialWithContext :: "'k SshNet \<Rightarrow> string \<Rightarrow> 'k ClientConfig \<Rightarrow> link list \<Rightarrow> link result \<times> link list" where
  "DialWithContext net addr config st =
     (case sn_Dial net addr of
        Some err \<Rightarrow> (Err err, st)
      | None \<Rightarrow>
          (let st1 = Tcp addr # st in
           case sn_Handshake net addr config of
             Some err \<Rightarrow> (Err err, remove1 (Tcp addr) st1)
           | None \<Rightarrow> (Ok (Tcp addr), st1)))"

definition dialViaProxy :: "('r, 'k) KeyLib \<Rightarrow> 'k SshNet \<Rightarrow> SSHProtocol \<Rightarrow> 'k ClientConfig \<Rightarrow> link list \<Rightarrow> link result \<times> link list" where
  "dialViaProxy lib net config targetConfig st =
     (case createProxyClientConfig lib config of
        Inl err \<Rightarrow> (Err (''failed to create proxy client config: '' @ err), st)
      | Inr proxyConfig0 \<Rightarrow>
          (let timeout = cc_Timeout targetConfig;
               proxyConfig = (if 0 < sint timeout then proxyConfig0\<lparr>cc_Timeout := timeout\<rparr> else proxyConfig0);
               proxyAddress = JoinHostPort (SSH_ProxyHost config) (SSH_ProxyPort config);
               targetAddress = JoinHostPort (SSH_Host config) (SSH_Port config)
           in case sn_Dial net proxyAddress of
                Some err \<Rightarrow> (Err (''failed to connect to proxy server '' @ proxyAddress @ '': '' @ err), st)
              | None \<Rightarrow>
                  (let st1 = Tcp proxyAddress # st in
                   case sn_Handshake net proxyAddress proxyConfig of
                     Some err \<Rightarrow> (Err (''failed to establish SSH connection to proxy: '' @ err), remove1 (Tcp proxyAddress) st1)
                   | None \<Rightarrow>
                       (case sn_DialThrough net proxyAddress targetAddress of
                          Some err \<Rightarrow> (Err (''failed to dial target server '' @ targetAddress @ '' via proxy: '' @ err), remove1 (Tcp proxyAddress) st1)
                        | None \<Rightarrow>
                            (let target = Through proxyAddress targetAddress; st2 = target # st1 in
                             case sn_Handshake net targetAddress targetConfig of
                               Some err \<Rightarrow> (Err (''failed to establish SSH connection to target server: '' @ err),
                                  remove1 (Tcp proxyAddress) (remove1 target st2))
                             | None \<Rightarrow> (Ok target, st2))))))"

definition uses_proxy :: "SSHProtocol \<Rightarrow> bool" where
  "uses_proxy config \<longleftrightarrow> \<not> (SSH_UseProxy config \<noteq> ''true'' \<or> SSH_ProxyHost config = [] \<or> SSH_ProxyPort config = [])"

definition DialWithProxy :: "('r, 'k) KeyLib \<Rightarrow> 'k SshNet \<Rightarrow> SSHProtocol \<Rightarrow> 'k ClientConfig \<Rightarrow> link list \<Rightarrow> link result \<times> link list" where
  "DialWithProxy lib net sshConfig clientConfig st =
     (if \<not> uses_proxy sshConfig then DialWithContext net (JoinHostPort (SSH_Host sshConfig) (SSH_Port sshConfig)) clientConfig st
      else if SSH_ProxyUsername sshConfig = [] then (Err ''proxy username is required when using proxy'', st)
      else if SSH_ProxyPassword sshConfig = [] \<and> SSH_ProxyPrivateKey sshConfig = []
      then (Err ''either proxy password or proxy private key is required when using proxy'', st)
      else dialViaProxy lib net sshConfig clientConfig st)"

subsection \<open>The collector\<close>

text \<open>The session is closed with the connection.\<close>

definition executeSSHScript :: "('r, 'k) KeyLib \<Rightarrow> 'k SshNet \<Rightarrow> SSHProtocol \<Rightarrow> duration \<Rightarrow> link list \<Rightarrow> string result \<times> link list" where
  "executeSSHScript lib net config timeout st =
     (case CreateSSHClientConfig lib config of
        Inl err \<Rightarrow> (Err (''failed to create SSH client config: '' @ err), st)
      | Inr clientConfig \<Rightarrow>
          (case DialWithProxy lib net config (clientConfig\<lparr>cc_Timeout := timeout\<rparr>) st of
             (Inl err, st1) \<Rightarrow> (Err (''failed to connect to SSH server '' @ JoinHostPort (SSH_Host config) (SSH_Port config) @ '': '' @ err), st1)
           | (Inr conn, st1) \<Rightarrow>
               (case sn_NewSession net of
                  Some err \<Rightarrow> (Err (''failed to create SSH session: '' @ err), remove1 conn st1)
                | None \<Rightarrow>
                    (case sn_Run net (SSH_Script config) of
                       (stdout, stderr, Some err) \<Rightarrow>
                         (Err (''script execution failed: '' @ err @ (if stderr \<noteq> [] then '', stderr: '' @ stderr else [])), remove1 conn st1)
                     | (stdout, stderr, None) \<Rightarrow> (Ok stdout, remove1 conn st1)))))"

definition alias_field :: "string \<Rightarrow> Field" where
  "alias_field alias = Field0\<lparr>Field_Field := alias, Field_Type := 1\<rparr>"

fun one_row_columns :: "string list \<Rightarrow> int64 \<Rightarrow> nat \<Rightarrow> string list \<Rightarrow> string list" where
  "one_row_columns ls responseTime lineIndex [] = []"
| "one_row_columns ls responseTime lineIndex (alias # aliases) =
     (if EqualFold alias ResponseTime then FormatInt (sint responseTime) # one_row_columns ls responseTime lineIndex aliases
      else (if lineIndex < length ls then TrimSpace (ls ! lineIndex) else NullValue)
        # one_row_columns ls responseTime (Suc lineIndex) aliases)"

definition parseResponseDataByOne :: "string \<Rightarrow> string list \<Rightarrow> CollectRepMetricsData \<Rightarrow> int64 \<Rightarrow> CollectRepMetricsData" where
  "parseResponseDataByOne res aliasFields resp responseTime =
     (let ls = Split res [CHR 0x0A] in
      if length ls + 1 < length aliasFields then resp
      else resp\<lparr>R_Values := R_Values resp @ [\<lparr>Columns = one_row_columns ls responseTime 0 aliasFields\<rparr>],
                R_Fields := R_Fields resp @ map alias_field aliasFields\<rparr>)"

definition field_mapping :: "string list \<Rightarrow> (string \<times> nat) list" where
  "field_mapping fs = foldl (\<lambda>m (i, field). map_put (ToLower (TrimSpace field)) i m) [] (enumerate 0 fs)"

definition table_cell :: "(string \<times> nat) list \<Rightarrow> int64 \<Rightarrow> string list \<Rightarrow> string \<Rightarrow> string" where
  "table_cell mapping responseTime vals alias =
     (if EqualFold alias ResponseTime then FormatInt (sint responseTime)
      else (case map_of mapping (ToLower alias) of
              None \<Rightarrow> NullValue | Some index \<Rightarrow> if index < length vals then vals ! index else NullValue))"

definition parseResponseDataByMulti :: "string \<Rightarrow> string list \<Rightarrow> CollectRepMetricsData \<Rightarrow> int64 \<Rightarrow> CollectRepMetricsData" where
  "parseResponseDataByMulti res aliasFields resp responseTime =
     (let ls = Split res [CHR 0x0A] in
      if length ls \<le> 1 then resp
      else (let mapping = field_mapping (Fields (hd ls));
                data = filter (\<lambda>line. line \<noteq> []) (map TrimSpace (tl ls))
            in resp\<lparr>R_Values := R_Values resp @ map (\<lambda>line. \<lparr>Columns = map (table_cell mapping responseTime (Fields line)) aliasFields\<rparr>) data,
                    R_Fields := R_Fields resp @ map alias_field aliasFields\<rparr>))"

definition createSuccessResponseWithResult :: "SSHProtocol \<Rightarrow> Metrics \<Rightarrow> int64 \<Rightarrow> string \<Rightarrow> int64 \<Rightarrow> CollectRepMetricsData" where
  "createSuccessResponseWithResult sshConfig metrics nowMilli res responseTime =
     (let resp = response metrics nowMilli CollectSuccess ''success'' in
      if EqualFold (SSH_ParseType sshConfig) ''oneRow'' then parseResponseDataByOne res (M_AliasFields metrics) resp responseTime
      else if EqualFold (SSH_ParseType sshConfig) ''multiRow'' then parseResponseDataByMulti res (M_AliasFields metrics) resp responseTime
      else resp)"

definition ssh_PreCheck :: "Metrics option \<Rightarrow> Heap \<Rightarrow> string option" where
  "ssh_PreCheck mo h =
     (case mo of None \<Rightarrow> Some ''metrics is nil''
      | Some metrics \<Rightarrow>
          (case Option.bind (M_SSH metrics) (sshs h) of
             None \<Rightarrow> Some ''SSH protocol configuration is required''
           | Some c \<Rightarrow>
               if SSH_Host c = [] then Some ''host is required''
               else if SSH_Port c = [] then Some ''port is required''
               else if SSH_Username c = [] then Some ''username is required''
               else if SSH_Password c = [] \<and> SSH_PrivateKey c = [] then Some ''either password or privateKey is required for authentication''
               else if SSH_Script c = [] then Some ''script is required'' else None))"

text \<open>\<open>nowMilli\<close> and \<open>responseTime\<close> are what the clock says after the script has run.\<close>

definition ssh_Collect :: "('r, 'k) KeyLib \<Rightarrow> 'k SshNet \<Rightarrow> int64 \<Rightarrow> int64 \<Rightarrow> Metrics \<Rightarrow> Heap \<Rightarrow> link list \<Rightarrow> CollectRepMetricsData \<times> link list" where
  "ssh_Collect lib net nowMilli responseTime metrics h st =
     (case Option.bind (M_SSH metrics) (sshs h) of
        None \<Rightarrow> (response metrics nowMilli CollectFail ''SSH configuration is required'', st)
      | Some sshConfig \<Rightarrow>
          (case executeSSHScript lib net sshConfig (getTimeout (SSH_Timeout sshConfig)) st of
             (Inl err, st1) \<Rightarrow> (response metrics nowMilli CollectUnConnectable (''SSH execution error: '' @ err), st1)
           | (Inr res, st1) \<Rightarrow> (createSuccessResponseWithResult sshConfig metrics nowMilli res responseTime, st1)))"

subsection \<open>Connections are closed, proxies are not\<close>

lemma DialWithContext_links:
  "DialWithContext net addr config st = (r, st') \<Longrightarrow>
   (case r of Inl err \<Rightarrow> st' = st | Inr conn \<Rightarrow> conn = Tcp addr \<and> st' = conn # st)"
  by (auto simp: DialWithContext_def Let_def split: option.splits)

lemma dialViaProxy_links:
  "dialViaProxy lib net config tc st = (r, st') \<Longrightarrow>
   (case r of Inl err \<Rightarrow> st' = st
    | Inr conn \<Rightarrow> \<exists>a. conn = Through (JoinHostPort (SSH_ProxyHost config) (SSH_ProxyPort config)) a \<and>
        st' = conn # Tcp (JoinHostPort (SSH_ProxyHost config) (SSH_ProxyPort config)) # st)"
  by (auto simp: dialViaProxy_def Let_def split: option.splits sum.splits)

lemma DialWithProxy_links:
  "DialWithProxy lib net config tc st = (r, st') \<Longrightarrow>
   (case r of Inl err \<Rightarrow> st' = st
    | Inr conn \<Rightarrow> st' = conn # (if uses_proxy config then [Tcp (JoinHostPort (SSH_ProxyHost config) (SSH_ProxyPort config))] else []) @ st)"
  using DialWithContext_links [of net _ tc st r st'] dialViaProxy_links [of lib net config tc st r st']
  by (auto simp: DialWithProxy_def split: if_splits sum.splits)

text \<open>Whether the SSH connection to the target is established.\<close>

definition dials_target :: "('r, 'k) KeyLib \<Rightarrow> 'k SshNet \<Rightarrow> SSHProtocol \<Rightarrow> link list \<Rightarrow> bool" where
  "dials_target lib net c st \<longleftrightarrow> (\<exists>cc conn. CreateSSHClientConfig lib c = Ok cc \<and>
     fst (DialWithProxy lib net c (cc\<lparr>cc_Timeout := getTimeout (SSH_Timeout c)\<rparr>) st) = Ok conn)"

lemma executeSSHScript_links:
  assumes "executeSSHScript lib net c (getTimeout (SSH_Timeout c)) st = (r, st')"
  shows "st' = (if uses_proxy c \<and> dials_target lib net c st then Tcp (JoinHostPort (SSH_ProxyHost c) (SSH_ProxyPort c)) # st else st)"
proof (cases "CreateSSHClientConfig lib c")
  case (Inl err)
  then show ?thesis using assms by (simp add: executeSSHScript_def dials_target_def)
next
  case (Inr cc)
  obtain d st1 where d: "DialWithProxy lib net c (cc\<lparr>cc_Timeout := getTimeout (SSH_Timeout c)\<rparr>) st = (d, st1)" by fastforce
  note l = DialWithProxy_links [OF d]
  show ?thesis
  proof (cases d)
    case e: (Inl err)
    then show ?thesis using assms Inr d l by (simp add: executeSSHScript_def dials_target_def)
  next
    case c: (Inr conn)
    have "dials_target lib net c st" using Inr d c by (simp add: dials_target_def)
    then show ?thesis using assms Inr d l c by (auto simp: executeSSHScript_def split: option.splits prod.splits if_splits)
  qed
qed

text \<open>C36: a collection over SSH closes every connection it opens, on every path, with one exception: once the connection to the target is established through a
  proxy, the connection to the proxy stays open, whatever the session and the script do. In particular nothing stays open when the collection connects directly, when
  connecting to the proxy or through it fails, or when the configuration is missing.\<close>

theorem ssh_connections:
  assumes "ssh_Collect lib net nowMilli responseTime metrics h st = (resp, st')"
  shows "st' = (case Option.bind (M_SSH metrics) (sshs h) of
      None \<Rightarrow> st
    | Some c \<Rightarrow>
        if uses_proxy c \<and> (\<exists>cc conn. CreateSSHClientConfig lib c = Ok cc \<and>
             fst (DialWithProxy lib net c (cc\<lparr>cc_Timeout := getTimeout (SSH_Timeout c)\<rparr>) st) = Ok conn)
        then Tcp (JoinHostPort (SSH_ProxyHost c) (SSH_ProxyPort c)) # st else st)"
proof (cases "Option.bind (M_SSH metrics) (sshs h)")
  case None
  then show ?thesis using assms by (simp add: ssh_Collect_def)
next
  case (Some c)
  obtain r st1 where e: "executeSSHScript lib net c (getTimeout (SSH_Timeout c)) st = (r, st1)" by fastforce
  then have "st' = st1" using assms Some by (auto simp: ssh_Collect_def split: sum.splits)
  then show ?thesis using executeSSHScript_links [OF e] Some by (simp add: dials_target_def)
qed

subsection \<open>Reading the output\<close>

text \<open>in the format with one line per field, the value of a field is the line with the number of fields before it that are not the
  response time, without surrounding space; the response time is put where it is asked for.\<close>

theorem ssh_one_row:
  assumes "i < length aliases"
  shows "one_row_columns ls responseTime n aliases ! i =
    (if EqualFold (aliases ! i) ResponseTime then FormatInt (sint responseTime)
     else (let k = n + length (filter (\<lambda>a. \<not> EqualFold a ResponseTime) (take i aliases))
           in if k < length ls then TrimSpace (ls ! k) else NullValue))"
  using assms
proof (induction aliases arbitrary: i n)
  case (Cons a as)
  then show ?case by (cases i) (auto simp: Let_def)
qed simp

text \<open>A word of a table: not empty and without white space.\<close>

definition word_ok :: "string \<Rightarrow> bool" where
  "word_ok w \<longleftrightarrow> w \<noteq> [] \<and> (\<forall>c \<in> set w. \<not> is_space c)"

lemma fields_acc_word: "\<forall>c \<in> set w. \<not> is_space c \<Longrightarrow> fields_acc acc (w @ s) = fields_acc (rev w @ acc) s"
  by (induction w arbitrary: acc) auto

lemma Fields_Join: "\<forall>w \<in> set ws. word_ok w \<Longrightarrow> Fields (Join ws '' '') = ws"
proof (induction ws "'' ''" rule: Join.induct)
  case (2 x)
  then show ?case using fields_acc_word [of x "[]" "[]"] by (simp add: Fields_def word_ok_def)
next
  case (3 x y ys)
  have "is_space (CHR '' '')" by (simp add: is_space_def)
  with 3 show ?case using fields_acc_word [of x "[]" "CHR '' '' # Join (y # ys) '' ''"] by (simp add: Fields_def word_ok_def)
qed (simp add: Fields_def)

lemma space_newline: "is_space (CHR 0x0A)"
  by (simp add: is_space_def)

lemma Join_no_newline: "\<forall>w \<in> set ws. word_ok w \<Longrightarrow> CHR 0x0A \<notin> set (Join ws '' '')"
  using space_newline by (induction ws "'' ''" rule: Join.induct) (auto simp: word_ok_def)

lemma Join_ends:
  assumes "\<forall>w \<in> set ws. word_ok w" and "ws \<noteq> []"
  shows "Join ws '' '' \<noteq> [] \<and> \<not> is_space (hd (Join ws '' '')) \<and> \<not> is_space (last (Join ws '' ''))"
  using assms by (induction ws "'' ''" rule: Join.induct) (auto simp: word_ok_def hd_append)

lemma field_mapping_get:
  "map_of (foldl (\<lambda>m (i, field). map_put (f field) i m) m (enumerate n fs)) =
   map_of m ++ map_of (rev (zip (map f fs) [n..<n + length fs]))"
proof (induction fs arbitrary: n m)
  case (Cons x fs)
  have u: "[n..<n + length (x # fs)] = n # [Suc n..<Suc n + length fs]" by (subst upt_conv_Cons) simp_all
  have "map_of (foldl (\<lambda>m (i, field). map_put (f field) i m) m (enumerate n (x # fs))) =
      (map_of m)(f x \<mapsto> n) ++ map_of (rev (zip (map f fs) [Suc n..<Suc n + length fs]))"
    using Cons [of "map_put (f x) n m" "Suc n"] by (simp del: upt_Suc add: fun_upd_def)
  also have "\<dots> = map_of m ++ map_of (rev (zip (map f (x # fs)) [n..<n + length (x # fs)]))"
    unfolding u by (simp del: upt_Suc)
  finally show ?case .
qed simp

lemma table_lookup:
  assumes "distinct ks"
  shows "(case map_of (rev (zip ks [0..<length ks])) k of None \<Rightarrow> d | Some i \<Rightarrow> if i < length vs then vs ! i else d) =
    (case map_of (zip ks vs) k of None \<Rightarrow> d | Some v \<Rightarrow> v)"
proof (cases "k \<in> set ks")
  case True
  then obtain i where i: "i < length ks" "k = ks ! i" by (auto simp: in_set_conv_nth)
  have "distinct (map fst (rev (zip ks [0..<length ks])))" using assms by (simp flip: rev_map)
  moreover have "(k, i) \<in> set (rev (zip ks [0..<length ks]))" using i by (auto simp: in_set_zip)
  ultimately have l: "map_of (rev (zip ks [0..<length ks])) k = Some i" by simp
  show ?thesis
  proof (cases "i < length vs")
    case True
    have "(k, vs ! i) \<in> set (zip ks vs)" using i True by (auto simp: in_set_zip)
    moreover have "distinct (map fst (zip ks vs))" using assms by (simp add: map_fst_zip_take)
    ultimately show ?thesis using l True by simp
  next
    case False
    have "k \<notin> set (take (min (length ks) (length vs)) ks)"
      using assms i False by (auto simp: in_set_conv_nth nth_eq_iff_index_eq)
    then have "map_of (zip ks vs) k = None"
      by (simp add: map_of_eq_None_iff map_fst_zip_take flip: set_map)
    then show ?thesis using l False by simp
  qed
next
  case False
  then have "map_of (rev (zip ks [0..<length ks])) k = None" "map_of (zip ks vs) k = None"
    by (auto simp: map_of_eq_None_iff dest: set_zip_leftD)
  then show ?thesis by simp
qed

text \<open>C35: a table printed by the script with a line of headings and a line per row, with single spaces between the words, is read back when no two headings
  are the same but for their case. Every row of the answer has one column per field: for the field of the response time the response time, and for any other the
  word under the heading of that name, ignoring case, or the placeholder when there is none.\<close>

theorem ssh_table_read:
  assumes "\<forall>w \<in> set heads. word_ok w" and "distinct (map ToLower heads)"
    and "rows \<noteq> []" and "\<forall>row \<in> set rows. row \<noteq> [] \<and> (\<forall>w \<in> set row. word_ok w)"
    and "out = Join (map (\<lambda>ws. Join ws '' '') (heads # rows)) [CHR 0x0A]"
  shows "R_Values (parseResponseDataByMulti out aliases resp responseTime) = R_Values resp @
    map (\<lambda>row. \<lparr>Columns = map (\<lambda>a. if EqualFold a ResponseTime then FormatInt (sint responseTime)
      else (case map_of (zip (map ToLower heads) row) (ToLower a) of None \<Rightarrow> NullValue | Some v \<Rightarrow> v)) aliases\<rparr>) rows"
proof -
  let ?j = "\<lambda>ws. Join ws '' ''"
  have s: "Split out [CHR 0x0A] = ?j heads # map ?j rows"
    using assms(1,4,5) Join_no_newline by (subst assms(5)) (rule trans [OF Split_Join], auto)
  have "TrimSpace (?j row) = ?j row" "?j row \<noteq> []" "Fields (?j row) = row" if "row \<in> set rows" for row
    using that assms(4) Join_ends [of row] TrimSpace_ends [of "?j row"] Fields_Join [of row] by auto
  then have f: "filter (\<lambda>line. line \<noteq> []) (map TrimSpace (map ?j rows)) = map ?j rows" and w: "\<forall>row \<in> set rows. Fields (?j row) = row"
    by (auto simp: filter_id_conv)
  have t: "map (\<lambda>w. ToLower (TrimSpace w)) heads = map ToLower heads"
    using assms(1) by (auto simp: word_ok_def TrimSpace_id)
  have m: "map_of (field_mapping heads) = map_of (rev (zip (map ToLower heads) [0..<length heads]))"
    using field_mapping_get [of "\<lambda>w. ToLower (TrimSpace w)" "[]" 0 heads] by (simp add: field_mapping_def t)
  have c: "table_cell (field_mapping heads) responseTime row a = (if EqualFold a ResponseTime then FormatInt (sint responseTime)
      else (case map_of (zip (map ToLower heads) row) (ToLower a) of None \<Rightarrow> NullValue | Some v \<Rightarrow> v))" for a row
    using table_lookup [OF assms(2), where k = "ToLower a" and d = NullValue and vs = row] by (simp add: table_cell_def m)
  show ?thesis
    using s f w c assms(3) Fields_Join [OF assms(1)] by (simp add: parseResponseDataByMulti_def Let_def Suc_le_eq)
qed

theorem ssh_table_read_witness:
  "R_Values (parseResponseDataByMulti (Join [''NAME PID'', ''init 1'', ''sshd 42''] [CHR 0x0A]) [''pid'', ''name'', ''user'', ''responseTime''] Data0 7) =
    [\<lparr>Columns = [''1'', ''init'', NullValue, ''7'']\<rparr>, \<lparr>Columns = [''42'', ''sshd'', NullValue, ''7'']\<rparr>]"
proof -
  have "\<not> EqualFold ''pid'' ResponseTime" "\<not> EqualFold ''name'' ResponseTime" "\<not> EqualFold ''user'' ResponseTime" "EqualFold ''responseTime'' ResponseTime"
    "map ToLower [''NAME'', ''PID''] = [''name'', ''pid'']" "map ToLower [''pid'', ''name'', ''user''] = [''pid'', ''name'', ''user'']"
    "list_all word_ok [''NAME'', ''PID'', ''init'', ''1'', ''sshd'', ''42'']" "FormatInt (sint (7 :: int64)) = ''7''"
    by code_simp+
  then show ?thesis
    using ssh_table_read [of "[''NAME'', ''PID'']" "[[''init'', ''1''], [''sshd'', ''42'']]" _ "[''pid'', ''name'', ''user'', ''responseTime'']" Data0 7]
    by (simp add: Data0_def)
qed

theorem ssh_one_row_witness:
  "one_row_columns [''8 '', ''linux''] 3 0 [''cores'', ''responseTime'', ''os''] ! 2 = ''linux''"
proof -
  have "EqualFold ''responseTime'' ResponseTime" "\<not> EqualFold ''cores'' ResponseTime" "\<not> EqualFold ''os'' ResponseTime" "TrimSpace ''linux'' = ''linux''"
    by code_simp+
  then show ?thesis using ssh_one_row [of 2 "[''cores'', ''responseTime'', ''os'']" "[''8 '', ''linux'']" 3 0] by (simp add: numeral_2_eq_2)
qed

definition ssh_ex :: SSHProtocol where
  "ssh_ex = \<lparr>SSH_Host = ''10.0.0.5'', SSH_Port = ''22'', SSH_Username = ''u'', SSH_Password = ''p'', SSH_PrivateKey = [], SSH_PrivateKeyPassphrase = [],
     SSH_Script = ''nproc'', SSH_ParseType = ''oneRow'', SSH_ParseScript = [], SSH_Timeout = [], SSH_ReuseConnection = [], SSH_UseProxy = ''true'',
     SSH_ProxyHost = ''gate'', SSH_ProxyPort = ''22'', SSH_ProxyUsername = ''g'', SSH_ProxyPassword = ''q'', SSH_ProxyPrivateKey = []\<rparr>"

definition lib_ex :: "(unit, unit) KeyLib" where
  "lib_ex = \<lparr>kl_Decode = \<lambda>s. None, kl_ParsePKCS1PrivateKey = \<lambda>s. Err [], kl_ParsePKCS8PrivateKey = \<lambda>s. Err [],
     kl_ParseECPrivateKey = \<lambda>s. Err [], kl_ParseRawPrivateKey = \<lambda>s. Err [], kl_NewSignerFromKey = \<lambda>k. Ok ()\<rparr>"

definition net_ex :: "unit SshNet" where
  "net_ex = \<lparr>sn_Dial = \<lambda>a. None, sn_Handshake = \<lambda>a c. None, sn_DialThrough = \<lambda>a b. None, sn_NewSession = None, sn_Run = \<lambda>s. (''8'', [], None)\<rparr>"

theorem ssh_connections_witness:
  "snd (ssh_Collect lib_ex net_ex 0 0 (metrics_ex\<lparr>M_SSH := Some 1\<rparr>) (heap_ex\<lparr>sshs := [1 \<mapsto> ssh_ex]\<rparr>) []) = [Tcp (JoinHostPort ''gate'' ''22'')] \<and>
   snd (ssh_Collect lib_ex (net_ex\<lparr>sn_DialThrough := \<lambda>a b. Some ''refused''\<rparr>) 0 0 (metrics_ex\<lparr>M_SSH := Some 1\<rparr>) (heap_ex\<lparr>sshs := [1 \<mapsto> ssh_ex]\<rparr>) []) = []"
proof -
  let ?m = "metrics_ex\<lparr>M_SSH := Some 1\<rparr>" and ?h = "heap_ex\<lparr>sshs := [1 \<mapsto> ssh_ex]\<rparr>" and ?net = "net_ex\<lparr>sn_DialThrough := \<lambda>a b. Some ''refused''\<rparr>"
  have b: "Option.bind (M_SSH ?m) (sshs ?h) = Some ssh_ex" by simp
  have u: "uses_proxy ssh_ex" "SSH_ProxyHost ssh_ex = ''gate''" "SSH_ProxyPort ssh_ex = ''22''" by (simp_all add: uses_proxy_def ssh_ex_def)
  have d: "dials_target lib_ex net_ex ssh_ex []" "\<not> dials_target lib_ex ?net ssh_ex []"
    by (simp_all add: dials_target_def CreateSSHClientConfig_def DialWithProxy_def dialViaProxy_def createProxyClientConfig_def uses_proxy_def Let_def ssh_ex_def net_ex_def)
  obtain resp st' where r: "ssh_Collect lib_ex net_ex 0 0 ?m ?h [] = (resp, st')" by fastforce
  obtain resp2 st2 where r2: "ssh_Collect lib_ex ?net 0 0 ?m ?h [] = (resp2, st2)" by fastforce
  show ?thesis using ssh_connections [OF r] ssh_connections [OF r2] d u unfolding b dials_target_def by (simp only: r r2 snd_conv option.case simp_thms if_True if_False)
qed

end
