(* ===== verification/Redis_Collector.thy ===== *)
theory Redis_Collector
  imports SSH_Collector
begin

text \<open>
  The Redis collector (\<open>protocol/basic/redis/redis_collector.go\<close>) and the Milvus collector
  (\<open>protocol/extension/milvus/milvus_collector.go\<close>), with the client libraries as parameters.
\<close>

subsection \<open>Connecting through SSH\<close>

definition ClusterPattern :: string where "ClusterPattern = ''3''"
definition ClusterInfo :: string where "ClusterInfo = ''cluster''"
definition Identity :: string where "Identity = ''identity''"

text \<open>The SSH configuration made from a tunnel, with its zero fields.\<close>

definition tunnel_config :: "SSHTunnel \<Rightarrow> SSHProtocol" where
  "tunnel_config t = \<lparr>SSH_Host = Tun_Host t, SSH_Port = Tun_Port t, SSH_Username = Tun_Username t, SSH_Password = Tun_Password t,
     SSH_PrivateKey = [], SSH_PrivateKeyPassphrase = [], SSH_Script = [], SSH_ParseType = [], SSH_ParseScript = [], SSH_Timeout = [],
     SSH_ReuseConnection = [], SSH_UseProxy = [], SSH_ProxyHost = [], SSH_ProxyPort = [], SSH_ProxyUsername = [], SSH_ProxyPassword = [],
     SSH_ProxyPrivateKey = []\<rparr>"

text \<open>A dialer is the address of the SSH server and the configuration to connect with.\<close>

definition createRedisDialer :: "('r, 'k) KeyLib \<Rightarrow> SSHTunnel option \<Rightarrow> (string \<times> 'k ClientConfig) option result" where
  "createRedisDialer lib sshTunnel =
     (case sshTunnel of None \<Rightarrow> Ok None
      | Some t \<Rightarrow>
          if Tun_Enable t \<noteq> ''true'' then Ok None
          else (case CreateSSHClientConfig lib (tunnel_config t) of
                  Inl err \<Rightarrow> Err err
                | Inr clientConfig \<Rightarrow> Ok (Some (JoinHostPort (Tun_Host t) (Tun_Port t), clientConfig\<lparr>cc_Timeout := 30 * Second\<rparr>))))"

text \<open>The function a dialer is, and the closing of the connection it returns.\<close>

definition redis_dial :: "'k SshNet \<Rightarrow> string \<times> 'k ClientConfig \<Rightarrow> string \<Rightarrow> link list \<Rightarrow> (link \<times> link) result \<times> link list" where
  "redis_dial net dialer addr st =
     (case DialWithContext net (fst dialer) (snd dialer) st of
        (Inl err, st1) \<Rightarrow> (Err (''failed to connect to ssh server: '' @ err), st1)
      | (Inr sshClient, st1) \<Rightarrow>
          (case sn_DialThrough net (fst dialer) addr of
             Some err \<Rightarrow> (Err (''failed to dial target via ssh: '' @ err), remove1 sshClient st1)
           | None \<Rightarrow> (let conn = Through (fst dialer) addr in (Ok (conn, sshClient), conn # st1))))"

definition sshConnWrapper_Close :: "link \<times> link \<Rightarrow> link list \<Rightarrow> link list" where
  "sshConnWrapper_Close w st = remove1 (snd w) (remove1 (fst w) st)"

subsection \<open>The collector\<close>

text \<open>The options of a client, and what the servers answer. The nodes of a cluster are listed in the order in which their data
  arrives.\<close>

record 'k RedisOptions =
  ro_Addr :: string
  ro_Username :: string
  ro_Password :: string
  ro_Timeout :: duration
  ro_Dialer :: "(string \<times> 'k ClientConfig) option"

record 'k RedisLib =
  rl_Info :: "'k RedisOptions \<Rightarrow> string \<Rightarrow> string option \<Rightarrow> string result"
  rl_ClusterInfo :: "'k RedisOptions \<Rightarrow> string \<Rightarrow> string result"
  rl_Nodes :: "'k RedisOptions \<Rightarrow> string list"

definition fetchRedisInfo :: "'k RedisLib \<Rightarrow> 'k RedisOptions \<Rightarrow> string \<Rightarrow> string \<Rightarrow> string result" where
  "fetchRedisInfo redis opts node pattern =
     (if pattern \<noteq> [] \<and> HasPrefix (ToLower pattern) ClusterInfo \<and> pattern \<noteq> ClusterPattern then rl_ClusterInfo redis opts node
      else (let section = (if pattern = ClusterPattern then [] else pattern)
            in if section = [] then rl_Info redis opts node None else rl_Info redis opts node (Some section)))"

definition parse_info_line :: "gomap \<Rightarrow> string \<Rightarrow> gomap" where
  "parse_info_line m line0 =
     (let line = TrimSpace line0 in
      if line = [] \<or> HasPrefix line ''#'' then m
      else (case SplitN2 line '':'' of
              [k, v] \<Rightarrow> map_put (ToLower (TrimSpace k)) (TrimSpace v) m
            | _ \<Rightarrow> m))"

definition parseInfo :: "string \<Rightarrow> gomap" where
  "parseInfo info = foldl parse_info_line [] (Split info [CHR 0x0A])"

definition addValueRow :: "CollectRepMetricsData \<Rightarrow> string list \<Rightarrow> gomap \<Rightarrow> CollectRepMetricsData" where
  "addValueRow resp aliasFields parseMap = resp\<lparr>R_Values := R_Values resp @
     [\<lparr>Columns = map (\<lambda>alias. case map_of parseMap (ToLower alias) of Some val \<Rightarrow> val | None \<Rightarrow> NullValue) aliasFields\<rparr>]\<rparr>"

definition collectSingle :: "'k RedisLib \<Rightarrow> Metrics \<Rightarrow> RedisProtocol \<Rightarrow> (string \<times> 'k ClientConfig) option \<Rightarrow> duration \<Rightarrow> int64 \<Rightarrow>
    CollectRepMetricsData \<Rightarrow> CollectRepMetricsData" where
  "collectSingle redis metrics config dialer timeout responseTime resp =
     (let addr = Redis_Host config @ '':'' @ Redis_Port config;
          opts = \<lparr>ro_Addr = addr, ro_Username = Redis_Username config, ro_Password = Redis_Password config, ro_Timeout = timeout, ro_Dialer = dialer\<rparr>
      in case fetchRedisInfo redis opts addr (Redis_Pattern config) of
           Inl err \<Rightarrow> resp\<lparr>R_Code := CollectFail, R_Msg := err\<rparr>
         | Inr info \<Rightarrow>
             addValueRow resp (M_AliasFields metrics)
               (map_put (ToLower Identity) addr (map_put (ToLower ResponseTime) (FormatInt (sint responseTime)) (parseInfo info))))"

definition collectNode :: "'k RedisLib \<Rightarrow> 'k RedisOptions \<Rightarrow> Metrics \<Rightarrow> RedisProtocol \<Rightarrow> (string \<Rightarrow> int64) \<Rightarrow> CollectRepMetricsData \<Rightarrow> string \<Rightarrow>
    CollectRepMetricsData" where
  "collectNode redis opts metrics config responseTime resp node =
     (case fetchRedisInfo redis opts node (Redis_Pattern config) of
        Inl err \<Rightarrow> resp
      | Inr info \<Rightarrow>
          (let parseMap = map_put (ToLower Identity) node (map_put (ToLower ResponseTime) (FormatInt (sint (responseTime node))) (parseInfo info));
               parseMap' = (if M_Name metrics = ClusterInfo
                            then (case rl_ClusterInfo redis opts node of
                                    Inl err \<Rightarrow> parseMap
                                  | Inr clusterInfo \<Rightarrow> foldl (\<lambda>m (k, v). map_put k v m) parseMap (parseInfo clusterInfo))
                            else parseMap)
           in addValueRow resp (M_AliasFields metrics) parseMap'))"

definition collectCluster :: "'k RedisLib \<Rightarrow> Metrics \<Rightarrow> RedisProtocol \<Rightarrow> (string \<times> 'k ClientConfig) option \<Rightarrow> duration \<Rightarrow> (string \<Rightarrow> int64) \<Rightarrow>
    CollectRepMetricsData \<Rightarrow> CollectRepMetricsData" where
  "collectCluster redis metrics config dialer timeout responseTime resp =
     (let addr = Redis_Host config @ '':'' @ Redis_Port config;
          opts = \<lparr>ro_Addr = addr, ro_Username = Redis_Username config, ro_Password = Redis_Password config, ro_Timeout = timeout, ro_Dialer = dialer\<rparr>;
          resp' = foldl (collectNode redis opts metrics config responseTime) resp (rl_Nodes redis opts)
      in if R_Values resp' = [] then resp'\<lparr>R_Code := CollectFail, R_Msg := ''no data collected from cluster''\<rparr> else resp')"

definition redis_PreCheck :: "Metrics option \<Rightarrow> Heap \<Rightarrow> string option" where
  "redis_PreCheck mo h =
     (case Option.bind mo (\<lambda>m. Option.bind (M_Redis m) (rediss h)) of
        None \<Rightarrow> Some ''redis configuration is required''
      | Some c \<Rightarrow> if Redis_Host c = [] then Some ''redis host is required''
                  else if Redis_Port c = [] then Some ''redis port is required'' else None)"

definition redis_timeout :: "string \<Rightarrow> duration" where
  "redis_timeout s = (if s = [] then 30 * Second
     else (case Atoi s of Some t \<Rightarrow> word_of_int t * Millisecond
           | None \<Rightarrow> (case ParseDuration s of Some d \<Rightarrow> d | None \<Rightarrow> 30 * Second)))"

definition is_cluster :: "string \<Rightarrow> bool" where
  "is_cluster pattern \<longleftrightarrow> pattern = ClusterPattern \<or> HasPrefix (ToLower pattern) ClusterInfo"

text \<open>The response times are those measured when the data of a node arrives.\<close>

definition redis_Collect :: "('r, 'k) KeyLib \<Rightarrow> 'k RedisLib \<Rightarrow> int64 \<Rightarrow> (string \<Rightarrow> int64) \<Rightarrow> Metrics \<Rightarrow> Heap \<Rightarrow> CollectRepMetricsData outcome" where
  "redis_Collect lib redis startMilli responseTime metrics h =
     (let resp = (response metrics startMilli CollectSuccess ''success'')\<lparr>R_Fields := map alias_field (M_AliasFields metrics)\<rparr> in
      case Option.bind (M_Redis metrics) (rediss h) of
        None \<Rightarrow> Inl NilDereference
      | Some c \<Rightarrow>
          (case createRedisDialer lib (Option.bind (Redis_SSHTunnel c) (tunnels h)) of
             Inl err \<Rightarrow> Inr (resp\<lparr>R_Code := CollectUnConnectable, R_Msg := err\<rparr>)
           | Inr dialer \<Rightarrow>
               Inr (if is_cluster (Redis_Pattern c)
                    then collectCluster redis metrics c dialer (redis_timeout (Redis_Timeout c)) responseTime resp
                    else collectSingle redis metrics c dialer (redis_timeout (Redis_Timeout c))
                           (responseTime (Redis_Host c @ '':'' @ Redis_Port c)) resp)))"

subsection \<open>Milvus\<close>

text \<open>The connection to an address with optional credentials, and its version.\<close>

record MilvusLib =
  ml_Connect :: "string \<Rightarrow> (string \<times> string) option \<Rightarrow> duration \<Rightarrow> string option"
  ml_GetVersion :: "string \<Rightarrow> string result"

definition milvus_PreCheck :: "Metrics option \<Rightarrow> Heap \<Rightarrow> string option" where
  "milvus_PreCheck mo h =
     (case Option.bind mo (\<lambda>m. Option.bind (M_Milvus m) (milvuss h)) of None \<Rightarrow> Some ''milvus configuration is missing'' | Some c \<Rightarrow> None)"

definition milvus_cell :: "MilvusProtocol \<Rightarrow> int64 \<Rightarrow> string \<Rightarrow> string \<Rightarrow> string" where
  "milvus_cell c responseTime version field =
     (let f = ToLower field in
      if f = ToLower ResponseTime then FormatInt (sint responseTime)
      else if f = ''version'' then version
      else if f = ''host'' then Milvus_Host c
      else if f = ''port'' then Milvus_Port c else NullValue)"

definition milvus_Collect :: "MilvusLib \<Rightarrow> int64 \<Rightarrow> int64 \<Rightarrow> Metrics \<Rightarrow> Heap \<Rightarrow> CollectRepMetricsData outcome" where
  "milvus_Collect milvus nowMilli responseTime metrics h =
     (case Option.bind (M_Milvus metrics) (milvuss h) of
        None \<Rightarrow> Inl NilDereference
      | Some c \<Rightarrow>
          (let addr = Milvus_Host c @ '':'' @ Milvus_Port c;
               timeout = (case (if Milvus_Timeout c = [] then None else Atoi (Milvus_Timeout c)) of
                            Some t \<Rightarrow> word_of_int t * Millisecond | None \<Rightarrow> 10 * Second);
               credentials = (if Milvus_Username c \<noteq> [] \<and> Milvus_Password c \<noteq> [] then Some (Milvus_Username c, Milvus_Password c) else None)
           in case ml_Connect milvus addr credentials timeout of
                Some err \<Rightarrow> Inr (response metrics nowMilli CollectUnConnectable (''failed to connect: '' @ err))
              | None \<Rightarrow>
                  (case ml_GetVersion milvus addr of
                     Inl err \<Rightarrow> Inr (response metrics nowMilli CollectFail (''failed to get version: '' @ err))
                   | Inr version \<Rightarrow>
                       Inr ((response metrics nowMilli CollectSuccess ''success'')\<lparr>R_Values :=
                         [\<lparr>Columns = map (milvus_cell c responseTime version) (M_AliasFields metrics)\<rparr>]\<rparr>))))"

subsection \<open>Properties\<close>

lemma redis_dial_closed:
  "redis_dial net dialer addr st = (r, st') \<Longrightarrow> (case r of Inl err \<Rightarrow> st' = st | Inr w \<Rightarrow> sshConnWrapper_Close w st' = st)"
  by (auto simp: redis_dial_def sshConnWrapper_Close_def Let_def split: option.splits sum.splits prod.splits dest!: DialWithContext_links)

text \<open>A text without space around it; an entry of the output of INFO, whose key has no colon and which is no comment.\<close>

definition trimmed :: "string \<Rightarrow> bool" where
  "trimmed s \<longleftrightarrow> CHR 0x0A \<notin> set s \<and> (s \<noteq> [] \<longrightarrow> \<not> is_space (hd s) \<and> \<not> is_space (last s))"

definition info_ok :: "string \<times> string \<Rightarrow> bool" where
  "info_ok e \<longleftrightarrow> (case e of (k, v) \<Rightarrow> k \<noteq> [] \<and> hd k \<noteq> CHR ''#'' \<and> CHR '':'' \<notin> set k \<and> trimmed k \<and> trimmed v)"

definition info_line :: "string \<times> string \<Rightarrow> string" where
  "info_line e = fst e @ '':'' @ snd e @ [CHR 0x0D]"

lemma TrimSpace_trimmed: "trimmed s \<Longrightarrow> TrimSpace s = s"
  using TrimSpace_ends [of s] by (cases "s = []") (auto simp: trimmed_def)

lemma TrimSpace_cr:
  assumes "s \<noteq> []" and "\<not> is_space (hd s)" and "\<not> is_space (last s)"
  shows "TrimSpace (s @ [CHR 0x0D]) = s"
proof -
  have "is_space (CHR 0x0D)" by (simp add: is_space_def)
  moreover have "dropWhile is_space (s @ [CHR 0x0D]) = s @ [CHR 0x0D]" using assms by (cases s) auto
  moreover have "dropWhile is_space (rev s) = rev s" using assms(1,3) by (cases s rule: rev_cases) auto
  ultimately show ?thesis by (simp add: TrimSpace_def)
qed

lemma parse_info_entry: "info_ok (k, v) \<Longrightarrow> parse_info_line m (info_line (k, v)) = map_put (ToLower k) v m"
proof -
  assume ok: "info_ok (k, v)"
  let ?l = "k @ '':'' @ v"
  have l: "?l \<noteq> []" "\<not> is_space (hd ?l)" "\<not> is_space (last ?l)" "hd ?l \<noteq> CHR ''#''"
    using ok by (auto simp: info_ok_def trimmed_def is_space_def)
  then have "TrimSpace (info_line (k, v)) = ?l" using TrimSpace_cr [of ?l] by (simp add: info_line_def)
  moreover have "\<not> HasPrefix ?l ''#''" using l by (cases ?l) auto
  moreover have "SplitN2 ?l '':'' = [k, v]" using ok Index_first_char [of "CHR '':''" k "[]" v] by (simp add: SplitN2_def info_ok_def)
  ultimately show ?thesis using ok l(1) by (simp add: parse_info_line_def Let_def info_ok_def TrimSpace_trimmed)
qed

text \<open>C37: the output of INFO is read back. Of the entries printed one per line, with the line ends of the Redis protocol, a key gives the
  value of its last entry, ignoring case.\<close>

theorem redis_info_read:
  assumes "kvs \<noteq> []" and "\<forall>e \<in> set kvs. info_ok e"
  shows "map_of (parseInfo (Join (map info_line kvs) [CHR 0x0A])) = map_of (rev (map (\<lambda>(k, v). (ToLower k, v)) kvs))"
proof -
  have "\<forall>l \<in> set (map info_line kvs). CHR 0x0A \<notin> set l"
    using assms(2) by (auto simp: info_line_def info_ok_def trimmed_def)
  then have s: "Split (Join (map info_line kvs) [CHR 0x0A]) [CHR 0x0A] = map info_line kvs"
    using assms(1) by (intro Split_Join) auto
  have "foldl parse_info_line m (map info_line kvs) = foldl (\<lambda>m e. map_put (ToLower (fst e)) (snd e) m) m kvs" for m
    using assms(2) by (induction kvs arbitrary: m) (auto simp: parse_info_entry)
  then show ?thesis
    using foldl_put [of "\<lambda>e. ToLower (fst e)" snd "[]" kvs] by (simp add: parseInfo_def s case_prod_unfold)
qed

lemma collectNode_rows:
  "R_Values (collectNode redis opts metrics c rt resp node) = R_Values resp \<or>
   (\<exists>row. R_Values (collectNode redis opts metrics c rt resp node) = R_Values resp @ [row] \<and> length (Columns row) = length (M_AliasFields metrics))"
  by (auto simp: collectNode_def addValueRow_def Let_def split: sum.splits)

lemma collectNode_count:
  "length (R_Values (foldl (collectNode redis opts metrics c rt) resp nodes)) =
   length (R_Values resp) + length (filter (\<lambda>n. \<exists>info. fetchRedisInfo redis opts n (Redis_Pattern c) = Inr info) nodes) \<and>
   R_Code (foldl (collectNode redis opts metrics c rt) resp nodes) = R_Code resp"
proof (induction nodes arbitrary: resp)
  case (Cons n nodes)
  have "length (R_Values (collectNode redis opts metrics c rt resp n)) =
      length (R_Values resp) + (if \<exists>info. fetchRedisInfo redis opts n (Redis_Pattern c) = Inr info then 1 else 0)"
    "R_Code (collectNode redis opts metrics c rt resp n) = R_Code resp"
    by (auto simp: collectNode_def addValueRow_def Let_def split: sum.splits)
  then show ?case using Cons [of "collectNode redis opts metrics c rt resp n"] by simp
qed simp

text \<open>a collection from a Redis cluster gives one row per node that answers, in the order of the answers, and fails exactly when no node
  answers.\<close>

theorem redis_cluster_rows:
  assumes "opts = \<lparr>ro_Addr = Redis_Host c @ '':'' @ Redis_Port c, ro_Username = Redis_Username c, ro_Password = Redis_Password c,
      ro_Timeout = timeout, ro_Dialer = dialer\<rparr>"
    and "answering = filter (\<lambda>n. \<exists>info. fetchRedisInfo redis opts n (Redis_Pattern c) = Inr info) (rl_Nodes redis opts)"
    and "resp = collectCluster redis metrics c dialer timeout rt (response metrics t CollectSuccess txt)"
  shows "length (R_Values resp) = length answering \<and> (R_Code resp = CollectFail \<longleftrightarrow> answering = [])"
proof -
  let ?resp' = "foldl (collectNode redis opts metrics c rt) (response metrics t CollectSuccess txt) (rl_Nodes redis opts)"
  have r: "resp = (if R_Values ?resp' = [] then ?resp'\<lparr>R_Code := CollectFail, R_Msg := ''no data collected from cluster''\<rparr> else ?resp')"
    unfolding assms(3) collectCluster_def Let_def assms(1) [symmetric] by (rule refl)
  have n: "length (R_Values ?resp') = length answering" "R_Code ?resp' = CollectSuccess"
    using collectNode_count [of redis opts metrics c rt "response metrics t CollectSuccess txt"] by (simp_all add: assms(2))
  have "CollectSuccess \<noteq> CollectFail" by (simp add: CollectSuccess_def CollectFail_def)
  then show ?thesis using n by (cases answering) (auto simp: r)
qed

theorem redis_info_read_witness:
  "map_of (parseInfo (Join (map info_line [(''redis_version'', ''7.2''), (''Role'', ''master'')]) [CHR 0x0A])) ''role'' = Some ''master''"
proof -
  have "list_all info_ok [(''redis_version'', ''7.2''), (''Role'', ''master'')]"
    "map (\<lambda>(k, v). (ToLower k, v)) [(''redis_version'', ''7.2''), (''Role'', ''master'')] = [(''redis_version'', ''7.2''), (''role'', ''master'')]"
    by code_simp+
  then show ?thesis using redis_info_read [of "[(''redis_version'', ''7.2''), (''Role'', ''master'')]"] by simp
qed

definition redis_ex :: RedisProtocol where
  "redis_ex = \<lparr>Redis_Host = ''r'', Redis_Port = ''6379'', Redis_Username = [], Redis_Password = [], Redis_Pattern = ''3'', Redis_Timeout = [],
     Redis_SSHTunnel = None\<rparr>"

definition redis_lib_ex :: "unit RedisLib" where
  "redis_lib_ex = \<lparr>rl_Info = \<lambda>opts node section. if node = ''b'' then Err ''timeout'' else Ok ''role:master'', rl_ClusterInfo = \<lambda>opts node. Err [],
     rl_Nodes = \<lambda>opts. [''a'', ''b'', ''c'']\<rparr>"

lemma fetch_ex: "fetchRedisInfo redis_lib_ex opts n (Redis_Pattern redis_ex) = (if n = ''b'' then Err ''timeout'' else Ok ''role:master'')"
  by (simp add: fetchRedisInfo_def redis_ex_def redis_lib_ex_def ClusterPattern_def ClusterInfo_def ToLower_def to_lower_def Let_def)

theorem redis_cluster_rows_witness:
  "length (R_Values (collectCluster redis_lib_ex metrics_ex redis_ex None 0 (\<lambda>n. 5) (response metrics_ex 0 CollectSuccess ''success''))) = 2"
  using redis_cluster_rows [OF refl refl refl, of redis_lib_ex metrics_ex redis_ex None 0 "\<lambda>n. 5" 0 "''success''"]
  by (simp add: fetch_ex) (simp add: redis_lib_ex_def)

end
