(* ===== verification/HTTP_Collector.thy ===== *)
theory HTTP_Collector
  imports Redis_Collector Go_JSON Crypto
begin

text \<open>
  The HTTP collector (\<open>protocol/basic/http/http_collector.go\<close>). URLs, the client and the server, MD5 and the Prometheus text parser are
  parameters; headers, digest authentication, JSON with its paths and the answers are modelled.
\<close>

subsection \<open>Requests\<close>

text \<open>\<open>textproto.CanonicalMIMEHeaderKey\<close>: capitals at the start and after a hyphen, unless a byte is not allowed in a header.\<close>

definition token_char :: "char \<Rightarrow> bool" where
  "token_char c \<longleftrightarrow> is_digit c \<or> (CHR ''a'' \<le> to_lower c \<and> to_lower c \<le> CHR ''z'') \<or>
     c \<in> set (''!#$%&*+-.^_|~'' @ [CHR 0x27, CHR 0x60])"

fun capitalize :: "bool \<Rightarrow> string \<Rightarrow> string" where
  "capitalize upper [] = []"
| "capitalize upper (c # cs) = (if upper then to_upper c else to_lower c) # capitalize (c = CHR ''-'') cs"

definition CanonicalHeaderKey :: "string \<Rightarrow> string" where
  "CanonicalHeaderKey k = (if list_all token_char k then capitalize True k else k)"

definition Header_Get :: "(string \<times> string list) list \<Rightarrow> string \<Rightarrow> string" where
  "Header_Get h k = (case map_of h (CanonicalHeaderKey k) of Some (v # vs) \<Rightarrow> v | _ \<Rightarrow> [])"

text \<open>The headers a request carries have one value each.\<close>

record 'u Request =
  rq_Method :: string
  rq_URL :: 'u
  rq_Header :: gomap
  rq_Body :: "string option"

record Response =
  rs_StatusCode :: int
  rs_Header :: "(string \<times> string list) list"
  rs_Body :: "string result"

record PromMetric =
  pm_Label :: "(string \<times> string) list"
  pm_Gauge :: "float64 option"
  pm_Counter :: "float64 option"
  pm_Untyped :: "float64 option"

text \<open>
  The libraries: parsing a URL (with the check of the method), adding parameters to its query, its request target and its text; the answer to the
  first and to the second request; what reading a body gives after it has been closed; the MD5 digest; the metric families of a Prometheus text, in the order of
  the map they come in.
\<close>

record 'u HttpLib =
  hl_NewRequest :: "string \<Rightarrow> string \<Rightarrow> 'u result"
  hl_AddQuery :: "'u \<Rightarrow> gomap \<Rightarrow> 'u"
  hl_RequestURI :: "'u \<Rightarrow> string"
  hl_String :: "'u \<Rightarrow> string"
  hl_Do :: "nat \<Rightarrow> duration \<Rightarrow> 'u Request \<Rightarrow> Response result"
  hl_ClosedBody :: "string result \<Rightarrow> string result"
  hl_MD5 :: "string \<Rightarrow> string"
  hl_TextToMetricFamilies :: "string \<Rightarrow> PromMetric list list result"

definition Header_Set :: "string \<Rightarrow> string \<Rightarrow> 'u Request \<Rightarrow> 'u Request" where
  "Header_Set k v req = req\<lparr>rq_Header := map_put (CanonicalHeaderKey k) v (rq_Header req)\<rparr>"

definition AuthTypeBasic :: string where "AuthTypeBasic = ''Basic Auth''"
definition AuthTypeBearer :: string where "AuthTypeBearer = ''Bearer Token''"
definition AuthTypeDigest :: string where "AuthTypeDigest = ''Digest Auth''"

definition authorize :: "Authorization option \<Rightarrow> 'u Request \<Rightarrow> 'u Request" where
  "authorize ao req =
     (case ao of None \<Rightarrow> req
      | Some auth \<Rightarrow>
          if Auth_Type auth = [] \<or> EqualFold (Auth_Type auth) AuthTypeBasic then
            (if Auth_BasicAuthUsername auth \<noteq> [] \<and> Auth_BasicAuthPassword auth \<noteq> []
             then Header_Set ''Authorization'' (''Basic '' @ b64_encode (Auth_BasicAuthUsername auth @ '':'' @ Auth_BasicAuthPassword auth)) req else req)
          else if EqualFold (Auth_Type auth) AuthTypeBearer then
            (if Auth_BearerTokenToken auth \<noteq> [] then Header_Set ''Authorization'' (''Bearer '' @ Auth_BearerTokenToken auth) req else req)
          else req)"

definition createRequest :: "'u HttpLib \<Rightarrow> HTTPProtocol \<Rightarrow> Heap \<Rightarrow> string \<Rightarrow> 'u Request result" where
  "createRequest http config h targetURL =
     (let method = (if ToUpper (HTTP_Method config) = [] then ''GET'' else ToUpper (HTTP_Method config));
          body = (if HTTP_Body config = [] then None else Some (HTTP_Body config))
      in case hl_NewRequest http method targetURL of
           Inl err \<Rightarrow> Err err
         | Inr url \<Rightarrow>
             (let req0 = \<lparr>rq_Method = method, rq_URL = url, rq_Header = [], rq_Body = body\<rparr>;
                  req1 = foldl (\<lambda>r (k, v). Header_Set k v r) req0 (deref (HTTP_Headers config) h);
                  req2 = authorize (Option.bind (HTTP_Authorization config) (auths h)) req1;
                  params = deref (HTTP_Params config) h
              in Ok (if params = [] then req2 else req2\<lparr>rq_URL := hl_AddQuery http (rq_URL req2) params\<rparr>)))"

subsection \<open>Digest authentication\<close>

definition hex_digit :: "nat \<Rightarrow> char" where
  "hex_digit n = (if n < 10 then char_of (48 + n) else char_of (87 + n))"

definition EncodeToString :: "string \<Rightarrow> string" where
  "EncodeToString s = concat (map (\<lambda>c. [hex_digit (of_char c div 16), hex_digit (of_char c mod 16)]) s)"

definition md5Hex :: "'u HttpLib \<Rightarrow> string \<Rightarrow> string" where
  "md5Hex http s = EncodeToString (hl_MD5 http s)"

definition trim_quotes :: "string \<Rightarrow> string" where
  "trim_quotes s = rev (dropWhile (\<lambda>c. c = CHR 0x22) (rev (dropWhile (\<lambda>c. c = CHR 0x22) s)))"

definition auth_pair :: "gomap \<Rightarrow> string \<Rightarrow> gomap" where
  "auth_pair m pair = (case SplitN2 (TrimSpace pair) ''='' of
     [k, v] \<Rightarrow> map_put (TrimSpace k) (trim_quotes (TrimSpace v)) m | _ \<Rightarrow> m)"

definition parseAuthHeader :: "string \<Rightarrow> gomap" where
  "parseAuthHeader header = foldl auth_pair [] (Split (TrimPrefix header ''Digest '') '','')"

definition quoted :: "string \<Rightarrow> string" where
  "quoted s = [CHR 0x22] @ s @ [CHR 0x22]"

text \<open>The error, or the new request; the request is nil when its URL is not accepted again. \<open>random\<close> are the random bytes of the client nonce.\<close>

definition handleDigestAuth :: "'u HttpLib \<Rightarrow> string \<Rightarrow> 'u Request \<Rightarrow> string \<Rightarrow> Authorization \<Rightarrow> 'u Request result outcome" where
  "handleDigestAuth http random originalReq authHeader authConfig =
     (let params = parseAuthHeader authHeader; realm = map_get ''realm'' params; nonce = map_get ''nonce'' params; qop = map_get ''qop'' params;
          opaque = map_get ''opaque'' params; algorithm = (if map_get ''algorithm'' params = [] then ''MD5'' else map_get ''algorithm'' params)
      in if realm = [] \<or> nonce = [] then Inr (Err ''missing realm or nonce in digest header'')
         else (let username = Auth_DigestAuthUsername authConfig;
                   ha1 = md5Hex http (username @ '':'' @ realm @ '':'' @ Auth_DigestAuthPassword authConfig);
                   uri = hl_RequestURI http (rq_URL originalReq);
                   ha2 = md5Hex http (rq_Method originalReq @ '':'' @ uri); nc = ''00000001''; cnonce = EncodeToString random
               in if qop \<noteq> [] \<and> \<not> Contains qop ''auth'' then Inr (Err (''unsupported qop: '' @ qop))
                  else (let responseStr = (if qop = [] then md5Hex http (ha1 @ '':'' @ nonce @ '':'' @ ha2)
                              else md5Hex http (ha1 @ '':'' @ nonce @ '':'' @ nc @ '':'' @ cnonce @ '':auth:'' @ ha2));
                            authVal = ''Digest username='' @ quoted username @ '', realm='' @ quoted realm @ '', nonce='' @ quoted nonce @
                              '', uri='' @ quoted uri @ '', response='' @ quoted responseStr @ '', algorithm='' @ quoted algorithm @
                              (if opaque \<noteq> [] then '', opaque='' @ quoted opaque else []) @
                              (if qop \<noteq> [] then '', qop=auth, nc='' @ nc @ '', cnonce='' @ quoted cnonce else [])
                        in case hl_NewRequest http (rq_Method originalReq) (hl_String http (rq_URL originalReq)) of
                             Inl err \<Rightarrow> Inl NilDereference
                           | Inr url \<Rightarrow> Inr (Ok (Header_Set ''Authorization'' authVal (originalReq\<lparr>rq_URL := url\<rparr>))))))"

subsection \<open>JSON\<close>

text \<open>A member of an object; of several with the same name the last. A missing member is told apart from null.\<close>

definition member :: "string \<Rightarrow> json \<Rightarrow> json option" where
  "member key j = (case j of JObj ms \<Rightarrow> map_of (rev ms) key | _ \<Rightarrow> None)"

text \<open>The key of a part of a path and its index, if it has one that is not negative.\<close>

definition path_part :: "string \<Rightarrow> string \<times> nat option" where
  "path_part part =
     (case Index part ''['' of
        Some i \<Rightarrow>
          if HasSuffix part '']'' then
            (take i part, (case Atoi (take (length part - 1 - (i + 1)) (drop (i + 1) part)) of
               Some v \<Rightarrow> if v < 0 then None else Some (nat v) | None \<Rightarrow> None))
          else (part, None)
      | None \<Rightarrow> (part, None))"

text \<open>nil is \<open>JNull\<close>.\<close>

definition navigate_part :: "json \<Rightarrow> string \<Rightarrow> json" where
  "navigate_part current part =
     (if current = JNull then JNull
      else (let (key, idx) = path_part part;
                next = (if key = [] then current else (case member key current of Some v \<Rightarrow> v | None \<Rightarrow> JNull))
            in case idx of None \<Rightarrow> next
               | Some i \<Rightarrow> (case next of JArr arr \<Rightarrow> if i < length arr then arr ! i else JNull | _ \<Rightarrow> JNull)))"

definition navigateJson :: "json \<Rightarrow> string \<Rightarrow> json" where
  "navigateJson data path0 =
     (let path = TrimPrefix path0 ''$.'' in if path = [] then data else foldl navigate_part data (Split path ''.''))"

text \<open>The verb \<open>%v\<close> for decoded JSON: numbers keep their text, maps are printed in the order of their keys.\<close>

fun str_le :: "string \<Rightarrow> string \<Rightarrow> bool" where
  "str_le [] t = True"
| "str_le (c # s) [] = False"
| "str_le (c # s) (d # t) = (c < d \<or> c = d \<and> str_le s t)"

fun insert_key :: "string \<times> string \<Rightarrow> (string \<times> string) list \<Rightarrow> (string \<times> string) list" where
  "insert_key e [] = [e]"
| "insert_key e (x # xs) = (if fst x = fst e then e # xs else if str_le (fst e) (fst x) then e # x # xs else x # insert_key e xs)"

fun show_json :: "json \<Rightarrow> string" where
  "show_json JNull = ''<nil>''"
| "show_json (JBool b) = (if b then ''true'' else ''false'')"
| "show_json (JNum s) = s"
| "show_json (JStr s) = s"
| "show_json (JArr js) = ''['' @ Join (map show_json js) '' '' @ '']''"
| "show_json (JObj ms) = ''map['' @
     Join (map (\<lambda>(k, s). k @ '':'' @ s) (foldl (\<lambda>es e. insert_key e es) [] (map (\<lambda>(k, j). (k, show_json j)) ms))) '' '' @ '']''"

definition row_cell :: "json \<Rightarrow> string \<Rightarrow> string" where
  "row_cell item field =
     (if EqualFold field ResponseTime \<or> EqualFold field StatusCode then NullValue
      else (let val = (case item of
                  JObj ms \<Rightarrow> (case member field item of Some v \<Rightarrow> v | None \<Rightarrow> navigateJson item field)
                | _ \<Rightarrow> JNull)
            in if val = JNull then NullValue else show_json val))"

definition extractRow :: "json \<Rightarrow> string list \<Rightarrow> ValueRow" where
  "extractRow item fs = \<lparr>Columns = map (row_cell item) fs\<rparr>"

text \<open>\<open>Decoder.Decode\<close> reads the first value and leaves the rest.\<close>

definition json_first :: "string \<Rightarrow> json option" where
  "json_first body = map_option fst (json_value (2 * length body + 2) body)"

definition parseJsonPath :: "CollectRepMetricsData \<Rightarrow> string \<Rightarrow> string list \<Rightarrow> string \<Rightarrow> CollectRepMetricsData" where
  "parseJsonPath resp body aliases parseScript =
     (case json_first body of None \<Rightarrow> resp
      | Some data \<Rightarrow>
          (let root = (if parseScript \<noteq> [] \<and> parseScript \<noteq> ''$'' then navigateJson data parseScript else data) in
           case root of
             JNull \<Rightarrow> resp
           | JArr arr \<Rightarrow> resp\<lparr>R_Values := R_Values resp @ map (\<lambda>item. extractRow item aliases) arr\<rparr>
           | _ \<Rightarrow> resp\<lparr>R_Values := R_Values resp @ [extractRow root aliases]\<rparr>))"

subsection \<open>The other formats\<close>

text \<open>A column of a Prometheus metric, and whether it counts as a value.\<close>

definition prom_cell :: "PromMetric \<Rightarrow> string \<Rightarrow> string \<times> bool" where
  "prom_cell m field =
     (if field = NullValue then ([], False)
      else if field = ''value'' \<or> field = ''prom_value'' then
        ((case pm_Gauge m of Some x \<Rightarrow> FormatFloat_prec 6 x
          | None \<Rightarrow> (case pm_Counter m of Some x \<Rightarrow> FormatFloat_prec 6 x
            | None \<Rightarrow> (case pm_Untyped m of Some x \<Rightarrow> FormatFloat_prec 6 x | None \<Rightarrow> []))), True)
      else (case map_of (rev (pm_Label m)) field of Some val \<Rightarrow> (val, True) | None \<Rightarrow> (NullValue, False)))"

definition parsePrometheus :: "'u HttpLib \<Rightarrow> CollectRepMetricsData \<Rightarrow> string \<Rightarrow> string list \<Rightarrow> CollectRepMetricsData result" where
  "parsePrometheus http resp body aliases =
     (case hl_TextToMetricFamilies http body of
        Inl err \<Rightarrow> Err err
      | Inr families \<Rightarrow>
          Ok (resp\<lparr>R_Values := R_Values resp @
            map (\<lambda>m. \<lparr>Columns = map (\<lambda>f. fst (prom_cell m f)) aliases\<rparr>)
              (filter (\<lambda>m. list_ex (\<lambda>f. snd (prom_cell m f)) aliases) (concat families))\<rparr>))"

definition website_cell :: "nat \<Rightarrow> int \<Rightarrow> int64 \<Rightarrow> string \<Rightarrow> string" where
  "website_cell keywordCount statusCode responseTime field =
     (let f = ToLower field in
      if f = ToLower StatusCode then FormatInt statusCode
      else if f = ToLower ResponseTime then FormatInt (sint responseTime)
      else if f = ''keyword'' then show_nat keywordCount else NullValue)"

definition parseWebsite :: "CollectRepMetricsData \<Rightarrow> string \<Rightarrow> int \<Rightarrow> int64 \<Rightarrow> string list \<Rightarrow> string \<Rightarrow> CollectRepMetricsData" where
  "parseWebsite resp body statusCode responseTime aliases keyword =
     (let keywordCount = (if keyword \<noteq> [] then Count body keyword else 0)
      in resp\<lparr>R_Values := R_Values resp @ [\<lparr>Columns = map (website_cell keywordCount statusCode responseTime) aliases\<rparr>]\<rparr>)"

definition parseHeader :: "CollectRepMetricsData \<Rightarrow> (string \<times> string list) list \<Rightarrow> string list \<Rightarrow> CollectRepMetricsData" where
  "parseHeader resp header aliases = resp\<lparr>R_Values := R_Values resp @
     [\<lparr>Columns = map (\<lambda>field. if Header_Get header field \<noteq> [] then Header_Get header field else NullValue) aliases\<rparr>]\<rparr>"

subsection \<open>Collecting\<close>

text \<open>Writing the response time and the status code into a row, which panics outside of the row.\<close>

fun fill_row :: "int64 \<Rightarrow> int \<Rightarrow> nat \<Rightarrow> string list \<Rightarrow> string list \<Rightarrow> string list outcome" where
  "fill_row responseTime statusCode j [] cols = Inr cols"
| "fill_row responseTime statusCode j (field # fs) cols =
     (if EqualFold field ResponseTime \<or> EqualFold field StatusCode then
        (if j < length cols
         then fill_row responseTime statusCode (Suc j) fs
                (cols[j := (if EqualFold field StatusCode then FormatInt statusCode else FormatInt (sint responseTime))])
         else Inl IndexOutOfRange)
      else fill_row responseTime statusCode (Suc j) fs cols)"

fun fill_rows :: "int64 \<Rightarrow> int \<Rightarrow> string list \<Rightarrow> ValueRow list \<Rightarrow> ValueRow list outcome" where
  "fill_rows responseTime statusCode fs [] = Inr []"
| "fill_rows responseTime statusCode fs (row # rows) =
     (case fill_row responseTime statusCode 0 fs (Columns row) of
        Inl p \<Rightarrow> Inl p
      | Inr cols \<Rightarrow> (case fill_rows responseTime statusCode fs rows of Inl p \<Rightarrow> Inl p | Inr rest \<Rightarrow> Inr (\<lparr>Columns = cols\<rparr> # rest)))"

definition fillCommonFields :: "CollectRepMetricsData \<Rightarrow> string list \<Rightarrow> int64 \<Rightarrow> int \<Rightarrow> CollectRepMetricsData outcome" where
  "fillCommonFields resp fs responseTime statusCode =
     (let resp1 = (if R_Fields resp = [] then resp\<lparr>R_Fields := map (\<lambda>f. Field0\<lparr>Field_Field := f, Field_Type := TypeString\<rparr>) fs\<rparr> else resp);
          rows = (if R_Values resp1 = [] then [\<lparr>Columns = replicate (length fs) NullValue\<rparr>] else R_Values resp1)
      in case fill_rows responseTime statusCode fs rows of Inl p \<Rightarrow> Inl p | Inr rows' \<Rightarrow> Inr (resp1\<lparr>R_Values := rows'\<rparr>))"

definition http_getTimeout :: "string \<Rightarrow> duration" where
  "http_getTimeout timeoutStr = (if timeoutStr = [] then 10 * Second
     else (case Atoi timeoutStr of Some val \<Rightarrow> word_of_int val * Millisecond | None \<Rightarrow> 10 * Second))"

definition target_url :: "HTTPProtocol \<Rightarrow> gomap \<Rightarrow> string" where
  "target_url config configMap =
     (let isSSL = (if HTTP_SSL config \<noteq> [] then ParseBool (HTTP_SSL config) = Some True else False);
          schema = (if isSSL then ''https'' else ''http'');
          host = map_get ''host'' configMap; port = map_get ''port'' configMap;
          url = (if HTTP_URL config = [] \<and> host \<noteq> [] \<and> port \<noteq> [] then schema @ ''://'' @ host @ '':'' @ port else HTTP_URL config)
      in if url \<noteq> [] \<and> \<not> HasPrefix url ''http'' then schema @ ''://'' @ url else url)"

text \<open>Executing the request, with the second request after a digest challenge. Without a second answer the closed body of the first is left.\<close>

definition execute :: "'u HttpLib \<Rightarrow> string \<Rightarrow> duration \<Rightarrow> Authorization option \<Rightarrow> 'u Request \<Rightarrow> Response result outcome" where
  "execute http random timeout ao req =
     (case hl_Do http 0 timeout req of
        Inl err \<Rightarrow> Inr (Err err)
      | Inr resp \<Rightarrow>
          (case ao of
             None \<Rightarrow> Inr (Ok resp)
           | Some auth \<Rightarrow>
               if rs_StatusCode resp \<noteq> 401 \<or> \<not> EqualFold (Auth_Type auth) AuthTypeDigest then Inr (Ok resp)
               else (let closed = resp\<lparr>rs_Body := hl_ClosedBody http (rs_Body resp)\<rparr>; authHeader = Header_Get (rs_Header resp) ''WWW-Authenticate'' in
                     if authHeader = [] then Inr (Ok closed)
                     else (case handleDigestAuth http random req authHeader auth of
                             Inl p \<Rightarrow> Inl p
                           | Inr (Inl digestErr) \<Rightarrow> Inr (Ok closed)
                           | Inr (Inr digestReq) \<Rightarrow> Inr (hl_Do http 1 timeout digestReq)))))"

definition parse_body :: "'u HttpLib \<Rightarrow> HTTPProtocol \<Rightarrow> Metrics \<Rightarrow> int64 \<Rightarrow> int64 \<Rightarrow> Response \<Rightarrow> string \<Rightarrow> CollectRepMetricsData result" where
  "parse_body http config metrics nowMilli responseTime resp body =
     (let success = response metrics nowMilli CollectSuccess ''success''; aliases = M_AliasFields metrics; parseType = HTTP_ParseType config in
      if parseType = ''prometheus'' then parsePrometheus http success body aliases
      else if parseType = ''website'' then Ok (parseWebsite success body (rs_StatusCode resp) responseTime aliases (HTTP_Keyword config))
      else if parseType = ''header'' then Ok (parseHeader success (rs_Header resp) aliases)
      else Ok (parseJsonPath success body aliases (HTTP_ParseScript config)))"

definition http_PreCheck :: "Metrics option \<Rightarrow> Heap \<Rightarrow> string option" where
  "http_PreCheck mo h =
     (case Option.bind mo (\<lambda>m. Option.bind (M_HTTP m) (https h)) of None \<Rightarrow> Some ''http configuration is missing'' | Some c \<Rightarrow> None)"

definition http_Collect :: "'u HttpLib \<Rightarrow> string \<Rightarrow> int64 \<Rightarrow> int64 \<Rightarrow> Metrics \<Rightarrow> Heap \<Rightarrow> CollectRepMetricsData outcome" where
  "http_Collect http random nowMilli responseTime metrics h =
     (case Option.bind (M_HTTP metrics) (https h) of
        None \<Rightarrow> Inl NilDereference
      | Some config \<Rightarrow>
          (let fail = response metrics nowMilli; targetURL = target_url config (deref (M_ConfigMap metrics) h) in
           if targetURL = [] then Inr (fail CollectFail ''target URL is empty'')
           else (case createRequest http config h targetURL of
                   Inl err \<Rightarrow> Inr (fail CollectFail (''failed to create request: '' @ err))
                 | Inr req \<Rightarrow>
                     (let timeout = http_getTimeout (if HTTP_Timeout config \<noteq> [] then HTTP_Timeout config else M_Timeout metrics) in
                      case execute http random timeout (Option.bind (HTTP_Authorization config) (auths h)) req of
                        Inl p \<Rightarrow> Inl p
                      | Inr (Inl err) \<Rightarrow> Inr (fail CollectUnReachable (''request failed: '' @ err))
                      | Inr (Inr resp) \<Rightarrow>
                          (case rs_Body resp of
                             Inl err \<Rightarrow> Inr (fail CollectFail (''failed to read body: '' @ err))
                           | Inr body \<Rightarrow>
                               (case parse_body http config metrics nowMilli responseTime resp body of
                                  Inl err \<Rightarrow> Inr (fail CollectFail (''parse error: '' @ err))
                                | Inr data \<Rightarrow> fillCommonFields data (M_AliasFields metrics) responseTime (rs_StatusCode resp)))))))"

subsection \<open>Every answer is complete\<close>

lemma fill_row_ok:
  "j + length fs \<le> length cols \<Longrightarrow> \<exists>cols'. fill_row rt sc j fs cols = Inr cols' \<and> length cols' = length cols \<and>
     (\<forall>i < j. cols' ! i = cols ! i) \<and>
     (\<forall>i < length fs. cols' ! (j + i) = (if EqualFold (fs ! i) StatusCode then FormatInt sc
        else if EqualFold (fs ! i) ResponseTime then FormatInt (sint rt) else cols ! (j + i)))"
proof (induction fs arbitrary: j cols)
  case (Cons f fs)
  define cols1 where "cols1 = (if EqualFold f ResponseTime \<or> EqualFold f StatusCode
    then cols[j := (if EqualFold f StatusCode then FormatInt sc else FormatInt (sint rt))] else cols)"
  have l: "length cols1 = length cols" and j: "j < length cols" using Cons.prems by (auto simp: cols1_def)
  have "Suc j + length fs \<le> length cols1" using Cons.prems l by simp
  from Cons.IH [OF this] obtain cols' where c: "fill_row rt sc (Suc j) fs cols1 = Inr cols'" "length cols' = length cols1"
    "\<forall>i < Suc j. cols' ! i = cols1 ! i"
    "\<forall>i < length fs. cols' ! (Suc j + i) = (if EqualFold (fs ! i) StatusCode then FormatInt sc
        else if EqualFold (fs ! i) ResponseTime then FormatInt (sint rt) else cols1 ! (Suc j + i))" by blast
  have "fill_row rt sc j (f # fs) cols = Inr cols'" using c(1) j by (auto simp: cols1_def split: if_splits)
  moreover have "\<forall>i < j. cols' ! i = cols ! i" using c(3) by (simp add: cols1_def)
  moreover have "cols' ! (j + i) = (if EqualFold ((f # fs) ! i) StatusCode then FormatInt sc
        else if EqualFold ((f # fs) ! i) ResponseTime then FormatInt (sint rt) else cols ! (j + i))" if "i < length (f # fs)" for i
  proof (cases i)
    case 0
    then show ?thesis using c(3) j by (simp add: cols1_def)
  next
    case (Suc k)
    then show ?thesis using c(4) that by (auto simp: cols1_def)
  qed
  ultimately show ?case using c(2) l by auto
qed simp

text \<open>A row with a column for every field, the response time and the status code in their places.\<close>

definition row_filled :: "int64 \<Rightarrow> int \<Rightarrow> string list \<Rightarrow> ValueRow \<Rightarrow> bool" where
  "row_filled rt sc fs row \<longleftrightarrow> length (Columns row) = length fs \<and>
     (\<forall>i < length fs. (EqualFold (fs ! i) StatusCode \<longrightarrow> Columns row ! i = FormatInt sc) \<and>
       (EqualFold (fs ! i) ResponseTime \<longrightarrow> Columns row ! i = FormatInt (sint rt)))"

lemma time_not_status: "EqualFold f StatusCode \<Longrightarrow> \<not> EqualFold f ResponseTime"
proof -
  have "ToLower StatusCode \<noteq> ToLower ResponseTime" by code_simp
  then show "EqualFold f StatusCode \<Longrightarrow> \<not> EqualFold f ResponseTime" by (simp add: EqualFold_def)
qed

lemma fill_rows_ok:
  "\<forall>row \<in> set rows. length (Columns row) = length fs \<Longrightarrow>
   \<exists>rows'. fill_rows rt sc fs rows = Inr rows' \<and> length rows' = length rows \<and> (\<forall>row \<in> set rows'. row_filled rt sc fs row)"
proof (induction rows)
  case (Cons row rows)
  from Cons obtain rows' where r: "fill_rows rt sc fs rows = Inr rows'" "length rows' = length rows"
    "\<forall>row \<in> set rows'. row_filled rt sc fs row" by auto
  obtain cols' where c: "fill_row rt sc 0 fs (Columns row) = Inr cols'" "length cols' = length fs"
    "\<forall>i < length fs. cols' ! i = (if EqualFold (fs ! i) StatusCode then FormatInt sc
        else if EqualFold (fs ! i) ResponseTime then FormatInt (sint rt) else Columns row ! i)"
    using fill_row_ok [of 0 fs "Columns row" rt sc] Cons.prems by auto
  then have "row_filled rt sc fs \<lparr>Columns = cols'\<rparr>" using time_not_status by (auto simp: row_filled_def)
  then show ?case using r c by simp
qed simp

lemma parse_body_shape:
  assumes "parse_body http config metrics t rt resp body = Inr data"
  shows "R_Fields data = [] \<and> R_Code data = CollectSuccess \<and> (\<forall>row \<in> set (R_Values data). length (Columns row) = length (M_AliasFields metrics))"
  using assms
  by (auto simp: parse_body_def parsePrometheus_def parseWebsite_def parseHeader_def parseJsonPath_def extractRow_def Let_def
      split: if_splits sum.splits option.splits json.splits)

lemma fillCommonFields_ok:
  assumes "R_Fields data = []" and "\<forall>row \<in> set (R_Values data). length (Columns row) = length fs"
  shows "\<exists>out. fillCommonFields data fs rt sc = Inr out \<and> R_Code out = R_Code data \<and> map Field_Field (R_Fields out) = fs \<and>
    R_Values out \<noteq> [] \<and> (\<forall>row \<in> set (R_Values out). row_filled rt sc fs row)"
proof -
  let ?rows = "if R_Values data = [] then [\<lparr>Columns = replicate (length fs) NullValue\<rparr>] else R_Values data"
  have "\<forall>row \<in> set ?rows. length (Columns row) = length fs" using assms(2) by auto
  from fill_rows_ok [OF this, of rt sc] obtain rows' where r: "fill_rows rt sc fs ?rows = Inr rows'" "length rows' = length ?rows"
    "\<forall>row \<in> set rows'. row_filled rt sc fs row" by blast
  have "rows' \<noteq> []" using r(2) by (auto split: if_splits)
  then show ?thesis using r(1,3) assms(1) by (auto simp: fillCommonFields_def Let_def comp_def Field0_def)
qed

text \<open>What a digest retry relies on: the text of a URL that a request was created with is accepted again with the same method, also after parameters were
  added to its query.\<close>

definition reparses :: "'u HttpLib \<Rightarrow> bool" where
  "reparses http \<longleftrightarrow> (\<forall>m s u. hl_NewRequest http m s = Inr u \<longrightarrow> (\<exists>u'. hl_NewRequest http m (hl_String http u) = Inr u') \<and>
     (\<forall>ps. \<exists>u'. hl_NewRequest http m (hl_String http (hl_AddQuery http u ps)) = Inr u'))"

lemma Header_Set_keeps [simp]: "rq_Method (Header_Set k v req) = rq_Method req" "rq_URL (Header_Set k v req) = rq_URL req"
  by (simp_all add: Header_Set_def)

lemma headers_keep [simp]:
  "rq_Method (foldl (\<lambda>r (k, v). Header_Set k v r) req kvs) = rq_Method req" "rq_URL (foldl (\<lambda>r (k, v). Header_Set k v r) req kvs) = rq_URL req"
  by (induction kvs arbitrary: req) (simp_all add: case_prod_unfold)

lemma authorize_keeps [simp]: "rq_Method (authorize ao req) = rq_Method req" "rq_URL (authorize ao req) = rq_URL req"
  by (simp_all add: authorize_def split: option.split)

lemma createRequest_reparses:
  assumes "reparses http" and "createRequest http config h url = Inr req"
  shows "\<exists>u'. hl_NewRequest http (rq_Method req) (hl_String http (rq_URL req)) = Inr u'"
proof -
  define m where "m = (if ToUpper (HTTP_Method config) = [] then ''GET'' else ToUpper (HTTP_Method config))"
  obtain u where u: "hl_NewRequest http m url = Inr u" using assms(2) by (cases "hl_NewRequest http m url") (simp_all add: createRequest_def m_def)
  have "rq_Method req = m \<and> (rq_URL req = u \<or> rq_URL req = hl_AddQuery http u (deref (HTTP_Params config) h))"
    using assms(2) u by (simp add: createRequest_def m_def [symmetric] Let_def) (auto split: if_splits)
  then show ?thesis using assms(1) u unfolding reparses_def by metis
qed

text \<open>
  The answer a collection reads: the answer to the request, or the answer to the second request when the first was refused with 401, digest
  authentication is set up and the challenge can be met. A challenge that cannot be met leaves the refusal with its closed body.
\<close>

definition http_answered :: "'u HttpLib \<Rightarrow> string \<Rightarrow> duration \<Rightarrow> Authorization option \<Rightarrow> 'u Request \<Rightarrow> Response \<Rightarrow> bool" where
  "http_answered http random timeout ao req resp \<longleftrightarrow> (\<exists>first. hl_Do http 0 timeout req = Ok first \<and>
     (case ao of
        Some auth \<Rightarrow>
          if rs_StatusCode first = 401 \<and> EqualFold (Auth_Type auth) AuthTypeDigest then
            (case handleDigestAuth http random req (Header_Get (rs_Header first) ''WWW-Authenticate'') auth of
               Inr (Inr again) \<Rightarrow> hl_Do http 1 timeout again = Ok resp
             | _ \<Rightarrow> resp = first\<lparr>rs_Body := hl_ClosedBody http (rs_Body first)\<rparr>)
          else resp = first
      | None \<Rightarrow> resp = first))"

lemma no_challenge: "handleDigestAuth http random req [] auth = Inr (Err ''missing realm or nonce in digest header'')"
proof -
  have "map_get ''realm'' (parseAuthHeader []) = []" by code_simp
  then show ?thesis by (simp add: handleDigestAuth_def Let_def)
qed

lemma execute_answered:
  assumes "\<exists>u'. hl_NewRequest http (rq_Method req) (hl_String http (rq_URL req)) = Inr u'"
  shows "\<exists>r. execute http random timeout ao req = Inr r \<and> (\<forall>resp. r = Ok resp \<longrightarrow> http_answered http random timeout ao req resp)"
proof -
  have d: "handleDigestAuth http random req hdr auth \<noteq> Inl p" for hdr auth p
    using assms by (auto simp: handleDigestAuth_def Let_def)
  show ?thesis
    using d by (auto simp: execute_def http_answered_def no_challenge Let_def split: sum.splits option.splits if_splits)
qed

lemma http_Collect_data:
  assumes "Option.bind (M_HTTP metrics) (https h) = Some config" and "reparses http"
    and url: "url = target_url config (deref (M_ConfigMap metrics) h)"
    and ao: "ao = Option.bind (HTTP_Authorization config) (auths h)"
    and t: "t = http_getTimeout (if HTTP_Timeout config \<noteq> [] then HTTP_Timeout config else M_Timeout metrics)"
  shows "\<exists>data. http_Collect http random nowMilli rt metrics h = Inr data \<and>
    (R_Code data = CollectSuccess \<longrightarrow> map Field_Field (R_Fields data) = M_AliasFields metrics \<and> R_Values data \<noteq> [] \<and>
      (\<exists>req resp. createRequest http config h url = Ok req \<and> http_answered http random t ao req resp \<and>
        (\<forall>row \<in> set (R_Values data). row_filled rt (rs_StatusCode resp) (M_AliasFields metrics) row)))"
proof -
  have code: "CollectFail \<noteq> CollectSuccess" "CollectUnReachable \<noteq> CollectSuccess"
    by (simp_all add: CollectFail_def CollectSuccess_def CollectUnReachable_def)
  show ?thesis
  proof (cases "url = []")
    case True
    then show ?thesis using assms(1) url code by (simp add: http_Collect_def Let_def)
  next
    case ne: False
    show ?thesis
    proof (cases "createRequest http config h url")
      case (Inl err)
      then show ?thesis using assms(1) ne url code by (simp add: http_Collect_def Let_def)
    next
      case (Inr req)
      obtain r where r: "execute http random t ao req = Inr r" "\<forall>resp. r = Ok resp \<longrightarrow> http_answered http random t ao req resp"
        using execute_answered [OF createRequest_reparses [OF assms(2) Inr]] by blast
      have e: "http_Collect http random nowMilli rt metrics h = (case r of
          Inl err \<Rightarrow> Inr (response metrics nowMilli CollectUnReachable (''request failed: '' @ err))
        | Inr resp \<Rightarrow> (case rs_Body resp of
             Inl err \<Rightarrow> Inr (response metrics nowMilli CollectFail (''failed to read body: '' @ err))
           | Inr body \<Rightarrow> (case parse_body http config metrics nowMilli rt resp body of
                Inl err \<Rightarrow> Inr (response metrics nowMilli CollectFail (''parse error: '' @ err))
              | Inr data \<Rightarrow> fillCommonFields data (M_AliasFields metrics) rt (rs_StatusCode resp))))"
        using assms(1) ne url ao t Inr r(1) by (simp add: http_Collect_def Let_def split: sum.splits)
      have f: "\<exists>out. fillCommonFields data (M_AliasFields metrics) rt sc = Inr out \<and> map Field_Field (R_Fields out) = M_AliasFields metrics \<and>
          R_Values out \<noteq> [] \<and> (\<forall>row \<in> set (R_Values out). row_filled rt sc (M_AliasFields metrics) row)"
        if "parse_body http config metrics nowMilli rt resp body = Inr data" for resp body data sc
        using fillCommonFields_ok [of data "M_AliasFields metrics" rt sc] parse_body_shape [OF that] by blast
      show ?thesis
      proof (cases r)
        case (Inr resp)
        show ?thesis
        proof (cases "rs_Body resp")
          case b: (Inr body)
          show ?thesis
          proof (cases "parse_body http config metrics nowMilli rt resp body")
            case (Inr data)
            from f [OF this, of "rs_StatusCode resp"] show ?thesis
              using r(2) \<open>r = Inr resp\<close> b Inr \<open>createRequest http config h url = Inr req\<close> unfolding e by auto
          qed (use Inr b code in \<open>simp add: e\<close>)
        qed (use Inr code in \<open>simp add: e\<close>)
      qed (use code in \<open>simp add: e\<close>)
    qed
  qed
qed

text \<open>C33: an HTTP collection with a configuration always returns an answer, and never writes outside of a row, provided that the text of an
  accepted URL is accepted again. A successful answer lists the fields of the metric, has at least one row, and every row has a column for every
  field. Where they are asked for, the columns hold the response time and the status code of the answer that was read: the answer to the request, or
  the answer to the second request after a digest challenge. This holds for all formats, and for bodies that cannot be read as JSON.\<close>

theorem http_answer_complete:
  assumes "Option.bind (M_HTTP metrics) (https h) = Some config" and "reparses http"
    and "url = target_url config (deref (M_ConfigMap metrics) h)"
    and "ao = Option.bind (HTTP_Authorization config) (auths h)"
    and "t = http_getTimeout (if HTTP_Timeout config \<noteq> [] then HTTP_Timeout config else M_Timeout metrics)"
  shows "\<exists>data. http_Collect http random nowMilli rt metrics h = Inr data \<and>
    (R_Code data = CollectSuccess \<longrightarrow> map Field_Field (R_Fields data) = M_AliasFields metrics \<and> R_Values data \<noteq> [] \<and>
      (\<exists>req resp. createRequest http config h url = Ok req \<and> http_answered http random t ao req resp \<and>
        (\<forall>row \<in> set (R_Values data). row_filled rt (rs_StatusCode resp) (M_AliasFields metrics) row)))"
  by (rule http_Collect_data [OF assms])

subsection \<open>Paths\<close>

text \<open>A path as a list of keys with optional indices, what it leads to, and its text.\<close>

fun walk :: "json \<Rightarrow> (string \<times> nat option) list \<Rightarrow> json" where
  "walk j [] = j"
| "walk j ((k, i) # ps) =
     (case member k j of None \<Rightarrow> JNull
      | Some v \<Rightarrow>
          (case i of None \<Rightarrow> walk v ps
           | Some n \<Rightarrow> (case v of JArr arr \<Rightarrow> if n < length arr then walk (arr ! n) ps else JNull | _ \<Rightarrow> JNull)))"

definition part_text :: "string \<times> nat option \<Rightarrow> string" where
  "part_text p = fst p @ (case snd p of None \<Rightarrow> [] | Some i \<Rightarrow> ''['' @ show_nat i @ '']'')"

definition part_ok :: "string \<times> nat option \<Rightarrow> bool" where
  "part_ok p \<longleftrightarrow> fst p \<noteq> [] \<and> CHR ''.'' \<notin> set (fst p) \<and> CHR ''['' \<notin> set (fst p) \<and> (case snd p of None \<Rightarrow> True | Some i \<Rightarrow> int i < 2 ^ 63)"

lemma path_part_text: "part_ok p \<Longrightarrow> path_part (part_text p) = p"
proof -
  assume ok: "part_ok p"
  obtain k o' where p: "p = (k, o')" by (cases p) auto
  show ?thesis
  proof (cases o')
    case None
    then show ?thesis using ok p Index_None_char [of "CHR ''[''" k "[]"] by (simp add: part_ok_def path_part_def part_text_def)
  next
    case (Some i)
    let ?t = "k @ ''['' @ show_nat i @ '']''"
    have "Index ?t ''['' = Some (length k)"
      using ok p Index_first_char [of "CHR ''[''" k "[]" "show_nat i @ '']''"] by (simp add: part_ok_def)
    moreover have "HasSuffix ?t '']''" by (simp add: HasSuffix_def)
    moreover have "take (length ?t - 1 - (length k + 1)) (drop (length k + 1) ?t) = show_nat i" by simp
    moreover have "Atoi (show_nat i) = Some (int i)" using ok p Some by (intro Atoi_show_nat) (simp add: part_ok_def in_int64_def)
    moreover have "part_text p = ?t" using p Some by (simp add: part_text_def)
    ultimately show ?thesis using p Some by (simp add: path_part_def)
  qed
qed

lemma navigate_null: "foldl navigate_part JNull ps = JNull"
  by (induction ps) (simp_all add: navigate_part_def)

lemma member_null: "member k JNull = None"
  by (simp add: member_def)

lemma navigate_walk: "\<forall>p \<in> set ps. part_ok p \<Longrightarrow> foldl navigate_part j (map part_text ps) = walk j ps"
proof (induction ps arbitrary: j)
  case (Cons p ps)
  obtain k i where p: "p = (k, i)" by (cases p) auto
  with Cons.prems have "path_part (part_text (k, i)) = (k, i)" "k \<noteq> []" using path_part_text [of p] by (auto simp: part_ok_def)
  then have n: "navigate_part j (part_text (k, i)) =
      (if j = JNull then JNull else (let next = (case member k j of Some v \<Rightarrow> v | None \<Rightarrow> JNull) in
        case i of None \<Rightarrow> next | Some n \<Rightarrow> (case next of JArr arr \<Rightarrow> if n < length arr then arr ! n else JNull | _ \<Rightarrow> JNull)))"
    by (simp add: navigate_part_def)
  have IH: "foldl navigate_part j' (map part_text ps) = walk j' ps" for j' using Cons by simp
  show ?case
    using navigate_null [of "map part_text ps"] IH
    by (auto simp: p n member_null Let_def split: option.splits json.splits)
qed simp

lemma part_no_dot: "part_ok p \<Longrightarrow> CHR ''.'' \<notin> set (part_text p)"
  using show_nat_digits by (fastforce simp: part_ok_def part_text_def split: option.splits)

text \<open>C34: a path of keys and indices is followed through a JSON document. Written as \<open>$.a.b[2].c\<close> it leads to the member or element it names, and
  to nil when a step does not exist.\<close>

theorem json_path_followed:
  assumes "ps \<noteq> []" and "\<forall>p \<in> set ps. part_ok p"
  shows "navigateJson j (''$.'' @ Join (map part_text ps) ''.'') = walk j ps"
proof -
  have "Split (Join (map part_text ps) ''.'') ''.'' = map part_text ps"
    using assms part_no_dot by (intro Split_Join) auto
  moreover have "Join (map part_text ps) ''.'' \<noteq> []"
    using assms by (cases ps rule: remdups_adj.cases) (auto simp: part_ok_def part_text_def Join_Cons)
  ultimately show ?thesis
    using navigate_walk [OF assms(2)] by (simp add: navigateJson_def TrimPrefix_def Let_def)
qed

subsection \<open>Challenges\<close>

text \<open>A challenge of a server: parameters with quoted values that contain neither commas nor quotes.\<close>

definition param_text :: "string \<times> string \<Rightarrow> string" where
  "param_text p = fst p @ ''='' @ quoted (snd p)"

definition param_ok :: "string \<times> string \<Rightarrow> bool" where
  "param_ok p \<longleftrightarrow> trimmed (fst p) \<and> fst p \<noteq> [] \<and> CHR ''='' \<notin> set (fst p) \<and> CHR '','' \<notin> set (fst p) \<and>
     CHR '','' \<notin> set (snd p) \<and> CHR 0x22 \<notin> set (snd p)"

lemma trim_quotes_quoted: "CHR 0x22 \<notin> set s \<Longrightarrow> trim_quotes (quoted s) = s"
proof -
  assume q: "CHR 0x22 \<notin> set s"
  then have "dropWhile (\<lambda>c. c = CHR 0x22) (s @ [CHR 0x22]) = (if s = [] then [] else s @ [CHR 0x22])" by (cases s) auto
  moreover from q have "dropWhile (\<lambda>c. c = CHR 0x22) (rev s) = rev s" by (cases s rule: rev_cases) auto
  ultimately show ?thesis by (simp add: trim_quotes_def quoted_def)
qed

lemma TrimSpace_sp: "TrimSpace (CHR '' '' # s) = TrimSpace s"
  by (simp add: TrimSpace_def is_space_def)

lemma auth_pair_text:
  assumes "param_ok p"
  shows "auth_pair m (param_text p) = map_put (fst p) (snd p) m" and "auth_pair m (CHR '' '' # param_text p) = map_put (fst p) (snd p) m"
proof -
  obtain k v where p: "p = (k, v)" by (cases p) auto
  let ?t = "k @ ''='' @ quoted v"
  have q: "\<not> is_space (CHR 0x22)" by (simp add: is_space_def)
  have "TrimSpace ?t = ?t"
    using assms p q by (intro TrimSpace_ends) (auto simp: param_ok_def trimmed_def quoted_def)
  moreover have "SplitN2 ?t ''='' = [k, quoted v]"
    using assms p Index_first_char [of "CHR ''=''" k "[]" "quoted v"] by (simp add: SplitN2_def param_ok_def)
  moreover have "TrimSpace k = k" using assms p by (simp add: param_ok_def TrimSpace_trimmed)
  moreover have "TrimSpace (quoted v) = quoted v" using q by (intro TrimSpace_ends) (simp_all add: quoted_def)
  moreover have "trim_quotes (quoted v) = v" using assms p by (simp add: param_ok_def trim_quotes_quoted)
  ultimately show "auth_pair m (param_text p) = map_put (fst p) (snd p) m" "auth_pair m (CHR '' '' # param_text p) = map_put (fst p) (snd p) m"
    by (simp_all add: auth_pair_def param_text_def p TrimSpace_sp)
qed

lemma Join_comma_space: "ps \<noteq> [] \<Longrightarrow> Join ps '', '' = Join (hd ps # map ((#) (CHR '' '')) (tl ps)) '',''"
proof (induction ps "'', ''" rule: Join.induct)
  case (3 x y ys)
  then show ?case by (cases ys) simp_all
qed simp_all

text \<open>C39: a digest challenge is read back. The parameters a server lists after \<open>Digest\<close> have names without surrounding space, commas and equality signs and quoted values
  without commas and quotes, with a comma and a space between them; then every name gives the value of its last occurrence, and a name that is not listed gives none.
  Values with a comma are outside of this: the header is cut at every comma.\<close>

theorem challenge_read:
  assumes "ps \<noteq> []" and "\<forall>p \<in> set ps. param_ok p"
  shows "map_of (parseAuthHeader (''Digest '' @ Join (map param_text ps) '', '')) = map_of (rev ps)"
proof -
  obtain p ps' where ps: "ps = p # ps'" using assms(1) by (cases ps) auto
  let ?ls = "param_text p # map (\<lambda>p. CHR '' '' # param_text p) ps'"
  have "CHR '','' \<notin> set (param_text q)" if "q \<in> set ps" for q
    using that assms(2) by (auto simp: param_ok_def param_text_def quoted_def)
  then have "Split (Join ?ls '','') '','' = ?ls" using ps by (intro Split_Join) auto
  moreover have "Join (map param_text ps) '', '' = Join ?ls '',''" using Join_comma_space [of "map param_text ps"] ps by (simp add: comp_def)
  moreover have "foldl auth_pair m (map (\<lambda>p. CHR '' '' # param_text p) qs) = foldl (\<lambda>m p. map_put (fst p) (snd p) m) m qs"
    if "\<forall>q \<in> set qs. param_ok q" for m qs
    using that by (induction qs arbitrary: m) (simp_all add: auth_pair_text)
  ultimately have "parseAuthHeader (''Digest '' @ Join (map param_text ps) '', '') = foldl (\<lambda>m p. map_put (fst p) (snd p) m) [] ps"
    using ps assms(2) by (simp add: parseAuthHeader_def TrimPrefix_def auth_pair_text)
  then show ?thesis using foldl_put [of fst snd "[]" ps] by simp
qed

theorem challenge_read_witness:
  "map_of (parseAuthHeader (''Digest '' @ Join (map param_text [(''realm'', ''api''), (''nonce'', ''a=b''), (''qop'', ''auth'')]) '', '')) ''nonce'' = Some ''a=b''"
proof -
  have "list_all param_ok [(''realm'', ''api''), (''nonce'', ''a=b''), (''qop'', ''auth'')]" by code_simp
  then show ?thesis using challenge_read [of "[(''realm'', ''api''), (''nonce'', ''a=b''), (''qop'', ''auth'')]"] by simp
qed

definition http_ex :: HTTPProtocol where
  "http_ex = \<lparr>HTTP_URL = ''10.0.0.7/health'', HTTP_Method = [], HTTP_Headers = None, HTTP_Params = None, HTTP_Body = [], HTTP_ParseScript = [],
     HTTP_ParseType = [], HTTP_Keyword = [], HTTP_Timeout = [], HTTP_SSL = [], HTTP_Authorization = None\<rparr>"

definition http_lib_ex :: "string HttpLib" where
  "http_lib_ex = \<lparr>hl_NewRequest = \<lambda>m u. Ok u, hl_AddQuery = \<lambda>u ps. u, hl_RequestURI = \<lambda>u. u, hl_String = \<lambda>u. u,
     hl_Do = \<lambda>n t req. Ok \<lparr>rs_StatusCode = 200, rs_Header = [], rs_Body = Ok ''not json''\<rparr>, hl_ClosedBody = \<lambda>b. Err [], hl_MD5 = \<lambda>s. s,
     hl_TextToMetricFamilies = \<lambda>s. Ok []\<rparr>"

theorem http_answer_complete_witness:
  "reparses http_lib_ex \<and> (\<exists>data.
     http_Collect http_lib_ex [] 0 5 (Metrics0\<lparr>M_AliasFields := [''statusCode'', ''responseTime''], M_HTTP := Some 1\<rparr>) (heap_ex\<lparr>https := [1 \<mapsto> http_ex]\<rparr>) =
       Inr data \<and> R_Code data = CollectSuccess \<and> (\<exists>row. R_Values data = [row] \<and> Columns row = [''200'', ''5'']))"
proof -
  let ?m = "Metrics0\<lparr>M_AliasFields := [''statusCode'', ''responseTime''], M_HTTP := Some 1\<rparr>" and ?h = "heap_ex\<lparr>https := [1 \<mapsto> http_ex]\<rparr>"
  have c: "Option.bind (M_HTTP ?m) (https ?h) = Some http_ex" by simp
  have r: "reparses http_lib_ex" by (simp add: reparses_def http_lib_ex_def)
  have x: "map_sum id (\<lambda>d. (R_Code d = CollectSuccess, length (R_Values d))) (http_Collect http_lib_ex [] 0 5 ?m ?h) = Inr (True, 1)" by code_simp
  have a: "Option.bind (HTTP_Authorization http_ex) (auths ?h) = None" by (simp add: http_ex_def)
  obtain data where d: "http_Collect http_lib_ex [] 0 5 ?m ?h = Inr data" "R_Code data = CollectSuccess" "length (R_Values data) = 1"
    using x by (cases "http_Collect http_lib_ex [] 0 5 ?m ?h") (simp_all del: One_nat_def)
  with http_answer_complete [OF c r refl a [symmetric] refl, of "[]" 0 5] obtain req resp t where
    w: "http_answered http_lib_ex [] t None req resp" "\<forall>row \<in> set (R_Values data). row_filled 5 (rs_StatusCode resp) [''statusCode'', ''responseTime''] row"
    by (simp del: One_nat_def) blast
  have "rs_StatusCode resp = 200" using w(1) by (auto simp: http_answered_def http_lib_ex_def)
  moreover obtain row where "R_Values data = [row]" using d(3) by (auto simp: length_Suc_conv)
  moreover have "FormatInt 200 = ''200''" "FormatInt (sint (5 :: int64)) = ''5''" "EqualFold ''statusCode'' StatusCode" "EqualFold ''responseTime'' ResponseTime"
    by code_simp+
  ultimately have "length (Columns row) = 2" "Columns row ! 0 = ''200''" "Columns row ! 1 = ''5''" using w(2) by (simp_all add: row_filled_def numeral_2_eq_2)
  then show ?thesis using r d(1,2) \<open>R_Values data = [row]\<close> by (auto simp: length_Suc_conv numeral_2_eq_2)
qed

theorem json_path_followed_witness:
  "navigateJson (JObj [(''data'', JArr [JNull, JObj [(''load'', JNum ''0.5'')]])]) (''$.'' @ Join (map part_text [(''data'', Some 1), (''load'', None)]) ''.'')
   = JNum ''0.5''"
  using json_path_followed [of "[(''data'', Some 1), (''load'', None)]" "JObj [(''data'', JArr [JNull, JObj [(''load'', JNum ''0.5'')]])]"]
  by (simp add: part_ok_def member_def)

end
