(* ===== verification/JDBC_Collector.thy ===== *)
theory JDBC_Collector
  imports SSH_Collector Go_JSON
begin

text \<open>
  The JDBC collector (\<open>protocol/basic/database/jdbc_collector.go\<close>): the screening of URLs, the SSH tunnel, connection strings and the four kinds of
  query. The SSH server, the local listener and the database drivers are parameters; what is open is part of the state.
\<close>

subsection \<open>Constants\<close>

definition QueryTypeOneRow :: string where "QueryTypeOneRow = ''oneRow''"
definition QueryTypeMultiRow :: string where "QueryTypeMultiRow = ''multiRow''"
definition QueryTypeColumns :: string where "QueryTypeColumns = ''columns''"
definition QueryTypeRunScript :: string where "QueryTypeRunScript = ''runScript''"

definition PlatformMySQL :: string where "PlatformMySQL = ''mysql''"
definition PlatformMariaDB :: string where "PlatformMariaDB = ''mariadb''"
definition PlatformPostgreSQL :: string where "PlatformPostgreSQL = ''postgresql''"
definition PlatformSQLServer :: string where "PlatformSQLServer = ''sqlserver''"
definition PlatformOracle :: string where "PlatformOracle = ''oracle''"
definition PlatformClickHouse :: string where "PlatformClickHouse = ''clickhouse''"
definition PlatformDM :: string where "PlatformDM = ''dm''"

definition pqUnreachableCode :: string where "pqUnreachableCode = ''08001''"

definition vulnerableKeywords :: "string list" where
  "vulnerableKeywords = [''allowLoadLocalInfile'', ''allowLoadLocalInfileInPath'', ''useLocalInfile'']"

definition blackList :: "string list" where
  "blackList = [''create trigger'', ''create alias'', ''runscript from'', ''shutdown'', ''drop table'', ''drop database'', ''create function'',
     ''alter system'', ''grant all'', ''revoke all'', ''allowloadlocalinfile'', ''allowloadlocalinfileinpath'', ''uselocalinfile'', ''init='',
     ''javaobjectserializer='', ''runscript'', ''serverstatusdiffinterceptor'', ''queryinterceptors='', ''statementinterceptors='',
     ''exceptioninterceptors='', ''xp_cmdshell'', ''create function'', ''dbms_java'', ''sp_sysexecute'', ''load_file'', ''allowmultiqueries'',
     ''autodeserialize'', ''detectcustomcollations'']"

text \<open>The regular expressions of the code ignore case and consist of letters, \<open>\s+\<close> and \<open>\s*\<close>.\<close>

datatype rx = Lit char | Spaces1 | Spaces0

fun spaced :: "string list \<Rightarrow> rx list" where
  "spaced [] = []"
| "spaced [w] = map Lit w"
| "spaced (w # ws) = map Lit w @ [Spaces1] @ spaced ws"

definition rx_text :: "rx list \<Rightarrow> string" where
  "rx_text ps = ''(?i)'' @ concat (map (\<lambda>p. case p of Lit c \<Rightarrow> [c] | Spaces1 \<Rightarrow> [CHR 0x5C, CHR ''s'', CHR ''+''] | Spaces0 \<Rightarrow> [CHR 0x5C, CHR ''s'', CHR ''*'']) ps)"

definition universalBypassPatterns :: "rx list list" where
  "universalBypassPatterns = [spaced [''create'', ''trigger''], spaced [''create'', ''function''], spaced [''drop'', ''table''], spaced [''drop'', ''database''],
     spaced [''run'', ''script''], spaced [''alter'', ''system''], spaced [''grant'', ''all''], spaced [''revoke'', ''all''],
     map Lit ''xp'' @ [Spaces0] @ map Lit ''cmdshell'', spaced [''load'', ''file'']]"

definition mysql_patterns :: "rx list list" where
  "mysql_patterns = [spaced [''allow'', ''load'', ''local'', ''infile''], spaced [''allow'', ''multi'', ''queries''], spaced [''query'', ''interceptors''],
     spaced [''auto'', ''deserialize'']]"

definition platformBypassPatterns :: "(string \<times> rx list list) list" where
  "platformBypassPatterns = [(''mysql'', mysql_patterns), (''mariadb'', mysql_patterns),
     (''postgresql'', [spaced [''socket'', ''factory''], spaced [''logger'', ''file''], spaced [''logger'', ''level'']])]"

subsection \<open>Regular expressions\<close>

text \<open>White space of \<open>\s\<close>; a letter without regard to case, which for \<open>k\<close> and \<open>s\<close> includes the Kelvin sign and the long s.\<close>

definition rx_space :: "char \<Rightarrow> bool" where
  "rx_space c \<longleftrightarrow> c \<in> {CHR 0x09, CHR 0x0A, CHR 0x0C, CHR 0x0D, CHR '' ''}"

definition rx_lit :: "char \<Rightarrow> string \<Rightarrow> string option" where
  "rx_lit p s = (case s of [] \<Rightarrow> None
     | c # r \<Rightarrow> if to_lower c = p then Some r
        else if p = CHR ''k'' \<and> HasPrefix s [CHR 0xE2, CHR 0x84, CHR 0xAA] then Some (drop 3 s)
        else if p = CHR ''s'' \<and> HasPrefix s [CHR 0xC5, CHR 0xBF] then Some (drop 2 s) else None)"

lemma rx_lit_shorter: "rx_lit p s = Some r \<Longrightarrow> length r < length s"
  by (auto simp: rx_lit_def split: list.splits if_splits)

function rx_match :: "rx list \<Rightarrow> string \<Rightarrow> bool" where
  "rx_match [] s = True"
| "rx_match (Lit p # ps) s = (case rx_lit p s of None \<Rightarrow> False | Some r \<Rightarrow> rx_match ps r)"
| "rx_match (Spaces1 # ps) s = (case s of [] \<Rightarrow> False | c # r \<Rightarrow> rx_space c \<and> rx_match (Spaces0 # ps) r)"
| "rx_match (Spaces0 # ps) s = (rx_match ps s \<or> (case s of [] \<Rightarrow> False | c # r \<Rightarrow> rx_space c \<and> rx_match (Spaces0 # ps) r))"
  by pat_completeness auto

termination rx_match
  by (relation "measure (\<lambda>(ps, s). length ps + length s)") (auto dest: rx_lit_shorter)

fun MatchString :: "rx list \<Rightarrow> string \<Rightarrow> bool" where
  "MatchString ps [] = rx_match ps []"
| "MatchString ps (c # s) = (rx_match ps (c # s) \<or> MatchString ps s)"

subsection \<open>Screening of URLs\<close>

text \<open>Control characters and the no-break space, which is two bytes in UTF-8, are removed.\<close>

fun clean_url :: "string \<Rightarrow> string" where
  "clean_url [] = []"
| "clean_url (c # s) =
     (if (of_char c :: nat) < 32 \<or> c = CHR 0x7F then clean_url s
      else if c = CHR 0xC2 \<and> s \<noteq> [] \<and> hd s = CHR 0xA0 then clean_url (tl s)
      else c # clean_url s)"

fun QueryUnescape :: "string \<Rightarrow> string option" where
  "QueryUnescape [] = Some []"
| "QueryUnescape (c # s) =
     (if c = CHR ''%'' then
        (case s of
           a # b # r \<Rightarrow>
             (case (hex_val a, hex_val b) of
                (Some x, Some y) \<Rightarrow> map_option ((#) (char_of (x * 16 + y))) (QueryUnescape r)
              | _ \<Rightarrow> None)
         | _ \<Rightarrow> None)
      else map_option ((#) (if c = CHR ''+'' then CHR '' '' else c)) (QueryUnescape s))"

text \<open>The rounds that are left; the flag tells whether decoding succeeded.\<close>

fun decode_rounds :: "nat \<Rightarrow> string \<Rightarrow> string \<times> bool" where
  "decode_rounds 0 prev = (prev, True)"
| "decode_rounds (Suc n) prev =
     (case QueryUnescape prev of None \<Rightarrow> (prev, False)
      | Some decoded \<Rightarrow> if decoded = prev then (decoded, True) else decode_rounds n decoded)"

definition recursiveDecode :: "string \<Rightarrow> string \<times> bool" where
  "recursiveDecode s = decode_rounds 5 s"

definition decoded_url :: "string \<Rightarrow> string" where
  "decoded_url rawURL = (let cleanedURL = clean_url rawURL; (decoded, ok) = recursiveDecode cleanedURL in if ok then decoded else cleanedURL)"

definition validateURL :: "string \<Rightarrow> string \<Rightarrow> string option" where
  "validateURL rawURL platform =
     (if 2048 < length rawURL then Some ''JDBC URL length exceeds maximum limit of 2048 characters''
      else (let urlLowerCase = ToLower (decoded_url rawURL) in
        case find (Contains urlLowerCase) vulnerableKeywords of
          Some keyword \<Rightarrow> Some (''JDBC URL prohibit contains vulnerable param '' @ keyword)
        | None \<Rightarrow>
            (case find (Contains urlLowerCase) blackList of
               Some keyword \<Rightarrow> Some (''invalid JDBC URL: contains potentially malicious parameter: '' @ keyword)
             | None \<Rightarrow>
                 if Contains urlLowerCase ''jndi:'' \<or> Contains urlLowerCase ''ldap:'' \<or> Contains urlLowerCase ''rmi:''
                 then Some ''invalid JDBC URL: contains potentially malicious JNDI or deserialization parameter''
                 else (case find (\<lambda>pattern. MatchString pattern urlLowerCase) universalBypassPatterns of
                    Some pattern \<Rightarrow> Some (''invalid JDBC URL: contains potentially malicious bypass pattern: '' @ rx_text pattern)
                  | None \<Rightarrow>
                      if platform = [] then None
                      else (case map_of platformBypassPatterns (ToLower platform) of None \<Rightarrow> None
                         | Some patterns \<Rightarrow>
                             map_option (\<lambda>pattern. ''invalid '' @ platform @ '' JDBC URL: contains potentially malicious bypass pattern: '' @ rx_text pattern)
                               (find (\<lambda>pattern. MatchString pattern urlLowerCase) patterns))))))"

definition checkTunnelParam :: "SSHTunnel option \<Rightarrow> string option" where
  "checkTunnelParam config =
     (case config of None \<Rightarrow> None
      | Some t \<Rightarrow>
          if ParseBool (Tun_Enable t) \<noteq> Some True then None
          else if Tun_Host t = [] \<or> Tun_Port t = [] \<or> Tun_Username t = []
          then Some ''ssh tunnel host, port, and username are required when enabled'' else None)"

text \<open>The error and the configuration, whose query type may be filled in.\<close>

definition check_config :: "JDBCProtocol \<Rightarrow> SSHTunnel option \<Rightarrow> string option \<times> JDBCProtocol" where
  "check_config c tunnel =
     (case checkTunnelParam tunnel of Some err \<Rightarrow> (Some err, c)
      | None \<Rightarrow>
          (let urlErr = (if JDBC_URL c \<noteq> [] then validateURL (JDBC_URL c) (JDBC_Platform c)
                 else if JDBC_Host c = [] then Some ''host is required when URL is not provided''
                 else if JDBC_Port c = [] then Some ''port is required when URL is not provided''
                 else if JDBC_Platform c = [] then Some ''platform is required when URL is not provided'' else None)
           in case urlErr of Some err \<Rightarrow> (Some err, c)
              | None \<Rightarrow>
                  if JDBC_Platform c \<noteq> [] \<and> JDBC_Platform c \<notin> {PlatformMySQL, PlatformMariaDB, PlatformPostgreSQL, PlatformSQLServer,
                       PlatformOracle, PlatformClickHouse, PlatformDM}
                  then (Some (''unsupported database platform: '' @ JDBC_Platform c), c)
                  else (let c1 = (if JDBC_QueryType c = [] then c\<lparr>JDBC_QueryType := QueryTypeOneRow\<rparr> else c) in
                    if JDBC_QueryType c1 \<notin> {QueryTypeOneRow, QueryTypeMultiRow, QueryTypeColumns, QueryTypeRunScript}
                    then (Some (''unsupported query type: '' @ JDBC_QueryType c1), c1)
                    else if JDBC_SQL c1 = [] then (Some (''SQL/Script content is required for query type: '' @ JDBC_QueryType c1), c1)
                    else (None, c1))))"

definition jdbc_PreCheck :: "Metrics option \<Rightarrow> Heap \<Rightarrow> string option \<times> Heap" where
  "jdbc_PreCheck mo h =
     (case mo of None \<Rightarrow> (Some ''metrics is nil'', h)
      | Some metrics \<Rightarrow>
          (case M_JDBC metrics of None \<Rightarrow> (Some ''JDBC protocol configuration is required'', h)
           | Some a \<Rightarrow>
               (case jdbcs h a of None \<Rightarrow> (Some ''JDBC configuration is required'', h)
                | Some c \<Rightarrow>
                    (let (err, c') = check_config c (Option.bind (JDBC_SSHTunnel c) (tunnels h)) in (err, h\<lparr>jdbcs := (jdbcs h)(a \<mapsto> c')\<rparr>)))))"

subsection \<open>Connection strings\<close>

definition constructDatabaseURL :: "JDBCProtocol \<Rightarrow> string \<Rightarrow> string \<Rightarrow> string result" where
  "constructDatabaseURL jdbc host port =
     (if JDBC_URL jdbc \<noteq> [] then (case validateURL (JDBC_URL jdbc) (JDBC_Platform jdbc) of Some err \<Rightarrow> Err err | None \<Rightarrow> Ok (JDBC_URL jdbc))
      else (let database = JDBC_Database jdbc; login = JDBC_Username jdbc @ '':'' @ JDBC_Password jdbc @ ''@''; p = JDBC_Platform jdbc in
        if p = PlatformMySQL \<or> p = PlatformMariaDB then
          Ok (login @ ''tcp('' @ host @ '':'' @ port @ '')/'' @ database @ ''?parseTime=true&charset=utf8mb4&timeout=30s&readTimeout=30s&writeTimeout=30s'' @
            (if JDBC_QueryType jdbc = QueryTypeRunScript then ''&multiStatements=true'' else []))
        else if p = PlatformPostgreSQL then
          Ok (''postgres://'' @ login @ host @ '':'' @ port @ ''/'' @ database @ ''?sslmode=disable&connect_timeout=30'')
        else if p = PlatformSQLServer then
          Ok (''sqlserver://'' @ login @ host @ '':'' @ port @ ''?database='' @ database @ ''&trustServerCertificate=true&encrypt=disable&connection+timeout=30'')
        else if p = PlatformOracle then Ok (''oracle://'' @ login @ host @ '':'' @ port @ ''/'' @ database)
        else Err (''unsupported database platform for URL construction: '' @ p)))"

definition driver_name :: "string \<Rightarrow> string \<Rightarrow> string result" where
  "driver_name databaseURL platform =
     (if platform = PlatformMySQL \<or> platform = PlatformMariaDB then Ok ''mysql''
      else if platform = PlatformPostgreSQL then Ok ''postgres''
      else if platform = PlatformSQLServer then Ok ''sqlserver''
      else if platform = PlatformOracle then Ok ''oracle''
      else if HasPrefix databaseURL ''postgres:'' then Ok ''postgres''
      else if HasPrefix databaseURL ''sqlserver:'' then Ok ''sqlserver''
      else if HasPrefix databaseURL ''oracle:'' then Ok ''oracle''
      else if Contains databaseURL ''@tcp('' then Ok ''mysql''
      else Err (''unsupported platform or ambiguous URL: '' @ platform))"

subsection \<open>The tunnel\<close>

text \<open>What is open: the SSH client and the listener of a tunnel, the two connections it forwards, and the database.\<close>

datatype resource = SshClient | Listener | LocalConn | RemoteConn | DB

record DbError =
  de_Text :: string
  de_PqCode :: "string option"
  de_Timeout :: bool

definition wrap :: "string \<Rightarrow> DbError \<Rightarrow> DbError" where
  "wrap prefix err = err\<lparr>de_Text := prefix @ de_Text err\<rparr>"

definition Errorf :: "string \<Rightarrow> DbError" where
  "Errorf txt = \<lparr>de_Text = txt, de_PqCode = None, de_Timeout = False\<rparr>"

text \<open>The rows of a query: the names of the columns, the values of every row (or the error of converting them) and the error at the end.\<close>

record Rows =
  rw_Columns :: "DbError + string list"
  rw_Rows :: "(DbError + string option list) list"
  rw_Err :: "DbError option"

text \<open>The SSH server, the local address of the listener and its parts, the forwarded connection, and the drivers.\<close>

record JdbcLib =
  jl_SshDial :: "string \<Rightarrow> SSHTunnel \<Rightarrow> duration \<Rightarrow> string option"
  jl_Listen :: "string result"
  jl_SplitHostPort :: "string \<Rightarrow> (string \<times> string) result"
  jl_Open :: "string \<Rightarrow> string \<Rightarrow> DbError option"
  jl_Ping :: "string \<Rightarrow> DbError option"
  jl_Query :: "string \<Rightarrow> DbError + Rows"
  jl_Exec :: "string \<Rightarrow> DbError + (DbError + int64)"

definition startSSHTunnel :: "JdbcLib \<Rightarrow> SSHTunnel \<Rightarrow> duration \<Rightarrow> string \<Rightarrow> resource list \<Rightarrow> (string \<times> string) result \<times> resource list" where
  "startSSHTunnel lib config timeout atoiErr st =
     (case Atoi (Tun_Port config) of
        None \<Rightarrow> (Err (''invalid SSH port: '' @ atoiErr), st)
      | Some sshPort \<Rightarrow>
          (case jl_SshDial lib (Tun_Host config @ '':'' @ FormatInt sshPort) config timeout of
             Some err \<Rightarrow> (Err (''failed to dial SSH server: '' @ err), st)
           | None \<Rightarrow>
               (let st1 = SshClient # st in
                case jl_Listen lib of
                  Inl err \<Rightarrow> (Err (''failed to listen on local port: '' @ err), remove1 SshClient st1)
                | Inr localAddr \<Rightarrow>
                    (let st2 = Listener # st1 in
                     case jl_SplitHostPort lib localAddr of
                       Inl err \<Rightarrow> (Err (''failed to parse local address: '' @ err), remove1 Listener (remove1 SshClient st2))
                     | Inr addr \<Rightarrow> (Ok addr, st2)))))"

definition tunnel_Close :: "resource list \<Rightarrow> resource list" where
  "tunnel_Close st = remove1 SshClient (remove1 Listener st)"

text \<open>Forwarding a local connection, up to the return of the function: the copying runs in two goroutines that it does not wait for.\<close>

definition forwardConnection :: "string option \<Rightarrow> resource list \<Rightarrow> resource list" where
  "forwardConnection dial st =
     (case dial of
        Some err \<Rightarrow> remove1 LocalConn st
      | None \<Rightarrow> remove1 LocalConn (remove1 RemoteConn (RemoteConn # st)))"

text \<open>The forwarder takes local connections until the listener is closed: an error of \<open>Accept\<close>, or what dialling the database through SSH gives.\<close>

fun runForwarder :: "(string + string option) list \<Rightarrow> resource list \<Rightarrow> resource list" where
  "runForwarder [] st = st"
| "runForwarder (Inl err # accepted) st = (if Contains err ''use of closed network connection'' then st else runForwarder accepted st)"
| "runForwarder (Inr dial # accepted) st = runForwarder accepted (forwardConnection dial (LocalConn # st))"

definition getConnection :: "JdbcLib \<Rightarrow> string \<Rightarrow> string \<Rightarrow> resource list \<Rightarrow> DbError option \<times> resource list" where
  "getConnection lib databaseURL platform st =
     (case driver_name databaseURL platform of
        Inl err \<Rightarrow> (Some (Errorf err), st)
      | Inr driverName \<Rightarrow>
          (case jl_Open lib driverName databaseURL of
             Some err \<Rightarrow> (Some (wrap ''failed to open database: '' err), st)
           | None \<Rightarrow>
               (let st1 = DB # st in
                case jl_Ping lib databaseURL of
                  Some err \<Rightarrow> (Some (wrap ''failed to ping database: '' err), remove1 DB st1)
                | None \<Rightarrow> (None, st1))))"

subsection \<open>Queries\<close>

definition buildFields :: "CollectRepMetricsData \<Rightarrow> string list \<Rightarrow> string list \<Rightarrow> CollectRepMetricsData \<times> string list" where
  "buildFields resp aliasFields columns =
     (let fieldNames = (if aliasFields \<noteq> [] then aliasFields else columns)
      in (resp\<lparr>R_Fields := map (\<lambda>(i, n). Field0\<lparr>Field_Field := n, Field_Type := TypeString, Field_Instance := (i = 0)\<rparr>) (enumerate 0 fieldNames)\<rparr>, fieldNames))"

text \<open>\<open>Rows.Scan\<close> into \<open>n\<close> variables.\<close>

definition scan :: "nat \<Rightarrow> nat \<Rightarrow> DbError + string option list \<Rightarrow> DbError + string option list" where
  "scan columns n row =
     (if n \<noteq> columns then Inl (Errorf (''sql: expected '' @ show_nat columns @ '' destination arguments in Scan, not '' @ show_nat n)) else row)"

definition string_value :: "string option \<Rightarrow> string" where
  "string_value v = (case v of Some s \<Rightarrow> s | None \<Rightarrow> NullValue)"

definition add_row :: "string list \<Rightarrow> CollectRepMetricsData \<Rightarrow> CollectRepMetricsData" where
  "add_row cols resp = resp\<lparr>R_Values := R_Values resp @ [\<lparr>Columns = cols\<rparr>]\<rparr>"

type_synonym query_result = "DbError option \<times> CollectRepMetricsData"

fun read_rows :: "nat \<Rightarrow> nat \<Rightarrow> (DbError + string option list) list \<Rightarrow> DbError option \<Rightarrow> CollectRepMetricsData \<Rightarrow> query_result" where
  "read_rows columns n [] err resp = (err, resp)"
| "read_rows columns n (row # rows) err resp =
     (case scan columns n row of
        Inl e \<Rightarrow> (Some (wrap ''failed to scan row: '' e), resp)
      | Inr vals \<Rightarrow> read_rows columns n rows err (add_row (map string_value vals) resp))"

definition with_columns :: "JdbcLib \<Rightarrow> string \<Rightarrow> CollectRepMetricsData \<Rightarrow> (Rows \<Rightarrow> string list \<Rightarrow> query_result) \<Rightarrow> query_result" where
  "with_columns lib sqlQuery resp k =
     (case jl_Query lib sqlQuery of
        Inl err \<Rightarrow> (Some (wrap ''query execution failed: '' err), resp)
      | Inr rows \<Rightarrow>
          (case rw_Columns rows of Inl err \<Rightarrow> (Some (wrap ''failed to get columns: '' err), resp) | Inr columns \<Rightarrow> k rows columns))"

definition queryOneRow :: "JdbcLib \<Rightarrow> string \<Rightarrow> string list \<Rightarrow> CollectRepMetricsData \<Rightarrow> query_result" where
  "queryOneRow lib sqlQuery aliasFields resp =
     with_columns lib sqlQuery resp (\<lambda>rows columns.
       let (resp1, fieldNames) = buildFields resp aliasFields columns
       in read_rows (length columns) (length fieldNames) (take 1 (rw_Rows rows)) (if rw_Rows rows = [] then rw_Err rows else None) resp1)"

definition queryMultiRow :: "JdbcLib \<Rightarrow> string \<Rightarrow> string list \<Rightarrow> CollectRepMetricsData \<Rightarrow> query_result" where
  "queryMultiRow lib sqlQuery aliasFields resp =
     with_columns lib sqlQuery resp (\<lambda>rows columns.
       let (resp1, fieldNames) = buildFields resp aliasFields columns
       in read_rows (length columns) (length fieldNames) (rw_Rows rows) (rw_Err rows) resp1)"

definition add_key_value :: "gomap \<Rightarrow> DbError + string option list \<Rightarrow> gomap" where
  "add_key_value m row =
     (case row of
        Inr (Some key # value # _) \<Rightarrow> map_put (ToLower (TrimSpace key)) (string_value value) m
      | _ \<Rightarrow> m)"

definition column_value :: "gomap \<Rightarrow> string \<Rightarrow> string" where
  "column_value m fieldName =
     (case map_of m (ToLower fieldName) of Some value \<Rightarrow> value
      | None \<Rightarrow> if fieldName = ResponseTime then ''0'' else NullValue)"

definition queryColumns :: "JdbcLib \<Rightarrow> string \<Rightarrow> string list \<Rightarrow> CollectRepMetricsData \<Rightarrow> query_result" where
  "queryColumns lib sqlQuery aliasFields resp =
     with_columns lib sqlQuery resp (\<lambda>rows columns.
       if length columns < 2 then (Some (Errorf (''columns query type requires at least 2 columns, got '' @ show_nat (length columns))), resp)
       else if aliasFields = [] then (Some (Errorf ''columns query type requires aliasFields to be defined''), resp)
       else (let (resp1, fieldNames) = buildFields resp aliasFields []; keyValueMap = foldl add_key_value [] (rw_Rows rows)
             in case rw_Err rows of Some err \<Rightarrow> (Some err, resp1)
                | None \<Rightarrow> (None, add_row (map (column_value keyValueMap) fieldNames) resp1)))"

definition runScript :: "JdbcLib \<Rightarrow> string \<Rightarrow> CollectRepMetricsData \<Rightarrow> query_result" where
  "runScript lib scriptContent resp =
     (case jl_Exec lib scriptContent of
        Inl err \<Rightarrow> (Some (wrap ''script execution failed: '' err), resp)
      | Inr affected \<Rightarrow>
          (let resp1 = fst (buildFields resp [] [''rows_affected'']) in
           (None, add_row [case affected of Inl err \<Rightarrow> ''0'' | Inr n \<Rightarrow> FormatInt (sint n)] resp1)))"

fun first_index :: "string \<Rightarrow> string list \<Rightarrow> nat option" where
  "first_index x [] = None"
| "first_index x (y # ys) = (if y = x then Some 0 else map_option Suc (first_index x ys))"

definition addResponseTime :: "CollectRepMetricsData \<Rightarrow> string list \<Rightarrow> duration \<Rightarrow> CollectRepMetricsData" where
  "addResponseTime resp aliasFields duration =
     (case first_index ResponseTime aliasFields of None \<Rightarrow> resp
      | Some rtIndex \<Rightarrow>
          resp\<lparr>R_Values := map (\<lambda>row. if rtIndex < length (Columns row)
             then \<lparr>Columns = (Columns row)[rtIndex := FormatInt (sint (go_div duration Millisecond))]\<rparr> else row) (R_Values resp)\<rparr>)"

subsection \<open>Collecting\<close>

definition run_query :: "JdbcLib \<Rightarrow> JDBCProtocol \<Rightarrow> string list \<Rightarrow> CollectRepMetricsData \<Rightarrow> query_result" where
  "run_query lib c aliasFields resp =
     (let q = JDBC_QueryType c in
      if q = QueryTypeOneRow then queryOneRow lib (JDBC_SQL c) aliasFields resp
      else if q = QueryTypeMultiRow then queryMultiRow lib (JDBC_SQL c) aliasFields resp
      else if q = QueryTypeColumns then queryColumns lib (JDBC_SQL c) aliasFields resp
      else if q = QueryTypeRunScript then runScript lib (JDBC_SQL c) resp
      else (Some (Errorf (''unsupported query type: '' @ q)), resp))"

definition query_failure :: "DbError \<Rightarrow> int \<times> string" where
  "query_failure err =
     (if de_PqCode err = Some pqUnreachableCode then (CollectUnReachable, ''Query error: '' @ de_Text err @ '' (Code: '' @ pqUnreachableCode @ '')'')
      else if de_Timeout err then (CollectUnReachable, ''Query timeout: '' @ de_Text err)
      else (CollectFail, ''Query error: '' @ de_Text err))"

text \<open>The tunnel and the database are closed when the collection returns.\<close>

definition collect_from :: "JdbcLib \<Rightarrow> int64 \<Rightarrow> duration \<Rightarrow> Metrics \<Rightarrow> JDBCProtocol \<Rightarrow> string \<times> string \<Rightarrow> resource list \<Rightarrow>
    CollectRepMetricsData \<times> resource list" where
  "collect_from lib nowMilli duration metrics c addr st =
     (case constructDatabaseURL c (fst addr) (snd addr) of
        Inl err \<Rightarrow> (response metrics nowMilli CollectFail (''Database URL error: '' @ err), st)
      | Inr databaseURL \<Rightarrow>
          (case getConnection lib databaseURL (JDBC_Platform c) st of
             (Some err, st1) \<Rightarrow> (response metrics nowMilli CollectUnConnectable (''Connection error: '' @ de_Text err), st1)
           | (None, st1) \<Rightarrow>
               (case run_query lib c (M_AliasFields metrics) (response metrics nowMilli CollectSuccess ''success'') of
                  (Some err, _) \<Rightarrow> (response metrics nowMilli (fst (query_failure err)) (snd (query_failure err)), remove1 DB st1)
                | (None, resp) \<Rightarrow> (addResponseTime resp (M_AliasFields metrics) duration, remove1 DB st1))))"

definition jdbc_Collect :: "JdbcLib \<Rightarrow> string \<Rightarrow> int64 \<Rightarrow> duration \<Rightarrow> Metrics \<Rightarrow> Heap \<Rightarrow> resource list \<Rightarrow>
    (CollectRepMetricsData \<times> resource list) outcome" where
  "jdbc_Collect lib atoiErr nowMilli duration metrics h st =
     (case Option.bind (M_JDBC metrics) (jdbcs h) of
        None \<Rightarrow> Inl NilDereference
      | Some c \<Rightarrow>
          (let direct = collect_from lib nowMilli duration metrics c (JDBC_Host c, JDBC_Port c) st in
           case Option.bind (JDBC_SSHTunnel c) (tunnels h) of
             None \<Rightarrow> Inr direct
           | Some t \<Rightarrow>
               if ParseBool (Tun_Enable t) \<noteq> Some True then Inr direct
               else (case startSSHTunnel lib t (getTimeout (JDBC_Timeout c)) atoiErr st of
                  (Inl err, st1) \<Rightarrow> Inr (response metrics nowMilli CollectUnConnectable (''SSH tunnel error: '' @ err), st1)
                | (Inr addr, st1) \<Rightarrow>
                    (let (resp, st2) = collect_from lib nowMilli duration metrics c addr st1 in Inr (resp, tunnel_Close st2)))))"

subsection \<open>Everything is closed\<close>

lemma getConnection_open:
  "getConnection lib url p st = (err, st') \<Longrightarrow> st' = (if err = None then DB # st else st)"
  by (auto simp: getConnection_def Let_def split: sum.splits option.splits)

lemma collect_from_closed: "snd (collect_from lib t d m c addr st) = st"
proof (cases "constructDatabaseURL c (fst addr) (snd addr)")
  case (Inr url)
  obtain err st1 where g: "getConnection lib url (JDBC_Platform c) st = (err, st1)" by fastforce
  then show ?thesis using getConnection_open [OF g] Inr
    by (cases err) (auto simp: collect_from_def split: prod.splits option.splits)
qed (simp add: collect_from_def)

lemma startSSHTunnel_open:
  "startSSHTunnel lib t timeout e st = (r, st') \<Longrightarrow> (case r of Inl err \<Rightarrow> st' = st | Inr addr \<Rightarrow> st' = Listener # SshClient # st)"
  by (auto simp: startSSHTunnel_def Let_def split: sum.splits option.splits)

text \<open>Every forwarded connection is closed at both ends by the time the forwarder takes the next one.\<close>

lemma forwarder_closes: "runForwarder accepted st = st"
  by (induction accepted st rule: runForwarder.induct) (simp_all add: forwardConnection_def split: option.split)

text \<open>C32: a JDBC collection with a configuration always returns an answer for its metric and leaves nothing open, neither database nor tunnel, on
  every path.\<close>

theorem jdbc_releases_all:
  assumes "Option.bind (M_JDBC metrics) (jdbcs h) = Some c"
  shows "\<exists>resp. jdbc_Collect lib atoiErr nowMilli duration metrics h st = Inr (resp, st)"
proof -
  have d: "\<exists>resp. collect_from lib nowMilli duration metrics c addr st' = (resp, st')" for addr st'
    using collect_from_closed [of lib nowMilli duration metrics c addr st'] by (metis prod.collapse)
  show ?thesis
  proof (cases "\<exists>t. Option.bind (JDBC_SSHTunnel c) (tunnels h) = Some t \<and> ParseBool (Tun_Enable t) = Some True")
    case False
    then show ?thesis using assms d [of "(JDBC_Host c, JDBC_Port c)" st] by (auto simp: jdbc_Collect_def Let_def split: option.splits)
  next
    case True
    then obtain t where t: "Option.bind (JDBC_SSHTunnel c) (tunnels h) = Some t" "ParseBool (Tun_Enable t) = Some True" by blast
    obtain r st1 where r: "startSSHTunnel lib t (getTimeout (JDBC_Timeout c)) atoiErr st = (r, st1)" by fastforce
    note o = startSSHTunnel_open [OF r]
    show ?thesis
    proof (cases r)
      case (Inl err)
      then show ?thesis using assms t r o by (simp add: jdbc_Collect_def Let_def)
    next
      case (Inr addr)
      obtain resp where "collect_from lib nowMilli duration metrics c addr st1 = (resp, st1)" using d by blast
      then show ?thesis using assms t r o Inr by (simp add: jdbc_Collect_def Let_def tunnel_Close_def)
    qed
  qed
qed

subsection \<open>Screening\<close>

lemma rx_match_word: "\<forall>c \<in> set w. to_lower c = c \<Longrightarrow> rx_match (map Lit w @ ps) (w @ s) = rx_match ps s"
  by (induction w) (simp_all add: rx_lit_def)

lemma rx_match_spaces: "\<forall>c \<in> set g. rx_space c \<Longrightarrow> rx_match ps s \<Longrightarrow> rx_match (Spaces0 # ps) (g @ s)"
  by (induction g) simp_all

lemma MatchString_append: "rx_match ps s \<Longrightarrow> MatchString ps (a @ s)"
proof (induction a)
  case Nil
  then show ?case by (cases s) simp_all
qed simp

lemma rx_match_two:
  assumes "\<forall>c \<in> set u. to_lower c = c" and "\<forall>c \<in> set v. to_lower c = c" and "g \<noteq> []" and "\<forall>c \<in> set g. rx_space c"
  shows "MatchString (spaced [u, v]) (a @ u @ g @ v @ b)"
proof (rule MatchString_append)
  have "rx_match (map Lit v) (v @ b)" using rx_match_word [OF assms(2), of "[]" b] by simp
  then have "rx_match (Spaces1 # map Lit v) (g @ v @ b)"
    using assms(3,4) rx_match_spaces [of "tl g" "map Lit v" "v @ b"] by (cases g) simp_all
  then show "rx_match (spaced [u, v]) (u @ g @ v @ b)" by (simp add: rx_match_word [OF assms(1)])
qed

text \<open>The commands of two words that are refused however much white space is between the words.\<close>

definition refused_commands :: "(string \<times> string) list" where
  "refused_commands = [(''create'', ''trigger''), (''create'', ''function''), (''drop'', ''table''), (''drop'', ''database''), (''run'', ''script''),
     (''alter'', ''system''), (''grant'', ''all''), (''revoke'', ''all''), (''load'', ''file'')]"

lemma refused_patterns:
  "(u, v) \<in> set refused_commands \<Longrightarrow>
   spaced [u, v] \<in> set universalBypassPatterns \<and> (\<forall>c \<in> set u. to_lower c = c) \<and> (\<forall>c \<in> set v. to_lower c = c)"
proof -
  have "list_all (\<lambda>(u, v). spaced [u, v] \<in> set universalBypassPatterns \<and> (\<forall>c \<in> set u. to_lower c = c) \<and> (\<forall>c \<in> set v. to_lower c = c)) refused_commands"
    by code_simp
  then show "(u, v) \<in> set refused_commands \<Longrightarrow> ?thesis" by (auto simp: list_all_iff)
qed

lemma validate_accepts:
  assumes "validateURL url platform = None"
  shows "length url \<le> 2048" and "\<forall>kw \<in> set blackList. \<not> Contains (ToLower (decoded_url url)) kw"
    and "\<forall>ps \<in> set universalBypassPatterns. \<not> MatchString ps (ToLower (decoded_url url))"
  using assms by (auto simp: validateURL_def Let_def find_None_iff split: if_splits option.splits)

text \<open>Decoding a number of times, one escape per place and time; nothing when an escape is malformed at some time.\<close>

fun unescape_times :: "nat \<Rightarrow> string \<Rightarrow> string option" where
  "unescape_times 0 s = Some s"
| "unescape_times (Suc n) s = Option.bind (QueryUnescape s) (unescape_times n)"

lemma unescape_fixed: "QueryUnescape s = Some s \<Longrightarrow> unescape_times n s = Some s"
  by (induction n) simp_all

lemma decode_rounds_times: "snd (decode_rounds n s) = (unescape_times n s \<noteq> None) \<and> (\<forall>t. unescape_times n s = Some t \<longrightarrow> fst (decode_rounds n s) = t)"
  by (induction n arbitrary: s) (auto simp: unescape_fixed split: option.split)

lemma decoded_url_times:
  "decoded_url url = (case unescape_times 5 (clean_url url) of Some t \<Rightarrow> t | None \<Rightarrow> clean_url url)"
  using decode_rounds_times [of 5 "clean_url url"]
  by (auto simp: decoded_url_def recursiveDecode_def Let_def case_prod_unfold split: option.split)

lemma refused_url:
  assumes "\<And>host port. constructDatabaseURL c host port = Err e"
    and "Option.bind (M_JDBC metrics) (jdbcs h) = Some c"
  shows "jdbc_Collect (lib\<lparr>jl_Open := op, jl_Ping := pi, jl_Query := qu, jl_Exec := ex\<rparr>) atoiErr nowMilli duration metrics h st =
    jdbc_Collect lib atoiErr nowMilli duration metrics h st"
proof -
  have "collect_from lib' nowMilli duration metrics c addr st' = (response metrics nowMilli CollectFail (''Database URL error: '' @ e), st')" for lib' addr st'
    by (simp add: collect_from_def assms(1))
  moreover have "startSSHTunnel (lib\<lparr>jl_Open := op, jl_Ping := pi, jl_Query := qu, jl_Exec := ex\<rparr>) = startSSHTunnel lib"
    by (intro ext) (simp add: startSSHTunnel_def Let_def split: option.split sum.split)
  ultimately show ?thesis using assms(2) by (simp add: jdbc_Collect_def Let_def split: option.split prod.split sum.split)
qed

text \<open>C31: only screened URLs of users reach a database. When a collection with a URL in its configuration makes any use of the database drivers, so that its outcome
  depends on what they answer to opening, pinging, querying or executing, then the URL has at most 2048 bytes and its text contains none of the black-listed words,
  in any case of letters, and none of the refused commands with any amount of white space between their two words. The text is the URL without control characters and
  decoded five times; but when an escape is malformed, the text that is searched is not decoded at all. The letters are those of ASCII.\<close>

theorem jdbc_url_screened:
  assumes "Option.bind (M_JDBC metrics) (jdbcs h) = Some c" and "url = JDBC_URL c" and "url \<noteq> []"
    and "jdbc_Collect (lib\<lparr>jl_Open := op, jl_Ping := pi, jl_Query := qu, jl_Exec := ex\<rparr>) atoiErr nowMilli duration metrics h st \<noteq>
      jdbc_Collect lib atoiErr nowMilli duration metrics h st"
    and "text = (case unescape_times 5 (clean_url url) of Some t \<Rightarrow> t | None \<Rightarrow> clean_url url)"
  shows "length url \<le> 2048 \<and> (\<forall>kw \<in> set blackList. \<not> Contains (ToLower text) kw) \<and>
    (\<forall>(u, v) \<in> set refused_commands. \<forall>a g b. g \<noteq> [] \<longrightarrow> (\<forall>x \<in> set g. rx_space x) \<longrightarrow> ToLower text \<noteq> a @ u @ g @ v @ b)"
proof -
  have t: "text = decoded_url url" using assms(5) by (simp add: decoded_url_times)
  have "validateURL url (JDBC_Platform c) = None"
  proof (rule ccontr)
    assume "validateURL url (JDBC_Platform c) \<noteq> None"
    then obtain e where "\<And>host port. constructDatabaseURL c host port = Err e" using assms(2,3) by (auto simp: constructDatabaseURL_def)
    then show False using refused_url [OF _ assms(1)] assms(4) by blast
  qed
  note v = validate_accepts [OF this]
  have "ToLower text \<noteq> a @ u @ g @ w @ b" if "(u, w) \<in> set refused_commands" "g \<noteq> []" "\<forall>x \<in> set g. rx_space x" for u w a g b
    using v(3) refused_patterns [OF that(1)] rx_match_two [of u w g a b] that(2,3) unfolding t by metis
  then show ?thesis using v(1,2) unfolding t by blast
qed

subsection \<open>Results\<close>

text \<open>a query of kind \<open>columns\<close> turns rows of names and values into one row. The column of a field is the value of the last row with its name, ignoring
  case and space around the name; NULL and missing names give the placeholder, except for the response time, which is filled in later.\<close>

theorem jdbc_columns_row:
  assumes "jl_Query lib q = Inr rows" and "rw_Columns rows = Inr columns" and "2 \<le> length columns" and "aliases \<noteq> []" and "rw_Err rows = None"
    and "rw_Rows rows = map (\<lambda>(k, v). Inr (Some k # v # extra)) kvs"
  shows "\<exists>resp'. queryColumns lib q aliases resp = (None, resp') \<and> map Field_Field (R_Fields resp') = aliases \<and>
    R_Values resp' = R_Values resp @ [\<lparr>Columns = map (\<lambda>a. case map_of (rev (map (\<lambda>(k, v). (ToLower (TrimSpace k), string_value v)) kvs)) (ToLower a) of
        Some v \<Rightarrow> v | None \<Rightarrow> if a = ResponseTime then ''0'' else NullValue) aliases\<rparr>]"
proof -
  have "foldl add_key_value m (map (\<lambda>(k, v). Inr (Some k # v # extra)) kvs) =
      foldl (\<lambda>m e. map_put (ToLower (TrimSpace (fst e))) (string_value (snd e)) m) m kvs" for m
    by (induction kvs arbitrary: m) (auto simp: add_key_value_def)
  then have k: "map_of (foldl add_key_value [] (rw_Rows rows)) = map_of (rev (map (\<lambda>(k, v). (ToLower (TrimSpace k), string_value v)) kvs))"
    using foldl_put [of "\<lambda>e. ToLower (TrimSpace (fst e))" "\<lambda>e. string_value (snd e)" "[]" kvs] assms(6) by (simp add: case_prod_unfold)
  have f: "map (\<lambda>x. Field_Field (case x of (i, n) \<Rightarrow> Field0\<lparr>Field_Field := n, Field_Type := TypeString, Field_Instance := (i = 0)\<rparr>)) (enumerate n xs) = xs" for n :: nat and xs
    by (induction xs arbitrary: n) (simp_all add: Field0_def)
  show ?thesis
    using assms(1-5) by (simp add: queryColumns_def with_columns_def buildFields_def Let_def add_row_def comp_def f column_value_def k case_prod_unfold)
qed

text \<open>the queries for rows need one field per column of the result. Whenever a result with a row has more or fewer columns than the metric has alias
  fields, the collection fails; in particular it fails for every metric that asks for the response time next to the columns of its query.\<close>

theorem jdbc_needs_all_columns:
  assumes "JDBC_QueryType c = QueryTypeOneRow \<or> JDBC_QueryType c = QueryTypeMultiRow"
    and "jl_Query lib (JDBC_SQL c) = Inr rows" and "rw_Columns rows = Inr columns" and "rw_Rows rows \<noteq> []"
    and "aliases \<noteq> []" and "length aliases \<noteq> length columns"
  shows "\<exists>err. fst (run_query lib c aliases resp) = Some err \<and> fst (query_failure err) = CollectFail"
proof -
  let ?err = "wrap ''failed to scan row: '' (Errorf (''sql: expected '' @ show_nat (length columns) @ '' destination arguments in Scan, not '' @ show_nat (length aliases)))"
  have "fst (read_rows (length columns) (length aliases) rs e resp') = Some ?err" if "rs \<noteq> []" for rs e resp'
    using that assms(6) by (cases rs) (simp_all add: scan_def)
  moreover have "take (Suc 0) (rw_Rows rows) \<noteq> []" using assms(4) by (cases "rw_Rows rows") auto
  moreover have "QueryTypeOneRow \<noteq> QueryTypeMultiRow" by (simp add: QueryTypeOneRow_def QueryTypeMultiRow_def)
  ultimately have "fst (run_query lib c aliases resp) = Some ?err"
    using assms by (auto simp: run_query_def queryOneRow_def queryMultiRow_def with_columns_def buildFields_def Let_def)
  moreover have "fst (query_failure ?err) = CollectFail" by (simp add: query_failure_def wrap_def Errorf_def)
  ultimately show ?thesis by blast
qed

definition jdbc_ex :: JDBCProtocol where
  "jdbc_ex = \<lparr>JDBC_Host = ''db'', JDBC_Port = ''3306'', JDBC_Platform = ''mysql'', JDBC_Username = ''u'', JDBC_Password = ''p'', JDBC_Database = ''app'',
     JDBC_Timeout = [], JDBC_QueryType = ''oneRow'', JDBC_SQL = ''select uptime'', JDBC_URL = ''u:p@tcp(db:3306)/app'', JDBC_ReuseConnection = [],
     JDBC_SSHTunnel = None\<rparr>"

definition rows_ex :: Rows where
  "rows_ex = \<lparr>rw_Columns = Inr [''Variable_name'', ''Value''], rw_Rows = [Inr [Some ''Uptime '', Some ''17''], Inr [Some ''Threads'', None]], rw_Err = None\<rparr>"

definition jdbc_lib_ex :: JdbcLib where
  "jdbc_lib_ex = \<lparr>jl_SshDial = \<lambda>a t d. None, jl_Listen = Ok ''127.0.0.1:4000'', jl_SplitHostPort = \<lambda>a. Ok (''127.0.0.1'', ''4000''),
     jl_Open = \<lambda>d u. None, jl_Ping = \<lambda>u. None, jl_Query = \<lambda>q. Inr rows_ex, jl_Exec = \<lambda>q. Inr (Inr 0)\<rparr>"

theorem jdbc_url_screened_witness:
  "jdbc_Collect (jdbc_lib_ex\<lparr>jl_Open := \<lambda>d u. Some (Errorf ''refused''), jl_Ping := \<lambda>u. None, jl_Query := \<lambda>q. Inr rows_ex, jl_Exec := \<lambda>q. Inr (Inr 0)\<rparr>) [] 0 0
      (Metrics0\<lparr>M_JDBC := Some 1\<rparr>) (heap_ex\<lparr>jdbcs := [1 \<mapsto> jdbc_ex]\<rparr>) [] \<noteq>
    jdbc_Collect jdbc_lib_ex [] 0 0 (Metrics0\<lparr>M_JDBC := Some 1\<rparr>) (heap_ex\<lparr>jdbcs := [1 \<mapsto> jdbc_ex]\<rparr>) [] \<and>
   \<not> Contains (ToLower ''u:p@tcp(db:3306)/app'') ''allowmultiqueries''"
proof -
  let ?m = "Metrics0\<lparr>M_JDBC := Some 1\<rparr>" and ?h = "heap_ex\<lparr>jdbcs := [1 \<mapsto> jdbc_ex]\<rparr>"
    and ?lib = "jdbc_lib_ex\<lparr>jl_Open := \<lambda>d u. Some (Errorf ''refused''), jl_Ping := \<lambda>u. None, jl_Query := \<lambda>q. Inr rows_ex, jl_Exec := \<lambda>q. Inr (Inr 0)\<rparr>"
  have "map_sum id (\<lambda>x. R_Code (fst x)) (jdbc_Collect ?lib [] 0 0 ?m ?h []) \<noteq> map_sum id (\<lambda>x. R_Code (fst x)) (jdbc_Collect jdbc_lib_ex [] 0 0 ?m ?h [])"
    by code_simp
  then have n: "jdbc_Collect ?lib [] 0 0 ?m ?h [] \<noteq> jdbc_Collect jdbc_lib_ex [] 0 0 ?m ?h []" by auto
  have "unescape_times 5 (clean_url (JDBC_URL jdbc_ex)) = Some (JDBC_URL jdbc_ex)" "JDBC_URL jdbc_ex \<noteq> []" by code_simp+
  moreover have "Option.bind (M_JDBC ?m) (jdbcs ?h) = Some jdbc_ex" by simp
  moreover have "''allowmultiqueries'' \<in> set blackList" by (simp add: blackList_def)
  moreover have "JDBC_URL jdbc_ex = ''u:p@tcp(db:3306)/app''" by (simp add: jdbc_ex_def)
  ultimately show ?thesis using jdbc_url_screened [OF _ refl _ n refl, of jdbc_ex] n by auto
qed

theorem jdbc_columns_row_witness:
  "\<exists>resp'. queryColumns jdbc_lib_ex [] [''uptime'', ''threads'', ''responseTime''] Data0 = (None, resp') \<and>
     R_Values resp' = [\<lparr>Columns = [''17'', NullValue, ''0'']\<rparr>]"
proof -
  have t: "ToLower (TrimSpace ''Uptime '') = ''uptime''" "ToLower (TrimSpace ''Threads'') = ''threads''"
    "ToLower ''uptime'' = ''uptime''" "ToLower ''threads'' = ''threads''" "ToLower ''responseTime'' = ''responsetime''" by code_simp+
  have q: "jl_Query jdbc_lib_ex [] = Inr rows_ex" by (simp add: jdbc_lib_ex_def)
  have "rw_Columns rows_ex = Inr [''Variable_name'', ''Value'']" "rw_Err rows_ex = None"
    "rw_Rows rows_ex = map (\<lambda>(k, v). Inr (Some k # v # [])) [(''Uptime '', Some ''17''), (''Threads'', None)]"
    by (simp_all add: rows_ex_def)
  then show ?thesis
    using jdbc_columns_row [OF q, of "[''Variable_name'', ''Value'']" "[''uptime'', ''threads'', ''responseTime'']" "[]"
        "[(''Uptime '', Some ''17''), (''Threads'', None)]" Data0]
    by (auto simp: t string_value_def ResponseTime_def Data0_def)
qed

theorem jdbc_needs_all_columns_witness:
  "\<exists>err. fst (run_query jdbc_lib_ex jdbc_ex [''name'', ''value'', ''responseTime''] Data0) = Some err \<and> fst (query_failure err) = CollectFail"
proof (rule jdbc_needs_all_columns)
  show "JDBC_QueryType jdbc_ex = QueryTypeOneRow \<or> JDBC_QueryType jdbc_ex = QueryTypeMultiRow" by (simp add: jdbc_ex_def QueryTypeOneRow_def)
  show "jl_Query jdbc_lib_ex (JDBC_SQL jdbc_ex) = Inr rows_ex" by (simp add: jdbc_lib_ex_def)
  show "rw_Columns rows_ex = Inr [''Variable_name'', ''Value'']" "rw_Rows rows_ex \<noteq> []" by (simp_all add: rows_ex_def)
qed simp_all

theorem jdbc_releases_all_witness:
  "\<exists>resp. jdbc_Collect jdbc_lib_ex [] 0 0 (Metrics0\<lparr>M_JDBC := Some 1\<rparr>) (heap_ex\<lparr>jdbcs := [1 \<mapsto> jdbc_ex]\<rparr>) [] = Inr (resp, [])"
  by (rule jdbc_releases_all [where c = jdbc_ex]) simp

end
