(* ===== verification/Collectors.thy ===== *)
theory Collectors
  imports HTTP_Collector JDBC_Collector Common_Dispatcher
begin

text \<open>
  The collectors together: the registrations of the protocol packages (\<open>init\<close> functions and \<open>protocol/standard/imports.go\<close>), the contract every
  collector keeps towards \<open>CollectMetrics\<close>, and what follows for the collection of a metric of any protocol.
\<close>

subsection \<open>The registry of the program\<close>

text \<open>The libraries the collectors use, and the clock they read.\<close>

record ('r, 'k, 'u) Libraries =
  ls_Keys :: "('r, 'k) KeyLib"
  ls_Ssh :: "'k SshNet"
  ls_Redis :: "'k RedisLib"
  ls_Milvus :: MilvusLib
  ls_Http :: "'u HttpLib"
  ls_Jdbc :: JdbcLib
  ls_Random :: string
  ls_AtoiError :: string
  ls_NowMilli :: int64
  ls_Elapsed :: duration

definition elapsed_milli :: "('r, 'k, 'u) Libraries \<Rightarrow> int64" where
  "elapsed_milli ls = go_div (ls_Elapsed ls) Millisecond"

definition collect_jdbc :: "('r, 'k, 'u) Libraries \<Rightarrow> Metrics \<Rightarrow> Heap \<Rightarrow> CollectRepMetricsData option outcome" where
  "collect_jdbc ls m h = map_sum id (\<lambda>r. Some (fst r)) (jdbc_Collect (ls_Jdbc ls) (ls_AtoiError ls) (ls_NowMilli ls) (ls_Elapsed ls) m h [])"

definition collect_http :: "('r, 'k, 'u) Libraries \<Rightarrow> Metrics \<Rightarrow> Heap \<Rightarrow> CollectRepMetricsData option outcome" where
  "collect_http ls m h = map_sum id Some (http_Collect (ls_Http ls) (ls_Random ls) (ls_NowMilli ls) (elapsed_milli ls) m h)"

definition collect_redis :: "('r, 'k, 'u) Libraries \<Rightarrow> Metrics \<Rightarrow> Heap \<Rightarrow> CollectRepMetricsData option outcome" where
  "collect_redis ls m h = map_sum id Some (redis_Collect (ls_Keys ls) (ls_Redis ls) (ls_NowMilli ls) (\<lambda>n. elapsed_milli ls) m h)"

definition collect_ssh :: "('r, 'k, 'u) Libraries \<Rightarrow> Metrics \<Rightarrow> Heap \<Rightarrow> CollectRepMetricsData option outcome" where
  "collect_ssh ls m h = Inr (Some (fst (ssh_Collect (ls_Keys ls) (ls_Ssh ls) (ls_NowMilli ls) (elapsed_milli ls) m h [])))"

definition collect_milvus :: "('r, 'k, 'u) Libraries \<Rightarrow> Metrics \<Rightarrow> Heap \<Rightarrow> CollectRepMetricsData option outcome" where
  "collect_milvus ls m h = map_sum id Some (milvus_Collect (ls_Milvus ls) (ls_NowMilli ls) (elapsed_milli ls) m h)"

definition standard_factories :: "('r, 'k, 'u) Libraries \<Rightarrow> (string \<times> (unit \<Rightarrow> Collector)) list" where
  "standard_factories ls =
     [(''jdbc'', \<lambda>_. \<lparr>Col_Protocol = ''jdbc'', Col_Collect = collect_jdbc ls\<rparr>),
      (''http'', \<lambda>_. \<lparr>Col_Protocol = ''http'', Col_Collect = collect_http ls\<rparr>),
      (''redis'', \<lambda>_. \<lparr>Col_Protocol = ''redis'', Col_Collect = collect_redis ls\<rparr>),
      (''ssh'', \<lambda>_. \<lparr>Col_Protocol = ''ssh'', Col_Collect = collect_ssh ls\<rparr>),
      (''milvus'', \<lambda>_. \<lparr>Col_Protocol = ''milvus'', Col_Collect = collect_milvus ls\<rparr>)]"

definition program_registry :: "('r, 'k, 'u) Libraries \<Rightarrow> CollectorRegistry" where
  "program_registry ls = InitializeCollectors (foldl (\<lambda>r (p, f). RegisterFactory p f r) empty_registry (standard_factories ls))"

lemma program_registry_get:
  "map_of (reg_collectors (program_registry ls)) p = map_option (\<lambda>f. f ()) (map_of (standard_factories ls) p)"
  by (simp add: program_registry_def standard_factories_def InitializeCollectors_def RegisterFactory_def empty_registry_def)

subsection \<open>What stays of a metric before it is collected\<close>

text \<open>Merging and replacing parameters leaves the references to protocol configurations, and which objects exist.\<close>

definition same_configs :: "Metrics \<Rightarrow> Heap \<Rightarrow> Metrics \<Rightarrow> Heap \<Rightarrow> bool" where
  "same_configs m h m' h' \<longleftrightarrow> M_JDBC m' = M_JDBC m \<and> M_HTTP m' = M_HTTP m \<and> M_Redis m' = M_Redis m \<and> M_SSH m' = M_SSH m \<and> M_Milvus m' = M_Milvus m \<and>
     dom (jdbcs h') = dom (jdbcs h) \<and> dom (https h') = dom (https h) \<and> dom (rediss h') = dom (rediss h) \<and> dom (sshs h') = dom (sshs h) \<and>
     dom (milvuss h') = dom (milvuss h)"

definition same_objects :: "Heap \<Rightarrow> Heap \<Rightarrow> bool" where
  "same_objects h h' \<longleftrightarrow> dom (jdbcs h') = dom (jdbcs h) \<and> dom (https h') = dom (https h) \<and> dom (rediss h') = dom (rediss h) \<and>
     dom (sshs h') = dom (sshs h) \<and> dom (milvuss h') = dom (milvuss h)"

lemma same_objects_refl [simp]: "same_objects h h"
  by (simp add: same_objects_def)

lemma same_objects_trans: "same_objects h h1 \<Longrightarrow> same_objects h1 h2 \<Longrightarrow> same_objects h h2"
  by (simp add: same_objects_def)

lemma same_objects_tunnel: "same_objects h h' \<Longrightarrow> same_objects h (replace_tunnel_ref pm p h')"
  by (auto simp: replace_tunnel_ref_def same_objects_def split: option.split)

lemma same_objects_upd:
  "jdbcs h a = Some c \<Longrightarrow> same_objects h (h\<lparr>jdbcs := (jdbcs h)(a \<mapsto> c')\<rparr>)" "rediss h a = Some r \<Longrightarrow> same_objects h (h\<lparr>rediss := (rediss h)(a \<mapsto> r')\<rparr>)"
  by (auto simp: same_objects_def)

lemma same_objects_replace:
  "same_objects h (replaceJDBCParams a pm h)" "same_objects h (replaceSSHParams a pm h)" "same_objects h (replaceRedisParams a pm h)"
proof -
  show "same_objects h (replaceSSHParams a pm h)" by (auto simp: replaceSSHParams_def same_objects_def dom_def)
qed (auto simp: replaceJDBCParams_def replaceRedisParams_def split: option.split intro!: same_objects_tunnel same_objects_upd)

lemma same_objects_map_ref: "replace_map_ref pm p h = (p', h') \<Longrightarrow> same_objects h h' \<and> https h' = https h"
  by (auto simp: replace_map_ref_def alloc_map_def same_objects_def split: option.splits)

lemma same_objects_http: "same_objects h (replaceHTTPParams a pm h)"
proof (cases "https h a")
  case (Some q)
  obtain p1 h1 where r1: "replace_map_ref pm (HTTP_Headers (replace_http_strings pm q)) h = (p1, h1)" by fastforce
  obtain p2 h2 where r2: "replace_map_ref pm (HTTP_Params (replace_http_strings pm q)) h1 = (p2, h2)" by fastforce
  have "same_objects h h2" "https h2 a = Some q"
    using same_objects_map_ref [OF r1] same_objects_map_ref [OF r2] same_objects_trans Some by auto
  then show ?thesis
    using Some r1 r2 by (auto simp: replaceHTTPParams_def Let_def same_objects_def split: option.split)
qed (simp add: replaceHTTPParams_def)

lemma same_objects_config: "same_objects h (foldl (replace_config_entry pa a) h ks)"
proof (induction ks arbitrary: h)
  case (Cons k ks)
  have "same_objects h (replace_config_entry pa a h k)" by (auto simp: replace_config_entry_def same_objects_def split: option.split)
  then show ?case using Cons same_objects_trans by fastforce
qed simp

lemma same_objects_on_ref: "(\<And>a h. same_objects h (f a h)) \<Longrightarrow> same_objects h0 h \<Longrightarrow> same_objects h0 (on_ref p f h)"
  by (auto simp: on_ref_def split: option.split intro: same_objects_trans)

lemma same_configs_replace:
  assumes "ReplaceMetricsParams m pa h = Inr (m', h')"
  shows "same_configs m h m' h'"
proof -
  let ?h1 = "on_ref (M_JDBC m) (\<lambda>a h. replaceJDBCParams a (deref pa h) h) h"
  let ?h2 = "on_ref (M_SSH m) (\<lambda>a h. replaceSSHParams a (deref pa h) h) ?h1"
  let ?h3 = "on_ref (M_HTTP m) (\<lambda>a h. replaceHTTPParams a (deref pa h) h) ?h2"
  let ?h4 = "on_ref (M_Redis m) (\<lambda>a h. replaceRedisParams a (deref pa h) h) ?h3"
  have "same_objects h ?h4"
    by (intro same_objects_on_ref same_objects_replace same_objects_http same_objects_refl)
  moreover have "same_objects ?h4 h'" and p: "M_JDBC m' = M_JDBC m" "M_HTTP m' = M_HTTP m" "M_Redis m' = M_Redis m" "M_SSH m' = M_SSH m" "M_Milvus m' = M_Milvus m"
    using assms same_objects_config
    by (auto simp: ReplaceMetricsParams_def replaceBasicMetricsParams_def Let_def split: option.splits)
  ultimately show ?thesis using same_objects_trans p by (fastforce simp: same_configs_def same_objects_def)
qed

text \<open>A metric is handed to its collector with the same configurations.\<close>

lemma CollectMetrics_configs:
  "\<exists>m' h'. same_configs metrics h m' h' \<and> M_Name m' = M_Name metrics \<and> M_Protocol m' = M_Protocol metrics \<and> CollectMetrics compile run reg now metrics job h =
    (case map_of (reg_collectors reg) (M_Protocol metrics) of
       None \<Rightarrow> Inr (createErrorResponse m' job now CollectUnavailable
          (''Collector not found: no collector found for protocol: '' @ M_Protocol metrics), m', h')
     | Some c \<Rightarrow> (case Col_Collect c m' h' of Inl p \<Rightarrow> Inl p | Inr None \<Rightarrow> Inl NilDereference
         | Inr (Some r) \<Rightarrow> Inr (enrich job h' (if R_Code r = CollectSuccess then the (CalculateFields compile run (Some m') (Some r)) else r), m', h')))"
proof -
  obtain m1 a h1 where e: "ensure_map metrics h = (m1, a, h1)" by (cases "ensure_map metrics h")
  let ?h2 = "h1\<lparr>maps := (maps h1)(a := Some (merge_config (J_Configmap job) (deref (Some a) h1)))\<rparr>"
  obtain m2 h3 where r: "ReplaceMetricsParams m1 (M_ConfigMap m1) ?h2 = Inr (m2, h3)" using ReplaceMetricsParams_Ok by blast
  have "same_configs metrics h m1 ?h2"
    using e by (auto simp: ensure_map_def alloc_map_def same_configs_def split: option.splits)
  then have "same_configs metrics h m2 h3" using same_configs_replace [OF r] by (simp add: same_configs_def)
  moreover have "M_Protocol m2 = M_Protocol metrics" "M_Name m2 = M_Name metrics"
    using replace_keeps [OF r] ensure_map_keeps [OF e] by simp_all
  ultimately show ?thesis
    by (intro exI [of _ m2] exI [of _ h3]) (simp add: CollectMetrics_def e r CollectorFor_def Let_def split: option.splits sum.splits)
qed

lemma enrich_keeps [simp]:
  "R_Metrics (enrich job h d) = R_Metrics d" "R_MonitorID (enrich job h d) = J_MonitorID job" "R_Code (enrich job h d) = R_Code d"
  by (simp_all add: enrich_def)

lemma CalculateFields_metrics: "R_Metrics (the (CalculateFields compile run (Some m) (Some r))) = R_Metrics r"
  by (simp add: CalculateFields_def Let_def)

subsection \<open>The contract of a collector\<close>

text \<open>
  \<^const>\<open>CollectMetrics\<close> calls \<open>Collect\<close> of the collector it finds, and \<open>PreCheck\<close> of none. What it relies on: a collector answers when the configuration
  it reads is there, and whether it is there does not change when parameters are replaced. No collector checks the reference before it follows it.
\<close>

locale collector_contract =
  fixes Collect :: "Metrics \<Rightarrow> Heap \<Rightarrow> CollectRepMetricsData option outcome"
    and configured :: "Metrics \<Rightarrow> Heap \<Rightarrow> bool"
  assumes answers: "configured m h \<Longrightarrow> \<exists>d. Collect m h = Inr (Some d) \<and> R_Metrics d = M_Name m"
    and not_checked: "\<not> configured m h \<Longrightarrow> Collect m h = Inl NilDereference"
    and stable: "same_configs m h m' h' \<Longrightarrow> configured m' h' = configured m h"
begin

lemma collection:
  assumes "map_of (reg_collectors reg) (M_Protocol m) = Some c" and "Col_Collect c = Collect"
  shows "case CollectMetrics compile run reg now m job h of
     Inl p \<Rightarrow> p = NilDereference \<and> \<not> configured m h
   | Inr (d, m', h') \<Rightarrow> configured m h \<and> same_configs m h m' h' \<and> R_Metrics d = M_Name m \<and> R_MonitorID d = J_MonitorID job \<and>
       (\<exists>r. Collect m' h' = Inr (Some r) \<and>
         d = enrich job h' (if R_Code r = CollectSuccess then the (CalculateFields compile run (Some m') (Some r)) else r))"
proof -
  obtain m' h' where s: "same_configs m h m' h'" "M_Name m' = M_Name m" and e: "CollectMetrics compile run reg now m job h =
      (case Collect m' h' of Inl p \<Rightarrow> Inl p | Inr None \<Rightarrow> Inl NilDereference
        | Inr (Some r) \<Rightarrow> Inr (enrich job h' (if R_Code r = CollectSuccess then the (CalculateFields compile run (Some m') (Some r)) else r), m', h'))"
    using CollectMetrics_configs [of m h compile run reg now job] assms by auto
  show ?thesis
    using answers [of m' h'] not_checked [of m' h'] stable [OF s(1)] s by (cases "configured m h") (auto simp: e CalculateFields_metrics)
qed

end

subsection \<open>The five collectors keep it\<close>

definition jdbc_configured :: "Metrics \<Rightarrow> Heap \<Rightarrow> bool" where
  "jdbc_configured m h \<longleftrightarrow> Option.bind (M_JDBC m) (jdbcs h) \<noteq> None"

definition http_configured :: "Metrics \<Rightarrow> Heap \<Rightarrow> bool" where
  "http_configured m h \<longleftrightarrow> Option.bind (M_HTTP m) (https h) \<noteq> None"

definition redis_configured :: "Metrics \<Rightarrow> Heap \<Rightarrow> bool" where
  "redis_configured m h \<longleftrightarrow> Option.bind (M_Redis m) (rediss h) \<noteq> None"

definition milvus_configured :: "Metrics \<Rightarrow> Heap \<Rightarrow> bool" where
  "milvus_configured m h \<longleftrightarrow> Option.bind (M_Milvus m) (milvuss h) \<noteq> None"

lemma bind_dom: "dom f' = dom f \<Longrightarrow> (Option.bind p f' \<noteq> None) = (Option.bind p f \<noteq> None)"
  by (cases p) (auto simp: dom_def)

lemma configured_stable:
  assumes "same_configs m h m' h'"
  shows "jdbc_configured m' h' = jdbc_configured m h" "http_configured m' h' = http_configured m h"
    "redis_configured m' h' = redis_configured m h" "milvus_configured m' h' = milvus_configured m h"
  using assms bind_dom [of "jdbcs h'" "jdbcs h"] bind_dom [of "https h'" "https h"] bind_dom [of "rediss h'" "rediss h"] bind_dom [of "milvuss h'" "milvuss h"]
  by (simp_all add: same_configs_def jdbc_configured_def http_configured_def redis_configured_def milvus_configured_def)

lemma read_rows_metrics: "R_Metrics (snd (read_rows c n rs e resp)) = R_Metrics resp"
  by (induction c n rs e resp rule: read_rows.induct) (auto simp: add_row_def split: sum.split)

lemma run_query_metrics: "R_Metrics (snd (run_query lib c fs resp)) = R_Metrics resp"
  by (auto simp: run_query_def queryOneRow_def queryMultiRow_def queryColumns_def runScript_def with_columns_def buildFields_def add_row_def
      read_rows_metrics Let_def split: sum.split option.split)

lemma collect_from_metrics: "R_Metrics (fst (collect_from lib t d m c addr st)) = M_Name m"
  using run_query_metrics [of lib c "M_AliasFields m" "response m t CollectSuccess ''success''"]
  by (auto simp: collect_from_def addResponseTime_def split: sum.split option.split prod.split)

interpretation jdbc: collector_contract "collect_jdbc ls" jdbc_configured for ls
proof
  fix m h
  show "\<exists>d. collect_jdbc ls m h = Inr (Some d) \<and> R_Metrics d = M_Name m" if "jdbc_configured m h"
  proof -
    from that obtain c where "Option.bind (M_JDBC m) (jdbcs h) = Some c" by (auto simp: jdbc_configured_def)
    then show ?thesis
      by (auto simp: collect_jdbc_def jdbc_Collect_def Let_def collect_from_metrics split: option.split sum.split prod.split)
        (metis collect_from_metrics fst_conv)
  qed
qed (simp_all add: configured_stable, simp add: collect_jdbc_def jdbc_Collect_def jdbc_configured_def)

lemma collectCluster_metrics: "R_Metrics (collectCluster lib m c dialer t rt resp) = R_Metrics resp"
proof -
  have "R_Metrics (foldl (collectNode lib opts m c rt) resp nodes) = R_Metrics resp" for opts nodes
    by (induction nodes arbitrary: resp) (simp_all add: collectNode_def addValueRow_def Let_def split: sum.split)
  then show ?thesis by (simp add: collectCluster_def Let_def)
qed

interpretation redis: collector_contract "collect_redis ls" redis_configured for ls
proof (unfold_locales, goal_cases)
  case (3 m h m' h')
  then show ?case by (rule configured_stable)
qed (auto simp: redis_configured_def collect_redis_def redis_Collect_def Let_def collectCluster_metrics collectSingle_def addValueRow_def
      split: sum.split)

interpretation ssh: collector_contract "collect_ssh ls" "\<lambda>m h. True" for ls
  by unfold_locales
    (auto simp: collect_ssh_def ssh_Collect_def createSuccessResponseWithResult_def parseResponseDataByOne_def parseResponseDataByMulti_def Let_def
      split: option.split sum.split prod.split)

interpretation milvus: collector_contract "collect_milvus ls" milvus_configured for ls
proof (unfold_locales, goal_cases)
  case (3 m h m' h')
  then show ?case by (rule configured_stable)
qed (auto simp: milvus_configured_def collect_milvus_def milvus_Collect_def Let_def split: option.split sum.split)

text \<open>HTTP keeps it when the text of an accepted URL is accepted again, which a retried request relies on.\<close>

lemma fillCommonFields_metrics: "fillCommonFields data fs rt sc = Inr d \<Longrightarrow> R_Metrics d = R_Metrics data"
  by (auto simp: fillCommonFields_def Let_def split: sum.splits)

lemma parse_body_metrics: "parse_body http config m t rt resp body = Inr data \<Longrightarrow> R_Metrics data = M_Name m"
  by (auto simp: parse_body_def parsePrometheus_def parseWebsite_def parseHeader_def parseJsonPath_def Let_def
      split: if_splits sum.splits option.splits json.splits)

lemma http_Collect_metrics: "http_Collect http random t rt m h = Inr d \<Longrightarrow> R_Metrics d = M_Name m"
  by (auto simp: http_Collect_def Let_def split: option.splits if_splits sum.splits dest!: parse_body_metrics fillCommonFields_metrics)

lemma http_contract:
  assumes "reparses (ls_Http ls)"
  shows "collector_contract (collect_http ls) http_configured"
proof
  fix m h
  show "\<exists>d. collect_http ls m h = Inr (Some d) \<and> R_Metrics d = M_Name m" if "http_configured m h"
  proof -
    from that obtain c where "Option.bind (M_HTTP m) (https h) = Some c" by (auto simp: http_configured_def)
    then obtain d where "http_Collect (ls_Http ls) (ls_Random ls) (ls_NowMilli ls) (elapsed_milli ls) m h = Inr d"
      using http_Collect_data [OF _ assms refl refl refl] by blast
    then show ?thesis using http_Collect_metrics by (auto simp: collect_http_def)
  qed
qed (simp_all add: configured_stable, simp add: collect_http_def http_Collect_def http_configured_def)

subsection \<open>Collecting a metric of any protocol\<close>

text \<open>Whether the configuration of the protocol of a metric is there, and whether the collector can do without it.\<close>

definition configured :: "Metrics \<Rightarrow> Heap \<Rightarrow> bool" where
  "configured m h \<longleftrightarrow>
     (if M_Protocol m = ''jdbc'' then jdbc_configured m h
      else if M_Protocol m = ''http'' then http_configured m h
      else if M_Protocol m = ''redis'' then redis_configured m h
      else if M_Protocol m = ''ssh'' then Option.bind (M_SSH m) (sshs h) \<noteq> None
      else if M_Protocol m = ''milvus'' then milvus_configured m h else True)"

definition collectable :: "Metrics \<Rightarrow> Heap \<Rightarrow> bool" where
  "collectable m h \<longleftrightarrow> (M_Protocol m = ''ssh'' \<or> configured m h)"

lemma standard_get:
  "map_of (standard_factories ls) p = (if p = ''jdbc'' then Some (\<lambda>_. \<lparr>Col_Protocol = ''jdbc'', Col_Collect = collect_jdbc ls\<rparr>)
    else if p = ''http'' then Some (\<lambda>_. \<lparr>Col_Protocol = ''http'', Col_Collect = collect_http ls\<rparr>)
    else if p = ''redis'' then Some (\<lambda>_. \<lparr>Col_Protocol = ''redis'', Col_Collect = collect_redis ls\<rparr>)
    else if p = ''ssh'' then Some (\<lambda>_. \<lparr>Col_Protocol = ''ssh'', Col_Collect = collect_ssh ls\<rparr>)
    else if p = ''milvus'' then Some (\<lambda>_. \<lparr>Col_Protocol = ''milvus'', Col_Collect = collect_milvus ls\<rparr>) else None)"
  by (simp add: standard_factories_def)

lemma registered_contract:
  assumes "reparses (ls_Http ls)" and "map_of (standard_factories ls) (M_Protocol m) = Some f"
  shows "\<exists>cfg. collector_contract (Col_Collect (f ())) cfg \<and> cfg m h = collectable m h"
  using assms(2) jdbc.collector_contract_axioms [of ls] http_contract [OF assms(1)] redis.collector_contract_axioms [of ls] ssh.collector_contract_axioms [of ls]
    milvus.collector_contract_axioms [of ls]
  by (auto simp: standard_get collectable_def configured_def split: if_splits)

lemma ssh_unconfigured:
  assumes "\<not> configured m h" and "M_Protocol m = ''ssh''" and "same_configs m h m' h'" and "collect_ssh ls m' h' = Inr (Some r)"
  shows "R_Code r = CollectFail"
proof -
  have "Option.bind (M_SSH m') (sshs h') = None"
    using assms(1-3) by (cases "M_SSH m") (auto simp: configured_def same_configs_def domIff dest: arg_cong [where f = "\<lambda>D. the (M_SSH m) \<in> D"])
  then show ?thesis using assms(4) by (auto simp: collect_ssh_def ssh_Collect_def)
qed

text \<open>C8: collecting a metric with the collectors the program registers. Without the configuration of its protocol a jdbc, http, redis or milvus metric
  dereferences a nil pointer, since \<open>PreCheck\<close> is not called before \<open>Collect\<close>, and nothing else does. Otherwise data named after the metric and its monitor is
  returned: for a protocol of a registered collector what that collector answers, with the calculated fields if it was successful, and with the code for a failure
  from the ssh collector when its configuration is missing; for any other protocol data with the unavailable code. HTTP relies on the text of an accepted URL to be
  accepted again.\<close>

theorem collection_needs_configuration:
  assumes "reparses (ls_Http ls)"
  shows "case CollectMetrics compile run (program_registry ls) now m job h of
     Inl p \<Rightarrow> p = NilDereference \<and> M_Protocol m \<in> {''jdbc'', ''http'', ''redis'', ''milvus''} \<and> \<not> configured m h
   | Inr (d, m', h') \<Rightarrow> (M_Protocol m \<noteq> ''ssh'' \<longrightarrow> configured m h) \<and> R_Metrics d = M_Name m \<and> R_MonitorID d = J_MonitorID job \<and>
       (if M_Protocol m \<in> {''jdbc'', ''http'', ''redis'', ''ssh'', ''milvus''}
        then (\<exists>Collect r. (M_Protocol m, Collect) \<in> {(''jdbc'', collect_jdbc ls), (''http'', collect_http ls), (''redis'', collect_redis ls),
                 (''ssh'', collect_ssh ls), (''milvus'', collect_milvus ls)} \<and> Collect m' h' = Inr (Some r) \<and>
               d = enrich job h' (if R_Code r = CollectSuccess then the (CalculateFields compile run (Some m') (Some r)) else r)) \<and>
             (\<not> configured m h \<longrightarrow> R_Code d = CollectFail)
        else R_Code d = CollectUnavailable)"
proof (cases "map_of (standard_factories ls) (M_Protocol m)")
  case None
  then have p: "M_Protocol m \<notin> {''jdbc'', ''http'', ''redis'', ''ssh'', ''milvus''}" by (auto simp: standard_get split: if_splits)
  obtain m' h' where "CollectMetrics compile run (program_registry ls) now m job h = Inr (createErrorResponse m' job now CollectUnavailable
      (''Collector not found: no collector found for protocol: '' @ M_Protocol m), m', h')" "M_Name m' = M_Name m"
    using CollectMetrics_unfold [of m compile run "program_registry ls" now job h] None by (auto simp: program_registry_get)
  then show ?thesis using p by (simp add: configured_def createErrorResponse_def)
next
  case (Some f)
  then obtain cfg where c: "collector_contract (Col_Collect (f ())) cfg" "cfg m h = collectable m h"
    using registered_contract [OF assms] by blast
  have p: "M_Protocol m \<in> {''jdbc'', ''http'', ''redis'', ''ssh'', ''milvus''}" "(M_Protocol m, Col_Collect (f ())) \<in> {(''jdbc'', collect_jdbc ls),
      (''http'', collect_http ls), (''redis'', collect_redis ls), (''ssh'', collect_ssh ls), (''milvus'', collect_milvus ls)}"
    using Some by (auto simp: standard_get split: if_splits)
  have u: "R_Code r = CollectFail" if "same_configs m h m' h'" "collectable m h" "\<not> configured m h" "Col_Collect (f ()) m' h' = Inr (Some r)" for m' h' r
    using ssh_unconfigured [OF that(3) _ that(1), of ls r] that(2,3,4) p(2) by (auto simp: collectable_def)
  have n: "CollectFail \<noteq> CollectSuccess" by (simp add: CollectFail_def CollectSuccess_def)
  note col = collector_contract.collection [OF c(1) _ refl, where reg = "program_registry ls" and m = m and compile = compile and run = run and now = now and job = job and h = h, unfolded c(2)]
  show ?thesis
  proof (cases "CollectMetrics compile run (program_registry ls) now m job h")
    case (Inl q)
    then show ?thesis using col Some p(1) by (auto simp: program_registry_get collectable_def)
  next
    case (Inr x)
    obtain d m' h' where x: "x = (d, m', h')" by (cases x) auto
    from col Some Inr x obtain r where d: "collectable m h" "same_configs m h m' h'" "R_Metrics d = M_Name m" "R_MonitorID d = J_MonitorID job"
      "Col_Collect (f ()) m' h' = Inr (Some r)"
      "d = enrich job h' (if R_Code r = CollectSuccess then the (CalculateFields compile run (Some m') (Some r)) else r)"
      by (auto simp: program_registry_get)
    have "R_Code d = CollectFail" if "\<not> configured m h" using u [OF d(2,1) that d(5)] n by (simp add: d(6))
    moreover have "M_Protocol m \<noteq> ''ssh'' \<longrightarrow> configured m h" using d(1) by (auto simp: collectable_def)
    ultimately show ?thesis unfolding Inr x using d(3-6) p by (simp only: sum.case prod.case if_True) blast
  qed
qed

definition libraries_ex :: "(unit, unit, string) Libraries" where
  "libraries_ex = \<lparr>ls_Keys = lib_ex, ls_Ssh = net_ex, ls_Redis = redis_lib_ex,
     ls_Milvus = \<lparr>ml_Connect = \<lambda>a c t. None, ml_GetVersion = \<lambda>a. Ok ''2.4''\<rparr>, ls_Http = http_lib_ex, ls_Jdbc = jdbc_lib_ex, ls_Random = [],
     ls_AtoiError = [], ls_NowMilli = 0, ls_Elapsed = 0\<rparr>"

theorem collection_needs_configuration_witness:
  "reparses (ls_Http libraries_ex) \<and>
   CollectMetrics compile_ex run_ex (program_registry libraries_ex) 0 (Metrics0\<lparr>M_Protocol := ''redis''\<rparr>) Job0 heap_ex = Inl NilDereference"
proof
  show r: "reparses (ls_Http libraries_ex)" by (simp add: reparses_def libraries_ex_def http_lib_ex_def)
  have "\<not> configured (Metrics0\<lparr>M_Protocol := ''redis''\<rparr>) heap_ex" by (simp add: configured_def redis_configured_def Metrics0_def)
  then show "CollectMetrics compile_ex run_ex (program_registry libraries_ex) 0 (Metrics0\<lparr>M_Protocol := ''redis''\<rparr>) Job0 heap_ex = Inl NilDereference"
    using collection_needs_configuration [OF r, where compile = compile_ex and run = run_ex and now = 0 and m = "Metrics0\<lparr>M_Protocol := ''redis''\<rparr>" and job = Job0
        and h = heap_ex]
    by (auto split: sum.splits)
qed

end
