(* ===== verification/Command.thy ===== *)
theory Command
  imports Config
begin

text \<open>
  What the commands write: the banner (\<open>banner/embed.go\<close>), the version (\<open>cmd/version/version.go\<close>) and the exit of \<open>main\<close>. The embedded file,
  templates and the encoders are parameters; an operation that prints returns the text it has written.
\<close>

subsection \<open>The banner\<close>

definition ColorPurple :: string where "ColorPurple = CHR 0x1B # ''[35m''"
definition ColorReset :: string where "ColorReset = CHR 0x1B # ''[0m''"

record bannerVars =
  bv_CollectorName :: string
  bv_ServerPort :: string
  bv_Pid :: string

text \<open>A parsed template writes a text for the variables, and may fail on the way.\<close>

record BannerLib =
  bl_ReadFile :: "string \<Rightarrow> string result"
  bl_Parse :: "string \<Rightarrow> (bannerVars \<Rightarrow> string \<times> string option) result"
  bl_Pid :: int

definition PrintBanner :: "BannerLib \<Rightarrow> string \<Rightarrow> string \<Rightarrow> string option \<times> string" where
  "PrintBanner lib appName port =
     (case bl_ReadFile lib ''banner.txt'' of
        Inl err \<Rightarrow> (Some err, [])
      | Inr content \<Rightarrow>
          (case bl_Parse lib content of
             Inl err \<Rightarrow> (Some err, [])
           | Inr execute \<Rightarrow>
               (let vars = \<lparr>bv_CollectorName = appName, bv_ServerPort = port, bv_Pid = FormatInt (bl_Pid lib)\<rparr>;
                    (written, err) = execute vars
                in (err, ColorPurple @ written @ ColorReset))))"

text \<open>Whatever happens, the terminal is not left in the colour of the banner.\<close>

lemma banner_resets_colour:
  "PrintBanner lib appName port = (err, out) \<Longrightarrow> out = [] \<and> err \<noteq> None \<or> (\<exists>written. out = ColorPurple @ written @ ColorReset)"
  by (auto simp: PrintBanner_def Let_def split: sum.splits prod.splits)

subsection \<open>The version\<close>

record VersionInfo =
  vi_HCGVersion :: string
  vi_GitCommitID :: string
  vi_GolangVersion :: string

text \<open>The variables that the linker sets, and the version of the runtime.\<close>

definition version_Get :: "string \<Rightarrow> string \<Rightarrow> string \<Rightarrow> VersionInfo" where
  "version_Get hcgVersion gitCommitID runtime =
     \<lparr>vi_HCGVersion = hcgVersion, vi_GitCommitID = gitCommitID, vi_GolangVersion = runtime\<rparr>"

text \<open>The fields under the names of their tags, as the encoders see them.\<close>

definition version_fields :: "VersionInfo \<Rightarrow> gomap" where
  "version_fields v = [(''envoyGatewayVersion'', vi_HCGVersion v), (''gitCommitID'', vi_GitCommitID v), (''golangVersion'', vi_GolangVersion v)]"

definition line :: "string \<Rightarrow> string" where
  "line s = s @ [CHR 0x0A]"

text \<open>An encoder that fails makes the command print nothing; the error is always nil.\<close>

definition version_Print :: "(gomap \<Rightarrow> string result) \<Rightarrow> (gomap \<Rightarrow> string result) \<Rightarrow> VersionInfo \<Rightarrow> string \<Rightarrow> string option \<times> string" where
  "version_Print json yaml v format =
     (None,
      if format = ''json'' then (case json (version_fields v) of Inl err \<Rightarrow> [] | Inr s \<Rightarrow> line s)
      else if format = ''yaml'' then (case yaml (version_fields v) of Inl err \<Rightarrow> [] | Inr s \<Rightarrow> line s)
      else line (''HERTZBEAT_COLECTOR_GO_VERSION: '' @ vi_HCGVersion v) @ line (''GIT_COMMIT_ID: '' @ vi_GitCommitID v) @
        line (''GOLANG_VERSION: '' @ vi_GolangVersion v))"

subsection \<open>The exit of the program\<close>

text \<open>The status and what is written to the error output.\<close>

definition main_exit :: "string option \<Rightarrow> int \<times> string" where
  "main_exit err = (case err of None \<Rightarrow> (0, []) | Some e \<Rightarrow> (1, line e))"

end
