(* ===== verification/Self_Metrics.thy ===== *)
theory Self_Metrics
  imports Go_Strings Float64 Job_Types
begin

text \<open>
  The metrics of the collector about itself: those of \<open>metrics/metrics.go\<close>, registered when the package is loaded, and
  \<open>job/collect/metrics/hertzbeat_metrics_collector.go\<close>. The Prometheus client is a parameter over the state \<open>'r\<close> of its registry: registering a
  name panics (\<open>None\<close>) or gives a new state, counters are increased and histograms observe under a name and labels.
\<close>

record MetricDesc =
  md_Name :: string
  md_Labels :: "string list"

record 'r PromLib =
  pl_MustRegister :: "MetricDesc \<Rightarrow> 'r \<Rightarrow> 'r option"
  pl_Inc :: "string \<Rightarrow> gomap \<Rightarrow> 'r \<Rightarrow> 'r"
  pl_Observe :: "string \<Rightarrow> gomap \<Rightarrow> float64 \<Rightarrow> 'r \<Rightarrow> 'r"
  pl_Set :: "string \<Rightarrow> float64 \<Rightarrow> 'r \<Rightarrow> 'r"

fun register_all :: "'r PromLib \<Rightarrow> MetricDesc list \<Rightarrow> 'r \<Rightarrow> 'r option" where
  "register_all lib [] r = Some r"
| "register_all lib (n # ns) r = (case pl_MustRegister lib n r of None \<Rightarrow> None | Some r' \<Rightarrow> register_all lib ns r')"

subsection \<open>The metrics of the server\<close>

definition Namespace :: string where "Namespace = ''hertzbeat''"
definition Subsystem :: string where "Subsystem = ''collector''"

definition full_name :: "string \<Rightarrow> string" where
  "full_name name = Namespace @ ''_'' @ Subsystem @ ''_'' @ name"

definition JobExecutionTotal :: MetricDesc where
  "JobExecutionTotal = \<lparr>md_Name = full_name ''job_execution_total'', md_Labels = [''status'', ''type'']\<rparr>"

definition JobExecutionDuration :: MetricDesc where
  "JobExecutionDuration = \<lparr>md_Name = full_name ''job_execution_duration_seconds'', md_Labels = [''type'']\<rparr>"

definition CollectorUp :: MetricDesc where
  "CollectorUp = \<lparr>md_Name = full_name ''up'', md_Labels = []\<rparr>"

definition server_metrics_init :: "'r PromLib \<Rightarrow> 'r \<Rightarrow> 'r option" where
  "server_metrics_init lib r =
     map_option (pl_Set lib (md_Name CollectorUp) (f_of_int 1)) (register_all lib [JobExecutionTotal, JobExecutionDuration, CollectorUp] r)"

subsection \<open>The metrics of the collections\<close>

record MetricsJob =
  mj_App :: string
  mj_MonitorID :: int64
  mj_Metadata :: "gomap option"

definition collectLabels :: "string list" where
  "collectLabels = [''status'', ''monitor_type'', ''monitor_id'', ''monitor_name'', ''monitor_target'']"

definition collectTotal :: MetricDesc where
  "collectTotal = \<lparr>md_Name = ''hertzbeat_collect_total'', md_Labels = collectLabels\<rparr>"

definition collectDuration :: MetricDesc where
  "collectDuration = \<lparr>md_Name = ''hertzbeat_collect_duration'', md_Labels = collectLabels\<rparr>"

text \<open>The \<open>sync.Once\<close> belongs to the object that has just been created, so its function runs in every call.\<close>

definition NewHertzBeatMetricsCollector :: "'r PromLib \<Rightarrow> 'r \<Rightarrow> 'r option" where
  "NewHertzBeatMetricsCollector lib r = register_all lib [collectTotal, collectDuration] r"

definition metadata_or :: "string \<Rightarrow> MetricsJob \<Rightarrow> string" where
  "metadata_or k job = (case Option.bind (mj_Metadata job) (\<lambda>m. map_of m k) of None \<Rightarrow> ''unknown'' | Some v \<Rightarrow> v)"

definition collect_labels :: "MetricsJob \<Rightarrow> string \<Rightarrow> gomap" where
  "collect_labels job status =
     [(''status'', status), (''monitor_type'', mj_App job), (''monitor_id'', FormatInt (sint (mj_MonitorID job))),
      (''monitor_name'', metadata_or ''instancename'' job), (''monitor_target'', metadata_or ''instancehost'' job)]"

definition RecordCollectMetrics :: "'r PromLib \<Rightarrow> MetricsJob option \<Rightarrow> int64 \<Rightarrow> string \<Rightarrow> 'r \<Rightarrow> 'r" where
  "RecordCollectMetrics lib jo durationMillis status r =
     (case jo of None \<Rightarrow> r
      | Some job \<Rightarrow>
          (let labels = collect_labels job status
           in pl_Observe lib (md_Name collectDuration) labels (f_of_int (sint durationMillis)) (pl_Inc lib (md_Name collectTotal) labels r)))"

subsection \<open>What is counted\<close>

text \<open>The labels are those the metrics are declared with, which the client insists on.\<close>

lemma labels_declared: "map fst (collect_labels job status) = md_Labels collectTotal" "md_Labels collectDuration = md_Labels collectTotal"
  by (simp_all add: collect_labels_def collectTotal_def collectDuration_def collectLabels_def)

text \<open>What the client documents: \<open>taken\<close> are the registered names, which cannot be registered again; an increment adds one to the counter of its
  name and labels and to no other, and observing leaves counters alone.\<close>

definition keeps_names :: "'r PromLib \<Rightarrow> ('r \<Rightarrow> string set) \<Rightarrow> bool" where
  "keeps_names lib taken \<longleftrightarrow> (\<forall>m r. pl_MustRegister lib m r = None \<longleftrightarrow> md_Name m \<in> taken r) \<and>
     (\<forall>m r r'. pl_MustRegister lib m r = Some r' \<longrightarrow> taken r' = insert (md_Name m) (taken r))"

definition counts :: "'r PromLib \<Rightarrow> ('r \<Rightarrow> string \<Rightarrow> gomap \<Rightarrow> nat) \<Rightarrow> bool" where
  "counts lib val \<longleftrightarrow>
     (\<forall>n l r n' l'. val (pl_Inc lib n l r) n' l' = val r n' l' + (if n' = n \<and> l' = l then 1 else 0)) \<and>
     (\<forall>n l x r. val (pl_Observe lib n l x r) = val r)"

text \<open>A second collector of these metrics panics.\<close>

theorem second_collector_panics:
  assumes "keeps_names lib taken" and "NewHertzBeatMetricsCollector lib r = Some r'"
  shows "NewHertzBeatMetricsCollector lib r' = None"
proof -
  from assms(2) obtain r1 where "pl_MustRegister lib collectTotal r = Some r1"
    "pl_MustRegister lib collectDuration r1 = Some r'"
    by (auto simp: NewHertzBeatMetricsCollector_def split: option.splits)
  with assms(1) have "md_Name collectTotal \<in> taken r'" unfolding keeps_names_def by blast
  with assms(1) have "pl_MustRegister lib collectTotal r' = None" unfolding keeps_names_def by blast
  then show ?thesis by (simp add: NewHertzBeatMetricsCollector_def)
qed

text \<open>The counter of a status and a job counts the recorded collections of this status whose job has the same application, monitor, name and
  target.\<close>

theorem collections_are_counted:
  assumes "counts lib val"
  shows "val (foldl (\<lambda>r (job, d, status). RecordCollectMetrics lib job d status r) r runs) (md_Name collectTotal) l =
    val r (md_Name collectTotal) l + length (filter (\<lambda>(job, d, status). \<exists>j. job = Some j \<and> collect_labels j status = l) runs)"
proof (induction runs arbitrary: r)
  case (Cons x runs)
  obtain job d status where x: "x = (job, d, status)" using prod_cases3 by blast
  have "val (RecordCollectMetrics lib job d status r) (md_Name collectTotal) l =
      val r (md_Name collectTotal) l + (if \<exists>j. job = Some j \<and> collect_labels j status = l then 1 else 0)"
    using assms by (cases job) (simp_all add: RecordCollectMetrics_def Let_def counts_def)
  then show ?case by (simp add: x Cons.IH)
qed simp

end
