(* ===== verification/Program.thy ===== *)
theory Program
  imports Job_Server Message_Routers Collectors Command Self_Metrics
begin

text \<open>
  The program: \<open>cmd/server.go\<close> creates the runners and connects the transport with the job runner, starts them, and closes them when the context
  ends, a signal arrives or a runner fails. The metrics runner of \<open>metrics/metrics.go\<close> is part of it. The properties follow a message of the manager
  through the transport client, the processors, the job runner and the scheduler.
\<close>

subsection \<open>The job runner as the scheduler of the transport\<close>

text \<open>What the processors reach through the interface: the clock, the jobs that have been received, the runner, and the panic that ended the program.\<close>

record JobSide =
  sd_now :: time
  sd_jobs :: "Job list"
  sd_runner :: "TimeDispatch Runner"
  sd_panic :: "panic option"

definition runner_Add :: "Job \<Rightarrow> JobSide \<Rightarrow> string option \<times> JobSide" where
  "runner_Add job s =
     (let jobs = sd_jobs s @ [job] in
      case AddAsyncCollectJob (AddJob jobs (sd_now s)) (\<lambda>p. J_ID (job_at jobs p)) (Some (length (sd_jobs s))) (sd_runner s) of
        Inl p \<Rightarrow> (None, s\<lparr>sd_panic := Some p\<rparr>)
      | Inr (err, r) \<Rightarrow> (err, s\<lparr>sd_jobs := jobs, sd_runner := r\<rparr>))"

definition runner_Remove :: "int64 \<Rightarrow> JobSide \<Rightarrow> string option \<times> JobSide" where
  "runner_Remove jobID s =
     (case RemoveAsyncCollectJob RemoveJob jobID (sd_runner s) of
        Inl p \<Rightarrow> (None, s\<lparr>sd_panic := Some p\<rparr>)
      | Inr (err, r) \<Rightarrow> (err, s\<lparr>sd_runner := r\<rparr>))"

definition runner_scheduler :: "JobSide JobScheduler" where
  "runner_scheduler = \<lparr>js_AddAsyncCollectJob = runner_Add, js_RemoveAsyncCollectJob = runner_Remove\<rparr>"

subsection \<open>The metrics runner\<close>

text \<open>The server that has been created, by its address, and whether it listens.\<close>

record MetricsRunner =
  mt_server :: "string option"
  mt_listening :: bool

definition metrics_New :: MetricsRunner where
  "metrics_New = \<lparr>mt_server = None, mt_listening = False\<rparr>"

definition metrics_Start :: "bool \<Rightarrow> CollectorConfig \<Rightarrow> MetricsRunner \<Rightarrow> MetricsRunner" where
  "metrics_Start listens cfg r = r\<lparr>mt_server := Some ('':'' @ FormatInt (Cfg_MetricsPort cfg)), mt_listening := listens\<rparr>"

definition metrics_Close :: "string option \<Rightarrow> MetricsRunner \<Rightarrow> string option \<times> MetricsRunner" where
  "metrics_Close shutdown r = (if mt_server r \<noteq> None then (shutdown, r\<lparr>mt_listening := False\<rparr>) else (None, r))"

subsection \<open>Start and end\<close>

record Program =
  pg_metrics :: MetricsRunner
  pg_side :: JobSide
  pg_transport :: "JobSide TransportRunner"
  pg_identity :: string

definition newRunners :: "CollectorConfig \<Rightarrow> time \<Rightarrow> Program" where
  "newRunners cfg now =
     \<lparr>pg_metrics = metrics_New,
      pg_side = \<lparr>sd_now = now, sd_jobs = [], sd_runner = New_Runner now, sd_panic = None\<rparr>,
      pg_transport = SetJobScheduler (Some runner_scheduler) (New_Transport cfg),
      pg_identity = NewLazyMessageRouter (Cfg_Identity cfg)\<rparr>"

text \<open>The three runners start in goroutines of their own, which do not touch each other's state.\<close>

definition startAll :: "(string \<Rightarrow> string \<Rightarrow> string) \<Rightarrow> job_decoder \<Rightarrow> (string \<Rightarrow> string) \<Rightarrow> (string \<Rightarrow> string) \<Rightarrow> string option \<Rightarrow>
    (bool \<times> string option) list \<Rightarrow> bool \<Rightarrow> CollectorRegistry \<Rightarrow> Program \<Rightarrow> string option \<times> CollectorRegistry \<times> Program" where
  "startAll D decodeJob jsonError getenv dial attempts listens reg p =
     (let (err, reg', r) = Runner_Start (td_Start (sd_now (pg_side p))) reg (sd_runner (pg_side p))
      in (err, reg', p\<lparr>pg_metrics := metrics_Start listens (tr_cfg (pg_transport p)) (pg_metrics p),
            pg_side := (pg_side p)\<lparr>sd_runner := r\<rparr>,
            pg_transport := Transport_Start D decodeJob jsonError getenv dial attempts (pg_transport p)\<rparr>))"

definition cleanup :: "string option \<Rightarrow> Program \<Rightarrow> Program outcome" where
  "cleanup shutdown p =
     (let p1 = p\<lparr>pg_metrics := snd (metrics_Close shutdown (pg_metrics p))\<rparr> in
      case Runner_Close td_Stop (sd_runner (pg_side p1)) of
        Inl e \<Rightarrow> Inl e
      | Inr r \<Rightarrow> Inr (p1\<lparr>pg_side := (pg_side p1)\<lparr>sd_runner := r\<rparr>, pg_transport := snd (Transport_Close (pg_transport p1))\<rparr>))"

datatype wake = ContextDone string | Signalled | RunnerFailed string

definition awaitEnd :: "wake \<Rightarrow> string option \<Rightarrow> Program \<Rightarrow> (string option \<times> Program) outcome" where
  "awaitEnd wake shutdown p =
     (case cleanup shutdown p of Inl e \<Rightarrow> Inl e
      | Inr p' \<Rightarrow> Inr (case wake of ContextDone err \<Rightarrow> Some err | Signalled \<Rightarrow> None | RunnerFailed err \<Rightarrow> Some err, p'))"

text \<open>The command: the configuration, the banner, and the runners; the second component is what it has written.\<close>

definition server :: "FileSystem \<Rightarrow> (string \<Rightarrow> CollectorConfig result) \<Rightarrow> BannerLib \<Rightarrow> string \<Rightarrow> time \<Rightarrow> Program result \<times> string" where
  "server fs yaml lib path now =
     (case getConfigByPath fs yaml path of
        Inl err \<Rightarrow> (Err err, [])
      | Inr cfg \<Rightarrow>
          (case PrintBanner lib (Info_Name (Cfg_Info cfg)) (Info_IP (Cfg_Info cfg)) of
             (Some err, out) \<Rightarrow> (Err err, out)
           | (None, out) \<Rightarrow> (Ok (newRunners cfg now), out)))"

subsection \<open>The scheduler behind the transport\<close>

text \<open>The job side of the program shows the jobs and the dispatcher of a state of the scheduler.\<close>

definition mirrors :: "JobSide \<Rightarrow> Sched \<Rightarrow> bool" where
  "mirrors side s \<longleftrightarrow> sd_jobs side = sc_jobs s \<and> rn_TimeDispatch (sd_runner side) = Some (sc_td s) \<and> sd_panic side = None"

lemma reachable_step: "sched_reachable t s \<Longrightarrow> sched_step s s' \<Longrightarrow> sched_reachable t s'"
  unfolding sched_reachable_def by (rule rtranclp.rtrancl_into_rtrancl)

lemma job_at_append [simp]: "job_at (jobs @ [job]) (length jobs) = job"
  by (simp add: job_at_def)

lemma runner_Add_ok:
  assumes m: "mirrors side s" and r: "sched_reachable t s" and w: "early (sc_wheel s)" "\<not> hwt_stopped (sc_wheel s)" and job: "sane job"
  obtains side' s' a where "runner_Add job side = (None, side')" "mirrors side' s'" "sched_reachable t s'" "sc_jobs s' = sc_jobs s @ [job]"
    "map_of (if J_IsCyclic job then td_cyclicTasks (sc_td s') else td_tempTasks (sc_td s')) (J_ID job) = Some (Some a)"
    "task_of (sc_wheel s') a = Some (length (sc_jobs s))"
    "(a, tick_no (sc_wheel s) + delay_ticks (first_delay job) (sc_wheel s)) \<in> pending (sc_wheel s')"
    "J_ID job \<in> dom (map_of (RunningJobs (sd_runner side')))"
proof -
  let ?jobs = "sc_jobs s @ [job]" and ?p = "length (sc_jobs s)"
  have inv: "wheel_inv (sc_wheel s)" using sched_okD(1) [OF reachable_ok [OF r]] .
  have j: "sane (job_at ?jobs ?p)" using job by simp
  obtain b to td' where
    ad: "AddJob ?jobs (sd_now side) (Some ?p) (sc_td s) = Inr (None, td')" and tw: "td_wheelTimer td' = add_timeout b to (sc_wheel s)"
    and tt: "to_task to = NewWheelTimerTask (Some ?p)"
    and pd: "pending (td_wheelTimer td') = insert (length (hwt_timeouts (sc_wheel s)), tick_no (sc_wheel s) + delay_ticks (first_delay job) (sc_wheel s)) (pending (sc_wheel s))"
    and cy: "td_cyclicTasks td' = (if J_IsCyclic job then map_put (J_ID job) (Some (length (hwt_timeouts (sc_wheel s)))) (td_cyclicTasks (sc_td s)) else td_cyclicTasks (sc_td s))"
    and tm: "td_tempTasks td' = (if J_IsCyclic job then td_tempTasks (sc_td s) else map_put (J_ID job) (Some (length (hwt_timeouts (sc_wheel s)))) (td_tempTasks (sc_td s)))"
    by (rule AddJob_schedules [OF inv w j, of "sd_now side", unfolded job_at_append])
  let ?s1 = "s\<lparr>sc_jobs := ?jobs\<rparr>" let ?s2 = "?s1\<lparr>sc_td := td'\<rparr>"
  let ?side = "side\<lparr>sd_jobs := ?jobs, sd_runner := (sd_runner side)\<lparr>rn_runningJobs := map_put (J_ID job) ?p (rn_runningJobs (sd_runner side)), rn_TimeDispatch := Some td'\<rparr>\<rparr>"
  have add: "runner_Add job side = (None, ?side)"
    using m ad by (simp add: runner_Add_def AddAsyncCollectJob_def mirrors_def Let_def)
  have s1: "sched_step s ?s1" by (rule sched_step.receive)
  have "sched_step ?s1 ?s2" by (rule sched_step.add [where p = ?p and now = "sd_now side" and err = None]) (use j w ad in simp_all)
  then have rs: "sched_reachable t ?s2" using reachable_step [OF reachable_step [OF r s1]] by simp
  have mi: "mirrors ?side ?s2" using m by (simp add: mirrors_def)
  show thesis
    by (rule that [OF add mi rs, where a = "length (hwt_timeouts (sc_wheel s))"])
      (use cy tm pd tw tt in \<open>simp_all add: task_of_def add_timeout_def NewWheelTimerTask_def dom_RunningJobs\<close>)
qed

lemma runner_Remove_ok:
  assumes m: "mirrors side s" and r: "sched_reachable t s" and e: "map_of (td_cyclicTasks (sc_td s)) k = Some (Some a)"
  obtains side' s' where "runner_Remove k side = (None, side')" "mirrors side' s'" "sched_reachable t s'" "sc_jobs s' = sc_jobs s"
    "map_of (td_cyclicTasks (sc_td s')) k = None" "pending (sc_wheel s') = {(x, d) \<in> pending (sc_wheel s). x \<noteq> a}"
    "k \<notin> dom (map_of (RunningJobs (sd_runner side')))"
proof -
  note ok = reachable_ok [OF r]
  have a: "a < length (hwt_timeouts (sc_wheel s))" using entries(1) [OF ok e] by (simp add: entry_ok_def)
  obtain td' where rm: "RemoveJob k (sc_td s) = Inr (None, td')" and td: "td_cyclicTasks td' = map_del k (td_cyclicTasks (sc_td s))"
    "td_wheelTimer td' = cancel_at a (sc_wheel s)" using e by (simp add: RemoveJob_def Let_def cancel_ptr_def)
  let ?s = "s\<lparr>sc_td := td'\<rparr>"
  let ?side = "side\<lparr>sd_runner := (sd_runner side)\<lparr>rn_runningJobs := map_del k (rn_runningJobs (sd_runner side)), rn_TimeDispatch := Some td'\<rparr>\<rparr>"
  have rem: "runner_Remove k side = (None, ?side)"
    using m rm by (simp add: runner_Remove_def RemoveAsyncCollectJob_def mirrors_def Let_def)
  have mi: "mirrors ?side ?s" using m by (simp add: mirrors_def)
  have rs: "sched_reachable t ?s" by (rule reachable_step [OF r sched_step.remove [OF rm]])
  have "wheel_ok (sc_wheel s)" using sched_okD(1) [OF ok] by (simp add: wheel_inv_def)
  then show thesis
    by (intro that [OF rem mi rs]) (use cancel_spec(4) [OF \<open>wheel_ok (sc_wheel s)\<close> a] td in \<open>simp_all add: dom_RunningJobs\<close>)
qed

subsection \<open>The client of the started program\<close>

text \<open>Connecting a client keeps its processors, and a started client has a connection.\<close>

definition client_ok :: "'w ProcessorRegistry \<Rightarrow> 'w NettyClient \<Rightarrow> bool" where
  "client_ok reg c \<longleftrightarrow> nc_registry c = reg \<and> (nc_started c \<longrightarrow> nc_conn c \<noteq> None)"

lemma client_ok_start: "client_ok reg c \<Longrightarrow> netty_Start dial c = (e, c') \<Longrightarrow> client_ok reg c'"
  by (auto simp: client_ok_def netty_Start_def triggerEvent_def Let_def split: if_splits option.splits)

lemma client_ok_retry: "client_ok reg c \<Longrightarrow> \<exists>c'. retry_loop attempts (Netty c) = Netty c' \<and> client_ok reg c'"
proof (induction attempts arbitrary: c)
  case (Cons at attempts)
  obtain e c' where s: "netty_Start (snd at) c = (e, c')" by fastforce
  with Cons client_ok_start [OF Cons.prems s] show ?case by (cases at; cases e) auto
qed simp

lemma retry_grpc: "\<exists>c'. retry_loop attempts (Grpc c) = Grpc c'"
proof (induction attempts arbitrary: c)
  case (Cons at attempts)
  then show ?case by (cases at; cases "grpc_Start (snd at) c") (auto split: option.splits)
qed simp

lemma newRunners_client:
  assumes "startAll D decodeJob jsonError getenv dial attempts listens reg (newRunners cfg now) = (err, reg', p)"
    and "tr_client (pg_transport p) = Some (Netty c)"
  shows "\<exists>c0. nc_registry c = nc_registry (RegisterDefaultNettyProcessors D decodeJob jsonError (Some runner_scheduler) c0) \<and>
    (nc_started c \<longrightarrow> nc_conn c \<noteq> None)"
proof -
  let ?cl = "prepare_client D decodeJob jsonError getenv (SetJobScheduler (Some runner_scheduler) (New_Transport cfg))"
  let ?started = "\<lambda>cl. if fst (client_Start dial cl) = None then snd (client_Start dial cl) else retry_loop attempts (snd (client_Start dial cl))"
  have c: "\<exists>cl. ?cl = Inr cl \<and> Netty c = ?started cl"
    using assms by (auto simp: startAll_def newRunners_def Transport_Start_def SetJobScheduler_def New_Transport_def Let_def
        split: prod.splits sum.splits option.splits)
  moreover have "?started (Grpc g) \<noteq> Netty c" for g
    using retry_grpc [of attempts "snd (grpc_Start dial g)"] by (auto simp: map_prod_def split: prod.splits)
  ultimately obtain c1 where cl: "?cl = Inr (Netty c1)" and st: "Netty c = ?started (Netty c1)" by (metis TransportClient.exhaust)
  from cl obtain c0 where c1: "c1 = RegisterDefaultNettyProcessors D decodeJob jsonError (Some runner_scheduler) c0" "\<not> nc_started c0"
    by (auto simp: prepare_client_def SetJobScheduler_def New_Transport_def CreateClient_def NewNettyClient_def SetEventHandler_def SetIdentity_def
        split: sum.splits TransportClient.splits if_splits)
  obtain e c2 where s: "netty_Start dial c1 = (e, c2)" by fastforce
  have "client_ok (nc_registry c1) c1" using c1 by (simp add: client_ok_def RegisterDefaultNettyProcessors_def RegisterProcessor_def)
  then have ok: "client_ok (nc_registry c1) c2" using client_ok_start [OF _ s] by blast
  have "client_ok (nc_registry c1) c" using ok client_ok_retry [OF ok, of attempts] st s by (cases e) auto
  then show ?thesis using c1 by (auto simp: client_ok_def)
qed

lemma netty_request:
  assumes "registry_Get (Msg_Type msg) (nc_registry c) = Some f" and "pr_response (f msg w) = reply (Msg_Type msg) msg txt"
    and "Msg_Direction msg = Direction_REQUEST" and "nc_started c" and "nc_conn c \<noteq> None"
  shows "netty_processReceivedMessage marshal compress env msg c w = Some (c\<lparr>nc_wire := snd (writeMessage marshal compress env
      \<lparr>Msg_Identity = Msg_Identity msg, Msg_Direction = Direction_RESPONSE, Msg_Type = Msg_Type msg, Msg_Msg = txt\<rparr> (nc_wire c))\<rparr>,
      pr_actions (f msg w), pr_world (f msg w))"
  using assms
  by (auto simp: netty_processReceivedMessage_def Direction_REQUEST_def Direction_RESPONSE_def Let_def reply_def netty_SendMsg_def case_prod_beta)

end
