(* ===== verification/Execution.thy ===== *)
theory Execution
  imports Program
begin

text \<open>
  One execution of a scheduled job through the components: the dispatcher (\<open>common_dispatcher.go\<close>) with the collectors that the
  program registers, the result handler and the lazy router that writes to the client, and the end of the timer task, which schedules
  the next execution.
\<close>

subsection \<open>Configurations stay\<close>

text \<open>Objects are never taken from the heap.\<close>

definition more_objects :: "Heap \<Rightarrow> Heap \<Rightarrow> bool" where
  "more_objects h h' \<longleftrightarrow> dom (jdbcs h) \<subseteq> dom (jdbcs h') \<and> dom (https h) \<subseteq> dom (https h') \<and> dom (rediss h) \<subseteq> dom (rediss h') \<and>
     dom (milvuss h) \<subseteq> dom (milvuss h')"

lemma collectable_eq:
  "collectable m h \<longleftrightarrow>
     (if M_Protocol m = ''jdbc'' then jdbc_configured m h
      else if M_Protocol m = ''http'' then http_configured m h
      else if M_Protocol m = ''redis'' then redis_configured m h
      else if M_Protocol m = ''milvus'' then milvus_configured m h else True)"
  by (simp add: collectable_def configured_def)

definition all_collectable :: "Metrics list \<Rightarrow> Heap \<Rightarrow> bool" where
  "all_collectable ms h \<longleftrightarrow> (\<forall>m \<in> set ms. collectable m h)"

lemma all_collectable_simps [simp]:
  "all_collectable [] h" "all_collectable (m # ms) h \<longleftrightarrow> collectable m h \<and> all_collectable ms h"
  by (simp_all add: all_collectable_def)

lemma more_objects_refl [simp]: "more_objects h h"
  by (simp add: more_objects_def)

lemma more_objects_trans: "more_objects h h1 \<Longrightarrow> more_objects h1 h2 \<Longrightarrow> more_objects h h2"
  unfolding more_objects_def by (intro conjI; elim conjE; erule (1) subset_trans)

lemma same_configs_more: "same_configs m h m' h' \<Longrightarrow> more_objects h h'"
  by (simp add: same_configs_def more_objects_def)

lemma bind_mono: "dom f \<subseteq> dom f' \<Longrightarrow> Option.bind p f \<noteq> None \<Longrightarrow> Option.bind p f' \<noteq> None"
  by (cases p) auto

lemma collectable_more:
  assumes "collectable m h" and m: "more_objects h h'" and "M_Protocol m' = M_Protocol m"
    and "M_JDBC m' = M_JDBC m" "M_Redis m' = M_Redis m" "M_Milvus m' = M_Milvus m" and http: "M_HTTP m' = M_HTTP m \<or> http_configured m' h'"
  shows "collectable m' h'"
  using assms bind_mono [of "jdbcs h" "jdbcs h'" "M_JDBC m"] bind_mono [of "https h" "https h'" "M_HTTP m"] bind_mono [of "rediss h" "rediss h'" "M_Redis m"]
    bind_mono [of "milvuss h" "milvuss h'" "M_Milvus m"]
  by (auto simp: collectable_eq jdbc_configured_def http_configured_def redis_configured_def milvus_configured_def more_objects_def split: if_splits)

lemma all_collectable_more: "all_collectable ms h \<Longrightarrow> more_objects h h' \<Longrightarrow> all_collectable ms h'"
  by (auto simp: all_collectable_def intro: collectable_more)

lemma same_configs_collectable: "same_configs m h m' h' \<Longrightarrow> M_Protocol m' = M_Protocol m \<Longrightarrow> collectable m h \<Longrightarrow> collectable m' h'"
  by (rule collectable_more [of m h], assumption, erule same_configs_more) (simp_all add: same_configs_def)

text \<open>\<open>Clone\<close> copies the configuration of HTTP and shares the others.\<close>

lemma more_objects_clone:
  "clone_map p h = (p', h') \<Longrightarrow> more_objects h h'" "clone_auth p h = (p', h') \<Longrightarrow> more_objects h h'"
  by (auto simp: clone_map_def clone_auth_def alloc_defs more_objects_def split: option.splits)

lemma clone_http_configured:
  assumes "clone_http p h = (p', h')"
  shows "more_objects h h' \<and> (Option.bind p (https h) \<noteq> None \<longrightarrow> Option.bind p' (https h') \<noteq> None)"
proof (cases "Option.bind p (https h)")
  case (Some q)
  obtain x1 h1 where c1: "clone_map (HTTP_Headers q) h = (x1, h1)" by fastforce
  obtain x2 h2 where c2: "clone_map (HTTP_Params q) h1 = (x2, h2)" by fastforce
  obtain x3 h3 where c3: "clone_auth (HTTP_Authorization q) h2 = (x3, h3)" by fastforce
  have "more_objects h h3" by (rule more_objects_trans [OF more_objects_trans [OF more_objects_clone(1) [OF c1] more_objects_clone(1) [OF c2]] more_objects_clone(2) [OF c3]])
  then show ?thesis using assms Some by (auto simp: clone_http_def c1 c2 c3 alloc_http_def more_objects_def)
qed (use assms in \<open>simp add: clone_http_def\<close>)

lemma clone_metric_collectable:
  assumes "clone_metric m h = (m', h')"
  shows "more_objects h h' \<and> (collectable m h \<longrightarrow> collectable m' h')"
proof -
  obtain cm h1 where c1: "clone_map (M_ConfigMap m) h = (cm, h1)" by fastforce
  obtain ht h2 where c2: "clone_http (M_HTTP m) h1 = (ht, h2)" by fastforce
  have e: "m' = m\<lparr>M_ConfigMap := cm, M_HTTP := ht\<rparr>" "h' = h2" using assms by (simp_all add: clone_metric_def c1 c2)
  have g: "more_objects h h1" "more_objects h1 h2" using more_objects_clone(1) [OF c1] clone_http_configured [OF c2] by simp_all
  have "collectable m h1" if "collectable m h" by (rule collectable_more [OF that g(1)]) simp_all
  then have "collectable m' h'" if "collectable m h"
    using that clone_http_configured [OF c2] collectable_more [of m h1 h2 m'] g(2)
    by (cases "M_Protocol m = ''http''") (auto simp: e collectable_eq http_configured_def jdbc_configured_def redis_configured_def milvus_configured_def bind_mono more_objects_def)
  then show ?thesis using more_objects_trans [OF g] e by simp
qed

lemma clone_metrics_collectable: "clone_metrics ms h = (ms', h') \<Longrightarrow> more_objects h h' \<and> (all_collectable ms h \<longrightarrow> all_collectable ms' h')"
proof (induction ms h arbitrary: ms' h' rule: clone_metrics.induct)
  case (2 m ms h)
  obtain m1 h1 where c: "clone_metric m h = (m1, h1)" by fastforce
  obtain ms2 h2 where cs: "clone_metrics ms h1 = (ms2, h2)" by fastforce
  note i = "2.IH" [OF c [symmetric] refl cs] and cm = clone_metric_collectable [OF c]
  have "collectable m1 h2" if "collectable m h" by (rule collectable_more [of m1 h1]) (use cm i that in simp_all)
  moreover have "all_collectable ms h1" if "all_collectable ms h" using all_collectable_more that cm by blast
  ultimately show ?case using 2(2) i cm more_objects_trans by (auto simp: c cs)
qed simp

lemma replace_all_collectable: "replace_all_metrics ms pa h = Inr (ms', h') \<Longrightarrow> more_objects h h' \<and> (all_collectable ms h \<longrightarrow> all_collectable ms' h')"
proof (induction ms arbitrary: h ms' h')
  case (Cons m ms)
  from Cons.prems obtain m1 h1 ms2 where c: "ReplaceMetricsParams m pa h = Inr (m1, h1)" and cs: "replace_all_metrics ms pa h1 = Inr (ms2, h')"
    and e: "ms' = m1 # ms2" by (auto split: sum.splits)
  note i = Cons.IH [OF cs] and s = same_configs_replace [OF c]
  have "collectable m1 h1" if "collectable m h" by (rule same_configs_collectable [OF s _ that]) (simp add: replace_keeps [OF c])
  then have "collectable m1 h'" if "collectable m h" by (rule collectable_more [of m1 h1]) (use i that in simp_all)
  moreover have "all_collectable ms h1" if "all_collectable ms h" using all_collectable_more that same_configs_more [OF s] by blast
  ultimately show ?case using i e more_objects_trans [OF same_configs_more [OF s]] by auto
qed simp

lemma ReplaceJobParams_collectable:
  assumes "ReplaceJobParams (Some j) h = Inr (j', h')" and "all_collectable (J_Metrics j) h"
  shows "all_collectable (J_Metrics j') h' \<and> more_objects h h'"
proof -
  let ?pa = "fst (alloc_map (createParamMapSimple (J_Configmap j)) h)" and ?h1 = "snd (alloc_map (createParamMapSimple (J_Configmap j)) h)"
  have g1: "more_objects h ?h1" by (simp add: alloc_map_def more_objects_def)
  obtain md ha where a: "clone_map (J_Metadata j) ?h1 = (md, ha)" by fastforce
  obtain lb hb where b: "clone_map (J_Labels j) ha = (lb, hb)" by fastforce
  obtain an hc where c: "clone_map (J_Annotations j) hb = (an, hc)" by fastforce
  obtain arr hd where d: "alloc_arr hc = (arr, hd)" by fastforce
  obtain ms he where e: "clone_metrics (J_Metrics j) hd = (ms, he)" by fastforce
  have "more_objects ?h1 hc" by (rule more_objects_trans [OF more_objects_trans [OF more_objects_clone(1) [OF a] more_objects_clone(1) [OF b]] more_objects_clone(1) [OF c]])
  then have g2: "more_objects ?h1 hd" "more_objects hd he"
    using clone_metrics_collectable [OF e] d by (auto simp: alloc_arr_def more_objects_def)
  have cl: "\<exists>c. Clone (Some j) ?h1 = (Some c, he) \<and> J_Metrics c = ms" by (simp add: Clone_def a b c d e)
  with assms(1) have r: "replace_all_metrics ms (Some ?pa) he = Inr (J_Metrics j', h')"
    by (auto simp: ReplaceJobParams_def split: prod.splits sum.splits)
  have "all_collectable (J_Metrics j) hd" using all_collectable_more assms(2) more_objects_trans [OF g1 g2(1)] by blast
  then show ?thesis using replace_all_collectable [OF r] clone_metrics_collectable [OF e] g1 g2 more_objects_trans by blast
qed

lemma collectable_touch [simp]:
  "collectable (metric_touch t m) h = collectable m h" "collectable (m\<lparr>M_CollectTime := t\<rparr>) h = collectable m h"
  by (simp_all add: metric_touch_def Let_def collectable_eq jdbc_configured_def http_configured_def redis_configured_def milvus_configured_def)

lemma ConstructPrior_collectable:
  assumes "all_collectable (J_Metrics j) h"
  shows "all_collectable (J_Metrics (ConstructPriorMetrics t j)) h"
proof -
  have "collectable (ms ! i) h" if "all_collectable ms h" "default_index ms = Some i" for ms i
    using that by (auto simp: all_collectable_def default_index_def find_Some_iff)
  then show ?thesis
    using assms unfolding construct_prior_stamps
    by (auto simp: all_collectable_def split: option.split dest!: set_update_subset_insert [THEN subsetD])
qed

subsection \<open>The collectors of the program\<close>

lemma CollectMetrics_program:
  assumes "reparses (ls_Http ls)" and "collectable m h"
  shows "\<exists>d m' h'. CollectMetrics compile run (program_registry ls) now m job h = Inr (d, m', h') \<and> M_Name m' = M_Name m \<and> of_job job d \<and>
    R_Metrics d = M_Name m \<and> collectable m' h' \<and> more_objects h h'"
proof -
  obtain m' h' where s: "same_configs m h m' h'" "M_Name m' = M_Name m" "M_Protocol m' = M_Protocol m" and e: "CollectMetrics compile run (program_registry ls) now m job h =
    (case map_of (reg_collectors (program_registry ls)) (M_Protocol m) of
       None \<Rightarrow> Inr (createErrorResponse m' job now CollectUnavailable
          (''Collector not found: no collector found for protocol: '' @ M_Protocol m), m', h')
     | Some c \<Rightarrow> (case Col_Collect c m' h' of Inl p \<Rightarrow> Inl p | Inr None \<Rightarrow> Inl NilDereference
         | Inr (Some r) \<Rightarrow> Inr (enrich job h' (if R_Code r = CollectSuccess then the (CalculateFields compile run (Some m') (Some r)) else r), m', h')))"
    using CollectMetrics_configs [of m h compile run "program_registry ls" now job] by blast
  have c: "collectable m' h'" "more_objects h h'" using same_configs_collectable [OF s(1,3) assms(2)] same_configs_more [OF s(1)] by simp_all
  show ?thesis
  proof (cases "map_of (standard_factories ls) (M_Protocol m)")
    case None
    then show ?thesis using s(2) c by (simp add: e program_registry_get createErrorResponse_def of_job_def)
  next
    case (Some f)
    then obtain cfg where "collector_contract (Col_Collect (f ())) cfg" "cfg m' h' = collectable m' h'"
      using registered_contract [OF assms(1), of m' f h'] s(3) by auto
    then obtain d where "Col_Collect (f ()) m' h' = Inr (Some d)" "R_Metrics d = M_Name m'" using collector_contract.answers c(1) by blast
    then show ?thesis using Some s(2) c by (simp add: e program_registry_get of_job_def CalculateFields_metrics) (simp add: enrich_def)
  qed
qed

text \<open>The data is the result of collecting the metric with the name, for a job with the identity of this one, and carries both.\<close>

definition result_of :: "(string \<Rightarrow> 'p option) \<Rightarrow> ('p \<Rightarrow> (string \<times> any) list \<Rightarrow> string + any) \<Rightarrow> ('r, 'k, 'u) Libraries \<Rightarrow> time \<Rightarrow>
    string \<Rightarrow> Job \<Rightarrow> CollectRepMetricsData \<Rightarrow> bool" where
  "result_of compile run ls now name job d \<longleftrightarrow> R_Metrics d = name \<and> of_job job d \<and>
     (\<exists>m j h m' h'. M_Name m = name \<and> same_identity job j \<and> CollectMetrics compile run (program_registry ls) now m j h = Inr (d, m', h'))"

interpretation program: metric_source "CollectMetrics compile run (program_registry ls) now"
  "\<lambda>j h. reparses (ls_Http ls) \<and> all_collectable (J_Metrics j) h" more_objects "result_of compile run ls now" for compile run ls now
proof (unfold_locales, goal_cases)
  case (1 j h i)
  then have "collectable (J_Metrics j ! i) h" by (simp add: all_collectable_def)
  with 1 CollectMetrics_program obtain d m' h' where c: "CollectMetrics compile run (program_registry ls) now (J_Metrics j ! i) j h = Inr (d, m', h')"
    "M_Name m' = M_Name (J_Metrics j ! i)" "of_job j d" "collectable m' h'" "more_objects h h'" "R_Metrics d = M_Name (J_Metrics j ! i)" by blast
  have "all_collectable ((J_Metrics j)[i := m']) h'"
    using all_collectable_more [OF conjunct2 [OF 1(1)] c(5)] c(4) unfolding all_collectable_def by (auto dest!: set_update_subset_insert [THEN subsetD])
  moreover have "result_of compile run ls now (M_Name (J_Metrics j ! i)) j d"
    unfolding result_of_def using c(1,3,6)
    by (intro conjI exI [of _ "J_Metrics j ! i"] exI [of _ j] exI [of _ h] exI [of _ m'] exI [of _ h']) (auto simp: same_identity_def)
  ultimately show ?case using c 1(1) by simp
next
  case (5 j j' n d)
  then show ?case by (simp add: result_of_def same_identity_def of_job_def)
qed (auto simp: ConstructPrior_collectable dest: ReplaceJobParams_collectable all_collectable_more intro: more_objects_trans)

subsection \<open>Writing the results\<close>

text \<open>The lazy router as the dispatcher sees it: its state is the transport, and the panic that ended the program.\<close>

definition program_router :: "ipc_encoder \<Rightarrow> Network \<Rightarrow> string \<Rightarrow> CollectRepMetricsData \<Rightarrow> Job \<Rightarrow>
    panic option \<times> 's TransportRunner \<Rightarrow> string option \<times> panic option \<times> 's TransportRunner" where
  "program_router encode nw identity d job = (\<lambda>(p, r).
     case lazy_SendResult encode nw identity d job r of Inl e \<Rightarrow> (None, Some e, r) | Inr (err, r') \<Rightarrow> (err, p, r'))"

text \<open>The message that carries a result, as bytes, unless the result cannot be encoded; and what it adds to the connection.\<close>

definition result_payload :: "ipc_encoder \<Rightarrow> Network \<Rightarrow> string \<Rightarrow> Job \<Rightarrow> CollectRepMetricsData \<Rightarrow> byte list option" where
  "result_payload encode nw identity job d =
     (case serializeToArrow encode [d] of Inl err \<Rightarrow> None
      | Inr s \<Rightarrow> (case nw_marshal nw (result_message identity job s) of Inl err \<Rightarrow> None | Inr p \<Rightarrow> Some p))"

definition result_bytes :: "ipc_encoder \<Rightarrow> Network \<Rightarrow> string \<Rightarrow> Job \<Rightarrow> CollectRepMetricsData \<Rightarrow> byte list" where
  "result_bytes encode nw identity job d = (case result_payload encode nw identity job d of None \<Rightarrow> [] | Some p \<Rightarrow> nw_compress nw (frame p))"

text \<open>The frames of results, and encoders that accept every record and every message with a result.\<close>

definition result_frames :: "ipc_encoder \<Rightarrow> Network \<Rightarrow> string \<Rightarrow> Job \<Rightarrow> CollectRepMetricsData list \<Rightarrow> byte list list" where
  "result_frames encode nw identity job ds = map (\<lambda>p. nw_compress nw (frame p)) (List.map_filter (result_payload encode nw identity job) ds)"

definition encodes_all :: "ipc_encoder \<Rightarrow> Network \<Rightarrow> string \<Rightarrow> bool" where
  "encodes_all encode nw identity \<longleftrightarrow> (\<forall>rec. \<exists>s. encode rec = Inr s) \<and> (\<forall>job s. \<exists>p. nw_marshal nw (result_message identity job s) = Inr p)"

lemma result_bytes_frames: "concat (map (result_bytes encode nw identity job) ds) = concat (result_frames encode nw identity job ds)"
  by (induction ds) (simp_all add: result_frames_def result_bytes_def map_filter_simps split: option.split)

lemma every_result_framed:
  assumes "encodes_all encode nw identity"
  shows "length (result_frames encode nw identity job ds) = length ds"
proof -
  have "result_payload encode nw identity job d \<noteq> None" for d
  proof -
    obtain s where "encode (createArrowRecordBatch d) = Inr s" using assms unfolding encodes_all_def by blast
    moreover obtain p where "nw_marshal nw (result_message identity job (big_endian (word_of_nat 1) @ s)) = Inr p"
      using assms unfolding encodes_all_def by blast
    ultimately show ?thesis by (simp add: result_payload_def serializeToArrow_def)
  qed
  then show ?thesis by (induction ds) (auto simp: result_frames_def map_filter_simps split: option.split)
qed

definition connected :: "'s TransportRunner \<Rightarrow> 's World NettyClient \<Rightarrow> bool" where
  "connected r c \<longleftrightarrow> tr_client r = Some (Netty c) \<and> nc_started c \<and> nc_conn c \<noteq> None"

lemma program_router_writes:
  assumes "connected r c" and "nw_env nw = net_ok"
  shows "\<exists>err r'. program_router encode nw identity d job (None, r) = (err, None, r') \<and>
    connected r' (c\<lparr>nc_wire := nc_wire c @ result_bytes encode nw identity job d\<rparr>)"
  using assms
  by (auto simp: connected_def program_router_def lazy_SendResult_def sendResultDirectly_def netty_SendMsg_def writeMessage_def net_ok_def IsStarted_def
      result_bytes_def result_payload_def Let_def split: sum.split option.split)

lemma results_written:
  assumes "connected r c" and "nw_env nw = net_ok"
  shows "\<exists>r'. foldl (\<lambda>w d. snd (HandleCollectData (Some (program_router encode nw identity)) (Some d) job w)) (None, r) ds = (None, r') \<and>
    connected r' (c\<lparr>nc_wire := nc_wire c @ concat (map (result_bytes encode nw identity job) ds)\<rparr>)"
  using assms(1)
proof (induction ds arbitrary: r c)
  case (Cons d ds)
  obtain err r1 where w: "program_router encode nw identity d job (None, r) = (err, None, r1)"
    and c: "connected r1 (c\<lparr>nc_wire := nc_wire c @ result_bytes encode nw identity job d\<rparr>)"
    using program_router_writes [OF Cons.prems assms(2)] by blast
  from Cons.IH [OF c] w show ?case by (cases err) (simp_all add: HandleCollectData_def)
qed simp

lemma result_bytes_cyclic: "J_IsCyclic job' = J_IsCyclic job \<Longrightarrow> result_bytes encode nw identity job' = result_bytes encode nw identity job"
  by (simp add: result_bytes_def result_payload_def result_message_def fun_eq_iff split: sum.split)

lemma execution_reports:
  fixes r :: "'s TransportRunner"
  assumes "reparses (ls_Http ls)" and "all_collectable (J_Metrics job) h" and "connected r c" and "nw_env nw = net_ok"
  obtains job' h' rs r' where
    "DispatchMetricsTask (CollectMetrics compile run (program_registry ls) now) (HandleCollectData (Some (program_router encode nw identity)))
       arrives nowMilli (Some job) h (None, r) = Inr (None, Some job', h', None, r')"
    "connected r' (c\<lparr>nc_wire := nc_wire c @ concat (map (result_bytes encode nw identity job) rs)\<rparr>)"
    "list_all2 (\<lambda>i d. result_of compile run ls now (M_Name (J_Metrics job ! i)) job d) (filter arrives [0..<length (J_Metrics job)]) rs"
    "same_schedule job job'" "all_collectable (J_Metrics job') h'"
proof -
  let ?handle = "HandleCollectData (Some (program_router encode nw identity)) :: _ \<Rightarrow> _ \<Rightarrow> panic option \<times> 's TransportRunner \<Rightarrow> _"
  let ?job = "ConstructPriorMetrics nowMilli job"
  obtain h' rs where d: "DispatchMetricsTask (CollectMetrics compile run (program_registry ls) now) ?handle arrives nowMilli (Some job) h (None, r) =
      Inr (None, Some ?job, h', foldl (\<lambda>w d. snd (?handle (Some d) ?job w)) (None, r) rs)"
    "list_all2 (\<lambda>i d. result_of compile run ls now (M_Name (J_Metrics job ! i)) job d) (filter arrives [0..<length (J_Metrics job)]) rs"
    "all_collectable (J_Metrics ?job) h'"
    using program.dispatch_results [of ls job h compile run now ?handle arrives nowMilli "(None, r)"] assms(1,2) by blast
  obtain r' where w: "foldl (\<lambda>w d. snd (?handle (Some d) ?job w)) (None, r) rs = (None, r')"
    "connected r' (c\<lparr>nc_wire := nc_wire c @ concat (map (result_bytes encode nw identity ?job) rs)\<rparr>)"
    using results_written [OF assms(3,4), of encode identity ?job rs] by blast
  show thesis
  proof (rule that [of ?job h' r' rs])
    show "same_schedule job ?job" by (simp add: same_schedule_def ConstructPrior_keeps)
  qed (use d w result_bytes_cyclic [of ?job job encode nw identity] in \<open>simp_all add: ConstructPrior_keeps\<close>)
qed

subsection \<open>From the wheel to the start of the task\<close>

definition timer_runs :: "Sched \<Rightarrow> bool" where
  "timer_runs s \<longleftrightarrow> hwt_running (sc_wheel s) \<and> \<not> hwt_stopped (sc_wheel s)"

lemma reachable_steps: "sched_reachable t s \<Longrightarrow> sched_step\<^sup>*\<^sup>* s s' \<Longrightarrow> sched_reachable t s'"
  unfolding sched_reachable_def by (rule rtranclp_trans)

lemma ticks_start_task:
  assumes "sched_reachable t s" and "timer_runs s" and "(a, d) \<in> pending (sc_wheel s)" and "d < 2 ^ 62"
  shows "\<exists>s'. sched_step\<^sup>*\<^sup>* s s' \<and> tick_no (sc_wheel s') = d \<and> a \<in> set (sc_spawned s') \<and> sc_jobs s' = sc_jobs s \<and>
    task_of (sc_wheel s') a = task_of (sc_wheel s) a \<and> timer_runs s'"
  using assms
proof (induction "nat (d - tick_no (sc_wheel s))" arbitrary: s rule: less_induct)
  case less
  let ?w = "sc_wheel s"
  have ok: "wheel_ok ?w" using sched_okD(1) [OF reachable_ok [OF less.prems(1)]] by (simp add: wheel_inv_def)
  have d: "tick_no ?w < d" by (rule hwt.due_future [OF ok less.prems(3)])
  have e: "early ?w" and room: "0 < room ?w" using d less.prems(4) by (simp_all add: early_def room_def)
  obtain f w' where t: "tick ?w = Inr (f, w')" using tick_eq(1) [OF ok room] by blast
  note ts = tick_spec [OF ok room t]
  let ?s = "s\<lparr>sc_td := (sc_td s)\<lparr>td_wheelTimer := w'\<rparr>, sc_spawned := sc_spawned s @ f\<rparr>"
  have st: "sched_step s ?s" by (rule sched_step.ticked [OF _ e t]) (use less.prems(2) in \<open>simp add: timer_runs_def\<close>)
  have w': "timer_runs ?s" "task_of w' a = task_of ?w a"
    using t less.prems(2) ts(6) by (auto simp: timer_runs_def task_of_def tick_def Let_def split: sum.splits)
  show ?case
  proof (cases "d = tick_no ?w + 1")
    case True
    then have "a \<in> set f" using ts(4) less.prems(3) by simp
    with True ts(2) w' st show ?thesis by (intro exI [of _ ?s]) auto
  next
    case False
    have p: "(a, d) \<in> pending (sc_wheel ?s)" using ts(5) False less.prems(3) by simp
    have "nat (d - tick_no (sc_wheel ?s)) < nat (d - tick_no ?w)" using ts(2) d by simp
    from less.hyps [OF this reachable_step [OF less.prems(1) st] w'(1) p less.prems(4)] w'(2) st show ?thesis
      by (auto intro: converse_rtranclp_into_rtranclp)
  qed
qed

subsection \<open>A whole execution\<close>

lemma run_finish_repeats:
  assumes r: "sched_reachable t s" and a: "a \<in> set (sc_running s)" "task_of (sc_wheel s) a = Some p"
    and w: "early (sc_wheel s)" "\<not> hwt_stopped (sc_wheel s)"
    and j: "J_IsCyclic (job_at (sc_jobs s) p)" "sint (J_DefaultInterval (job_at (sc_jobs s) p)) = n" "0 < n"
  obtains td' where "run_finish (sc_jobs s) now p None (sc_td s) = Inr (None, td')"
    "pending (td_wheelTimer td') = insert (length (hwt_timeouts (sc_wheel s)), tick_no (sc_wheel s) + 10 * n) (pending (sc_wheel s))"
    "map_of (td_cyclicTasks td') (J_ID (job_at (sc_jobs s) p)) = Some (Some (length (hwt_timeouts (sc_wheel s))))"
    "task_of (td_wheelTimer td') (length (hwt_timeouts (sc_wheel s))) = Some p" "hwt_running (td_wheelTimer td') = hwt_running (sc_wheel s)"
    "\<not> hwt_stopped (td_wheelTimer td')" "tick_no (td_wheelTimer td') = tick_no (sc_wheel s)"
proof -
  note ok = reachable_ok [OF r]
  have "a < length (hwt_timeouts (sc_wheel s))" using ok a(1) by (auto simp: sched_defs)
  then have "task_ok (sc_jobs s) (sc_wheel s) a" using ok by (simp add: sched_defs)
  then have sane: "sane (job_at (sc_jobs s) p)" using a(2) by (simp add: task_ok_def)
  have inv: "wheel_inv (sc_wheel s)" using sched_okD(1) [OF ok] .
  let ?td = "RecordJobCompleted (sc_td s)"
  have td: "td_wheelTimer ?td = sc_wheel s" by (simp add: RecordJobCompleted_def Let_def)
  have "sint (hwt_tickDuration (sc_wheel s)) = 100000000" using inv by (simp add: wheel_inv_def Millisecond_def)
  then have d: "delay_ticks (next_delay (job_at (sc_jobs s) p)) (sc_wheel s) = 10 * n"
    using j(2,3) by (simp add: delay_ticks_def Let_def sane_next_delay(1) [OF sane])
  obtain td' where "RescheduleJob (sc_jobs s) now p ?td = Inr (None, td')"
    "pending (td_wheelTimer td') = insert (length (hwt_timeouts (sc_wheel s)), tick_no (sc_wheel s) + delay_ticks (next_delay (job_at (sc_jobs s) p)) (sc_wheel s)) (pending (sc_wheel s))"
    "map_of (td_cyclicTasks td') (J_ID (job_at (sc_jobs s) p)) = Some (Some (length (hwt_timeouts (sc_wheel s))))"
    "task_of (td_wheelTimer td') (length (hwt_timeouts (sc_wheel s))) = Some p" "hwt_running (td_wheelTimer td') = hwt_running (sc_wheel s)"
    "\<not> hwt_stopped (td_wheelTimer td')" "tick_no (td_wheelTimer td') = tick_no (sc_wheel s)"
    by (rule RescheduleJob_schedules [of ?td "sc_jobs s" p now]) (use inv w sane j td in simp_all)
  then show thesis using j d by (intro that [of td']) (simp_all add: run_finish_def rescheduleJob_def Let_def)
qed

text \<open>From a running task to the end of it.\<close>

lemma execution_ends:
  fixes r :: "'s TransportRunner"
  assumes "sched_reachable t s" and "a \<in> set (sc_running s)" and "task_of (sc_wheel s) a = Some p" and "early (sc_wheel s)" and "\<not> hwt_stopped (sc_wheel s)"
    and "J_IsCyclic (job_at (sc_jobs s) p)" and "sint (J_DefaultInterval (job_at (sc_jobs s) p)) = n" and "0 < n"
    and "reparses (ls_Http ls)" and "all_collectable (J_Metrics (job_at (sc_jobs s) p)) h" and "connected r c" and "nw_env nw = net_ok"
  obtains job' h' rs r' td' s' where
    "DispatchMetricsTask (CollectMetrics compile run (program_registry ls) now) (HandleCollectData (Some (program_router encode nw identity)))
      arrives nowMilli (Some (job_at (sc_jobs s) p)) h (None, r) = Inr (None, Some job', h', None, r')"
    "connected r' (c\<lparr>nc_wire := nc_wire c @ concat (map (result_bytes encode nw identity (job_at (sc_jobs s) p)) rs)\<rparr>)"
    "list_all2 (\<lambda>i d. result_of compile run ls now (M_Name (J_Metrics (job_at (sc_jobs s) p) ! i)) (job_at (sc_jobs s) p) d) (filter arrives [0..<length (J_Metrics (job_at (sc_jobs s) p))]) rs"
    "all_collectable (J_Metrics job') h'" "job_at (sc_jobs s') p = job'" "same_schedule (job_at (sc_jobs s) p) job'"
    "run_finish ((sc_jobs s)[p := job']) fin p None (sc_td s) = Inr (None, td')"
    "sched_step\<^sup>*\<^sup>* s s'" "sched_reachable t s'" "sc_td s' = td'" "sc_jobs s' = (sc_jobs s)[p := job']" "sc_running s' = remove1 a (sc_running s)"
    "map_of (td_cyclicTasks td') (J_ID (job_at (sc_jobs s) p)) = Some (Some (length (hwt_timeouts (sc_wheel s))))"
    "pending (sc_wheel s') = insert (length (hwt_timeouts (sc_wheel s)), tick_no (sc_wheel s) + 10 * n) (pending (sc_wheel s))"
    "task_of (sc_wheel s') (length (hwt_timeouts (sc_wheel s))) = Some p" "hwt_running (sc_wheel s') = hwt_running (sc_wheel s)"
    "\<not> hwt_stopped (sc_wheel s')" "tick_no (sc_wheel s') = tick_no (sc_wheel s)"
proof -
  let ?job = "job_at (sc_jobs s) p"
  obtain job' h' rs r' where d:
    "DispatchMetricsTask (CollectMetrics compile run (program_registry ls) now) (HandleCollectData (Some (program_router encode nw identity)))
       arrives nowMilli (Some ?job) h (None, r) = Inr (None, Some job', h', None, r')"
    "connected r' (c\<lparr>nc_wire := nc_wire c @ concat (map (result_bytes encode nw identity ?job) rs)\<rparr>)"
    "list_all2 (\<lambda>i d. result_of compile run ls now (M_Name (J_Metrics ?job ! i)) ?job d) (filter arrives [0..<length (J_Metrics ?job)]) rs"
    "same_schedule ?job job'" "all_collectable (J_Metrics job') h'"
    by (rule execution_reports [OF assms(9-12)])
  let ?s1 = "s\<lparr>sc_jobs := (sc_jobs s)[p := job']\<rparr>"
  have "task_ok (sc_jobs s) (sc_wheel s) a" using reachable_ok [OF assms(1)] assms(2) by (auto simp: sched_defs)
  then have p: "p < length (sc_jobs s)" using assms(3) by (simp add: task_ok_def)
  have w: "sched_step s ?s1"
    by (rule sched_step.worked) (use p d(4) in \<open>auto simp: list_all2_conv_all_nth nth_list_update job_at_def same_schedule_def\<close>)
  have j: "J_IsCyclic (job_at (sc_jobs ?s1) p)" "sint (J_DefaultInterval (job_at (sc_jobs ?s1) p)) = n" "J_ID (job_at (sc_jobs ?s1) p) = J_ID ?job"
    using assms(6,7) d(4) p by (simp_all add: job_at_def same_schedule_def)
  have r1: "sched_reachable t ?s1" by (rule reachable_step [OF assms(1) w])
  obtain td' where f: "run_finish (sc_jobs ?s1) fin p None (sc_td ?s1) = Inr (None, td')"
    "pending (td_wheelTimer td') = insert (length (hwt_timeouts (sc_wheel ?s1)), tick_no (sc_wheel ?s1) + 10 * n) (pending (sc_wheel ?s1))"
    "map_of (td_cyclicTasks td') (J_ID (job_at (sc_jobs ?s1) p)) = Some (Some (length (hwt_timeouts (sc_wheel ?s1))))"
    "task_of (td_wheelTimer td') (length (hwt_timeouts (sc_wheel ?s1))) = Some p" "hwt_running (td_wheelTimer td') = hwt_running (sc_wheel ?s1)"
    "\<not> hwt_stopped (td_wheelTimer td')" "tick_no (td_wheelTimer td') = tick_no (sc_wheel ?s1)"
    by (rule run_finish_repeats [OF r1 _ _ _ _ j(1,2) assms(8)]) (use assms(2-5) in simp_all)
  let ?s2 = "?s1\<lparr>sc_td := td', sc_running := remove1 a (sc_running ?s1), sc_failed := (if None = (None :: string option) then sc_failed ?s1 else a # sc_failed ?s1)\<rparr>"
  have st: "sched_step ?s1 ?s2" by (rule sched_step.ended [OF _ _ _ f(1)]) (use assms(2-4) in simp_all)
  have r2: "sched_reachable t ?s2" by (rule reachable_step [OF r1 st])
  have "sched_step\<^sup>*\<^sup>* s ?s2" using w st by (meson converse_rtranclp_into_rtranclp rtranclp.rtrancl_refl)
  with d f j r2 p show thesis by (intro that [of job' h' r' rs ?s2 td']) (simp_all add: job_at_def)
qed

text \<open>C4: an execution reports and repeats. When a timeout of a cyclic job with a positive interval runs in a reachable state of the scheduler, before tick \<open>2 ^ 62\<close> of
  the timer, which has not been stopped, the metrics of the job can be collected (jdbc, http, redis and milvus metrics have their configuration), the text
  of an accepted URL is accepted again and the Netty client is connected to a working network, then the collection with the collectors of the program neither fails nor panics. There is one result for each metric whose collection ends in
  time, in the order of the metrics; it is what collecting a metric of that name has returned and carries the name of the metric and the identity of the job. The
  frames of these results, and nothing else, are appended to what the client has written: one frame for every result when the encoders accept everything, and none
  for a result that cannot be encoded. The job is ready for its next execution, and the end of the task leads by steps of the scheduler to a reachable state in
  which that execution waits in the wheel, ten ticks for every second of the interval ahead.\<close>

theorem execution_reports_and_repeats:
  fixes r :: "'s TransportRunner"
  assumes "sched_reachable t s" and "a \<in> set (sc_running s)" and "task_of (sc_wheel s) a = Some p" and "early (sc_wheel s)" and "\<not> hwt_stopped (sc_wheel s)"
    and "J_IsCyclic (job_at (sc_jobs s) p)" and "sint (J_DefaultInterval (job_at (sc_jobs s) p)) = n" and "0 < n"
    and "reparses (ls_Http ls)" and "all_collectable (J_Metrics (job_at (sc_jobs s) p)) h" and "connected r c" and "nw_env nw = net_ok"
  shows "\<exists>job' h' rs r' td' s'.
    DispatchMetricsTask (CollectMetrics compile run (program_registry ls) now) (HandleCollectData (Some (program_router encode nw identity)))
      arrives nowMilli (Some (job_at (sc_jobs s) p)) h (None, r) = Inr (None, Some job', h', None, r') \<and>
    list_all2 (\<lambda>i d. result_of compile run ls now (M_Name (J_Metrics (job_at (sc_jobs s) p) ! i)) (job_at (sc_jobs s) p) d)
      (filter arrives [0..<length (J_Metrics (job_at (sc_jobs s) p))]) rs \<and>
    connected r' (c\<lparr>nc_wire := nc_wire c @ concat (result_frames encode nw identity (job_at (sc_jobs s) p) rs)\<rparr>) \<and>
    (encodes_all encode nw identity \<longrightarrow> length (result_frames encode nw identity (job_at (sc_jobs s) p) rs) = length rs) \<and>
    all_collectable (J_Metrics job') h' \<and>
    run_finish ((sc_jobs s)[p := job']) fin p None (sc_td s) = Inr (None, td') \<and>
    sched_reachable t s' \<and> sc_td s' = td' \<and> sc_jobs s' = (sc_jobs s)[p := job'] \<and> sc_running s' = remove1 a (sc_running s) \<and>
    map_of (td_cyclicTasks td') (J_ID (job_at (sc_jobs s) p)) = Some (Some (length (hwt_timeouts (sc_wheel s)))) \<and>
    pending (sc_wheel s') = insert (length (hwt_timeouts (sc_wheel s)), tick_no (sc_wheel s) + 10 * n) (pending (sc_wheel s))"
  by (rule execution_ends [OF assms, where compile = compile and run = run and now = now and encode = encode and identity = identity
        and arrives = arrives and nowMilli = nowMilli and fin = fin, unfolded result_bytes_frames])
    (intro exI conjI, assumption+, rule impI, erule every_result_framed, assumption+)

subsection \<open>A concrete execution\<close>

definition exec_job_ex :: Job where
  "exec_job_ex = Job0\<lparr>J_ID := 7, J_MonitorID := 7, J_IsCyclic := True, J_DefaultInterval := 100, J_Metrics := [Metrics0\<lparr>M_Name := ''cpu'', M_Protocol := ''ssh''\<rparr>]\<rparr>"

text \<open>The job waits for the first tick of the started timer.\<close>

lemma waiting_ex:
  obtains s where "sched_reachable 0 s" "hwt_running (sc_wheel s)" "\<not> hwt_stopped (sc_wheel s)" "tick_no (sc_wheel s) = 0" "sc_jobs s = [exec_job_ex]"
    "(0, 1) \<in> pending (sc_wheel s)" "task_of (sc_wheel s) 0 = Some 0" "map_of (td_cyclicTasks (sc_td s)) 7 = Some (Some 0)"
proof -
  let ?s0 = "sched_init 0" let ?s1 = "?s0\<lparr>sc_jobs := sc_jobs ?s0 @ [exec_job_ex]\<rparr>" let ?s2 = "?s1\<lparr>sc_td := snd (td_Start 0 (sc_td ?s1))\<rparr>"
  have r2: "sched_reachable 0 ?s2"
    by (rule reachable_step [OF reachable_step [OF _ sched_step.receive] sched_step.start]) (simp add: sched_reachable_def)
  have w2: "hwt_running (sc_wheel ?s2)" "\<not> hwt_stopped (sc_wheel ?s2)" "tick_no (sc_wheel ?s2) = 0" "hwt_timeouts (sc_wheel ?s2) = []"
    by (simp_all add: sched_init_def td_Start_def NewTimeDispatch_def startStatsLogging_def Start_def NewHashedWheelTimer_def tick_no_def Let_def)
  have inv: "wheel_inv (sc_wheel ?s2)" by (rule sched_okD(1) [OF reachable_ok [OF r2]])
  have e: "early (sc_wheel ?s2)" using w2(3) by (simp add: early_def)
  have j: "job_at (sc_jobs ?s2) 0 = exec_job_ex" "sane exec_job_ex" "J_IsCyclic exec_job_ex" "J_ID exec_job_ex = 7"
    by (simp_all add: sched_init_def job_at_def sane_def exec_job_ex_def)
  have d: "delay_ticks (first_delay exec_job_ex) (sc_wheel ?s2) = 1"
    using inv by (simp add: delay_ticks_def first_delay_def exec_job_ex_def wheel_inv_def Millisecond_def)
  obtain b to td where
    a: "AddJob (sc_jobs ?s2) 5 (Some 0) (sc_td ?s2) = Inr (None, td)" and tw: "td_wheelTimer td = add_timeout b to (sc_wheel ?s2)"
    and tt: "to_task to = NewWheelTimerTask (Some 0)"
    and pd: "pending (td_wheelTimer td) = insert (length (hwt_timeouts (sc_wheel ?s2)), tick_no (sc_wheel ?s2) + delay_ticks (first_delay (job_at (sc_jobs ?s2) 0)) (sc_wheel ?s2)) (pending (sc_wheel ?s2))"
    and cy: "td_cyclicTasks td = (if J_IsCyclic (job_at (sc_jobs ?s2) 0) then map_put (J_ID (job_at (sc_jobs ?s2) 0)) (Some (length (hwt_timeouts (sc_wheel ?s2)))) (td_cyclicTasks (sc_td ?s2)) else td_cyclicTasks (sc_td ?s2))"
    by (rule AddJob_schedules [OF inv e w2(2), where p = 0 and jobs = "sc_jobs ?s2" and now = 5]) (use j in simp_all)
  let ?s3 = "?s2\<lparr>sc_td := td\<rparr>"
  have r3: "sched_reachable 0 ?s3"
    by (rule reachable_step [OF r2 sched_step.add [OF _ _ e a]]) (use j in \<open>simp_all add: sched_init_def\<close>)
  show thesis
  proof (rule that [OF r3])
    show "map_of (td_cyclicTasks (sc_td ?s3)) 7 = Some (Some 0)" using cy w2(4) j(1,3,4) by simp
    show "(0, 1) \<in> pending (sc_wheel ?s3)" using pd w2(3,4) d j(1) by simp
  qed (use w2 tw tt in \<open>simp_all add: add_timeout_def tick_no_def task_of_def NewWheelTimerTask_def sched_init_def\<close>)
qed

lemma running_ex:
  obtains s where "sched_reachable 0 s" "0 \<in> set (sc_running s)" "task_of (sc_wheel s) 0 = Some 0" "sc_jobs s = [exec_job_ex]" "early (sc_wheel s)"
    "\<not> hwt_stopped (sc_wheel s)"
proof -
  obtain s where s: "sched_reachable 0 s" "hwt_running (sc_wheel s)" "\<not> hwt_stopped (sc_wheel s)" "sc_jobs s = [exec_job_ex]"
    "(0, 1) \<in> pending (sc_wheel s)" "task_of (sc_wheel s) 0 = Some 0" by (rule waiting_ex)
  have "timer_runs s" using s(2,3) by (simp add: timer_runs_def)
  from ticks_start_task [OF s(1) this s(5)] s(4,6) obtain s1 where s1: "sched_step\<^sup>*\<^sup>* s s1" "tick_no (sc_wheel s1) = 1" "0 \<in> set (sc_spawned s1)"
    "sc_jobs s1 = [exec_job_ex]" "task_of (sc_wheel s1) 0 = Some 0" "timer_runs s1" by auto
  let ?s = "s1\<lparr>sc_td := run_begin (sc_jobs s1) 6 0 (sc_td s1), sc_spawned := remove1 0 (sc_spawned s1), sc_running := 0 # sc_running s1\<rparr>"
  have "sched_reachable 0 ?s" by (rule reachable_step [OF reachable_steps [OF s(1) s1(1)] sched_step.began [OF s1(3,5)]])
  with s1 show thesis by (intro that [of ?s]) (simp_all add: run_begin_fields early_def timer_runs_def)
qed

theorem execution_reports_and_repeats_witness:
  "\<exists>s r c job' h' d r' s'. sched_reachable 0 s \<and> 0 \<in> set (sc_running s) \<and> connected r c \<and>
     DispatchMetricsTask (CollectMetrics compile_ex run_ex (program_registry libraries_ex) 0)
       (HandleCollectData (Some (program_router (\<lambda>rec. Inr ''stream'') network_ex ''collector-go''))) (\<lambda>i. True) 0 (Some (job_at (sc_jobs s) 0)) heap_ex (None, r :: unit TransportRunner) =
       Inr (None, Some job', h', None, r') \<and>
     connected r' (c\<lparr>nc_wire := nc_wire c @ frame [7]\<rparr>) \<and> sched_reachable 0 s' \<and> map_of (td_cyclicTasks (sc_td s')) 7 = Some (Some d)"
proof -
  obtain s where s: "sched_reachable 0 s" "0 \<in> set (sc_running s)" "task_of (sc_wheel s) 0 = Some 0" "sc_jobs s = [exec_job_ex]" "early (sc_wheel s)"
    "\<not> hwt_stopped (sc_wheel s)" by (rule running_ex)
  have job: "job_at (sc_jobs s) 0 = exec_job_ex" using s(4) by (simp add: job_at_def)
  have j: "J_IsCyclic (job_at (sc_jobs s) 0)" "sint (J_DefaultInterval (job_at (sc_jobs s) 0)) = 100" "J_ID exec_job_ex = 7" "length (J_Metrics exec_job_ex) = 1"
    unfolding job by (simp_all add: exec_job_ex_def)
  have rp: "reparses (ls_Http libraries_ex)" by (simp add: reparses_def libraries_ex_def http_lib_ex_def)
  have cf: "all_collectable (J_Metrics (job_at (sc_jobs s) 0)) heap_ex" by (simp add: job exec_job_ex_def collectable_eq)
  let ?c = "snd (netty_Start None (NewNettyClient ''manager:1158'')) :: unit World NettyClient"
  have c: "connected runner_ex ?c" by (simp add: connected_def runner_ex_def netty_Start_def NewNettyClient_def triggerEvent_def)
  have nw: "nw_env network_ex = net_ok" by (simp add: network_ex_def)
  have b: "result_frames (\<lambda>rec. Inr ''stream'') network_ex ''collector-go'' job [d] = [frame [7]]" for job d
    by (simp add: result_frames_def result_payload_def serializeToArrow_def network_ex_def marshal_ex_def map_filter_simps)
  have n: "(0 :: int) < 100" by simp
  from execution_reports_and_repeats [OF s(1-3,5,6) j(1,2) n rp cf c nw, where compile = compile_ex and run = run_ex and now = 0 and encode = "\<lambda>rec. Inr ''stream''"
      and identity = "''collector-go''" and arrives = "\<lambda>i. True" and nowMilli = 0 and fin = 8]
  obtain job' h' rs r' td' s' where e:
    "DispatchMetricsTask (CollectMetrics compile_ex run_ex (program_registry libraries_ex) 0)
       (HandleCollectData (Some (program_router (\<lambda>rec. Inr ''stream'') network_ex ''collector-go''))) (\<lambda>i. True) 0 (Some (job_at (sc_jobs s) 0)) heap_ex (None, runner_ex) =
       Inr (None, Some job', h', None, r')"
    "list_all2 (\<lambda>i d. result_of compile_ex run_ex libraries_ex 0 (M_Name (J_Metrics (job_at (sc_jobs s) 0) ! i)) (job_at (sc_jobs s) 0) d)
       (filter (\<lambda>i. True) [0..<length (J_Metrics (job_at (sc_jobs s) 0))]) rs"
    "connected r' (?c\<lparr>nc_wire := nc_wire ?c @ concat (result_frames (\<lambda>rec. Inr ''stream'') network_ex ''collector-go'' (job_at (sc_jobs s) 0) rs)\<rparr>)"
    "sched_reachable 0 s'" "sc_td s' = td'"
    "map_of (td_cyclicTasks td') (J_ID (job_at (sc_jobs s) 0)) = Some (Some (length (hwt_timeouts (sc_wheel s))))"
    by blast
  from e(2) obtain d where d: "rs = [d]" "R_Metrics d = ''cpu''"
    using j(4) by (auto simp: job upt_conv_Cons list_all2_Cons1 result_of_def) (simp add: exec_job_ex_def)
  then have "connected r' (?c\<lparr>nc_wire := nc_wire ?c @ frame [7]\<rparr>)" using e(3) b by simp
  with s(1,2) c e(1,4-6) j(3) job show ?thesis by metis
qed

end
