(* ===== verification/Repetition.thy ===== *)
theory Repetition
  imports Execution
begin

text \<open>
  The executions of a job one after the other: a job that waits in the wheel is started by the tick of its target, executed, reported and scheduled
  again, any number of times. Between the executions nothing else needs to happen.
\<close>

subsection \<open>Executions in a row\<close>

text \<open>The timeout stored for the job at \<open>p\<close> waits for tick \<open>d\<close>.\<close>

definition waits :: "Sched \<Rightarrow> nat \<Rightarrow> int \<Rightarrow> bool" where
  "waits s p d \<longleftrightarrow> (\<exists>a. (a, d) \<in> pending (sc_wheel s) \<and> task_of (sc_wheel s) a = Some p \<and>
     map_of (td_cyclicTasks (sc_td s)) (J_ID (job_at (sc_jobs s) p)) = Some (Some a))"

text \<open>What differs between executions: the clock, and which collections end in time.\<close>

record Circumstances =
  cc_now :: time
  cc_arrives :: "nat \<Rightarrow> bool"
  cc_nowMilli :: int64
  cc_end :: time

text \<open>What has been written between two states of the transport.\<close>

definition writes :: "'s TransportRunner \<Rightarrow> 's TransportRunner \<Rightarrow> byte list \<Rightarrow> bool" where
  "writes r r' bs \<longleftrightarrow> (\<exists>c. connected r c \<and> connected r' (c\<lparr>nc_wire := nc_wire c @ bs\<rparr>))"

text \<open>
  One execution of the job at \<open>p\<close> from a state of scheduler, heap and transport to another: steps of the scheduler until its task runs at tick \<open>d\<close>, the dispatch, which
  neither fails nor panics and writes the frames of the results, one result for each metric that arrives, and the end of the task, which stores the job as the dispatch has left it.
\<close>

definition execution :: "(string \<Rightarrow> 'p option) \<Rightarrow> ('p \<Rightarrow> (string \<times> any) list \<Rightarrow> string + any) \<Rightarrow> ('r, 'k, 'u) Libraries \<Rightarrow> ipc_encoder \<Rightarrow> Network \<Rightarrow> string \<Rightarrow>
    nat \<Rightarrow> int \<Rightarrow> Circumstances \<Rightarrow> Sched \<times> Heap \<times> 's TransportRunner \<Rightarrow> Sched \<times> Heap \<times> 's TransportRunner \<Rightarrow> bool" where
  "execution compile run ls encode nw identity p d e = (\<lambda>(s, h, r) (s', h', r'). \<exists>a s1 job job' rs.
     sched_step\<^sup>*\<^sup>* s s1 \<and> a \<in> set (sc_running s1) \<and> task_of (sc_wheel s1) a = Some p \<and> tick_no (sc_wheel s1) = d \<and> sc_jobs s1 = sc_jobs s \<and>
     job = job_at (sc_jobs s) p \<and>
     DispatchMetricsTask (CollectMetrics compile run (program_registry ls) (cc_now e)) (HandleCollectData (Some (program_router encode nw identity)))
       (cc_arrives e) (cc_nowMilli e) (Some job) h (None, r) = Inr (None, Some job', h', None, r') \<and>
     list_all2 (\<lambda>i x. result_of compile run ls (cc_now e) (M_Name (J_Metrics job ! i)) job x) (filter (cc_arrives e) [0..<length (J_Metrics job)]) rs \<and>
     writes r r' (concat (result_frames encode nw identity job rs)) \<and>
     (encodes_all encode nw identity \<longrightarrow> length (result_frames encode nw identity job rs) = length rs) \<and>
     run_finish ((sc_jobs s)[p := job']) (cc_end e) p None (sc_td s1) = Inr (None, sc_td s') \<and> sched_step\<^sup>*\<^sup>* s1 s' \<and> sc_jobs s' = (sc_jobs s)[p := job'])"

text \<open>The executions at the ticks \<open>d\<close>, \<open>d + k\<close>, \<open>d + 2 * k\<close> and so on.\<close>

inductive executions :: "(int \<Rightarrow> Circumstances \<Rightarrow> 'x \<Rightarrow> 'x \<Rightarrow> bool) \<Rightarrow> int \<Rightarrow> int \<Rightarrow> Circumstances list \<Rightarrow> 'x \<Rightarrow> 'x \<Rightarrow> bool" for exec k where
  none: "executions exec k d [] x x"
| more: "exec d e x y \<Longrightarrow> executions exec k (d + k) es y z \<Longrightarrow> executions exec k d (e # es) x z"

text \<open>The job is ready: it repeats with the interval \<open>n\<close>, waits for tick \<open>d\<close>, has the configurations it needs, and the client is connected.\<close>

definition job_ready :: "nat \<Rightarrow> int \<Rightarrow> int \<Rightarrow> Sched \<times> Heap \<times> 's TransportRunner \<Rightarrow> bool" where
  "job_ready p n d = (\<lambda>(s, h, r). timer_runs s \<and> waits s p d \<and> J_IsCyclic (job_at (sc_jobs s) p) \<and> sint (J_DefaultInterval (job_at (sc_jobs s) p)) = n \<and>
     all_collectable (J_Metrics (job_at (sc_jobs s) p)) h \<and> (\<exists>c. connected r c))"

lemma one_execution:
  fixes r :: "'s TransportRunner"
  assumes "sched_reachable t s" and "job_ready p n d (s, h, r)" and "0 < n" and "d < 2 ^ 62" and "reparses (ls_Http ls)" and "nw_env nw = net_ok"
  shows "\<exists>s' h' r'. execution compile run ls encode nw identity p d e (s, h, r) (s', h', r') \<and> sched_reachable t s' \<and> job_ready p n (d + 10 * n) (s', h', r')"
proof -
  from assms(2) obtain a c where w: "timer_runs s" "(a, d) \<in> pending (sc_wheel s)" "task_of (sc_wheel s) a = Some p"
    and j: "J_IsCyclic (job_at (sc_jobs s) p)" "sint (J_DefaultInterval (job_at (sc_jobs s) p)) = n" "all_collectable (J_Metrics (job_at (sc_jobs s) p)) h"
    and c: "connected r c"
    by (auto simp: job_ready_def waits_def)
  obtain s0 where s0: "sched_step\<^sup>*\<^sup>* s s0" "tick_no (sc_wheel s0) = d" "a \<in> set (sc_spawned s0)" "sc_jobs s0 = sc_jobs s"
    "task_of (sc_wheel s0) a = Some p" "timer_runs s0"
    using ticks_start_task [OF assms(1) w(1,2) assms(4)] w(3) by auto
  let ?s1 = "s0\<lparr>sc_td := run_begin (sc_jobs s0) 0 p (sc_td s0), sc_spawned := remove1 a (sc_spawned s0), sc_running := a # sc_running s0\<rparr>"
  have st: "sched_step\<^sup>*\<^sup>* s ?s1" using s0(1) sched_step.began [OF s0(3,5)] by (rule rtranclp.rtrancl_into_rtrancl)
  have w1: "sc_wheel ?s1 = sc_wheel s0" by (simp add: run_begin_fields)
  have s1: "a \<in> set (sc_running ?s1)" "task_of (sc_wheel ?s1) a = Some p" "early (sc_wheel ?s1)" "\<not> hwt_stopped (sc_wheel ?s1)" "sc_jobs ?s1 = sc_jobs s"
    using s0 assms(4) unfolding w1 by (simp_all add: early_def timer_runs_def)
  obtain job' h' rs r' td' s' where x:
    "DispatchMetricsTask (CollectMetrics compile run (program_registry ls) (cc_now e)) (HandleCollectData (Some (program_router encode nw identity)))
      (cc_arrives e) (cc_nowMilli e) (Some (job_at (sc_jobs ?s1) p)) h (None, r) = Inr (None, Some job', h', None, r')"
    "connected r' (c\<lparr>nc_wire := nc_wire c @ concat (map (result_bytes encode nw identity (job_at (sc_jobs ?s1) p)) rs)\<rparr>)"
    "list_all2 (\<lambda>i d. result_of compile run ls (cc_now e) (M_Name (J_Metrics (job_at (sc_jobs ?s1) p) ! i)) (job_at (sc_jobs ?s1) p) d)
      (filter (cc_arrives e) [0..<length (J_Metrics (job_at (sc_jobs ?s1) p))]) rs"
    "all_collectable (J_Metrics job') h'" "job_at (sc_jobs s') p = job'" "same_schedule (job_at (sc_jobs ?s1) p) job'"
    "run_finish ((sc_jobs ?s1)[p := job']) (cc_end e) p None (sc_td ?s1) = Inr (None, td')"
    "sched_step\<^sup>*\<^sup>* ?s1 s'" "sched_reachable t s'" "sc_td s' = td'" "sc_jobs s' = (sc_jobs ?s1)[p := job']" "sc_running s' = remove1 a (sc_running ?s1)"
    "map_of (td_cyclicTasks td') (J_ID (job_at (sc_jobs ?s1) p)) = Some (Some (length (hwt_timeouts (sc_wheel ?s1))))"
    "pending (sc_wheel s') = insert (length (hwt_timeouts (sc_wheel ?s1)), tick_no (sc_wheel ?s1) + 10 * n) (pending (sc_wheel ?s1))"
    "task_of (sc_wheel s') (length (hwt_timeouts (sc_wheel ?s1))) = Some p" "hwt_running (sc_wheel s') = hwt_running (sc_wheel ?s1)"
    "\<not> hwt_stopped (sc_wheel s')" "tick_no (sc_wheel s') = tick_no (sc_wheel ?s1)"
    by (rule execution_ends [OF reachable_steps [OF assms(1) st] s1(1-4) _ _ assms(3,5) _ c assms(6), where compile = compile and run = run and now = "cc_now e" and encode = encode
          and identity = identity and arrives = "cc_arrives e" and nowMilli = "cc_nowMilli e" and fin = "cc_end e" and h = h]) (use j in \<open>simp_all add: s1(5)\<close>)
  have wr: "writes r r' (concat (result_frames encode nw identity (job_at (sc_jobs s) p) rs))"
    unfolding writes_def using c x(2) s1(5) by (intro exI [of _ c]) (simp add: result_bytes_frames)
  have ex: "execution compile run ls encode nw identity p d e (s, h, r) (s', h', r')"
    unfolding execution_def prod.case
    by (rule exI [of _ a], rule exI [of _ ?s1], rule exI [of _ "job_at (sc_jobs s) p"], rule exI [of _ job'], rule exI [of _ rs])
      (use st s1 x wr s0(2) w1 every_result_framed in simp)
  have "waits s' p (d + 10 * n)"
    using x(5,6,10,13,14,15) s0(2) unfolding w1 waits_def by (intro exI [of _ "length (hwt_timeouts (sc_wheel s0))"]) (simp add: same_schedule_def s1(5))
  moreover have "timer_runs s'" using x(16,17) s0(6) unfolding w1 by (simp add: timer_runs_def)
  ultimately have "job_ready p n (d + 10 * n) (s', h', r')"
    using x(2,4,5,6) j by (auto simp: job_ready_def same_schedule_def s1(5))
  with ex x(9) show ?thesis by blast
qed

text \<open>C3: a job keeps running. When a cyclic job with a positive interval waits in the wheel of the running timer, its metrics can be collected (jdbc, http,
  redis and milvus metrics have their configuration), the text of an accepted URL is accepted again and the client is connected to a working network, then the
  job can be executed any number of times in a row, up to tick \<open>2 ^ 62\<close> of the timer. Each execution starts at the tick the job waits for and neither fails nor panics; it has one result for each
  metric whose collection ends in time, in the order of the metrics and with their names; it writes the frames of these results and nothing else, one frame for
  every result when the encoders accept everything; and it leaves the job waiting for the tick that is its interval, ten ticks per second, after the one before.
  The states in between are reached by steps of the scheduler alone.\<close>

theorem job_keeps_running:
  fixes r :: "'s TransportRunner"
  assumes "sched_reachable t s" and "job_ready p n d (s, h, r)" and "0 < n" and "d + 10 * n * int (length es) < 2 ^ 62"
    and "reparses (ls_Http ls)" and "nw_env nw = net_ok"
  shows "\<exists>s' h' r'. executions (execution compile run ls encode nw identity p) (10 * n) d es (s, h, r) (s', h', r') \<and>
    sched_reachable t s' \<and> job_ready p n (d + 10 * n * int (length es)) (s', h', r')"
  using assms(1,2,4)
proof (induction es arbitrary: s h r d)
  case Nil
  then show ?case by (auto intro: executions.none)
next
  case (Cons e es)
  have "0 \<le> 10 * n * int (length (e # es))" using assms(3) by simp
  then have "d < 2 ^ 62" using Cons.prems(3) by linarith
  with one_execution [OF Cons.prems(1,2) assms(3) _ assms(5,6), of compile run encode identity e] obtain s1 h1 r1 where
    x: "execution compile run ls encode nw identity p d e (s, h, r) (s1, h1, r1)" "sched_reachable t s1" "job_ready p n (d + 10 * n) (s1, h1, r1)"
    by blast
  have d: "d + 10 * n + 10 * n * int (length es) = d + 10 * n * int (length (e # es))" by (simp add: algebra_simps)
  from Cons.IH [OF x(2,3)] Cons.prems(3) obtain s' h' r' where
    "executions (execution compile run ls encode nw identity p) (10 * n) (d + 10 * n) es (s1, h1, r1) (s', h', r')" "sched_reachable t s'"
    "job_ready p n (d + 10 * n + 10 * n * int (length es)) (s', h', r')"
    unfolding d by blast
  with executions.more [where exec = "execution compile run ls encode nw identity p", OF x(1)] show ?case unfolding d by blast
qed

theorem job_keeps_running_witness:
  "\<exists>s s' h' r' :: unit TransportRunner. sched_reachable 0 s \<and> job_ready 0 100 1 (s, heap_ex, runner_ex :: unit TransportRunner) \<and>
     executions (execution compile_ex run_ex libraries_ex (\<lambda>rec. Inr ''stream'') network_ex ''collector-go'' 0) 1000 1
       (replicate 3 \<lparr>cc_now = 0, cc_arrives = \<lambda>i. True, cc_nowMilli = 0, cc_end = 0\<rparr>) (s, heap_ex, runner_ex) (s', h', r') \<and>
     waits s' 0 3001"
proof -
  let ?es = "replicate 3 \<lparr>cc_now = 0, cc_arrives = \<lambda>i. True, cc_nowMilli = 0, cc_end = 0\<rparr>"
  obtain s where s: "sched_reachable 0 s" "hwt_running (sc_wheel s)" "\<not> hwt_stopped (sc_wheel s)" "sc_jobs s = [exec_job_ex]"
    "(0, 1) \<in> pending (sc_wheel s)" "task_of (sc_wheel s) 0 = Some 0" "map_of (td_cyclicTasks (sc_td s)) 7 = Some (Some 0)" by (rule waiting_ex)
  have job: "job_at (sc_jobs s) 0 = exec_job_ex" using s(4) by (simp add: job_at_def)
  have j: "J_IsCyclic exec_job_ex" "sint (J_DefaultInterval exec_job_ex) = 100" "J_ID exec_job_ex = 7" "all_collectable (J_Metrics exec_job_ex) heap_ex"
    by (simp_all add: exec_job_ex_def collectable_eq)
  have "waits s 0 1" unfolding waits_def by (rule exI [of _ 0]) (use s(5-7) job j(3) in simp)
  moreover have "connected (runner_ex :: unit TransportRunner) (snd (netty_Start None (NewNettyClient ''manager:1158'')))"
    by (simp add: connected_def runner_ex_def netty_Start_def NewNettyClient_def triggerEvent_def)
  ultimately have r: "job_ready 0 100 1 (s, heap_ex, runner_ex :: unit TransportRunner)"
    using s(2,3) j by (auto simp: job_ready_def timer_runs_def job)
  have rp: "reparses (ls_Http libraries_ex)" by (simp add: reparses_def libraries_ex_def http_lib_ex_def)
  have nw: "nw_env network_ex = net_ok" by (simp add: network_ex_def)
  have "(0 :: int) < 100" "1 + 10 * 100 * int (length ?es) < 2 ^ 62" by simp_all
  from job_keeps_running [OF s(1) r this rp nw, of compile_ex run_ex "\<lambda>rec. Inr ''stream''" "''collector-go''"] obtain s' h' r' where
    "executions (execution compile_ex run_ex libraries_ex (\<lambda>rec. Inr ''stream'') network_ex ''collector-go'' 0) (10 * 100) 1 ?es (s, heap_ex, runner_ex) (s', h', r')"
    "job_ready 0 100 (1 + 10 * 100 * int (length ?es)) (s', h', r')" by blast
  moreover from this(2) have "waits s' 0 3001" by (simp add: job_ready_def)
  ultimately show ?thesis using s(1) r by (intro exI [of _ s] exI [of _ s'] exI [of _ h'] exI [of _ r']) simp
qed

end
