(* ===== verification/Protocols.thy ===== *)
theory Protocols
  imports Collectors
begin

text \<open>
  \<open>types/job/protocol\<close>: the constructors of the protocol configurations and their \<open>IsInvalid\<close> checks, and the \<open>Extract*Config\<close> functions of
  \<open>util/param/param_replacer.go\<close> through which the collectors read a configuration. The loggers the configurations carry are not represented.
  An option of a constructor is an update of the configuration.
\<close>

subsection \<open>Protocols without a collector\<close>

record SNMPProtocol =
  SNMP_Host :: string
  SNMP_Port :: int64
  SNMP_Version :: string
  SNMP_Community :: string
  SNMP_Username :: string
  SNMP_AuthType :: string
  SNMP_AuthPasswd :: string
  SNMP_PrivType :: string
  SNMP_PrivPasswd :: string
  SNMP_ContextName :: string
  SNMP_Timeout :: int64
  SNMP_Operation :: string
  SNMP_OIDs :: string

record JMXProtocol =
  JMX_Host :: string
  JMX_Port :: int64
  JMX_Username :: string
  JMX_Password :: string
  JMX_Protocol :: string
  JMX_URL :: string
  JMX_Timeout :: int64

record MongoDBProtocol =
  Mongo_Host :: string
  Mongo_Port :: int64
  Mongo_Username :: string
  Mongo_Password :: string
  Mongo_Database :: string
  Mongo_AuthDatabase :: string
  Mongo_Command :: string
  Mongo_Timeout :: int64

record ConsulSdProtocol =
  Consul_Host :: string
  Consul_Port :: string

record ZookeeperSdProtocol =
  Zk_URL :: string
  Zk_PathPrefix :: string

subsection \<open>Constructors\<close>

definition apply_opts :: "('p \<Rightarrow> 'p) list \<Rightarrow> 'p \<Rightarrow> 'p" where
  "apply_opts opts p = foldl (\<lambda>p opt. opt p) p opts"

definition NewJDBCProtocol :: "string \<Rightarrow> string \<Rightarrow> string \<Rightarrow> (JDBCProtocol \<Rightarrow> JDBCProtocol) list \<Rightarrow> JDBCProtocol" where
  "NewJDBCProtocol host port platform opts = apply_opts opts
     \<lparr>JDBC_Host = host, JDBC_Port = port, JDBC_Platform = platform, JDBC_Username = [], JDBC_Password = [], JDBC_Database = [], JDBC_Timeout = [],
      JDBC_QueryType = [], JDBC_SQL = [], JDBC_URL = [], JDBC_ReuseConnection = [], JDBC_SSHTunnel = None\<rparr>"

definition NewHTTPProtocol :: "string \<Rightarrow> string \<Rightarrow> (HTTPProtocol \<Rightarrow> HTTPProtocol) list \<Rightarrow> HTTPProtocol" where
  "NewHTTPProtocol url method opts = apply_opts opts
     \<lparr>HTTP_URL = url, HTTP_Method = method, HTTP_Headers = None, HTTP_Params = None, HTTP_Body = [], HTTP_ParseScript = [], HTTP_ParseType = [],
      HTTP_Keyword = [], HTTP_Timeout = [], HTTP_SSL = [], HTTP_Authorization = None\<rparr>"

definition NewSSHProtocol :: "string \<Rightarrow> string \<Rightarrow> (SSHProtocol \<Rightarrow> SSHProtocol) list \<Rightarrow> SSHProtocol" where
  "NewSSHProtocol host port opts = apply_opts opts
     \<lparr>SSH_Host = host, SSH_Port = port, SSH_Username = [], SSH_Password = [], SSH_PrivateKey = [], SSH_PrivateKeyPassphrase = [], SSH_Script = [],
      SSH_ParseType = [], SSH_ParseScript = [], SSH_Timeout = [], SSH_ReuseConnection = [], SSH_UseProxy = [], SSH_ProxyHost = [], SSH_ProxyPort = [],
      SSH_ProxyUsername = [], SSH_ProxyPassword = [], SSH_ProxyPrivateKey = []\<rparr>"

definition NewRedisProtocol :: "string \<Rightarrow> string \<Rightarrow> (RedisProtocol \<Rightarrow> RedisProtocol) list \<Rightarrow> RedisProtocol" where
  "NewRedisProtocol host port opts = apply_opts opts
     \<lparr>Redis_Host = host, Redis_Port = port, Redis_Username = [], Redis_Password = [], Redis_Pattern = [], Redis_Timeout = [], Redis_SSHTunnel = None\<rparr>"

definition NewMilvusProtocol :: "string \<Rightarrow> string \<Rightarrow> (MilvusProtocol \<Rightarrow> MilvusProtocol) list \<Rightarrow> MilvusProtocol" where
  "NewMilvusProtocol host port opts = apply_opts opts
     \<lparr>Milvus_Host = host, Milvus_Port = port, Milvus_Username = [], Milvus_Password = [], Milvus_Timeout = []\<rparr>"

definition NewSSHTunnel :: "string \<Rightarrow> string \<Rightarrow> (SSHTunnel \<Rightarrow> SSHTunnel) list \<Rightarrow> SSHTunnel" where
  "NewSSHTunnel host port opts = apply_opts opts \<lparr>Tun_Enable = [], Tun_Host = host, Tun_Port = port, Tun_Username = [], Tun_Password = []\<rparr>"

definition NewSNMPProtocol :: "string \<Rightarrow> int64 \<Rightarrow> (SNMPProtocol \<Rightarrow> SNMPProtocol) list \<Rightarrow> SNMPProtocol" where
  "NewSNMPProtocol host port opts = apply_opts opts
     \<lparr>SNMP_Host = host, SNMP_Port = port, SNMP_Version = [], SNMP_Community = [], SNMP_Username = [], SNMP_AuthType = [], SNMP_AuthPasswd = [],
      SNMP_PrivType = [], SNMP_PrivPasswd = [], SNMP_ContextName = [], SNMP_Timeout = 0, SNMP_Operation = [], SNMP_OIDs = []\<rparr>"

definition NewJMXProtocol :: "string \<Rightarrow> int64 \<Rightarrow> (JMXProtocol \<Rightarrow> JMXProtocol) list \<Rightarrow> JMXProtocol" where
  "NewJMXProtocol host port opts = apply_opts opts
     \<lparr>JMX_Host = host, JMX_Port = port, JMX_Username = [], JMX_Password = [], JMX_Protocol = [], JMX_URL = [], JMX_Timeout = 0\<rparr>"

definition NewMongoDBProtocol :: "string \<Rightarrow> int64 \<Rightarrow> (MongoDBProtocol \<Rightarrow> MongoDBProtocol) list \<Rightarrow> MongoDBProtocol" where
  "NewMongoDBProtocol host port opts = apply_opts opts
     \<lparr>Mongo_Host = host, Mongo_Port = port, Mongo_Username = [], Mongo_Password = [], Mongo_Database = [], Mongo_AuthDatabase = [], Mongo_Command = [],
      Mongo_Timeout = 0\<rparr>"

definition NewConsulSdProtocol :: "string \<Rightarrow> string \<Rightarrow> ConsulSdProtocol" where
  "NewConsulSdProtocol host port = \<lparr>Consul_Host = host, Consul_Port = port\<rparr>"

definition NewZookeeperSdProtocol :: "string \<Rightarrow> string \<Rightarrow> ZookeeperSdProtocol" where
  "NewZookeeperSdProtocol url pathPrefix = \<lparr>Zk_URL = url, Zk_PathPrefix = pathPrefix\<rparr>"

subsection \<open>Validity\<close>

definition ErrorInvalidHost :: string where "ErrorInvalidHost = ''invalid host''"
definition ErrorInvalidPort :: string where "ErrorInvalidPort = ''invalid port''"
definition ErrorInvalidURL :: string where "ErrorInvalidURL = ''invalid URL''"
definition ErrorInvalidPathPrefix :: string where "ErrorInvalidPathPrefix = ''invalid path prefix''"

definition jdbc_IsInvalid :: "JDBCProtocol \<Rightarrow> string option" where
  "jdbc_IsInvalid p = (if JDBC_Host p = [] then Some ErrorInvalidHost else if JDBC_Port p = [] then Some ErrorInvalidPort else None)"

definition http_IsInvalid :: "HTTPProtocol \<Rightarrow> string option" where
  "http_IsInvalid p = (if HTTP_URL p = [] then Some ErrorInvalidURL else None)"

definition ssh_IsInvalid :: "SSHProtocol \<Rightarrow> string option" where
  "ssh_IsInvalid p = (if SSH_Host p = [] then Some ErrorInvalidHost else if SSH_Port p = [] then Some ErrorInvalidPort else None)"

definition redis_IsInvalid :: "RedisProtocol \<Rightarrow> string option" where
  "redis_IsInvalid p = (if Redis_Host p = [] then Some ErrorInvalidHost else if Redis_Port p = [] then Some ErrorInvalidPort else None)"

definition milvus_IsInvalid :: "MilvusProtocol \<Rightarrow> string option" where
  "milvus_IsInvalid p = (if Milvus_Host p = [] then Some ErrorInvalidHost else if Milvus_Port p = [] then Some ErrorInvalidPort else None)"

definition tunnel_IsInvalid :: "SSHTunnel \<Rightarrow> string option" where
  "tunnel_IsInvalid t = (if Tun_Host t = [] then Some ErrorInvalidHost else if Tun_Port t = [] then Some ErrorInvalidPort else None)"

definition snmp_IsInvalid :: "SNMPProtocol \<Rightarrow> string option" where
  "snmp_IsInvalid p = (if SNMP_Host p = [] then Some ErrorInvalidHost else if SNMP_Port p = 0 then Some ErrorInvalidPort else None)"

definition jmx_IsInvalid :: "JMXProtocol \<Rightarrow> string option" where
  "jmx_IsInvalid p = (if JMX_Host p = [] then Some ErrorInvalidHost else if JMX_Port p = 0 then Some ErrorInvalidPort else None)"

definition mongo_IsInvalid :: "MongoDBProtocol \<Rightarrow> string option" where
  "mongo_IsInvalid p = (if Mongo_Host p = [] then Some ErrorInvalidHost else if Mongo_Port p = 0 then Some ErrorInvalidPort else None)"

definition consul_IsInvalid :: "ConsulSdProtocol \<Rightarrow> string option" where
  "consul_IsInvalid p = (if Consul_Host p = [] then Some ErrorInvalidHost else if Consul_Port p = [] then Some ErrorInvalidPort else None)"

definition zk_IsInvalid :: "ZookeeperSdProtocol \<Rightarrow> string option" where
  "zk_IsInvalid p = (if Zk_URL p = [] then Some ErrorInvalidURL else if Zk_PathPrefix p = [] then Some ErrorInvalidPathPrefix else None)"

subsection \<open>Reading a configuration\<close>

text \<open>A value of type \<open>interface{}\<close>: nil, a pointer to a configuration (which may be nil itself), a map, or a value of another type by the name of the type.
  \<open>target\<close> names the type of the pointer to fill in, and \<open>convert\<close> is the round trip of a map through JSON, with the error of marshalling or of unmarshalling.\<close>

datatype 'p iface = Nil_Iface | Ptr "'p option" | Map_Iface "(string \<times> any) list" | Other string

datatype json_error = MarshalError string | UnmarshalError string

type_synonym 'p converter = "(string \<times> any) list \<Rightarrow> json_error + 'p"

definition ExtractProtocolConfig :: "string \<Rightarrow> 'p converter \<Rightarrow> 'p iface \<Rightarrow> 'p result" where
  "ExtractProtocolConfig target convert v =
     (case v of
        Nil_Iface \<Rightarrow> Err ''protocol interface is nil''
      | Map_Iface m \<Rightarrow>
          (case convert m of
             Inl (MarshalError err) \<Rightarrow> Err (''failed to marshal protocol config: '' @ err)
           | Inl (UnmarshalError err) \<Rightarrow> Err (''failed to unmarshal protocol config: '' @ err)
           | Inr p \<Rightarrow> Ok p)
      | Ptr p \<Rightarrow> Err (''unsupported protocol config type: '' @ target)
      | Other ty \<Rightarrow> Err (''unsupported protocol config type: '' @ ty))"

definition extract_config :: "string \<Rightarrow> string \<Rightarrow> 'p converter \<Rightarrow> 'p iface \<Rightarrow> 'p option result" where
  "extract_config kind target convert v =
     (case v of
        Nil_Iface \<Rightarrow> Ok None
      | Ptr p \<Rightarrow> Ok p
      | _ \<Rightarrow> (case ExtractProtocolConfig target convert v of
                 Inl err \<Rightarrow> Err (''failed to extract '' @ kind @ '' config: '' @ err)
               | Inr p \<Rightarrow> Ok (Some p)))"

definition ExtractJDBCConfig :: "JDBCProtocol converter \<Rightarrow> JDBCProtocol iface \<Rightarrow> JDBCProtocol option result" where
  "ExtractJDBCConfig = extract_config ''JDBC'' ''*protocol.JDBCProtocol''"

definition ExtractHTTPConfig :: "HTTPProtocol converter \<Rightarrow> HTTPProtocol iface \<Rightarrow> HTTPProtocol option result" where
  "ExtractHTTPConfig = extract_config ''HTTP'' ''*protocol.HTTPProtocol''"

definition ExtractSSHConfig :: "SSHProtocol converter \<Rightarrow> SSHProtocol iface \<Rightarrow> SSHProtocol option result" where
  "ExtractSSHConfig = extract_config ''SSH'' ''*protocol.SSHProtocol''"

text \<open>The collectors pass the pointer of the metric, so they get this pointer and never an error, whether it is nil or not.\<close>

lemma extract_pointer: "ExtractJDBCConfig c1 (Ptr p) = Ok p" "ExtractHTTPConfig c2 (Ptr q) = Ok q" "ExtractSSHConfig c3 (Ptr r) = Ok r"
  by (simp_all add: ExtractJDBCConfig_def ExtractHTTPConfig_def ExtractSSHConfig_def extract_config_def)

subsection \<open>Configurations with a host and a port\<close>

text \<open>
  Eight of the configurations follow one scheme: the constructor sets the host and the port, and a configuration is valid when both are set. The options
  a caller passes are free; what it can rely on is that options which leave host and port alone do not change the verdict.
\<close>

locale host_port =
  fixes Host :: "'p \<Rightarrow> string" and Port :: "'p \<Rightarrow> 'n" and unset :: 'n
    and New :: "string \<Rightarrow> 'n \<Rightarrow> ('p \<Rightarrow> 'p) list \<Rightarrow> 'p" and IsInvalid :: "'p \<Rightarrow> string option"
  assumes new: "New h n opts = apply_opts opts (New h n [])" and new_host: "Host (New h n []) = h" and new_port: "Port (New h n []) = n"
    and invalid: "IsInvalid p = (if Host p = [] then Some ErrorInvalidHost else if Port p = unset then Some ErrorInvalidPort else None)"
begin

definition harmless :: "('p \<Rightarrow> 'p) \<Rightarrow> bool" where
  "harmless opt \<longleftrightarrow> (\<forall>p. Host (opt p) = Host p \<and> Port (opt p) = Port p)"

lemma new_verdict:
  assumes "list_all harmless opts"
  shows "IsInvalid (New h n opts) = (if h = [] then Some ErrorInvalidHost else if n = unset then Some ErrorInvalidPort else None)"
proof -
  have "Host (apply_opts opts p) = Host p \<and> Port (apply_opts opts p) = Port p" for p
    using assms by (induction opts arbitrary: p) (simp_all add: apply_opts_def harmless_def)
  then show ?thesis by (subst new) (simp add: invalid new_host new_port)
qed

end

lemmas host_port_defs = apply_opts_def
  NewSSHProtocol_def ssh_IsInvalid_def NewRedisProtocol_def redis_IsInvalid_def NewMilvusProtocol_def milvus_IsInvalid_def NewSSHTunnel_def tunnel_IsInvalid_def
  NewSNMPProtocol_def snmp_IsInvalid_def NewJMXProtocol_def jmx_IsInvalid_def NewMongoDBProtocol_def mongo_IsInvalid_def NewJDBCProtocol_def jdbc_IsInvalid_def

interpretation jdbc_p: host_port JDBC_Host JDBC_Port "[]" "\<lambda>h n. NewJDBCProtocol h n platform" jdbc_IsInvalid for platform
  by unfold_locales (simp_all add: host_port_defs)

interpretation ssh_p: host_port SSH_Host SSH_Port "[]" NewSSHProtocol ssh_IsInvalid
  by unfold_locales (simp_all add: host_port_defs)

interpretation redis_p: host_port Redis_Host Redis_Port "[]" NewRedisProtocol redis_IsInvalid
  by unfold_locales (simp_all add: host_port_defs)

interpretation milvus_p: host_port Milvus_Host Milvus_Port "[]" NewMilvusProtocol milvus_IsInvalid
  by unfold_locales (simp_all add: host_port_defs)

interpretation tunnel_p: host_port Tun_Host Tun_Port "[]" NewSSHTunnel tunnel_IsInvalid
  by unfold_locales (simp_all add: host_port_defs)

interpretation snmp_p: host_port SNMP_Host SNMP_Port 0 NewSNMPProtocol snmp_IsInvalid
  by unfold_locales (simp_all add: host_port_defs)

interpretation jmx_p: host_port JMX_Host JMX_Port 0 NewJMXProtocol jmx_IsInvalid
  by unfold_locales (simp_all add: host_port_defs)

interpretation mongo_p: host_port Mongo_Host Mongo_Port 0 NewMongoDBProtocol mongo_IsInvalid
  by unfold_locales (simp_all add: host_port_defs)

text \<open>
  How the checks of the collectors compare with the validity of the configurations: the check of Redis is the same, the check of SSH is stronger, the
  check of JDBC is stronger when no URL is given, and the check of Milvus only asks for a configuration.
\<close>

lemma prechecks_imply_validity:
  "redis_PreCheck (Some m) h = None \<longleftrightarrow> (\<exists>c. Option.bind (M_Redis m) (rediss h) = Some c \<and> redis_IsInvalid c = None)"
  "ssh_PreCheck (Some m) h = None \<Longrightarrow> \<exists>c. Option.bind (M_SSH m) (sshs h) = Some c \<and> ssh_IsInvalid c = None"
  "fst (check_config c tunnel) = None \<Longrightarrow> JDBC_URL c = [] \<Longrightarrow> jdbc_IsInvalid c = None"
proof -
  show "redis_PreCheck (Some m) h = None \<longleftrightarrow> (\<exists>c. Option.bind (M_Redis m) (rediss h) = Some c \<and> redis_IsInvalid c = None)"
    by (auto simp: redis_PreCheck_def redis_IsInvalid_def split: option.splits if_splits)
next
  assume "ssh_PreCheck (Some m) h = None"
  then show "\<exists>c. Option.bind (M_SSH m) (sshs h) = Some c \<and> ssh_IsInvalid c = None"
    by (auto simp: ssh_PreCheck_def ssh_IsInvalid_def split: option.splits if_splits)
next
  assume "fst (check_config c tunnel) = None" and "JDBC_URL c = []"
  then show "jdbc_IsInvalid c = None"
    by (auto simp: check_config_def jdbc_IsInvalid_def Let_def split: option.splits if_splits)
qed

end
