(* ===== verification/Spec2Isabelle.thy ===== *)
theory Spec2Isabelle
  imports Repetition Protocols
begin

text \<open>
  \<^bold>\<open>Verification of the HertzBeat collector (Go)\<close>

  The program is an agent of the monitoring system HertzBeat. It connects to a manager, receives jobs from it, runs each job at its interval,
  collects the metrics of the job from databases, web servers, hosts and caches, and sends the results back. The development models the code under
  \<open>src/internal\<close> as functions on explicit states and proves what makes its parts, and their composition, correct. File names below are
  relative to \<open>src/internal\<close>.

  \<^bold>\<open>The program and its theories\<close>

  \<^item> \<^emph>\<open>Start and end.\<close> \<open>Program\<close> is \<open>cmd/server.go\<close>: the configuration is read, the banner printed, and the runners for the program's own
    metrics (\<open>metrics/metrics.go\<close>), the jobs and the transport are created, connected, started and closed. \<open>Config\<close> is \<open>config/config.go\<close> with the
    watch of the file, \<open>Logging\<close> the level of a logger (\<open>util/logger\<close>, \<open>types/logger\<close>), \<open>Command\<close> the banner, the version and the exit status,
    \<open>Self_Metrics\<close> what the program counts about itself (\<open>metrics/metrics.go\<close>, \<open>job/collect/metrics\<close>).
  \<^item> \<^emph>\<open>Messages.\<close> \<open>Netty_Codec\<close> is the frame of a message on the connection and the read loop, \<open>Transport_Client\<close> the Netty and gRPC
    clients with their registries and futures (\<open>transport/netty_client.go\<close>, \<open>grpc_client.go\<close>, \<open>registry.go\<close>), \<open>Processors\<close> the handler of
    every message type (\<open>transport/processors.go\<close>), \<open>Transport\<close> the runner with its retries (\<open>transport/transport.go\<close>). \<open>Message_Routers\<close>
    sends results: the Arrow table, the lazy router and the older router (\<open>job/collect/lazy_message_router.go\<close>, \<open>job/router\<close>, \<open>util/arrow\<close>).
  \<^item> \<^emph>\<open>Jobs in time.\<close> \<open>Wheel_Timer\<close> is the hashed wheel timer (\<open>job/dispatcher/hashed_wheel_timer.go\<close>, \<open>types/job/timeout_types.go\<close>),
    \<open>Time_Dispatch\<close> the operations of the scheduler and the timer task (\<open>time_wheel.go\<close>, \<open>wheel_timer_task.go\<close>), \<open>Scheduler\<close> their
    interleaving as a step relation, \<open>Job_Server\<close> the runner of jobs (\<open>job/server/job_server.go\<close>).
  \<^item> \<^emph>\<open>One execution.\<close> \<open>Common_Dispatcher\<close> breaks a job into collections and hands out the results (\<open>common_dispatcher.go\<close>,
    \<open>job/collect/result_handler.go\<close>), \<open>Metrics_Collector\<close> finds the collector of a protocol and computes the fields from what it returns
    (\<open>job/collect/dispatch\<close>, \<open>job/collect/strategy\<close>), \<open>Unit_Converter\<close> converts units (\<open>util/unit\<close>). \<open>Execution\<close> composes scheduler,
    dispatcher, collectors, router and client; \<open>Repetition\<close> lets a job run any number of times.
  \<^item> \<^emph>\<open>Jobs as data.\<close> \<open>Job_Types\<close>, \<open>Job_Ops\<close>, \<open>Job_Clone\<close> are \<open>types/job\<close>: records over a heap, which metrics are due, and the copy of a
    job; \<open>Protocols\<close> is the construction and validity of the configurations of all protocols (\<open>types/job/protocol\<close>). \<open>Param_Replacer\<close> and
    \<open>Param_Heap\<close> replace placeholders and decrypt passwords (\<open>util/param\<close>), \<open>Crypto\<close> is AES-CBC with base64 and padding (\<open>util/crypto\<close>).
  \<^item> \<^emph>\<open>Collectors.\<close> \<open>Collector_Base\<close> (what they share), \<open>SSH_Collector\<close> (with \<open>util/ssh\<close>), \<open>Redis_Collector\<close> (with Milvus),
    \<open>HTTP_Collector\<close>, \<open>JDBC_Collector\<close> follow \<open>protocol/basic\<close> and \<open>protocol/extension\<close>; \<open>Collectors\<close> is the registry the program has
    after its packages are initialised.
  \<^item> \<^emph>\<open>Standard library.\<close> \<open>Prelude\<close> has 64-bit integers, errors and panics as values, and maps; \<open>Go_Strings\<close>, \<open>Float64\<close> and
    \<open>Go_JSON\<close> have what the code uses of \<open>strings\<close>, \<open>strconv\<close>, IEEE numbers and \<open>encoding/json\<close>.

  \<^bold>\<open>How the code is represented\<close>

  An \<open>int\<close>, an \<open>int64\<close> and a \<open>time.Duration\<close> are 64-bit words that wrap and are read by \<^const>\<open>sint\<close>; a \<open>time.Time\<close> is a number of nanoseconds and
  an argument of the operations that read the clock; a \<open>float64\<close> is its bit pattern; strings and bytes are lists of characters. A Go map is an
  association list, a struct is a record with the fields of the source, and structs that are reached through pointers live in a heap, so that sharing
  between a job and its copy is visible. An error is a value of an option or sum type. A panic is a value as well (\<^typ>\<open>panic\<close>), which every caller
  passes on; in the theorems, that an operation returns says that it does not panic. Locks disappear: an operation that holds one is one step.
  Goroutines are interleaved where the code lets them meet: the scheduler (\<^const>\<open>sched_step\<close>), the synchronous calls of a client, which are
  split at their wait, and the watch of the configuration file.

  Code outside the repository is a parameter: the network, database drivers, SSH, Redis, Milvus and HTTP clients (records of functions), protobuf
  marshalling and gzip, the Arrow encoder, the expression compiler, the AES block permutation, YAML, the file system, templates and the Prometheus
  client. What a theorem needs of them is a hypothesis of the theorem: for example that the decryption of a block undoes its encryption, or that the text of
  a URL that a request was created with is accepted again.

  \<^bold>\<open>What is proved\<close>

  \<^item> \<^emph>\<open>Time.\<close> The wheel refines a set of pending timeouts with their target ticks: a tick fires exactly those due, a timeout fires once, in the tick of its
    delay, and never after it is cancelled. In every reachable state of the scheduler the timeout of a repeating job is waiting, executing or has failed.
  \<^item> \<^emph>\<open>From the manager to the wheel and back.\<close> A task the manager issues over the started program's connection ends up waiting in the wheel and is
    answered, a deleted one is cancelled (this theory); an execution neither fails nor panics, has one result for each metric that is in time, writes the frames of its results and is scheduled
    again (\<open>Execution\<close>), so that a job can be executed any number of times, each at the tick its interval asks for (\<open>Repetition\<close>); and the program closes what
    it has started (this theory).
  \<^item> \<^emph>\<open>Encodings.\<close> Round trips of Netty frames, encrypted passwords, unit conversions and INFO texts; templates of placeholders are
    replaced as a substitution; JSON paths are followed as the reference definition says.
  \<^item> \<^emph>\<open>Data.\<close> The due metrics and their groups are the specified ones; a replaced job does not touch the original's copied parts; rows have one column
    per field, and fields see the fields before them; an answer is a table of the declared shape, with the status of the answer it was made from.
  \<^item> \<^emph>\<open>Resources and screening.\<close> Which connections a collection opens and closes; which JDBC URLs never reach a driver.
  \<^item> \<^emph>\<open>Ends and errors.\<close> The program starts with exactly what its configuration file sets and three defaults; the watch of the file loses no change and ends
    exactly when it is told to; a configuration without a protocol never connects; a lost connection is not replaced by the client itself; a metric that lacks the
    configuration of its protocol crashes the collection, except for SSH.

  Interfaces are locales that the model's own operations interpret: \<open>timer_contract\<close> by the wheel, \<open>time_dispatcher\<close> (what the job runner needs
  of a scheduler) by \<open>Time_Dispatch\<close>, \<open>collector_contract\<close> (what \<open>CollectMetrics\<close> needs of a collector) by the collectors, \<open>metric_source\<close>
  (what the dispatcher needs of the collection) by \<open>CollectMetrics\<close> with any registry of total collectors and with the registry of the program, and
  \<open>host_port\<close> by the configurations of eight protocols.

  \<^bold>\<open>Bounds and loops\<close>

  Intervals are at most four billion seconds, 126 years (\<^const>\<open>sane\<close>), and the wheel has made fewer than \<open>2 ^ 62\<close> ticks of 100 milliseconds
  (\<^const>\<open>early\<close>); beyond, durations and ticks overflow. The JSON parser takes fuel of twice the length of its text plus two, and its theory proves that more fuel
  changes nothing. Other loops over data are structural recursions or functions with a termination proof. The watch of the configuration, which may run for ever, is
  a partial function whose result \<open>None\<close> means just that. The loops of the timer, the connection monitors and the heartbeat are repeated rounds: the
  theorems speak about any number of rounds.

  \<^bold>\<open>Not modelled\<close>

  The generated protocol buffers (messages are records), the text of log lines apart from what is reported as statistics, the declaration of
  commands and flags to the command line library, the HTTP server for the program's own metrics apart from whether it listens, the unused
  \<open>isPrintableString\<close>, which needs the Unicode tables, and the unused older copies of protocol structs in \<open>types/job/metrics_types.go\<close>. The rows of a database query are
  closed by deferred calls and are not among the resources that are tracked, and the recovery of a panic in the goroutine of a timer task has no step of its own. Data
  races between unlocked accesses and the real duration of operations are outside the model.
\<close>

subsection \<open>From the manager to the wheel\<close>

text \<open>The answer of the client to a message.\<close>

definition answered :: "(Message \<Rightarrow> string + byte list) \<Rightarrow> (byte list \<Rightarrow> byte list) \<Rightarrow> NetEnv \<Rightarrow> Message \<Rightarrow> string \<Rightarrow> 'w NettyClient \<Rightarrow> 'w NettyClient" where
  "answered marshal compress env msg txt c = c\<lparr>nc_wire := snd (writeMessage marshal compress env
     \<lparr>Msg_Identity = Msg_Identity msg, Msg_Direction = Direction_RESPONSE, Msg_Type = Msg_Type msg, Msg_Msg = txt\<rparr> (nc_wire c))\<rparr>"

text \<open>C2: a cyclic task that the manager issues is scheduled. When the connected Netty client of the program receives the message, it writes the
  answer \<open>cyclic task scheduled successfully\<close>; the scheduler is still in a state it can reach by its own steps, now with the decoded job at the end
  of its jobs, marked as cyclic and with its passwords decrypted; and the entry of the job is a timeout that waits in the wheel, due after the first
  delay of the job. The timer must not have been stopped, and the interval must be below 126 years.\<close>

theorem issued_task_scheduled:
  assumes "startAll D decodeJob jsonError getenv dial attempts listens reg (newRunners cfg now) = (err, reg', p)"
    and "tr_client (pg_transport p) = Some (Netty c)" and "nc_started c"
    and "Msg_Direction msg = Direction_REQUEST" and "Msg_Type msg = MessageTypeIssueCyclicTask"
    and "decodeJob (Msg_Msg msg) (wd_heap w) = Inr (job0, h)" and "sane job0"
    and "mirrors (wd_sched w) s" and "sched_reachable t s" and "early (sc_wheel s)" and "\<not> hwt_stopped (sc_wheel s)"
  shows "\<exists>w' s' a. netty_processReceivedMessage marshal compress env msg c w =
      Some (answered marshal compress env msg ''cyclic task scheduled successfully'' c, [], w') \<and>
    mirrors (wd_sched w') s' \<and> sched_reachable t s' \<and>
    sc_jobs s' = sc_jobs s @ [job0\<lparr>J_Configmap := map (preprocess_config D (wd_aes w)) (J_Configmap job0), J_IsCyclic := True\<rparr>] \<and>
    map_of (td_cyclicTasks (sc_td s')) (J_ID job0) = Some (Some a) \<and> task_of (sc_wheel s') a = Some (length (sc_jobs s)) \<and>
    (a, tick_no (sc_wheel s) + delay_ticks (first_delay job0) (sc_wheel s)) \<in> pending (sc_wheel s')"
proof -
  let ?job = "job0\<lparr>J_Configmap := map (preprocess_config D (wd_aes w)) (J_Configmap job0), J_IsCyclic := True\<rparr>"
  let ?f = "CollectCyclicData_Process D decodeJob (Some runner_scheduler)"
  have job: "sane ?job" "first_delay ?job = first_delay job0" using assms(7) by (simp_all add: sane_def first_delay_def)
  obtain side' s' a where a: "runner_Add ?job (wd_sched w) = (None, side')" "mirrors side' s'" "sched_reachable t s'" "sc_jobs s' = sc_jobs s @ [?job]"
    "map_of (if J_IsCyclic ?job then td_cyclicTasks (sc_td s') else td_tempTasks (sc_td s')) (J_ID ?job) = Some (Some a)"
    "task_of (sc_wheel s') a = Some (length (sc_jobs s))"
    "(a, tick_no (sc_wheel s) + delay_ticks (first_delay ?job) (sc_wheel s)) \<in> pending (sc_wheel s')"
    by (rule runner_Add_ok [OF assms(8-11) job(1)])
  obtain c0 where c: "nc_registry c = nc_registry (RegisterDefaultNettyProcessors D decodeJob jsonError (Some runner_scheduler) c0)" "nc_conn c \<noteq> None"
    using newRunners_client [OF assms(1,2)] assms(3) by blast
  then have g: "registry_Get (Msg_Type msg) (nc_registry c) = Some ?f"
    using netty_registry(5) [OF refl, of D decodeJob jsonError "Some runner_scheduler" c0] assms(5) by (simp add: message_types)
  have f: "?f msg w = \<lparr>pr_response = reply (Msg_Type msg) msg ''cyclic task scheduled successfully'', pr_actions = [],
      pr_world = w\<lparr>wd_heap := h, wd_sched := side'\<rparr>\<rparr>"
    using assms(5,6) a(1) by (simp add: CollectCyclicData_Process_def preprocess_eq runner_scheduler_def Let_def)
  from netty_request [OF g _ assms(4,3) c(2), of w "''cyclic task scheduled successfully''" marshal compress env] a job(2)
  show ?thesis by (intro exI [of _ "w\<lparr>wd_heap := h, wd_sched := side'\<rparr>"] exI [of _ s'] exI [of _ a]) (simp add: f answered_def)
qed

text \<open>C7: a task that the manager deletes is cancelled. When the connected Netty client of the program receives the message with the identifier of a
  scheduled cyclic job, it answers \<open>all cyclic tasks removed successfully\<close>; the entry of the job is gone, its timeout does not wait in the wheel any
  more while all others still do, the runner does not report it as running, and the scheduler is in a state it can reach by its own steps.\<close>

theorem deleted_task_cancelled:
  assumes "startAll D decodeJob jsonError getenv dial attempts listens reg (newRunners cfg now) = (err, reg', p)"
    and "tr_client (pg_transport p) = Some (Netty c)" and "nc_started c"
    and "Msg_Direction msg = Direction_REQUEST" and "Msg_Type msg = MessageTypeDeleteCyclicTask" and "delete_ids (Msg_Msg msg) = Some [k]"
    and "mirrors (wd_sched w) s" and "sched_reachable t s" and "map_of (td_cyclicTasks (sc_td s)) k = Some (Some a)"
  shows "\<exists>w' s'. netty_processReceivedMessage marshal compress env msg c w =
      Some (answered marshal compress env msg ''all cyclic tasks removed successfully'' c, [], w') \<and>
    mirrors (wd_sched w') s' \<and> sched_reachable t s' \<and> sc_jobs s' = sc_jobs s \<and> map_of (td_cyclicTasks (sc_td s')) k = None \<and>
    pending (sc_wheel s') = {(x, d) \<in> pending (sc_wheel s). x \<noteq> a} \<and> k \<notin> dom (map_of (RunningJobs (sd_runner (wd_sched w'))))"
proof -
  let ?f = "DeleteCyclicTask_Process jsonError (Some runner_scheduler)"
  obtain side' s' where a: "runner_Remove k (wd_sched w) = (None, side')" "mirrors side' s'" "sched_reachable t s'" "sc_jobs s' = sc_jobs s"
    "map_of (td_cyclicTasks (sc_td s')) k = None" "pending (sc_wheel s') = {(x, d) \<in> pending (sc_wheel s). x \<noteq> a}"
    "k \<notin> dom (map_of (RunningJobs (sd_runner side')))"
    by (rule runner_Remove_ok [OF assms(7-9)])
  obtain c0 where c: "nc_registry c = nc_registry (RegisterDefaultNettyProcessors D decodeJob jsonError (Some runner_scheduler) c0)" "nc_conn c \<noteq> None"
    using newRunners_client [OF assms(1,2)] assms(3) by blast
  then have g: "registry_Get (Msg_Type msg) (nc_registry c) = Some ?f"
    using netty_registry(6) [OF refl, of D decodeJob jsonError "Some runner_scheduler" c0] assms(5) by (simp add: message_types)
  have f: "?f msg w = \<lparr>pr_response = reply (Msg_Type msg) msg ''all cyclic tasks removed successfully'', pr_actions = [],
      pr_world = w\<lparr>wd_sched := side'\<rparr>\<rparr>"
    using assms(5,6) a(1) by (simp add: DeleteCyclicTask_Process_def runner_scheduler_def Let_def)
  from netty_request [OF g _ assms(4,3) c(2), of w "''all cyclic tasks removed successfully''" marshal compress env] a
  show ?thesis by (intro exI [of _ "w\<lparr>wd_sched := side'\<rparr>"] exI [of _ s']) (simp add: f answered_def)
qed

subsection \<open>The end of the program\<close>

lemma cancel_all_total: "None \<notin> set ts \<Longrightarrow> \<exists>w'. cancel_all ts w = Inr w' \<and> hwt_stopped w' = hwt_stopped w \<and> hwt_cancel w' = hwt_cancel w"
proof (induction ts arbitrary: w)
  case (Cons t ts)
  then obtain a where "t = Some a" by (cases t) auto
  with Cons.IH [of "cancel_at a w"] Cons.prems show ?case by (auto simp: cancel_ptr_def cancel_at_def)
qed simp

lemma td_Stop_total:
  assumes "td_started td" and "hwt_cancel (td_wheelTimer td)" and "None \<notin> snd ` (set (td_cyclicTasks td) \<union> set (td_tempTasks td))"
  obtains td' where "td_Stop td = Inr td'" "\<not> td_started td'" "td_cyclicTasks td' = []" "td_tempTasks td' = []" "hwt_stopped (td_wheelTimer td')"
proof -
  have "None \<notin> set (map snd (td_cyclicTasks td) @ map snd (td_tempTasks td))" using assms(3) by force
  then obtain w where "cancel_all (map snd (td_cyclicTasks td) @ map snd (td_tempTasks td)) (td_wheelTimer td) = Inr w"
    "hwt_stopped w = hwt_stopped (td_wheelTimer td)" "hwt_cancel w = hwt_cancel (td_wheelTimer td)"
    using cancel_all_total by blast
  moreover from this obtain w' where "Stop w = Inr w'" "hwt_stopped w'" using assms(2) by (cases "hwt_stopped w") (auto simp: Stop_def)
  ultimately show thesis
    by (intro that [of "(stopStatsLogging td)\<lparr>td_cyclicTasks := [], td_tempTasks := [], td_jobInfos := [], td_wheelTimer := w', td_started := False\<rparr>"])
      (simp_all add: td_Stop_def assms(1))
qed

text \<open>C40: however the program is told to end, it closes everything it has started: the server for its own metrics does not listen, the transport
  is disconnected, no job is scheduled or reported as running, and the timer is stopped. A signal gives no error, the end of the context and the failure of a
  runner give theirs. The scheduler must have been started, and none of its entries may be nil.\<close>

theorem program_ends:
  assumes "rn_TimeDispatch (sd_runner (pg_side p)) = Some td" and "td_started td" and "hwt_cancel (td_wheelTimer td)"
    and "None \<notin> snd ` (set (td_cyclicTasks td) \<union> set (td_tempTasks td))" and "mt_server (pg_metrics p) \<noteq> None"
  shows "\<exists>p' td'. awaitEnd wake shutdown p = Inr (case wake of Signalled \<Rightarrow> None | ContextDone err \<Rightarrow> Some err | RunnerFailed err \<Rightarrow> Some err, p') \<and>
    \<not> mt_listening (pg_metrics p') \<and> \<not> IsConnected (pg_transport p') \<and> RunningJobs (sd_runner (pg_side p')) = [] \<and>
    rn_TimeDispatch (sd_runner (pg_side p')) = Some td' \<and> scheduled td' = {} \<and> hwt_stopped (td_wheelTimer td')"
proof -
  obtain td' where td: "td_Stop td = Inr td'" "\<not> td_started td'" "td_cyclicTasks td' = []" "td_tempTasks td' = []" "hwt_stopped (td_wheelTimer td')"
    by (rule td_Stop_total [OF assms(2-4)])
  let ?p = "p\<lparr>pg_metrics := (pg_metrics p)\<lparr>mt_listening := False\<rparr>,
    pg_side := (pg_side p)\<lparr>sd_runner := (sd_runner (pg_side p))\<lparr>rn_TimeDispatch := Some td', rn_runningJobs := []\<rparr>\<rparr>,
    pg_transport := (pg_transport p)\<lparr>tr_client := map_option client_Shutdown (tr_client (pg_transport p))\<rparr>\<rparr>"
  have "cleanup shutdown p = Inr ?p"
    using assms(1,5) td(1) by (simp add: cleanup_def Runner_Close_def Runner_ctx_done_def metrics_Close_def Transport_Close_def Let_def)
  moreover have "\<not> client_IsStarted (client_Shutdown cl)" for cl :: "JobSide World TransportClient"
    by (cases cl) (simp_all add: grpc_Shutdown_def netty_Shutdown_def grpc_triggerEvent_def triggerEvent_def IsStarted_def)
  ultimately show ?thesis
    using td by (intro exI [of _ ?p] exI [of _ td'])
      (simp add: awaitEnd_def IsConnected_def RunningJobs_def scheduled_def split: wake.split option.split)
qed

subsection \<open>Concrete instances\<close>

definition started_ex :: "string option \<times> CollectorRegistry \<times> Program" where
  "started_ex = startAll (\<lambda>k b. b) (\<lambda>s h. Inr (cyclic_ex, h)) (\<lambda>s. []) (\<lambda>v. []) None [] True empty_registry
     (newRunners (cfg_ex\<lparr>Cfg_Manager := \<lparr>Mgr_Host = ''m'', Mgr_Port = ''1158'', Mgr_Protocol = ''netty''\<rparr>\<rparr>) 0)"

lemma started_ex_client: "\<exists>c. tr_client (pg_transport (snd (snd started_ex))) = Some (Netty c) \<and> nc_started c"
  by (simp add: started_ex_def startAll_def newRunners_def Runner_Start_def New_Runner_def td_Start_def NewTimeDispatch_def Transport_Start_def prepare_client_def
      SetJobScheduler_def New_Transport_def manager_protocol_def CreateClient_def netty_Start_def NewNettyClient_def RegisterDefaultNettyProcessors_def
      RegisterProcessor_def SetEventHandler_def SetIdentity_def triggerEvent_def Let_def)

lemma started_ex_eq: "startAll (\<lambda>k b. b) (\<lambda>s h. Inr (cyclic_ex, h)) (\<lambda>s. []) (\<lambda>v. []) None [] True empty_registry
     (newRunners (cfg_ex\<lparr>Cfg_Manager := \<lparr>Mgr_Host = ''m'', Mgr_Port = ''1158'', Mgr_Protocol = ''netty''\<rparr>\<rparr>) 0) =
     (fst started_ex, fst (snd started_ex), snd (snd started_ex))"
  by (simp add: started_ex_def)

definition side_ex :: JobSide where
  "side_ex = \<lparr>sd_now = 5, sd_jobs = [], sd_runner = New_Runner 0, sd_panic = None\<rparr>"

definition side_world_ex :: "JobSide \<Rightarrow> JobSide World" where
  "side_world_ex side = \<lparr>wd_aes = \<lparr>secretKey = []\<rparr>, wd_heap = heap_ex, wd_sched = side\<rparr>"

lemma side_ex_mirrors: "mirrors side_ex (sched_init 0)" "sched_reachable 0 (sched_init 0)" "early (sc_wheel (sched_init 0))"
  "\<not> hwt_stopped (sc_wheel (sched_init 0))"
  using init_wheel [of 0] by (simp_all add: mirrors_def side_ex_def New_Runner_def sched_init_def sched_reachable_def)

theorem issued_task_scheduled_witness:
  "\<exists>c w' s' a d. tr_client (pg_transport (snd (snd started_ex))) = Some (Netty c) \<and>
     netty_processReceivedMessage marshal_ex id net_ok (msg_ex\<lparr>Msg_Type := MessageTypeIssueCyclicTask\<rparr>) c (side_world_ex side_ex) =
       Some (answered marshal_ex id net_ok (msg_ex\<lparr>Msg_Type := MessageTypeIssueCyclicTask\<rparr>) ''cyclic task scheduled successfully'' c, [], w') \<and>
     mirrors (wd_sched w') s' \<and> map_of (td_cyclicTasks (sc_td s')) 7 = Some (Some a) \<and> (a, d) \<in> pending (sc_wheel s')"
proof -
  let ?msg = "msg_ex\<lparr>Msg_Type := MessageTypeIssueCyclicTask\<rparr>"
  obtain c where c: "tr_client (pg_transport (snd (snd started_ex))) = Some (Netty c)" "nc_started c" using started_ex_client by blast
  have m: "Msg_Direction ?msg = Direction_REQUEST" "Msg_Type ?msg = MessageTypeIssueCyclicTask" by (simp_all add: msg_ex_def Direction_REQUEST_def)
  have "mirrors (wd_sched (side_world_ex side_ex)) (sched_init 0)" using side_ex_mirrors(1) by (simp add: side_world_ex_def)
  from issued_task_scheduled [OF started_ex_eq c m _ _ this side_ex_mirrors(2-4), of cyclic_ex heap_ex marshal_ex id net_ok] c(1)
  show ?thesis by (simp add: side_world_ex_def) blast
qed

theorem deleted_task_cancelled_witness:
  "\<exists>c side w' s'. tr_client (pg_transport (snd (snd started_ex))) = Some (Netty c) \<and> runner_Add cyclic_ex side_ex = (None, side) \<and>
     netty_processReceivedMessage marshal_ex id net_ok (msg_ex\<lparr>Msg_Type := MessageTypeDeleteCyclicTask, Msg_Msg := ''[7]''\<rparr>) c (side_world_ex side) =
       Some (answered marshal_ex id net_ok (msg_ex\<lparr>Msg_Type := MessageTypeDeleteCyclicTask, Msg_Msg := ''[7]''\<rparr>) ''all cyclic tasks removed successfully'' c, [], w') \<and>
     mirrors (wd_sched w') s' \<and> map_of (td_cyclicTasks (sc_td s')) 7 = None"
proof -
  let ?msg = "msg_ex\<lparr>Msg_Type := MessageTypeDeleteCyclicTask, Msg_Msg := ''[7]''\<rparr>"
  obtain c where c: "tr_client (pg_transport (snd (snd started_ex))) = Some (Netty c)" "nc_started c" using started_ex_client by blast
  have m: "Msg_Direction ?msg = Direction_REQUEST" "Msg_Type ?msg = MessageTypeDeleteCyclicTask" by (simp_all add: msg_ex_def Direction_REQUEST_def)
  have "delete_ids ''[7]'' = Some [7]" by code_simp
  then have d: "delete_ids (Msg_Msg ?msg) = Some [7]" by simp
  obtain side s a where a: "runner_Add cyclic_ex side_ex = (None, side)" "mirrors side s" "sched_reachable 0 s"
    "map_of (if J_IsCyclic cyclic_ex then td_cyclicTasks (sc_td s) else td_tempTasks (sc_td s)) (J_ID cyclic_ex) = Some (Some a)"
    by (rule runner_Add_ok [OF side_ex_mirrors, of cyclic_ex]) simp_all
  have mi: "mirrors (wd_sched (side_world_ex side)) s" using a(2) by (simp add: side_world_ex_def)
  have e: "map_of (td_cyclicTasks (sc_td s)) 7 = Some (Some a)" using a(4) by simp
  from deleted_task_cancelled [OF started_ex_eq c m d mi a(3) e, of marshal_ex id net_ok] c(1) a(1) show ?thesis by blast
qed

theorem program_ends_witness:
  "\<exists>p'. awaitEnd Signalled None (snd (snd started_ex)) = Inr (None, p') \<and> \<not> mt_listening (pg_metrics p') \<and> \<not> IsConnected (pg_transport p')"
proof -
  let ?p = "snd (snd started_ex)" and ?td = "snd (td_Start 0 (NewTimeDispatch 0))"
  have "rn_TimeDispatch (sd_runner (pg_side ?p)) = Some ?td" "mt_server (pg_metrics ?p) \<noteq> None"
    by (simp_all add: started_ex_def startAll_def newRunners_def Runner_Start_def New_Runner_def td_Start_def metrics_Start_def NewTimeDispatch_def Let_def)
  moreover have "td_started ?td" "hwt_cancel (td_wheelTimer ?td)" "None \<notin> snd ` (set (td_cyclicTasks ?td) \<union> set (td_tempTasks ?td))"
    by (simp_all add: td_Start_def NewTimeDispatch_def startStatsLogging_def Start_def NewHashedWheelTimer_def Let_def)
  ultimately show ?thesis using program_ends [of ?p ?td Signalled None] by auto
qed

end
